(* ===== verification/Prelude.thy ===== *)
theory Prelude
  imports Main "HOL-Library.Word"
begin

text \<open>
  What the components share: machine integer types, the ways an execution of the program
  can go wrong, the result type of every operation that can, and the two standard containers
  keyed by request identifiers (the ordered \<open>std::map\<close> of a trade account and the
  \<open>std::unordered_map\<close> of an order account) behind one interface.
\<close>

section \<open>Machine integers\<close>

type_synonym u32 = "32 word"
type_synonym u64 = "64 word"

text \<open>
  \<open>int64_t\<close> is kept as \<open>int\<close>: signed overflow is undefined in C++, so it has no value to
  model. Signed values are converted to the unsigned types of the code by \<open>word_of_int\<close>,
  which reduces modulo \<open>2 ^ 32\<close> or \<open>2 ^ 64\<close> as the conversion does; \<open>int32_of\<close> is the
  narrowing conversion to \<open>int\<close> (two's complement, as every compiler the project uses does).
\<close>

definition int32_of :: "int \<Rightarrow> int" where
  "int32_of x = sint (word_of_int x :: 32 word)"

definition trunc_div :: "int \<Rightarrow> int \<Rightarrow> int" where
  "trunc_div num den =
     (if (num < 0) = (den < 0) then \<bar>num\<bar> div \<bar>den\<bar> else - (\<bar>num\<bar> div \<bar>den\<bar>))"

lemma trunc_div_nonneg: "0 \<le> num \<Longrightarrow> 0 \<le> den \<Longrightarrow> trunc_div num den = num div den"
  by (simp add: trunc_div_def)

lemma int32_of_small: "- (2 ^ 31) \<le> x \<Longrightarrow> x < 2 ^ 31 \<Longrightarrow> int32_of x = x"
  by (simp add: int32_of_def sint_sbintrunc' signed_take_bit_int_eq_self)

section \<open>Faults and results\<close>

text \<open>
  \<open>NullDeref\<close>, \<open>DanglingRef\<close>, \<open>DivByZero\<close>, \<open>BadCast\<close> and \<open>EmptyDeref\<close> are undefined behaviour
  in C++ (a null pointer, a dead object or an erased element, an integer division by zero, a
  floating value outside the range of the integer type it is converted to, the first element of
  an empty container) and \<open>OutOfRange\<close> is an element of a vector behind its end; \<open>BadFunctionCall\<close> is the exception an empty \<open>std::function\<close> throws;
  \<open>Blocked\<close> is a wait on a condition that the messages received so far never make true;
  \<open>Diverges\<close> is a loop that makes no progress; \<open>IntOverflow\<close> is a result beyond the range of \<open>int\<close>, which is
  undefined; \<open>AssertionFailed\<close> is an \<open>assert\<close> that does not hold,
  which ends the program (the build script builds with assertions); \<open>MissingReturn\<close> is the end of a
  function that owes a result, reached without one.
\<close>

datatype fault = NullDeref | DanglingRef | DivByZero | BadCast | EmptyDeref
  | OutOfRange | BadFunctionCall | Blocked | Diverges | IntOverflow
  | AssertionFailed | MissingReturn

type_synonym 'a res = "fault + 'a"

definition rbind :: "'a res \<Rightarrow> ('a \<Rightarrow> 'b res) \<Rightarrow> 'b res" where
  "rbind m f = (case m of Inl e \<Rightarrow> Inl e | Inr x \<Rightarrow> f x)"

definition rget :: "fault \<Rightarrow> 'a option \<Rightarrow> 'a res" where
  "rget e x = (case x of None \<Rightarrow> Inl e | Some y \<Rightarrow> Inr y)"

named_theorems result_simps
named_theorems result_splits
named_theorems world_simps

lemma rbind_Inl [simp, result_simps]: "rbind (Inl e) f = Inl e"
  by (simp add: rbind_def)

lemma rbind_Inr [simp, result_simps]: "rbind (Inr x) f = f x"
  by (simp add: rbind_def)

lemma rget_Some [simp, result_simps]: "rget e (Some x) = Inr x"
  by (simp add: rget_def)

lemma rget_None [simp, result_simps]: "rget e None = Inl e"
  by (simp add: rget_def)

lemma rbind_eq_Inr: "rbind m f = Inr y \<longleftrightarrow> (\<exists>x. m = Inr x \<and> f x = Inr y)"
  by (cases m) auto

lemma rget_eq_Inr: "rget e x = Inr y \<longleftrightarrow> x = Some y"
  by (cases x) auto

lemma rbind_InrE [elim!]:
  assumes "rbind m f = Inr y"
  obtains x where "m = Inr x" "f x = Inr y"
  using assms by (auto simp: rbind_eq_Inr)

lemma rget_InrE [elim!]:
  assumes "rget e x = Inr y"
  obtains "x = Some y"
  using assms by (auto simp: rget_eq_Inr)

lemma rbind_assoc: "rbind (rbind m f) g = rbind m (\<lambda>x. rbind (f x) g)"
  by (cases m) auto

section \<open>Lists\<close>

text \<open>Insertion before the first element that satisfies a condition, at the end without one.\<close>

fun insert_before :: "('a \<Rightarrow> bool) \<Rightarrow> 'a \<Rightarrow> 'a list \<Rightarrow> 'a list" where
  "insert_before P r [] = [r]"
| "insert_before P r (x # xs) = (if P x then r # x # xs else x # insert_before P r xs)"

lemma set_insert_before [simp]: "set (insert_before P r xs) = insert r (set xs)"
  by (induction xs) auto

lemma insert_before_split:
  "insert_before P r xs = takeWhile (\<lambda>x. \<not> P x) xs @ r # dropWhile (\<lambda>x. \<not> P x) xs"
  by (induction xs) auto

section \<open>Containers keyed by request identifiers\<close>

text \<open>
  The interface both containers offer: \<open>emplace\<close> keeps an element that is already there,
  \<open>erase\<close> removes the key. What their clients rely on is proved once, from the laws.
\<close>

locale emplace_map =
  fixes lookup :: "'m \<Rightarrow> 'k \<Rightarrow> 'v option"
    and emplace :: "'k \<Rightarrow> 'v \<Rightarrow> 'm \<Rightarrow> 'm"
    and erase :: "'k \<Rightarrow> 'm \<Rightarrow> 'm"
    and inv :: "'m \<Rightarrow> bool"
  assumes lookup_emplace: "inv m \<Longrightarrow>
      lookup (emplace k v m) = (if lookup m k = None then (lookup m)(k \<mapsto> v) else lookup m)"
    and lookup_erase: "inv m \<Longrightarrow> lookup (erase k m) = (lookup m)(k := None)"
    and inv_emplace: "inv m \<Longrightarrow> inv (emplace k v m)"
    and inv_erase: "inv m \<Longrightarrow> inv (erase k m)"
begin

lemma emplace_fresh: "inv m \<Longrightarrow> lookup m k = None \<Longrightarrow> lookup (emplace k v m) k = Some v"
  by (simp add: lookup_emplace)

lemma emplace_other: "inv m \<Longrightarrow> k' \<noteq> k \<Longrightarrow> lookup (emplace k v m) k' = lookup m k'"
  by (simp add: lookup_emplace)

lemma emplace_present: "inv m \<Longrightarrow> lookup m k = Some u \<Longrightarrow> lookup (emplace k v m) = lookup m"
  by (simp add: lookup_emplace)

lemma dom_emplace: "inv m \<Longrightarrow> dom (lookup (emplace k v m)) = insert k (dom (lookup m))"
  by (auto simp: lookup_emplace)

lemma dom_erase: "inv m \<Longrightarrow> dom (lookup (erase k m)) = dom (lookup m) - {k}"
  by (simp add: lookup_erase)

lemma erase_emplace_fresh:
  "inv m \<Longrightarrow> lookup m k = None \<Longrightarrow> lookup (erase k (emplace k v m)) = lookup m"
  by (simp add: lookup_erase inv_emplace lookup_emplace fun_eq_iff)

end

subsection \<open>\<open>std::map\<close>: an association list in increasing order of the keys\<close>

type_synonym ('k, 'v) omap = "('k \<times> 'v) list"

fun om_emplace :: "'k::linorder \<Rightarrow> 'v \<Rightarrow> ('k, 'v) omap \<Rightarrow> ('k, 'v) omap" where
  "om_emplace k v [] = [(k, v)]"
| "om_emplace k v ((a, b) # ps) =
     (if k < a then (k, v) # (a, b) # ps
      else if k = a then (a, b) # ps
      else (a, b) # om_emplace k v ps)"

definition om_erase :: "'k \<Rightarrow> ('k, 'v) omap \<Rightarrow> ('k, 'v) omap" where
  "om_erase k ps = filter (\<lambda>p. fst p \<noteq> k) ps"

definition om_lookup :: "('k, 'v) omap \<Rightarrow> 'k \<Rightarrow> 'v option" where
  "om_lookup ps = map_of ps"

definition om_keys :: "('k, 'v) omap \<Rightarrow> 'k list" where
  "om_keys ps = map fst ps"

definition om_inv :: "('k::linorder, 'v) omap \<Rightarrow> bool" where
  "om_inv ps \<longleftrightarrow> sorted_wrt (<) (om_keys ps)"

lemma set_om_emplace: "fst ` set (om_emplace k v ps) = insert k (fst ` set ps)"
proof (induction ps)
  case Nil
  then show ?case by simp
next
  case (Cons p ps)
  then show ?case by (cases p) (simp add: insert_commute)
qed

lemma om_inv_emplace: "om_inv ps \<Longrightarrow> om_inv (om_emplace k v ps)"
proof (induction ps)
  case Nil
  then show ?case by (simp add: om_inv_def om_keys_def)
next
  case (Cons p ps)
  obtain a b where p: "p = (a, b)" by (cases p)
  have keys: "set (om_keys (om_emplace k v ps)) = insert k (set (om_keys ps))"
    by (simp add: om_keys_def set_om_emplace)
  from Cons.prems have "om_inv ps" and above: "\<forall>y \<in> set (om_keys ps). a < y"
    by (auto simp: om_inv_def om_keys_def p)
  with Cons.IH have "om_inv (om_emplace k v ps)" by simp
  with above keys Cons.prems show ?case
    by (auto simp: om_inv_def om_keys_def p)
qed

lemma om_lookup_emplace:
  "om_inv ps \<Longrightarrow> om_lookup (om_emplace k v ps) =
     (if om_lookup ps k = None then (om_lookup ps)(k \<mapsto> v) else om_lookup ps)"
proof (induction ps)
  case Nil
  then show ?case by (simp add: om_lookup_def)
next
  case (Cons p ps)
  obtain a b where p: "p = (a, b)" by (cases p)
  from Cons.prems have inv: "om_inv ps" and above: "\<forall>y \<in> fst ` set ps. a < y"
    by (auto simp: om_inv_def om_keys_def p)
  have "k < a \<Longrightarrow> map_of ps k = None"
    using above by (force simp: map_of_eq_None_iff)
  with Cons.IH [OF inv] show ?case
    by (auto simp: om_lookup_def p fun_eq_iff)
qed

lemma om_lookup_erase: "om_lookup (om_erase k ps) = (om_lookup ps)(k := None)"
  by (induction ps) (auto simp: om_lookup_def om_erase_def fun_eq_iff)

lemma om_inv_erase: "om_inv ps \<Longrightarrow> om_inv (om_erase k ps)"
  by (induction ps) (auto simp: om_inv_def om_erase_def om_keys_def)

lemma om_inv_filter: "om_inv ps \<Longrightarrow> om_inv (filter Q ps)"
  by (induction ps) (auto simp: om_inv_def om_keys_def)

lemma om_inv_Nil [simp]: "om_inv []"
  by (simp add: om_inv_def om_keys_def)

lemma om_lookup_Nil [simp]: "om_lookup [] k = None"
  by (simp add: om_lookup_def)

interpretation omap: emplace_map om_lookup om_emplace om_erase om_inv
  by unfold_locales (simp_all add: om_lookup_emplace om_lookup_erase om_inv_emplace om_inv_erase)

subsection \<open>\<open>std::unordered_map\<close>: a map whose order nobody observes\<close>

definition um_emplace :: "'k \<Rightarrow> 'v \<Rightarrow> ('k \<rightharpoonup> 'v) \<Rightarrow> ('k \<rightharpoonup> 'v)" where
  "um_emplace k v m = (case m k of None \<Rightarrow> m(k \<mapsto> v) | Some _ \<Rightarrow> m)"

definition um_erase :: "'k \<Rightarrow> ('k \<rightharpoonup> 'v) \<Rightarrow> ('k \<rightharpoonup> 'v)" where
  "um_erase k m = m(k := None)"

definition um_lookup :: "('k \<rightharpoonup> 'v) \<Rightarrow> 'k \<Rightarrow> 'v option" where
  "um_lookup m k = m k"

interpretation umap: emplace_map um_lookup um_emplace um_erase "\<lambda>_. True"
  by unfold_locales (auto simp: um_lookup_def um_emplace_def um_erase_def fun_eq_iff split: option.splits)

end
