(* ===== verification/Binary64.thy ===== *)
theory Binary64
  imports Complex_Main Prelude
begin

text \<open>
  The \<open>double\<close> of the program: IEEE 754 binary64 with rounding to nearest, ties to even, as the
  compilers the project uses implement it. A finite double is the rational number it denotes; an
  arithmetic operation is the exact rational operation followed by one rounding, which gives
  infinities on overflow and gradual underflow down to \<open>2 ^ -1074\<close>. The sign of zero is not
  represented: the program never divides by a floating zero that could be negative (every divisor
  is a converted integer or a power of ten), and no comparison distinguishes the two zeros.
\<close>

section \<open>Rounding\<close>

fun nbits :: "nat \<Rightarrow> nat" where
  "nbits n = (if n = 0 then 0 else Suc (nbits (n div 2)))"

declare nbits.simps [simp del]

definition ilog2 :: "rat \<Rightarrow> int" where
  "ilog2 x = (let (p, q) = quotient_of x; e = int (nbits (nat p)) - int (nbits (nat q))
     in if 2 powi e \<le> x then e else e - 1)"

definition rne :: "rat \<Rightarrow> int" where
  "rne y = (let f = \<lfloor>y\<rfloor>; d = y - of_int f in
     if d < 1 / 2 then f else if d > 1 / 2 then f + 1 else if even f then f else f + 1)"

definition ulp_exp :: "rat \<Rightarrow> int" where
  "ulp_exp x = max (-1074) (ilog2 \<bar>x\<bar> - 52)"

definition rnd :: "rat \<Rightarrow> rat" where
  "rnd x = (if x = 0 then 0 else of_int (rne (x / 2 powi ulp_exp x)) * 2 powi ulp_exp x)"

definition dbl_limit :: rat where
  "dbl_limit = 2 powi 1024"

datatype double = Fin rat | PInf | NInf | NaN

definition round64 :: "rat \<Rightarrow> double" where
  "round64 x = (let r = rnd x in
     if dbl_limit \<le> r then PInf else if r \<le> - dbl_limit then NInf else Fin r)"

section \<open>Arithmetic, comparisons and conversions\<close>

fun dadd :: "double \<Rightarrow> double \<Rightarrow> double" where
  "dadd (Fin a) (Fin b) = round64 (a + b)"
| "dadd NaN _ = NaN"
| "dadd _ NaN = NaN"
| "dadd PInf NInf = NaN"
| "dadd NInf PInf = NaN"
| "dadd PInf _ = PInf"
| "dadd NInf _ = NInf"
| "dadd _ PInf = PInf"
| "dadd _ NInf = NInf"

fun dneg :: "double \<Rightarrow> double" where
  "dneg (Fin a) = Fin (- a)"
| "dneg PInf = NInf"
| "dneg NInf = PInf"
| "dneg NaN = NaN"

definition dsub :: "double \<Rightarrow> double \<Rightarrow> double" where
  "dsub x y = dadd x (dneg y)"

definition inf_sgn :: "rat \<Rightarrow> double" where
  "inf_sgn a = (if a = 0 then NaN else if 0 < a then PInf else NInf)"

fun dmul :: "double \<Rightarrow> double \<Rightarrow> double" where
  "dmul (Fin a) (Fin b) = round64 (a * b)"
| "dmul NaN _ = NaN"
| "dmul _ NaN = NaN"
| "dmul (Fin a) PInf = inf_sgn a"
| "dmul (Fin a) NInf = inf_sgn (- a)"
| "dmul PInf (Fin b) = inf_sgn b"
| "dmul NInf (Fin b) = inf_sgn (- b)"
| "dmul PInf PInf = PInf"
| "dmul PInf NInf = NInf"
| "dmul NInf PInf = NInf"
| "dmul NInf NInf = PInf"

fun ddiv :: "double \<Rightarrow> double \<Rightarrow> double" where
  "ddiv (Fin a) (Fin b) = (if b = 0 then inf_sgn a else round64 (a / b))"
| "ddiv NaN _ = NaN"
| "ddiv _ NaN = NaN"
| "ddiv (Fin a) PInf = Fin 0"
| "ddiv (Fin a) NInf = Fin 0"
| "ddiv PInf (Fin b) = (if b < 0 then NInf else PInf)"
| "ddiv NInf (Fin b) = (if b < 0 then PInf else NInf)"
| "ddiv _ _ = NaN"

fun dlt :: "double \<Rightarrow> double \<Rightarrow> bool" where
  "dlt (Fin a) (Fin b) \<longleftrightarrow> a < b"
| "dlt NaN _ \<longleftrightarrow> False"
| "dlt _ NaN \<longleftrightarrow> False"
| "dlt NInf y \<longleftrightarrow> y \<noteq> NInf"
| "dlt PInf _ \<longleftrightarrow> False"
| "dlt (Fin a) y \<longleftrightarrow> y = PInf"

definition deq :: "double \<Rightarrow> double \<Rightarrow> bool" where
  "deq x y \<longleftrightarrow> x = y \<and> x \<noteq> NaN"

definition dle :: "double \<Rightarrow> double \<Rightarrow> bool" where
  "dle x y \<longleftrightarrow> dlt x y \<or> deq x y"

fun dabs :: "double \<Rightarrow> double" where
  "dabs (Fin a) = Fin \<bar>a\<bar>"
| "dabs PInf = PInf"
| "dabs NInf = PInf"
| "dabs NaN = NaN"

text \<open>\<open>std::max(x, y)\<close> is \<open>x < y ? y : x\<close>.\<close>

definition dmax :: "double \<Rightarrow> double \<Rightarrow> double" where
  "dmax x y = (if dlt x y then y else x)"

fun dceiling :: "double \<Rightarrow> double" where
  "dceiling (Fin a) = Fin (of_int \<lceil>a\<rceil>)"
| "dceiling x = x"

definition dbl_of_int :: "int \<Rightarrow> double" where
  "dbl_of_int n = round64 (of_int n)"

definition dbl_of_u32 :: "u32 \<Rightarrow> double" where
  "dbl_of_u32 w = dbl_of_int (uint w)"

definition dbl_of_u64 :: "u64 \<Rightarrow> double" where
  "dbl_of_u64 w = dbl_of_int (uint w)"

definition rat_trunc :: "rat \<Rightarrow> int" where
  "rat_trunc a = (if 0 \<le> a then \<lfloor>a\<rfloor> else \<lceil>a\<rceil>)"

text \<open>Conversion to an integer type drops the fraction; out of range it is undefined.\<close>

definition dbl_to_int :: "int \<Rightarrow> int \<Rightarrow> double \<Rightarrow> int res" where
  "dbl_to_int lo hi x = (case x of
     Fin a \<Rightarrow> let t = rat_trunc a in if lo \<le> t \<and> t < hi then Inr t else Inl BadCast
   | _ \<Rightarrow> Inl BadCast)"

definition dbl_to_i32 :: "double \<Rightarrow> int res" where
  "dbl_to_i32 = dbl_to_int (- (2 ^ 31)) (2 ^ 31)"

definition dbl_to_i64 :: "double \<Rightarrow> int res" where
  "dbl_to_i64 = dbl_to_int (- (2 ^ 63)) (2 ^ 63)"

definition dbl_to_u32 :: "double \<Rightarrow> u32 res" where
  "dbl_to_u32 x = rbind (dbl_to_int 0 (2 ^ 32) x) (\<lambda>t. Inr (word_of_int t))"

text \<open>The values a variable of type \<open>double\<close> can hold.\<close>

definition dbl_ok :: "double \<Rightarrow> bool" where
  "dbl_ok x = (case x of Fin a \<Rightarrow> round64 a = Fin a | _ \<Rightarrow> True)"

definition is_fin :: "double \<Rightarrow> bool" where
  "is_fin x = (case x of Fin a \<Rightarrow> round64 a = Fin a | _ \<Rightarrow> False)"

section \<open>The binary logarithm\<close>

lemma nbits_bounds: "0 < n \<Longrightarrow> 2 ^ (nbits n - 1) \<le> n \<and> n < 2 ^ nbits n \<and> 0 < nbits n"
proof (induction n rule: nbits.induct)
  case (1 n)
  show ?case
  proof (cases "n div 2 = 0")
    case True
    with "1.prems" have "n = 1" by simp
    then show ?thesis by (simp add: nbits.simps)
  next
    case False
    with "1.prems" "1.IH" have ih: "2 ^ (nbits (n div 2) - 1) \<le> n div 2"
      "n div 2 < 2 ^ nbits (n div 2)" "0 < nbits (n div 2)" by auto
    have s: "nbits n = Suc (nbits (n div 2))"
      using "1.prems" by (subst nbits.simps) simp
    define h where "h = n div 2"
    have hn: "2 * h \<le> n" "n < 2 * h + 2" unfolding h_def by presburger+
    obtain b where b: "nbits h = Suc b" using ih(3) by (cases "nbits h") (auto simp: h_def)
    with ih s have "2 ^ b \<le> h" "h < 2 * 2 ^ b" "nbits n = Suc (Suc b)"
      by (auto simp flip: h_def)
    with hn show ?thesis by auto
  qed
qed

lemma powi2_pos [simp]: "0 < (2::rat) powi k"
  by (simp add: zero_less_power_int)

lemma powi2_nonzero [simp]: "(2::rat) powi k \<noteq> 0"
  by simp

lemma powi2_add: "(2::rat) powi (a + b) = 2 powi a * 2 powi b"
  by (simp add: power_int_add)

lemma powi2_diff: "(2::rat) powi (a - b) = 2 powi a / 2 powi b"
  by (simp add: power_int_diff)

lemma powi2_mono: "a \<le> b \<Longrightarrow> (2::rat) powi a \<le> 2 powi b"
  by (simp add: power_int_increasing)

lemma powi2_less_iff: "(2::rat) powi a < 2 powi b \<longleftrightarrow> a < b"
  using powi2_mono by (metis linorder_not_less power_int_strict_increasing one_less_numeral_iff semiring_norm(76))

lemma powi2_nat: "0 \<le> k \<Longrightarrow> (2::rat) powi k = of_int (2 ^ nat k)"
  by (simp add: power_int_def)

lemma powi2_split: "l \<le> k \<Longrightarrow> (2::rat) powi k = of_int (2 ^ nat (k - l)) * 2 powi l"
  using powi2_add [of "k - l" l] powi2_nat [of "k - l"] by simp

lemma ilog2_bounds:
  assumes "0 < x"
  shows "2 powi ilog2 x \<le> x \<and> x < 2 powi (ilog2 x + 1)"
proof -
  obtain p q where pq: "quotient_of x = (p, q)" by (cases "quotient_of x")
  have q: "0 < q" and x: "x = of_int p / of_int q"
    using pq quotient_of_denom_pos quotient_of_div by auto
  have p: "0 < p" using assms q by (auto simp: x zero_less_divide_iff)
  define bp bq where "bp = int (nbits (nat p))" and "bq = int (nbits (nat q))"
  have pb: "2 powi (bp - 1) \<le> (of_int p :: rat)" "(of_int p :: rat) < 2 powi bp"
  proof -
    have n: "2 ^ (nbits (nat p) - 1) \<le> nat p" "nat p < 2 ^ nbits (nat p)" "0 < nbits (nat p)"
      using nbits_bounds [of "nat p"] p by auto
    have "(of_nat (2 ^ (nbits (nat p) - 1)) :: rat) \<le> of_nat (nat p)"
      using n(1) of_nat_mono by blast
    moreover have "(of_nat (nat p) :: rat) < of_nat (2 ^ nbits (nat p))"
      using n(2) of_nat_less_iff by blast
    moreover have "nat (bp - 1) = nbits (nat p) - 1" "nat bp = nbits (nat p)" "0 \<le> bp - 1"
      using n(3) by (auto simp: bp_def)
    ultimately show "2 powi (bp - 1) \<le> (of_int p :: rat)" "(of_int p :: rat) < 2 powi bp"
      using p by (auto simp: power_int_def bp_def)
  qed
  have qb: "2 powi (bq - 1) \<le> (of_int q :: rat)" "(of_int q :: rat) < 2 powi bq"
  proof -
    have n: "2 ^ (nbits (nat q) - 1) \<le> nat q" "nat q < 2 ^ nbits (nat q)" "0 < nbits (nat q)"
      using nbits_bounds [of "nat q"] q by auto
    have "(of_nat (2 ^ (nbits (nat q) - 1)) :: rat) \<le> of_nat (nat q)"
      using n(1) of_nat_mono by blast
    moreover have "(of_nat (nat q) :: rat) < of_nat (2 ^ nbits (nat q))"
      using n(2) of_nat_less_iff by blast
    moreover have "nat (bq - 1) = nbits (nat q) - 1" "nat bq = nbits (nat q)" "0 \<le> bq - 1"
      using n(3) by (auto simp: bq_def)
    ultimately show "2 powi (bq - 1) \<le> (of_int q :: rat)" "(of_int q :: rat) < 2 powi bq"
      using q by (auto simp: power_int_def bq_def)
  qed
  have lo: "2 powi (bp - bq - 1) \<le> x"
  proof -
    have "(2::rat) powi (bp - bq - 1) * of_int q \<le> 2 powi (bp - bq - 1) * 2 powi bq"
      using qb(2) by (intro mult_left_mono) auto
    also have "\<dots> = 2 powi (bp - 1)" by (simp flip: powi2_add)
    finally show ?thesis using pb(1) q by (simp add: x pos_le_divide_eq)
  qed
  have hi: "x < 2 powi (bp - bq + 1)"
  proof -
    have "(of_int p :: rat) < 2 powi bp" by (rule pb(2))
    also have "(2::rat) powi bp = 2 powi (bp - bq + 1) * 2 powi (bq - 1)" by (simp flip: powi2_add)
    also have "\<dots> \<le> 2 powi (bp - bq + 1) * of_int q"
      using qb(1) by (intro mult_left_mono) auto
    finally show ?thesis using q by (simp add: x pos_divide_less_eq)
  qed
  show ?thesis
    using lo hi by (auto simp: ilog2_def pq Let_def bp_def bq_def algebra_simps)
qed

lemma ilog2_unique: "0 < x \<Longrightarrow> 2 powi e \<le> x \<Longrightarrow> x < 2 powi (e + 1) \<Longrightarrow> ilog2 x = e"
proof -
  assume x: "0 < x" "2 powi e \<le> x" "x < 2 powi (e + 1)"
  note b = ilog2_bounds [OF x(1)]
  have "e < ilog2 x + 1" using x(2) b powi2_less_iff by (meson order_le_less_trans)
  moreover have "ilog2 x < e + 1" using x(3) b powi2_less_iff by (meson order_le_less_trans)
  ultimately show ?thesis by simp
qed

lemma ilog2_mono: "0 < x \<Longrightarrow> x \<le> y \<Longrightarrow> ilog2 x \<le> ilog2 y"
proof -
  assume xy: "0 < x" "x \<le> y"
  have "2 powi ilog2 x < (2::rat) powi (ilog2 y + 1)"
    using ilog2_bounds [of x] ilog2_bounds [of y] xy by auto
  then show ?thesis by (simp add: powi2_less_iff)
qed

lemma ilog2_less: "0 < x \<Longrightarrow> x < 2 powi e \<Longrightarrow> ilog2 x < e"
  using ilog2_bounds [of x] powi2_less_iff by (meson order_le_less_trans)

section \<open>Properties of rounding\<close>

lemma rne_of_int [simp]: "rne (of_int n) = n"
  by (simp add: rne_def)

lemma rne_bounds: "\<lfloor>y\<rfloor> \<le> rne y \<and> rne y \<le> \<lfloor>y\<rfloor> + 1"
  by (simp add: rne_def Let_def)

lemma rne_mono:
  assumes "y \<le> z"
  shows "rne y \<le> rne z"
proof (cases "\<lfloor>y\<rfloor> = \<lfloor>z\<rfloor>")
  case True
  then show ?thesis using assms by (auto simp: rne_def Let_def)
next
  case False
  with assms have "\<lfloor>y\<rfloor> + 1 \<le> \<lfloor>z\<rfloor>" using floor_mono [OF assms] by simp
  then show ?thesis using rne_bounds [of y] rne_bounds [of z] by simp
qed

lemma rne_error: "\<bar>of_int (rne y) - y\<bar> \<le> 1 / 2"
proof -
  have "of_int \<lfloor>y\<rfloor> \<le> y" "y < of_int \<lfloor>y\<rfloor> + 1" by linarith+
  then show ?thesis by (auto simp: rne_def Let_def)
qed

lemma floor_minus_nonint: "y \<noteq> of_int \<lfloor>y\<rfloor> \<Longrightarrow> \<lfloor>- y\<rfloor> = - \<lfloor>y\<rfloor> - 1" for y :: rat
  by linarith

lemma rne_uminus: "rne (- y) = - rne y"
proof (cases "y = of_int \<lfloor>y\<rfloor>")
  case True
  then show ?thesis by (metis of_int_minus rne_of_int)
next
  case False
  then show ?thesis
    by (auto simp: rne_def Let_def floor_minus_nonint [OF False])
qed

lemma ulp_exp_uminus [simp]: "ulp_exp (- x) = ulp_exp x"
  by (simp add: ulp_exp_def)

lemma rnd_uminus: "rnd (- x) = - rnd x"
  by (simp add: rnd_def rne_uminus flip: minus_divide_left)

lemma rnd_0 [simp]: "rnd 0 = 0"
  by (simp add: rnd_def)

lemma ulp_exp_ge [simp]: "- 1074 \<le> ulp_exp x"
  by (simp add: ulp_exp_def)

lemma abs_less_ulp:
  assumes "x \<noteq> 0"
  shows "\<bar>x\<bar> < 2 powi (ulp_exp x + 53)"
proof -
  have "\<bar>x\<bar> < 2 powi (ilog2 \<bar>x\<bar> + 1)" using assms ilog2_bounds [of "\<bar>x\<bar>"] by simp
  also have "\<dots> \<le> 2 powi (ulp_exp x + 53)" by (rule powi2_mono) (simp add: ulp_exp_def)
  finally show ?thesis .
qed

text \<open>A number with at most 53 significant bits above \<open>2 ^ -1074\<close> is not rounded.\<close>

lemma rnd_exact:
  assumes x: "x = of_int m * 2 powi k" and m: "\<bar>m\<bar> \<le> 2 ^ 53" and k: "- 1074 \<le> k"
  shows "rnd x = x"
proof (cases "x = 0")
  case True
  then show ?thesis by simp
next
  case nz: False
  define e where "e = ulp_exp x"
  have ax: "\<bar>x\<bar> = of_int \<bar>m\<bar> * 2 powi k" by (simp add: x abs_mult)
  have mb: "of_int \<bar>m\<bar> \<le> (2 ^ 53 :: rat)" using m by (metis of_int_le_iff of_int_numeral of_int_power)
  have "\<exists>n. x = of_int n * 2 powi e"
  proof (cases "e \<le> k")
    case True
    note powi2_split [OF True]
    then have "x = of_int (m * 2 ^ nat (k - e)) * 2 powi e" by (simp add: x)
    then show ?thesis by blast
  next
    case False
    then have e: "e = ilog2 \<bar>x\<bar> - 52" "k < e" using k by (auto simp: e_def ulp_exp_def)
    have "2 powi (e + 52) \<le> \<bar>x\<bar>" using ilog2_bounds [of "\<bar>x\<bar>"] nz e by simp
    also have "\<bar>x\<bar> \<le> 2 ^ 53 * 2 powi k" using mb by (simp add: ax)
    also have "(2 ^ 53 :: rat) * 2 powi k = 2 powi (k + 53)" by (simp add: powi2_add)
    finally have "\<not> k + 53 < e + 52" using powi2_less_iff [of "k + 53" "e + 52"] by simp
    with e have ek: "e = k + 1" by simp
    have "(2::rat) powi (e + 52) = 2 ^ 53 * 2 powi k" by (simp add: ek powi2_add add.commute)
    with \<open>2 powi (e + 52) \<le> \<bar>x\<bar>\<close> have "(2 ^ 53 :: rat) \<le> of_int \<bar>m\<bar>" by (simp add: ax)
    with mb have "of_int \<bar>m\<bar> = (of_int (2 ^ 53) :: rat)" by simp
    then have "\<bar>m\<bar> = 2 ^ 53" by (simp only: of_int_eq_iff)
    then have "even \<bar>m\<bar>" by simp
    then have "m = 2 * (m div 2)" by simp
    then have "x = of_int (m div 2) * (2 powi k * 2)"
      by (metis (no_types, lifting) x of_int_mult of_int_numeral mult.assoc mult.commute)
    also have "\<dots> = of_int (m div 2) * 2 powi e" by (simp add: ek powi2_add)
    finally show ?thesis by blast
  qed
  then obtain n where n: "x = of_int n * 2 powi e" by blast
  then have "x / 2 powi e = of_int n" by simp
  moreover have "rnd x = of_int (rne (x / 2 powi e)) * 2 powi e"
    using nz by (simp add: rnd_def e_def)
  ultimately show ?thesis using n by simp
qed

lemma rnd_of_int: "\<bar>n\<bar> \<le> 2 ^ 53 \<Longrightarrow> rnd (of_int n) = of_int n"
  by (rule rnd_exact [of _ n 0]) auto

lemma rnd_form: "\<exists>m. rnd x = of_int m * 2 powi ulp_exp x \<and> \<bar>m\<bar> \<le> 2 ^ 53"
proof (cases "x = 0")
  case True
  then show ?thesis by (intro exI [of _ 0]) simp
next
  case False
  define y where "y = x / 2 powi ulp_exp x"
  have "\<bar>y\<bar> < 2 ^ 53"
    using abs_less_ulp [OF False] by (simp add: y_def abs_divide powi2_add pos_divide_less_eq)
  then have "y \<le> of_int (2 ^ 53)" "of_int (- (2 ^ 53)) \<le> y" by auto
  then have "rne y \<le> 2 ^ 53" "- (2 ^ 53) \<le> rne y"
    using rne_mono rne_of_int by metis+
  then show ?thesis using False by (auto simp: rnd_def y_def [symmetric])
qed

lemma rnd_idem [simp]: "rnd (rnd x) = rnd x"
proof -
  obtain m where "rnd x = of_int m * 2 powi ulp_exp x" "\<bar>m\<bar> \<le> 2 ^ 53"
    using rnd_form by blast
  then show ?thesis by (intro rnd_exact) auto
qed

lemma rnd_pos:
  assumes "2 powi (- 1074) \<le> x"
  shows "0 < rnd x"
proof -
  have x: "0 < x" using assms powi2_pos [of "- 1074"] by linarith
  have "2 powi ulp_exp x \<le> x"
  proof (cases "ulp_exp x = - 1074")
    case False
    then have "ulp_exp x \<le> ilog2 x" using x by (simp add: ulp_exp_def)
    then have "(2::rat) powi ulp_exp x \<le> 2 powi ilog2 x" by (rule powi2_mono)
    then show ?thesis using ilog2_bounds [OF x] by linarith
  qed (use assms in simp)
  then have "of_int 1 \<le> x / 2 powi ulp_exp x" by (simp add: pos_le_divide_eq)
  then have "1 \<le> rne (x / 2 powi ulp_exp x)" using rne_mono rne_of_int by metis
  then show ?thesis using x by (simp add: rnd_def)
qed

lemma rnd_nonneg: "0 \<le> x \<Longrightarrow> 0 \<le> rnd x"
proof -
  assume "0 \<le> x"
  then have "of_int 0 \<le> x / 2 powi ulp_exp x" by simp
  then have "0 \<le> rne (x / 2 powi ulp_exp x)" using rne_mono rne_of_int by metis
  then show ?thesis by (simp add: rnd_def)
qed

text \<open>Half an ulp bounds the error.\<close>

lemma rnd_error: "\<bar>rnd x - x\<bar> \<le> 2 powi ulp_exp x / 2"
proof (cases "x = 0")
  case True
  then show ?thesis by simp
next
  case False
  define e y where "e = ulp_exp x" and "y = x / 2 powi e"
  have "x = y * 2 powi e" by (simp add: y_def)
  moreover have "rnd x = of_int (rne y) * 2 powi e"
    using False by (simp add: rnd_def e_def y_def)
  ultimately have "rnd x - x = (of_int (rne y) - y) * 2 powi e"
    by (simp add: left_diff_distrib)
  then have "\<bar>rnd x - x\<bar> = \<bar>of_int (rne y) - y\<bar> * 2 powi e" by (simp add: abs_mult)
  also have "\<dots> \<le> 1 / 2 * 2 powi e" using rne_error [of y] by (intro mult_right_mono) auto
  finally show ?thesis by (simp add: e_def)
qed

text \<open>Rounding is monotone, also across a change of the exponent.\<close>

lemma rnd_mono_pos:
  assumes "0 < x" "x \<le> y"
  shows "rnd x \<le> rnd y"
proof (cases "ulp_exp x = ulp_exp y")
  case True
  have "x / 2 powi ulp_exp y \<le> y / 2 powi ulp_exp y"
    using assms(2) by (simp add: divide_right_mono)
  then show ?thesis using assms rne_mono True by (auto simp: rnd_def)
next
  case False
  have xy: "ilog2 x \<le> ilog2 y" using assms by (rule ilog2_mono)
  with False assms have ey: "ulp_exp y = ilog2 y - 52" and lt: "ulp_exp x + 1 \<le> ulp_exp y"
    by (auto simp: ulp_exp_def)
  obtain m where m: "rnd x = of_int m * 2 powi ulp_exp x" "\<bar>m\<bar> \<le> 2 ^ 53"
    using rnd_form by blast
  have "(of_int m :: rat) \<le> of_int (2 ^ 53)" using m(2) by (simp only: of_int_le_iff abs_le_iff)
  then have "rnd x \<le> 2 ^ 53 * 2 powi ulp_exp x" by (simp add: m(1))
  also have "\<dots> = 2 powi (ulp_exp x + 1 + 52)" by (simp add: powi2_add)
  also have "\<dots> \<le> 2 powi (ulp_exp y + 52)" using lt by (intro powi2_mono) simp
  also have "\<dots> \<le> rnd y"
  proof -
    have "2 powi (ulp_exp y + 52) \<le> y" using ey ilog2_bounds [of y] assms by simp
    then have "of_int (2 ^ 52) \<le> y / 2 powi ulp_exp y"
      by (simp add: pos_le_divide_eq powi2_add mult.commute)
    then have "2 ^ 52 \<le> rne (y / 2 powi ulp_exp y)" using rne_mono rne_of_int by metis
    then have "(of_int (2 ^ 52) :: rat) \<le> of_int (rne (y / 2 powi ulp_exp y))"
      by (simp only: of_int_le_iff)
    then show ?thesis using assms by (simp add: rnd_def powi2_add mult.commute)
  qed
  finally show ?thesis .
qed

lemma rnd_mono:
  assumes "x \<le> y"
  shows "rnd x \<le> rnd y"
proof -
  consider "0 < x" | "x \<le> 0" "0 \<le> y" | "y < 0" by linarith
  then show ?thesis
  proof cases
    case 1
    then show ?thesis using assms by (rule rnd_mono_pos)
  next
    case 2
    then have "rnd x \<le> 0" using rnd_nonneg [of "- x"] by (simp add: rnd_uminus)
    then show ?thesis using 2 rnd_nonneg [of y] by linarith
  next
    case 3
    then have "rnd (- y) \<le> rnd (- x)" using assms by (intro rnd_mono_pos) auto
    then show ?thesis by (simp add: rnd_uminus)
  qed
qed

section \<open>Properties of the operations\<close>

lemma dbl_limit_pos [simp]: "0 < dbl_limit"
  by (simp add: dbl_limit_def del: power_int_numeral)

lemma small_less_limit: "\<bar>x\<bar> \<le> 2 ^ 64 \<Longrightarrow> \<bar>x\<bar> < dbl_limit"
proof -
  assume "\<bar>x\<bar> \<le> 2 ^ 64"
  also have "(2 :: rat) ^ 64 = 2 powi 64" by simp
  also have "(2 :: rat) powi 64 < dbl_limit" unfolding dbl_limit_def by (simp only: powi2_less_iff)
  finally show ?thesis .
qed

lemma round64_eq: "\<bar>rnd x\<bar> < dbl_limit \<Longrightarrow> round64 x = Fin (rnd x)"
  by (auto simp: round64_def Let_def abs_less_iff)

lemma round64_FinD: "round64 x = Fin y \<Longrightarrow> y = rnd x \<and> \<bar>rnd x\<bar> < dbl_limit"
  by (auto simp: round64_def Let_def abs_less_iff split: if_splits)

lemma round64_exact:
  "x = of_int m * 2 powi k \<Longrightarrow> \<bar>m\<bar> \<le> 2 ^ 53 \<Longrightarrow> - 1074 \<le> k \<Longrightarrow> \<bar>x\<bar> < dbl_limit \<Longrightarrow>
   round64 x = Fin x"
  using rnd_exact [of x m k] round64_eq by simp

lemma round64_of_int: "\<bar>n\<bar> \<le> 2 ^ 53 \<Longrightarrow> round64 (of_int n) = Fin (of_int n)"
proof -
  assume n: "\<bar>n\<bar> \<le> 2 ^ 53"
  then have "\<bar>of_int n :: rat\<bar> \<le> of_int (2 ^ 53)" by (simp only: of_int_abs [symmetric] of_int_le_iff)
  then have "\<bar>of_int n :: rat\<bar> < dbl_limit" by (intro small_less_limit) simp
  with n show ?thesis by (intro round64_exact [of _ n 0]) auto
qed

text \<open>Evaluation at small integers and halves, for closed terms.\<close>

lemma round64_numeral [simp]: "numeral w \<le> (2 ^ 53 :: int) \<Longrightarrow> round64 (numeral w) = Fin (numeral w)"
  using round64_of_int [of "numeral w"] by simp

lemma round64_neg_numeral [simp]:
  "numeral w \<le> (2 ^ 53 :: int) \<Longrightarrow> round64 (- numeral w) = Fin (- numeral w)"
  using round64_of_int [of "- numeral w"] by simp

lemma round64_0 [simp]: "round64 0 = Fin 0"
  using round64_of_int [of 0] by simp

lemma round64_1 [simp]: "round64 1 = Fin 1"
  using round64_of_int [of 1] by simp

lemma round64_minus_1 [simp]: "round64 (- 1) = Fin (- 1)"
  using round64_of_int [of "- 1"] by simp

lemma round64_half: "\<bar>n\<bar> \<le> 2 ^ 53 \<Longrightarrow> round64 (of_int n / 2) = Fin (of_int n / 2)"
proof -
  assume n: "\<bar>n\<bar> \<le> 2 ^ 53"
  then have "\<bar>of_int n :: rat\<bar> \<le> of_int (2 ^ 53)" by (simp only: of_int_abs [symmetric] of_int_le_iff)
  then have "\<bar>of_int n / 2 :: rat\<bar> < dbl_limit" by (intro small_less_limit) (simp add: abs_divide)
  with n show ?thesis by (intro round64_exact [of _ n "- 1"]) auto
qed

lemma round64_half_numeral [simp]:
  "numeral w \<le> (2 ^ 53 :: int) \<Longrightarrow> round64 (numeral w / 2) = Fin (numeral w / 2)"
  using round64_half [of "numeral w"] by simp

text \<open>Evaluation at any number of normal size, from its exponent and the nearest significand.\<close>

lemma rne_near: "\<bar>y - of_int m\<bar> < 1 / 2 \<Longrightarrow> rne y = m"
proof -
  assume "\<bar>y - of_int m\<bar> < 1 / 2"
  then have "\<bar>of_int (rne y) - of_int m :: rat\<bar> < 1" using rne_error [of y] by linarith
  then have "of_int \<bar>rne y - m\<bar> < (of_int 1 :: rat)" by simp
  then have "\<bar>rne y - m\<bar> < 1" by (simp only: of_int_less_iff)
  then show ?thesis by simp
qed

lemma round64_near:
  assumes "2 powi e \<le> x" "x < 2 powi (e + 1)" "- 1022 \<le> e"
    and "\<bar>x / 2 powi (e - 52) - of_int m\<bar> < 1 / 2" "0 \<le> m" "of_int m * 2 powi (e - 52) \<le> (2 ^ 64 :: rat)"
  shows "round64 x = Fin (of_int m * 2 powi (e - 52))"
proof -
  have "0 < x" using assms(1) powi2_pos [of e] by linarith
  then have "ulp_exp x = e - 52" using ilog2_unique [OF _ assms(1,2)] assms(3) by (simp add: ulp_exp_def)
  then have "rnd x = of_int m * 2 powi (e - 52)" using rne_near [OF assms(4)] \<open>0 < x\<close> by (simp add: rnd_def)
  moreover then have "\<bar>rnd x\<bar> < dbl_limit" using assms(5,6) by (intro small_less_limit) (simp add: abs_mult)
  ultimately show ?thesis using round64_eq by simp
qed

lemma dbl_ok_round64 [simp]: "dbl_ok (round64 x)"
proof (cases "\<bar>rnd x\<bar> < dbl_limit")
  case True
  then show ?thesis by (simp add: round64_eq dbl_ok_def)
next
  case False
  then show ?thesis by (auto simp: round64_def Let_def dbl_ok_def)
qed

lemma is_fin_Fin: "is_fin (Fin a) \<longleftrightarrow> round64 a = Fin a"
  by (simp add: is_fin_def)

lemma is_finE:
  assumes "is_fin x"
  obtains a where "x = Fin a" "round64 a = Fin a"
  using assms by (cases x) (auto simp: is_fin_def)

lemma is_fin_dbl_of_int: "\<bar>n\<bar> \<le> 2 ^ 53 \<Longrightarrow> is_fin (dbl_of_int n)"
  by (simp add: dbl_of_int_def round64_of_int is_fin_def)

lemma dbl_of_u32_eq: "dbl_of_u32 w = Fin (of_int (uint w))"
proof -
  have "uint w < 2 ^ 32" using uint_bounded [of w] by simp
  then show ?thesis unfolding dbl_of_u32_def dbl_of_int_def by (intro round64_of_int) simp
qed

text \<open>Every finite double is a multiple of \<open>2 ^ -1074\<close>.\<close>

lemma fin_grid:
  assumes "round64 a = Fin a"
  obtains n where "a = of_int n * 2 powi (- 1074)"
proof -
  have "rnd a = a" using round64_FinD [OF assms] by simp
  moreover obtain m where "rnd a = of_int m * 2 powi ulp_exp a" using rnd_form by blast
  ultimately have "a = of_int m * 2 powi ulp_exp a" by simp
  also note powi2_split [OF ulp_exp_ge [of a]]
  finally have "a = of_int (m * 2 ^ nat (ulp_exp a - - 1074)) * 2 powi (- 1074)"
    by (simp only: of_int_mult mult.assoc)
  then show ?thesis by (rule that)
qed

lemma fin_diff_ge:
  assumes "round64 a = Fin a" "round64 b = Fin b" "b < a"
  shows "2 powi (- 1074) \<le> a - b"
proof -
  obtain m n where mn: "a = of_int m * 2 powi (- 1074)" "b = of_int n * 2 powi (- 1074)"
    using assms(1,2) fin_grid by metis
  have "n < m" using assms(3) by (simp add: mn mult_less_cancel_right)
  then have "(1::rat) \<le> of_int (m - n)" by simp
  then have "1 * 2 powi (- 1074) \<le> of_int (m - n) * (2::rat) powi (- 1074)"
    by (intro mult_right_mono) auto
  then show ?thesis by (simp add: mn left_diff_distrib)
qed

lemma round64_pos_iff: "dlt (Fin 0) (round64 x) \<longleftrightarrow> 0 < rnd x"
proof -
  have "dbl_limit \<le> rnd x \<Longrightarrow> 0 < rnd x" using dbl_limit_pos by linarith
  moreover have "rnd x \<le> - dbl_limit \<Longrightarrow> \<not> 0 < rnd x" using dbl_limit_pos by linarith
  ultimately show ?thesis by (auto simp: round64_def Let_def)
qed

text \<open>
  Subtraction of finite doubles rounds, and may even overflow, yet its sign is the sign of the
  exact difference: the comparisons \<open>(x - y) * sign > 0\<close> of the program are exact.
\<close>

lemma dsub_pos_iff:
  assumes "is_fin x" "is_fin y"
  shows "dlt (Fin 0) (dsub x y) \<longleftrightarrow> dlt y x"
proof -
  obtain a b where ab: "x = Fin a" "round64 a = Fin a" "y = Fin b" "round64 b = Fin b"
    using assms by (auto elim!: is_finE)
  have "b < a \<Longrightarrow> 0 < rnd (a - b)" using fin_diff_ge ab rnd_pos by blast
  moreover have "a \<le> b \<Longrightarrow> rnd (a - b) \<le> 0" using rnd_mono [of "a - b" 0] by simp
  ultimately show ?thesis using round64_pos_iff [of "a - b"]
    by (cases "b < a") (auto simp: ab dsub_def)
qed

lemma round64_uminus: "round64 (- x) = dneg (round64 x)"
proof -
  define r where "r = rnd x"
  have "rnd (- x) = - r" by (simp add: r_def rnd_uminus)
  moreover have "\<not> (dbl_limit \<le> r \<and> dbl_limit \<le> - r)" using dbl_limit_pos by linarith
  ultimately show ?thesis by (auto simp: round64_def Let_def r_def [symmetric])
qed

lemma dbl_ok_dneg [simp]: "dbl_ok (dneg x) = dbl_ok x"
proof (cases x)
  case (Fin a)
  have "round64 (- a) = Fin (- a) \<longleftrightarrow> round64 a = Fin a"
    by (cases "round64 a") (auto simp: round64_uminus)
  then show ?thesis by (simp add: Fin dbl_ok_def)
qed (simp_all add: dbl_ok_def)

lemma dbl_ok_dadd [simp]: "dbl_ok (dadd x y)"
  by (cases x; cases y) (simp_all add: dbl_ok_def [of NaN] dbl_ok_def [of PInf] dbl_ok_def [of NInf])

lemma dbl_ok_dsub [simp]: "dbl_ok (dsub x y)"
  by (simp add: dsub_def)

lemma dmul_one: "dbl_ok x \<Longrightarrow> dmul x (Fin 1) = x"
  by (cases x) (auto simp: dbl_ok_def inf_sgn_def)

lemma dmul_minus_one: "dbl_ok x \<Longrightarrow> dmul x (Fin (- 1)) = dneg x"
  by (cases x) (auto simp: dbl_ok_def inf_sgn_def round64_uminus)

lemma dneg_dsub: "is_fin x \<Longrightarrow> is_fin y \<Longrightarrow> dneg (dsub x y) = dsub y x"
  by (auto simp: dsub_def round64_uminus [symmetric] elim!: is_finE)

text \<open>The relative error of a rounding, and what it means for the ceiling of a quotient.\<close>

lemma rnd_rel_error:
  assumes x: "2 powi (- 1022) \<le> x"
  shows "\<bar>rnd x - x\<bar> \<le> x / 2 ^ 53"
proof -
  have pos: "0 < x" using x powi2_pos [of "- 1022"] by linarith
  have "(2 :: rat) powi (- 1022) < 2 powi (ilog2 x + 1)"
    using ilog2_bounds [OF pos] x by linarith
  then have "- 1022 < ilog2 x + 1" by (simp only: powi2_less_iff)
  then have "ulp_exp x = ilog2 x - 52" using pos by (simp add: ulp_exp_def)
  then have "2 powi ulp_exp x = (2 :: rat) powi ilog2 x / 2 ^ 52"
    by (simp add: powi2_diff)
  also have "\<dots> \<le> x / 2 ^ 52" using ilog2_bounds [OF pos] by (simp add: divide_right_mono)
  finally show ?thesis using rnd_error [of x] by simp
qed

lemma rnd_quotient_ceiling:
  assumes a: "0 \<le> a" "a < 2 ^ 32" and b: "0 < b" "b < 2 ^ 32"
  shows "\<lceil>rnd (of_int a / of_int b)\<rceil> = \<lceil>of_int a / of_int b :: rat\<rceil>"
proof (cases "a = 0")
  case True
  then show ?thesis by simp
next
  case False
  define q where "q = (of_int a / of_int b :: rat)"
  define n where "n = \<lceil>q\<rceil>"
  have b1: "(0 :: rat) < of_int b" "(of_int b :: rat) \<le> of_int (2 ^ 32)"
    and a1: "(1 :: rat) \<le> of_int a" "(of_int a :: rat) < of_int (2 ^ 32)"
    using a b False by (simp_all only: of_int_0_less_iff of_int_le_iff of_int_1_le_iff of_int_less_iff)
  have q: "q * of_int b = of_int a" using b1 by (simp add: q_def)
  have n: "of_int n - 1 < q" "q \<le> of_int n" by (simp_all add: n_def ceiling_correct)
  have "n \<le> 2 ^ 53"
  proof -
    have "q \<le> of_int a" using a1 b by (simp add: q_def divide_le_eq mult_le_cancel_left1)
    then have "n \<le> a" by (simp add: n_def ceiling_le_iff)
    then show ?thesis using a by simp
  qed
  moreover have "0 \<le> n"
  proof -
    have "0 \<le> q" using a1 b1 by (simp add: q_def)
    then have "- 1 < q" by linarith
    then show ?thesis by (simp add: n_def)
  qed
  ultimately have up: "rnd q \<le> of_int n" using rnd_mono [OF n(2)] rnd_of_int [of n] by simp
  have "(of_int n - 1) * of_int b < q * of_int b" using n(1) b1 by (intro mult_strict_right_mono)
  then have "of_int ((n - 1) * b) < (of_int a :: rat)" by (simp add: q)
  then have "(n - 1) * b < a" by (simp only: of_int_less_iff)
  then have "(n - 1) * b + 1 \<le> a" by simp
  then have "of_int ((n - 1) * b + 1) \<le> (of_int a :: rat)" by (simp only: of_int_le_iff)
  then have low: "(of_int n - 1) * of_int b + 1 \<le> q * of_int b" using q by simp
  have "2 powi (- 32) \<le> q"
    using a1 b1 by (simp add: q_def power_int_def field_simps)
  moreover have "(2 :: rat) powi (- 1022) \<le> 2 powi (- 32)" by (rule powi2_mono) simp
  ultimately have "\<bar>rnd q - q\<bar> \<le> q / 2 ^ 53" using rnd_rel_error [of q] by linarith
  then have "q - q / 2 ^ 53 \<le> rnd q" by linarith
  then have "(q - q / 2 ^ 53) * of_int b \<le> rnd q * of_int b" using b1 by simp
  then have "of_int a - of_int a / 2 ^ 53 \<le> rnd q * of_int b" using q by (simp add: algebra_simps)
  then have "(of_int n - 1) * of_int b < rnd q * of_int b" using low q a1 by simp
  then have "of_int n - 1 < rnd q" using b1 by simp
  with up have "\<lceil>rnd q\<rceil> = n" by (simp add: ceiling_eq_iff)
  then show ?thesis by (simp add: q_def n_def)
qed

lemma ceiling_quotient:
  assumes a: "0 \<le> a" "a < 2 ^ 32" and b: "0 < b" "b < 2 ^ 32" and n: "n = \<lceil>of_int a / of_int b :: rat\<rceil>"
  shows "dceiling (ddiv (Fin (of_int a)) (Fin (of_int b))) = Fin (of_int n)"
    and "0 \<le> n" and "n \<le> a" and "a \<le> n * b"
proof -
  define q where "q = (of_int a / of_int b :: rat)"
  have rb: "(0 :: rat) < of_int b" "(1 :: rat) \<le> of_int b" using b by simp_all
  have q0: "0 \<le> q" "q \<le> of_int a" using rb a by (simp_all add: q_def divide_le_eq mult_le_cancel_left1)
  then show "n \<le> a" "0 \<le> n" unfolding n q_def [symmetric] by (simp_all add: ceiling_le_iff)
  have "of_int a = q * of_int b" using rb by (simp add: q_def)
  also have "\<dots> \<le> of_int \<lceil>q\<rceil> * of_int b" using rb by (intro mult_right_mono) simp_all
  also have "\<lceil>q\<rceil> = n" by (simp add: n q_def)
  finally have "of_int a \<le> (of_int (n * b) :: rat)" by simp
  then show "a \<le> n * b" by (simp only: of_int_le_iff)
  have "0 \<le> rnd q" using q0 by (simp add: rnd_nonneg)
  moreover have "rnd q \<le> of_int a" using rnd_mono [OF q0(2)] rnd_of_int [of a] a by simp
  moreover have "(of_int a :: rat) \<le> of_int (2 ^ 64)" using a by (simp only: of_int_le_iff) simp
  ultimately have "\<bar>rnd q\<bar> \<le> 2 ^ 64" by simp
  then have "\<bar>rnd q\<bar> < dbl_limit" by (rule small_less_limit)
  moreover have "\<bar>rnd (rnd q)\<bar> = \<bar>rnd q\<bar>" by simp
  ultimately have "round64 q = Fin (rnd q)" by (intro round64_eq) simp
  moreover have "\<lceil>rnd q\<rceil> = n" unfolding q_def n by (rule rnd_quotient_ceiling [OF a b])
  ultimately show "dceiling (ddiv (Fin (of_int a)) (Fin (of_int b))) = Fin (of_int n)"
    using b by (simp add: q_def)
qed

lemma ceiling_half:
  assumes "0 \<le> n" "n < 2 ^ 32"
  shows "dceiling (ddiv (Fin (of_int n)) (Fin 2)) = Fin (of_int ((n + 1) div 2))"
proof -
  have "\<lceil>of_int n / of_int 2 :: rat\<rceil> = - (- n div 2)" by (rule ceiling_divide_eq_div)
  also have "\<dots> = (n + 1) div 2" by presburger
  finally show ?thesis using assms by (simp add: round64_half)
qed

lemma dbl_to_u32_int: "0 \<le> n \<Longrightarrow> n < 2 ^ 32 \<Longrightarrow> dbl_to_u32 (Fin (of_int n)) = Inr (word_of_int n)"
  by (simp add: dbl_to_u32_def dbl_to_int_def rat_trunc_def)

section \<open>Prices in the order of a side\<close>

text \<open>
  The program orders prices by \<open>(p - q) * sign > 0\<close>, with \<open>sign\<close> 1 for a long and -1 for a
  short account. On finite doubles this is a strict total order, increasing for the long account
  and decreasing for the short one.
\<close>

definition dgt_side :: "int \<Rightarrow> double \<Rightarrow> double \<Rightarrow> bool" where
  "dgt_side sign p q \<longleftrightarrow> dlt (Fin 0) (dmul (dsub p q) (dbl_of_int sign))"

lemma dgt_side_long: "is_fin p \<Longrightarrow> is_fin q \<Longrightarrow> dgt_side 1 p q \<longleftrightarrow> dlt q p"
  by (simp add: dgt_side_def dbl_of_int_def dmul_one dsub_pos_iff)

lemma dgt_side_short: "is_fin p \<Longrightarrow> is_fin q \<Longrightarrow> dgt_side (- 1) p q \<longleftrightarrow> dlt p q"
  by (simp add: dgt_side_def dbl_of_int_def dmul_minus_one dneg_dsub dsub_pos_iff)

locale side_order =
  fixes ok :: "'p \<Rightarrow> bool" and gt :: "'p \<Rightarrow> 'p \<Rightarrow> bool"
  assumes gt_irrefl: "ok p \<Longrightarrow> \<not> gt p p"
    and gt_trans: "ok p \<Longrightarrow> ok q \<Longrightarrow> ok r \<Longrightarrow> gt p q \<Longrightarrow> gt q r \<Longrightarrow> gt p r"
    and gt_total: "ok p \<Longrightarrow> ok q \<Longrightarrow> p \<noteq> q \<Longrightarrow> gt p q \<or> gt q p"
begin

lemma gt_asym: "ok p \<Longrightarrow> ok q \<Longrightarrow> gt p q \<Longrightarrow> \<not> gt q p"
  using gt_irrefl gt_trans by blast

lemma not_gt_trans: "ok p \<Longrightarrow> ok q \<Longrightarrow> ok r \<Longrightarrow> \<not> gt p q \<Longrightarrow> \<not> gt q r \<Longrightarrow> \<not> gt p r"
  using gt_total gt_trans gt_irrefl by metis

lemma gt_not_gt: "ok p \<Longrightarrow> ok q \<Longrightarrow> ok r \<Longrightarrow> gt p q \<Longrightarrow> \<not> gt r q \<Longrightarrow> gt p r"
  using gt_total gt_trans gt_irrefl by metis

text \<open>Insertion before the first greater key keeps a list in order.\<close>

lemma sorted_insert_before:
  "\<forall>x \<in> set xs. ok (key x) \<Longrightarrow> ok (key r) \<Longrightarrow>
   sorted_wrt (\<lambda>a b. \<not> gt (key a) (key b)) xs \<Longrightarrow>
   sorted_wrt (\<lambda>a b. \<not> gt (key a) (key b)) (insert_before (\<lambda>x. gt (key x) (key r)) r xs)"
proof (induction xs)
  case Nil
  then show ?case by simp
next
  case (Cons x xs)
  have xs: "\<forall>y \<in> set xs. \<not> gt (key x) (key y)" and ok: "ok (key x)" "\<forall>y \<in> set xs. ok (key y)"
    using Cons.prems by simp_all
  have IH: "sorted_wrt (\<lambda>a b. \<not> gt (key a) (key b)) (insert_before (\<lambda>x. gt (key x) (key r)) r xs)"
    using Cons.IH Cons.prems by simp
  show ?case
  proof (cases "gt (key x) (key r)")
    case True
    have rx: "\<not> gt (key r) (key x)" by (rule gt_asym [OF ok(1) Cons.prems(2) True])
    have "\<not> gt (key r) (key y)" if "y \<in> set xs" for y
      using not_gt_trans [of "key r" "key x" "key y"] that rx xs ok Cons.prems(2) by blast
    then show ?thesis using True rx Cons.prems(3) by simp
  next
    case False
    then show ?thesis using IH xs by simp
  qed
qed

end

interpretation long_order: side_order is_fin "dgt_side 1"
  by unfold_locales (auto simp: dgt_side_long elim!: is_finE)

interpretation short_order: side_order is_fin "dgt_side (- 1)"
  by unfold_locales (auto simp: dgt_side_short elim!: is_finE)

end
