(* ===== verification/PositionTable.thy ===== *)
theory PositionTable
  imports Binary64
begin

text \<open>
  The table of a trade account's positions (\<open>src/src/trade/PositionRecordTable.h\<close>): one row per
  fill of an open order, kept in increasing order of price for the long account and in decreasing
  order for the short account; a fill of a close order marks rows complete, most profitable first,
  and splits the last row it reaches when it covers only part of it.
\<close>

section \<open>Rows\<close>

record PositionRecord =
  r_open_order_id :: u32
  r_open_size :: u32
  r_open_price :: double
  r_average_at_open :: double
  r_close_order_id :: u32
  r_close_size :: u32
  r_close_price :: double
  r_average_at_close :: double
  r_is_complete :: bool
  r_pnl :: double
  r_sign :: int

definition new_record :: "u32 \<Rightarrow> u32 \<Rightarrow> double \<Rightarrow> double \<Rightarrow> int \<Rightarrow> PositionRecord" where
  "new_record oid sz price average sign =
     \<lparr>r_open_order_id = oid, r_open_size = sz, r_open_price = price, r_average_at_open = average,
      r_close_order_id = 0, r_close_size = 0, r_close_price = Fin 0, r_average_at_close = Fin 0,
      r_is_complete = False, r_pnl = Fin 0, r_sign = sign\<rparr>"

text \<open>The constructor that copies the part of a row left open.\<close>

definition split_record :: "PositionRecord \<Rightarrow> u32 \<Rightarrow> PositionRecord" where
  "split_record previous closed_size =
     \<lparr>r_open_order_id = r_open_order_id previous,
      r_open_size = r_open_size previous - closed_size,
      r_open_price = r_open_price previous,
      r_average_at_open = r_average_at_open previous,
      r_close_order_id = 0, r_close_size = 0, r_close_price = Fin 0, r_average_at_close = Fin 0,
      r_is_complete = False, r_pnl = Fin 0, r_sign = r_sign previous\<rparr>"

definition close_pnl :: "double \<Rightarrow> double \<Rightarrow> u32 \<Rightarrow> int \<Rightarrow> double" where
  "close_pnl cprice oprice sz sign =
     dmul (dmul (dsub cprice oprice) (dbl_of_u32 sz)) (dbl_of_int sign)"

definition setPartialCloseInfo ::
    "u32 \<Rightarrow> u32 \<Rightarrow> double \<Rightarrow> double \<Rightarrow> PositionRecord \<Rightarrow> PositionRecord" where
  "setPartialCloseInfo close_id sz price average r =
     r\<lparr>r_close_order_id := close_id, r_close_size := sz, r_open_size := sz,
       r_close_price := price, r_average_at_close := average, r_is_complete := True,
       r_pnl := close_pnl price (r_open_price r) sz (r_sign r)\<rparr>"

definition setOpenInfo ::
    "u32 \<Rightarrow> u32 \<Rightarrow> double \<Rightarrow> double \<Rightarrow> PositionRecord \<Rightarrow> PositionRecord" where
  "setOpenInfo oid sz price average r =
     r\<lparr>r_open_order_id := oid, r_open_size := sz, r_open_price := price,
       r_average_at_open := average\<rparr>"

definition setCloseInfo ::
    "u32 \<Rightarrow> u32 \<Rightarrow> double \<Rightarrow> double \<Rightarrow> bool \<Rightarrow> PositionRecord \<Rightarrow> PositionRecord" where
  "setCloseInfo oid sz price average completed r =
     r\<lparr>r_close_order_id := oid, r_close_size := sz, r_close_price := price,
       r_average_at_close := average, r_is_complete := completed,
       r_pnl := close_pnl price (r_open_price r) sz (r_sign r)\<rparr>"

section \<open>The table and its simple operations\<close>

record PositionRecordTable =
  t_rows :: "PositionRecord list"
  t_is_long :: bool
  t_sign :: int
  t_open_size :: u32
  t_pnl :: double
  t_average :: double

definition new_table :: "bool \<Rightarrow> PositionRecordTable" where
  "new_table is_long =
     \<lparr>t_rows = [], t_is_long = is_long, t_sign = (if is_long then 1 else - 1),
      t_open_size = 0, t_pnl = Fin 0, t_average = Fin 0\<rparr>"

definition table_clear :: "PositionRecordTable \<Rightarrow> PositionRecordTable" where
  "table_clear t = t\<lparr>t_rows := [], t_pnl := Fin 0, t_open_size := 0, t_average := Fin 0\<rparr>"

definition table_reset :: "PositionRecordTable \<Rightarrow> PositionRecordTable" where
  "table_reset t = t\<lparr>t_rows := [], t_pnl := Fin 0\<rparr>"

definition table_adjustment :: "PositionRecordTable \<Rightarrow> double" where
  "table_adjustment t = ddiv (t_pnl t) (dbl_of_u32 (t_open_size t))"

definition shiftPNL :: "double \<Rightarrow> PositionRecordTable \<Rightarrow> PositionRecordTable" where
  "shiftPNL reference t =
     t\<lparr>t_pnl := dmul (dmul (dsub reference (t_average t)) (dbl_of_u32 (t_open_size t)))
                    (dbl_of_int (t_sign t))\<rparr>"

text \<open>The accumulation of \<open>sizeofOrderWithPnl\<close>; its \<open>int\<close> sum is the unsigned sum it returns.\<close>

fun pnl_walk :: "int \<Rightarrow> double \<Rightarrow> u32 \<times> double \<Rightarrow> PositionRecord list \<Rightarrow> u32 \<times> double" where
  "pnl_walk sign send acc [] = acc"
| "pnl_walk sign send (s, p) (r # rs) =
     (if \<not> r_is_complete r \<and> dgt_side sign send (r_open_price r)
      then pnl_walk sign send
             (s + r_open_size r,
              dadd p (dmul (dmul (dsub send (r_open_price r)) (dbl_of_int sign))
                           (dbl_of_u32 (r_open_size r)))) rs
      else pnl_walk sign send (s, p) rs)"

definition sizeofOrderWithPnl :: "double \<Rightarrow> PositionRecordTable \<Rightarrow> u32 \<times> double" where
  "sizeofOrderWithPnl send t = pnl_walk (t_sign t) send (0, Fin 0) (t_rows t)"

definition deleteCompletePosition :: "PositionRecordTable \<Rightarrow> PositionRecordTable" where
  "deleteCompletePosition t = t\<lparr>t_rows := filter (\<lambda>r. \<not> r_is_complete r) (t_rows t)\<rparr>"

definition table_startingPrice :: "PositionRecordTable \<Rightarrow> double" where
  "table_startingPrice t = (case t_rows t of [] \<Rightarrow> Fin 0 | r # _ \<Rightarrow> r_open_price r)"

definition table_endingPrice :: "PositionRecordTable \<Rightarrow> double" where
  "table_endingPrice t = (case rev (t_rows t) of [] \<Rightarrow> Fin 0 | r # _ \<Rightarrow> r_open_price r)"

definition positionAtPrice :: "double \<Rightarrow> PositionRecordTable \<Rightarrow> u32" where
  "positionAtPrice price t =
     (case filter (\<lambda>r. deq (r_open_price r) price \<and> 0 < r_open_size r - r_close_size r) (t_rows t) of
        [] \<Rightarrow> 0
      | r # _ \<Rightarrow> r_open_size r - r_close_size r)"

section \<open>Recording a fill of an open order\<close>

definition insert_record :: "int \<Rightarrow> PositionRecord \<Rightarrow> PositionRecord list \<Rightarrow> PositionRecord list" where
  "insert_record sign r xs =
     insert_before (\<lambda>x. dgt_side sign (r_open_price x) (r_open_price r)) r xs"

definition recordOpenPosition ::
    "u32 \<Rightarrow> u32 \<Rightarrow> double \<Rightarrow> PositionRecordTable \<Rightarrow> PositionRecordTable" where
  "recordOpenPosition oid sz price t =
     (let os = t_open_size t + sz;
          avg = (if 0 < os
                 then dadd (t_average t)
                        (ddiv (dmul (dsub price (t_average t)) (dbl_of_u32 sz)) (dbl_of_u32 os))
                 else Fin 0)
      in t\<lparr>t_open_size := os, t_average := avg,
           t_rows := insert_record (t_sign t) (new_record oid sz price avg (t_sign t)) (t_rows t)\<rparr>)"

section \<open>Recording a fill of a close order\<close>

text \<open>
  One pass over the rows in the order the loop visits them (for the long account from the last
  row to the first): rows that satisfy the loop's condition are completed while the fill lasts.
  The split row goes before the completed part in the order of the visit: \<open>insert(itr.base(), \<dots>)\<close>
  of the reverse loop and \<open>insert(itr, \<dots>)\<close> of the forward loop.
\<close>

fun close_walk ::
    "(PositionRecord \<Rightarrow> bool) \<Rightarrow> u32 \<Rightarrow> double \<Rightarrow> double \<Rightarrow> u32 \<Rightarrow> double \<Rightarrow> PositionRecord list \<Rightarrow>
     PositionRecord list \<times> u32 \<times> double" where
  "close_walk c oid price avg d p [] = ([], d, p)"
| "close_walk c oid price avg d p (r # rs) =
     (if d = 0 then (r # rs, d, p)
      else if c r then
        (if r_open_size r \<le> d then
           let r' = setCloseInfo oid (r_open_size r) price avg True r;
               (rs', d', p') = close_walk c oid price avg (d - r_open_size r) (dadd p (r_pnl r')) rs
           in (r' # rs', d', p')
         else
           let r' = setPartialCloseInfo oid d price avg r
           in (split_record r d # r' # rs, 0, dadd p (r_pnl r')))
      else
        let (rs', d', p') = close_walk c oid price avg d p rs
        in (r # rs', d', p'))"

definition profit_cond :: "bool \<Rightarrow> double \<Rightarrow> PositionRecord \<Rightarrow> bool" where
  "profit_cond is_long price r =
     (if is_long then dlt (r_open_price r) price \<and> \<not> r_is_complete r
      else dlt price (r_open_price r))"

definition visit_order :: "bool \<Rightarrow> 'a list \<Rightarrow> 'a list" where
  "visit_order is_long xs = (if is_long then rev xs else xs)"

definition recordClosePosition ::
    "u32 \<Rightarrow> u32 \<Rightarrow> double \<Rightarrow> PositionRecordTable \<Rightarrow> PositionRecordTable" where
  "recordClosePosition oid sz price t =
     (let os = t_open_size t - sz;
          avg = (if 0 < os
                 then dadd (t_average t)
                        (ddiv (dmul (dsub (t_average t) price) (dbl_of_u32 sz)) (dbl_of_u32 os))
                 else Fin 0);
          l = t_is_long t;
          (rows1, d1, p1) =
            close_walk (profit_cond l price) oid price avg sz (t_pnl t) (visit_order l (t_rows t));
          (rows2, d2, p2) =
            (if 0 < d1 then close_walk (\<lambda>_. True) oid price avg d1 p1 rows1 else (rows1, d1, p1))
      in t\<lparr>t_open_size := os, t_average := avg, t_pnl := p2, t_rows := visit_order l rows2\<rparr>)"

section \<open>Repackaging\<close>

text \<open>
  \<open>repackaging\<close> replaces the rows by lots of \<open>base_qty\<close> at prices spread around the new average,
  half of them (rounded up) on the far side of it. \<open>ceil\<close> of an infinite or undefined quotient
  (a zero \<open>base_qty\<close>) has no \<open>uint32_t\<close> value.
\<close>

fun repack_loop ::
    "u32 \<Rightarrow> double \<Rightarrow> int \<Rightarrow> (nat \<Rightarrow> double) \<Rightarrow> nat list \<Rightarrow> u32 \<times> u32 \<times> PositionRecord list \<Rightarrow>
     u32 \<times> u32 \<times> PositionRecord list" where
  "repack_loop base_qty avg sign price_of [] st = st"
| "repack_loop base_qty avg sign price_of (i # is) (order_id, remainder, rows) =
     (let sz = (if base_qty \<le> remainder then base_qty else remainder)
      in repack_loop base_qty avg sign price_of is
           (order_id + 1, remainder - sz,
            rows @ [new_record order_id sz (price_of i) avg sign]))"

definition number_of_entries :: "u32 \<Rightarrow> u32 \<Rightarrow> u32 res" where
  "number_of_entries open_size base_qty =
     dbl_to_u32 (dceiling (ddiv (dbl_of_u32 open_size) (dbl_of_u32 base_qty)))"

definition repackaging ::
    "u32 \<Rightarrow> double \<Rightarrow> double \<Rightarrow> PositionRecordTable \<Rightarrow> PositionRecordTable res" where
  "repackaging base_qty mpv adjustment t =
     rbind (number_of_entries (t_open_size t) base_qty) (\<lambda>noe.
     rbind (dbl_to_u32 (dceiling (ddiv (dbl_of_u32 noe) (Fin 2)))) (\<lambda>noeh.
     let sign = t_sign t;
         avg = dsub (t_average t) (dmul adjustment (dbl_of_int sign));
         noel = noe - noeh;
         high = (\<lambda>i. dsub avg (dmul (dmul (dbl_of_u32 (noeh - of_nat i)) mpv) (dbl_of_int sign)));
         low = (\<lambda>i. dsub avg (dmul (dmul (dbl_of_int (int i)) mpv) (dbl_of_int sign)));
         st1 = repack_loop base_qty avg sign high [1..<Suc (unat noeh)] (1, t_open_size t, []);
         (_, _, rows) = repack_loop base_qty avg sign low [1..<Suc (unat noel)] st1
     in Inr ((table_reset t)\<lparr>t_average := avg, t_rows := rows\<rparr>)))"

end
