(* ===== verification/World.thy ===== *)
theory World
  imports PositionTable
begin

text \<open>
  The state the components share: the order objects (\<open>src/src/akela/OrderAccount.h\<close>,
  \<open>src/src/trade/AbstractTradeAccount.h\<close>), the two order accounts and the two trade accounts,
  the symbol's market data (\<open>src/src/config/SymbolConfig.h\<close>), the trade instance
  (\<open>src/src/trade/TradeInstance.h\<close>) and the trade case it runs (\<open>src/src/trade/TradeCase.h\<close>).

  Order objects are held by \<open>shared_ptr\<close> and mutated through every holder, so they live in a heap
  and the containers hold references. Trade cases are referred to by the closures they create, which
  may outlive them: every case has a number, and a closure with the number of a case that is gone is a
  dangling \<open>this\<close>. The order gateway is not part of the program: its answers are functions of the
  number of the call, and its messages are events, delivered where the code waits and between two
  rounds of the main loop.
\<close>

section \<open>Orders\<close>

datatype OrderAccountType = ORDER_ACCOUNT_LONG | ORDER_ACCOUNT_SHORT

definition other_account :: "OrderAccountType \<Rightarrow> OrderAccountType" where
  "other_account s = (case s of
     ORDER_ACCOUNT_LONG \<Rightarrow> ORDER_ACCOUNT_SHORT | ORDER_ACCOUNT_SHORT \<Rightarrow> ORDER_ACCOUNT_LONG)"

datatype BuySell = BS_NONE | BS_BUY | BS_SELL | BS_SELL_SHORT

datatype OrderCondition = ORDER_COND_NONE | ORDER_COND_PENDING_NEW | ORDER_COND_NEW
  | ORDER_COND_PARTIAL | ORDER_COND_DONE | ORDER_COND_CANCELED | ORDER_COND_CANCEL_REJECTED
  | ORDER_COND_TOO_LATE_TO_CANCEL | ORDER_COND_PENDING_CHANGE | ORDER_COND_CHANGED
  | ORDER_COND_CHANGE_REJECTED | ORDER_COND_GATEWAY_THROTTLE | ORDER_COND_DENIED
  | ORDER_COND_REJECTED | ORDER_COND_ORDER_UNKNOWN | ORDER_COND_OTHER

text \<open>The fields of the gateway's order message that the program reads.\<close>

record Order =
  g_condition :: OrderCondition
  g_openSize :: u32
  g_reference :: nat

datatype order_stage = STAGE_SENT | STAGE_ACKNOWLEDGED | STAGE_FILLED | STAGE_CANCELLED
  | STAGE_CHANGED | STAGE_DONE | STAGE_FAILED

datatype cancel_stage = CANCEL_NONE | CANCEL_INIT | CANCEL_FAIL | CANCEL_DONE

datatype change_stage = CHANGE_NONE | CHANGE_INIT | CHANGE_FAIL | CHANGE_DONE

datatype request_kind = REQ_OPEN | REQ_CLOSE | REQ_CHANGE

text \<open>
  The closures the program stores in an order. \<open>TD_none\<close> is the empty \<open>std::function\<close>; the other two
  are the functions the constructor of the numbered trade case builds. A fill callback is bound to
  the trade account that sent the order.
\<close>

datatype trade_done = TD_none | TD_requote_done nat | TD_trade_send_close nat

datatype fill_callback = FILL_OPEN OrderAccountType | FILL_CLOSE OrderAccountType

type_synonym ref = nat

record OrderInfo =
  o_is_acknowledged :: bool
  o_cancel_stage :: cancel_stage
  o_change_stage :: change_stage
  o_stage :: order_stage
  o_type :: BuySell
  o_price :: double
  o_request_id :: u32
  o_account_type :: OrderAccountType
  o_size :: u32
  o_fill_size :: u32
  o_order :: Order
  o_onAcknowledgement :: "OrderAccountType option"
  o_onFill :: "fill_callback option"
  o_onOrderCancel :: "OrderAccountType option"
  o_onOrderChange :: "OrderAccountType option"
  o_onOrderDone :: "OrderAccountType option"

record PositionRequest = OrderInfo +
  p_type :: request_kind
  p_send_mmf_on_fills :: bool
  p_mmf_closed :: u32
  p_is_mmf :: bool
  p_open_request_id :: u32
  p_open_order :: "ref option"
  p_is_fco :: bool
  p_is_sco :: bool
  p_is_trade_done_define :: bool
  p_trade_done :: trade_done

text \<open>The gateway order of a new object is not initialised; it is first read after the first message
  has set it.\<close>

definition no_order :: Order where
  "no_order = \<lparr>g_condition = ORDER_COND_NONE, g_openSize = 0, g_reference = 0\<rparr>"

definition new_PositionRequest :: "u32 \<Rightarrow> double \<Rightarrow> PositionRequest" where
  "new_PositionRequest sz price =
     \<lparr>o_is_acknowledged = False, o_cancel_stage = CANCEL_NONE, o_change_stage = CHANGE_NONE,
      o_stage = STAGE_SENT, o_type = BS_NONE, o_price = price, o_request_id = 0,
      o_account_type = ORDER_ACCOUNT_LONG, o_size = sz, o_fill_size = 0, o_order = no_order,
      o_onAcknowledgement = None, o_onFill = None, o_onOrderCancel = None, o_onOrderChange = None,
      o_onOrderDone = None, p_type = REQ_OPEN, p_send_mmf_on_fills = False, p_mmf_closed = 0,
      p_is_mmf = False, p_open_request_id = 0, p_open_order = None, p_is_fco = False,
      p_is_sco = False, p_is_trade_done_define = True, p_trade_done = TD_none\<rparr>"

text \<open>The constructors that copy an order for a change request; a size of 0 keeps the size. The one with a
  price only is not used.\<close>

definition repriced_OrderInfo :: "'a OrderInfo_scheme \<Rightarrow> double \<Rightarrow> 'a OrderInfo_scheme" where
  "repriced_OrderInfo orig new_price =
     orig\<lparr>o_price := new_price, o_change_stage := CHANGE_NONE, o_cancel_stage := CANCEL_NONE,
          o_is_acknowledged := False, o_request_id := 0, o_fill_size := 0\<rparr>"

definition changed_OrderInfo :: "'a OrderInfo_scheme \<Rightarrow> double \<Rightarrow> u32 \<Rightarrow> 'a OrderInfo_scheme" where
  "changed_OrderInfo orig new_price new_size =
     orig\<lparr>o_size := (if new_size = 0 then o_size orig else new_size), o_price := new_price,
          o_stage := STAGE_SENT, o_change_stage := CHANGE_NONE, o_cancel_stage := CANCEL_NONE,
          o_is_acknowledged := False, o_request_id := 0, o_fill_size := 0\<rparr>"

definition changed_PositionRequest :: "PositionRequest \<Rightarrow> double \<Rightarrow> u32 \<Rightarrow> PositionRequest" where
  "changed_PositionRequest orig new_price new_size =
     (changed_OrderInfo orig new_price new_size)
       \<lparr>p_mmf_closed := 0, p_is_fco := False, p_is_sco := False, p_type := REQ_OPEN\<rparr>"

text \<open>Falling off the end of a function with a result is undefined.\<close>

definition isTypeOpen :: "'a OrderInfo_scheme \<Rightarrow> bool res" where
  "isTypeOpen r =
     (if o_account_type r = ORDER_ACCOUNT_LONG then
        if o_type r = BS_BUY then Inr True else if o_type r = BS_SELL then Inr False else Inl MissingReturn
      else if o_account_type r = ORDER_ACCOUNT_SHORT then
        if o_type r = BS_SELL_SHORT then Inr True else if o_type r = BS_BUY then Inr False else Inl MissingReturn
      else Inl MissingReturn)"

definition isAcknowledged :: "PositionRequest \<Rightarrow> bool" where
  "isAcknowledged r \<longleftrightarrow> o_stage r \<noteq> STAGE_SENT \<or> o_is_acknowledged r"

definition canCancel :: "PositionRequest \<Rightarrow> bool" where
  "canCancel r \<longleftrightarrow>
     \<not> (o_stage r = STAGE_CANCELLED \<or> o_stage r = STAGE_DONE \<or>
        o_stage r = STAGE_FILLED \<or> o_stage r = STAGE_FAILED)"

section \<open>Accounts\<close>

record OrderAccount =
  oa_request_id_generator :: u32
  oa_order_hash :: "u32 \<rightharpoonup> ref"

record TradeAccount =
  a_orders :: "(u32, ref) omap"
  a_pending_orders :: "PositionRequest list"
  a_total :: int
  a_average :: double
  a_spread :: double
  a_last_open_price :: double
  a_last_close_price :: double
  a_totalopen :: int
  a_totalclose :: int
  a_totalExecuted :: int
  a_close_live :: u32
  a_mmf_mpv :: double
  a_pif :: double
  a_rif :: u32
  a_maximum_order_size :: u32
  a_opened_for_close :: bool
  a_max_pos :: u32
  a_tranch_value :: u32
  a_tranch_counter :: u32
  a_divisor :: u32
  a_position_table :: PositionRecordTable

section \<open>The symbol's market data\<close>

record SymbolStamp =
  st_price_estimate1 :: double
  st_price_estimate2 :: double
  st_instrument_skew :: double
  st_bid_size :: u64
  st_bid_price :: double
  st_ask_size :: u64
  st_ask_price :: double

record Symbol =
  s_start_interval :: bool
  s_open_price :: double
  s_min_price :: double
  s_max_price :: double
  s_close_price :: double
  s_open_price_prev :: double
  s_min_price_prev :: double
  s_max_price_prev :: double
  s_close_price_prev :: double
  s_price_estimate1 :: double
  s_price_estimate2 :: double
  s_instrument_skew :: double
  s_bid_size :: u64
  s_bid_price :: double
  s_ask_size :: u64
  s_ask_price :: double
  s_symbol_stack :: "SymbolStamp list"

section \<open>Trade cases\<close>

datatype TriggerState = TRIGGER_STATE_INIT | TRIGGER_STATE_POSITIVE | TRIGGER_STATE_NEGATIVE

datatype CaseState = INIT | PRICE_CHANGE | OPEN_MMF | CHANGE_MMF | WAIT | FAILED | DONE | NOT_SELECTED

datatype CaseType = CASE_NONE | CASE_1 | CASE_2 | CASE_3 | CASE_4 | CASE_5 | CASE_CLOSEOPPOSITE
  | CASE_HEDGECURRENT | CASE_6C | CASE_7 | CASE_9 | CASE_10 | CASE_MAXTLV
  | CASE_CLOSEOPPOSITEWITH_ANTICIPATED_PNL | CASE_HEDGEDMODE | CASE_ONEQUALITY
  | CASE_CLOSE_TRIGGER | PANIC_CLOSE | SOFT_CLOSE

record OrderRep =
  rep_id :: u32
  rep_size :: u32
  rep_open :: double
  rep_close :: double
  rep_is_executed :: bool

text \<open>The members of the base class and, after \<open>c_requote_orders\<close>, those of the derived classes.\<close>

record TradeCase =
  c_type :: CaseType
  c_current_acc :: "OrderAccountType option"
  c_opposite_acc :: "OrderAccountType option"
  c_send_price :: double
  c_requote_price :: double
  c_main_order_id :: u32
  c_state :: CaseState
  c_sign :: int
  c_requote_order_flag :: bool
  c_requote_orders :: "u32 list"
  c_close_size :: u32
  c_prev_send_price :: double
  c_init_pos :: u32
  c_threshold :: double
  c_threshold_limit :: double
  c_first_order :: u32
  c_first_order_size :: u32
  c_first_order_price :: double
  c_target_pos :: u32
  c_curr_close_size :: u32
  c_oppo_close_size :: u32
  c_curr_send_price :: double
  c_oppo_send_price :: double
  c_curr_order :: u32
  c_oppo_order :: u32
  c_close_price :: double
  c_init_size :: u32
  c_close_id :: u32
  c_ho_size :: u32
  c_tranch_at_init :: u32
  c_curr_size_init :: u32
  c_oppo_size_init :: u32
  c_order_id :: u32
  c_price :: double
  c_selected_account :: "OrderAccountType option"
  c_other_account :: "OrderAccountType option"
  c_original_size :: u32
  c_error :: double
  c_orders :: "OrderRep list"
  c_account_to_close :: "OrderAccountType option"

section \<open>The trade instance\<close>

record ShareRound =
  rd_increments :: u64
  rd_position :: u64

record Bar =
  bar_open :: double
  bar_close :: double
  bar_minimum :: double
  bar_maximum :: double

datatype TradeInstanceState = TRADE_INSTANCE_NONE | TRADE_INSTANCE_INIT
  | TRADE_INSTANCE_PANIC_CLOSE | TRADE_INSTANCE_SOFT_CLOSE

record TradeInstance =
  i_trade_case :: "nat option"
  i_previous_case :: CaseType
  i_last_state :: CaseState
  i_wait_for_next_time_window_avicenna :: double
  i_wait_for_next_time_window :: bool
  i_share_rounds :: "ShareRound list"
  i_tranch_value :: u32
  i_max_round :: u64
  i_max_pos :: u64
  i_mpv_value :: double
  i_mpv_multiplier :: u32
  i_base_qty :: int
  i_cancel_on_trigger :: bool
  i_multiplier :: double
  i_divisor :: u32
  i_trigger_state :: TriggerState
  i_avicenna_trigger_state :: TriggerState
  i_prev_trigger_state :: TriggerState
  i_ask_size :: u32
  i_ask_price :: double
  i_bid_size :: u32
  i_bid_price :: double
  i_price_estimate :: double
  i_price_estimate_prev :: double
  i_avicenna_toggle :: bool
  i_instrument_skew :: double
  i_trade_price :: double
  i_price_estimate_on_trigger :: double
  i_reference_price :: double
  i_state :: TradeInstanceState
  i_current_acc :: "OrderAccountType option"
  i_opposite_acc :: "OrderAccountType option"
  i_data_wait :: bool
  i_is_enable :: bool
  i_is_panic_close :: bool
  i_panic_close_init :: bool
  i_is_soft_close :: bool
  i_soft_close_init :: bool
  i_bar0 :: Bar
  i_bar1 :: Bar
  i_maximum_live_limit :: u32

section \<open>The world\<close>

datatype event =
    EvOrder OrderAccountType u32 Order
  | EvOrderCancel OrderAccountType u32
  | EvOrderChange OrderAccountType u32 OrderCondition
  | EvFill OrderAccountType u32 double u32 u32

text \<open>What the program writes to the key-value store, apart from its periodic report.\<close>

datatype redis_cmd =
    RedisPIF OrderAccountType double
  | RedisRIF OrderAccountType u32
  | RedisOrderInfo OrderAccountType u32 u32 double BuySell
  | RedisOrderExecTime OrderAccountType u32
  | RedisOrderChangeTime OrderAccountType u32
  | RedisOrderCancelTime OrderAccountType u32

record gateway =
  gw_set_limit :: "BuySell \<Rightarrow> double \<Rightarrow> u32 \<Rightarrow> bool"
  gw_post :: "nat \<Rightarrow> bool"
  gw_cancel :: "nat \<Rightarrow> bool"
  gw_change :: "nat \<Rightarrow> bool"
  gw_status :: "nat \<Rightarrow> bool"

record world =
  w_heap :: "ref \<Rightarrow> PositionRequest"
  w_next :: ref
  w_oa :: "OrderAccountType \<Rightarrow> OrderAccount"
  w_ta :: "OrderAccountType \<Rightarrow> TradeAccount"
  w_ti :: TradeInstance
  w_sym :: Symbol
  w_cases :: "nat \<Rightarrow> TradeCase option"
  w_next_case :: nat
  w_inbox :: "event list"
  w_gw :: gateway
  w_calls :: nat
  w_redis :: "redis_cmd list"

definition upd_heap :: "ref \<Rightarrow> (PositionRequest \<Rightarrow> PositionRequest) \<Rightarrow> world \<Rightarrow> world" where
  "upd_heap r f w = w\<lparr>w_heap := (w_heap w)(r := f (w_heap w r))\<rparr>"

definition upd_oa :: "OrderAccountType \<Rightarrow> (OrderAccount \<Rightarrow> OrderAccount) \<Rightarrow> world \<Rightarrow> world" where
  "upd_oa s f w = w\<lparr>w_oa := (w_oa w)(s := f (w_oa w s))\<rparr>"

definition upd_ta :: "OrderAccountType \<Rightarrow> (TradeAccount \<Rightarrow> TradeAccount) \<Rightarrow> world \<Rightarrow> world" where
  "upd_ta s f w = w\<lparr>w_ta := (w_ta w)(s := f (w_ta w s))\<rparr>"

definition upd_ti :: "(TradeInstance \<Rightarrow> TradeInstance) \<Rightarrow> world \<Rightarrow> world" where
  "upd_ti f w = w\<lparr>w_ti := f (w_ti w)\<rparr>"

definition upd_case :: "nat \<Rightarrow> (TradeCase \<Rightarrow> TradeCase) \<Rightarrow> world \<Rightarrow> world" where
  "upd_case n f w = w\<lparr>w_cases := (w_cases w)(n := map_option f (w_cases w n))\<rparr>"

definition this_case :: "nat \<Rightarrow> world \<Rightarrow> TradeCase res" where
  "this_case n w = rget DanglingRef (w_cases w n)"

definition alloc :: "PositionRequest \<Rightarrow> world \<Rightarrow> ref \<times> world" where
  "alloc r w = (w_next w, w\<lparr>w_heap := (w_heap w)(w_next w := r), w_next := Suc (w_next w)\<rparr>)"

definition gw_call :: "world \<Rightarrow> world" where
  "gw_call w = w\<lparr>w_calls := Suc (w_calls w)\<rparr>"

definition redis :: "redis_cmd \<Rightarrow> world \<Rightarrow> world" where
  "redis c w = w\<lparr>w_redis := w_redis w @ [c]\<rparr>"

definition getPosition :: "OrderAccountType \<Rightarrow> world \<Rightarrow> int" where
  "getPosition s w = a_total (w_ta w s) * uint (a_divisor (w_ta w s))"

definition getAverage :: "OrderAccountType \<Rightarrow> world \<Rightarrow> double" where
  "getAverage s w = t_average (a_position_table (w_ta w s))"

section \<open>The world's accessors\<close>

lemma upd_heap_simps [simp, world_simps]:
  "w_heap (upd_heap r f w) = (w_heap w)(r := f (w_heap w r))"
  "w_next (upd_heap r f w) = w_next w"
  "w_oa (upd_heap r f w) = w_oa w"
  "w_ta (upd_heap r f w) = w_ta w"
  "w_ti (upd_heap r f w) = w_ti w"
  "w_sym (upd_heap r f w) = w_sym w"
  "w_cases (upd_heap r f w) = w_cases w"
  "w_next_case (upd_heap r f w) = w_next_case w"
  "w_inbox (upd_heap r f w) = w_inbox w"
  "w_gw (upd_heap r f w) = w_gw w"
  "w_calls (upd_heap r f w) = w_calls w"
  "w_redis (upd_heap r f w) = w_redis w"
  by (simp_all add: upd_heap_def)

lemma upd_oa_simps [simp, world_simps]:
  "w_heap (upd_oa s f w) = w_heap w"
  "w_next (upd_oa s f w) = w_next w"
  "w_oa (upd_oa s f w) = (w_oa w)(s := f (w_oa w s))"
  "w_ta (upd_oa s f w) = w_ta w"
  "w_ti (upd_oa s f w) = w_ti w"
  "w_sym (upd_oa s f w) = w_sym w"
  "w_cases (upd_oa s f w) = w_cases w"
  "w_next_case (upd_oa s f w) = w_next_case w"
  "w_inbox (upd_oa s f w) = w_inbox w"
  "w_gw (upd_oa s f w) = w_gw w"
  "w_calls (upd_oa s f w) = w_calls w"
  "w_redis (upd_oa s f w) = w_redis w"
  by (simp_all add: upd_oa_def)

lemma upd_ta_simps [simp, world_simps]:
  "w_heap (upd_ta s f w) = w_heap w"
  "w_next (upd_ta s f w) = w_next w"
  "w_oa (upd_ta s f w) = w_oa w"
  "w_ta (upd_ta s f w) = (w_ta w)(s := f (w_ta w s))"
  "w_ti (upd_ta s f w) = w_ti w"
  "w_sym (upd_ta s f w) = w_sym w"
  "w_cases (upd_ta s f w) = w_cases w"
  "w_next_case (upd_ta s f w) = w_next_case w"
  "w_inbox (upd_ta s f w) = w_inbox w"
  "w_gw (upd_ta s f w) = w_gw w"
  "w_calls (upd_ta s f w) = w_calls w"
  "w_redis (upd_ta s f w) = w_redis w"
  by (simp_all add: upd_ta_def)

lemma upd_ti_simps [simp, world_simps]:
  "w_heap (upd_ti f w) = w_heap w"
  "w_next (upd_ti f w) = w_next w"
  "w_oa (upd_ti f w) = w_oa w"
  "w_ta (upd_ti f w) = w_ta w"
  "w_ti (upd_ti f w) = f (w_ti w)"
  "w_sym (upd_ti f w) = w_sym w"
  "w_cases (upd_ti f w) = w_cases w"
  "w_next_case (upd_ti f w) = w_next_case w"
  "w_inbox (upd_ti f w) = w_inbox w"
  "w_gw (upd_ti f w) = w_gw w"
  "w_calls (upd_ti f w) = w_calls w"
  "w_redis (upd_ti f w) = w_redis w"
  by (simp_all add: upd_ti_def)

lemma upd_case_simps [simp, world_simps]:
  "w_heap (upd_case n f w) = w_heap w"
  "w_next (upd_case n f w) = w_next w"
  "w_oa (upd_case n f w) = w_oa w"
  "w_ta (upd_case n f w) = w_ta w"
  "w_ti (upd_case n f w) = w_ti w"
  "w_sym (upd_case n f w) = w_sym w"
  "w_cases (upd_case n f w) = (w_cases w)(n := map_option f (w_cases w n))"
  "w_next_case (upd_case n f w) = w_next_case w"
  "w_inbox (upd_case n f w) = w_inbox w"
  "w_gw (upd_case n f w) = w_gw w"
  "w_calls (upd_case n f w) = w_calls w"
  "w_redis (upd_case n f w) = w_redis w"
  by (simp_all add: upd_case_def)

lemma gw_call_simps [simp, world_simps]:
  "w_heap (gw_call w) = w_heap w"
  "w_next (gw_call w) = w_next w"
  "w_oa (gw_call w) = w_oa w"
  "w_ta (gw_call w) = w_ta w"
  "w_ti (gw_call w) = w_ti w"
  "w_sym (gw_call w) = w_sym w"
  "w_cases (gw_call w) = w_cases w"
  "w_next_case (gw_call w) = w_next_case w"
  "w_inbox (gw_call w) = w_inbox w"
  "w_gw (gw_call w) = w_gw w"
  "w_calls (gw_call w) = Suc (w_calls w)"
  "w_redis (gw_call w) = w_redis w"
  by (simp_all add: gw_call_def)

lemma redis_simps [simp, world_simps]:
  "w_heap (redis c w) = w_heap w"
  "w_next (redis c w) = w_next w"
  "w_oa (redis c w) = w_oa w"
  "w_ta (redis c w) = w_ta w"
  "w_ti (redis c w) = w_ti w"
  "w_sym (redis c w) = w_sym w"
  "w_cases (redis c w) = w_cases w"
  "w_next_case (redis c w) = w_next_case w"
  "w_inbox (redis c w) = w_inbox w"
  "w_gw (redis c w) = w_gw w"
  "w_calls (redis c w) = w_calls w"
  "w_redis (redis c w) = w_redis w @ [c]"
  by (simp_all add: redis_def)

end
