(* ===== verification/OrderAccounts.thy ===== *)
theory OrderAccounts
  imports World
begin

text \<open>
  The requests an order account sends to its gateway (\<open>src/src/akela/OrderAccount.cpp\<close>): limit
  orders, cancelations and changes, with the request identifiers and the hash of live orders.
\<close>

definition ORDER_ACCOUNT_MAXIMUM_LIMIT :: u32 where
  "ORDER_ACCOUNT_MAXIMUM_LIMIT = 30"

definition hash_emplace :: "OrderAccountType \<Rightarrow> u32 \<Rightarrow> ref \<Rightarrow> world \<Rightarrow> world" where
  "hash_emplace s oid r = upd_oa s (\<lambda>a. a\<lparr>oa_order_hash := um_emplace oid r (oa_order_hash a)\<rparr>)"

definition hash_erase :: "OrderAccountType \<Rightarrow> u32 \<Rightarrow> world \<Rightarrow> world" where
  "hash_erase s oid = upd_oa s (\<lambda>a. a\<lparr>oa_order_hash := um_erase oid (oa_order_hash a)\<rparr>)"

definition hash_find :: "OrderAccountType \<Rightarrow> u32 \<Rightarrow> world \<Rightarrow> ref option" where
  "hash_find s oid w = um_lookup (oa_order_hash (w_oa w s)) oid"

text \<open>\<open>++request_id_generator\<close>\<close>

definition next_id :: "OrderAccountType \<Rightarrow> world \<Rightarrow> u32" where
  "next_id s w = oa_request_id_generator (w_oa w s) + 1"

definition bump_id :: "OrderAccountType \<Rightarrow> world \<Rightarrow> world" where
  "bump_id s = upd_oa s (\<lambda>a. a\<lparr>oa_request_id_generator := oa_request_id_generator a + 1\<rparr>)"

definition limitBuy :: "OrderAccountType \<Rightarrow> ref \<Rightarrow> world \<Rightarrow> bool \<times> world" where
  "limitBuy s r w =
     (let q = w_heap w r in
      if ORDER_ACCOUNT_MAXIMUM_LIMIT < o_size q then (False, w)
      else if \<not> gw_set_limit (w_gw w) BS_BUY (o_price q) (o_size q) then (False, w)
      else
        let oid = next_id s w;
            w = bump_id s w;
            w = upd_heap r (\<lambda>q. q\<lparr>o_type := BS_BUY, o_request_id := oid, o_account_type := s\<rparr>) w;
            w = hash_emplace s oid r w
        in (gw_post (w_gw w) (w_calls w), gw_call w))"

definition sell_type :: "OrderAccountType \<Rightarrow> BuySell" where
  "sell_type s = (if s = ORDER_ACCOUNT_SHORT then BS_SELL_SHORT else BS_SELL)"

definition limitSell :: "OrderAccountType \<Rightarrow> ref \<Rightarrow> world \<Rightarrow> bool \<times> world" where
  "limitSell s r w =
     (let q = w_heap w r; bs = sell_type s in
      if ORDER_ACCOUNT_MAXIMUM_LIMIT < o_size q then (False, w)
      else if \<not> gw_set_limit (w_gw w) bs (o_price q) (o_size q) then (False, w)
      else
        let oid = next_id s w;
            w = bump_id s w;
            w = upd_heap r (\<lambda>q. q\<lparr>o_type := bs, o_request_id := oid, o_account_type := s\<rparr>) w;
            w = hash_emplace s oid r w
        in (gw_post (w_gw w) (w_calls w), gw_call w))"

definition oa_open :: "OrderAccountType \<Rightarrow> ref \<Rightarrow> world \<Rightarrow> bool \<times> world" where
  "oa_open s r w = (case s of
     ORDER_ACCOUNT_LONG \<Rightarrow> limitBuy s r w | ORDER_ACCOUNT_SHORT \<Rightarrow> limitSell s r w)"

definition oa_close :: "OrderAccountType \<Rightarrow> ref \<Rightarrow> world \<Rightarrow> bool \<times> world" where
  "oa_close s r w = (case s of
     ORDER_ACCOUNT_LONG \<Rightarrow> limitSell s r w | ORDER_ACCOUNT_SHORT \<Rightarrow> limitBuy s r w)"

text \<open>An order that is done, cancelled or filled is neither cancelled nor changed.\<close>

definition already_over :: "PositionRequest \<Rightarrow> bool" where
  "already_over q \<longleftrightarrow> g_condition (o_order q) = ORDER_COND_DONE \<or>
     g_condition (o_order q) = ORDER_COND_CANCELED \<or> o_stage q = STAGE_FILLED"

definition oa_cancel :: "ref \<Rightarrow> world \<Rightarrow> bool \<times> world" where
  "oa_cancel r w =
     (if already_over (w_heap w r) then (False, w)
      else (gw_cancel (w_gw w) (w_calls w), gw_call w))"

definition oa_change :: "OrderAccountType \<Rightarrow> ref \<Rightarrow> ref \<Rightarrow> world \<Rightarrow> bool \<times> world" where
  "oa_change s r r' w =
     (let q = w_heap w r; q' = w_heap w r' in
      if ORDER_ACCOUNT_MAXIMUM_LIMIT < o_size q' then (False, w)
      else if \<not> gw_set_limit (w_gw w) (o_type q) (o_price q') (o_size q') then (False, w)
      else if already_over q then (False, w)
      else
        let oid = next_id s w;
            w = bump_id s w;
            w = upd_heap r' (\<lambda>q. q\<lparr>o_request_id := oid\<rparr>) w;
            w = hash_emplace s oid r' w
        in if gw_change (w_gw w) (w_calls w) then (True, gw_call w)
           else (False, hash_erase s oid (gw_call w)))"

definition getStatus :: "world \<Rightarrow> bool \<times> world" where
  "getStatus w = (gw_status (w_gw w) (w_calls w), gw_call w)"

end
