(* ===== verification/Fills.thy ===== *)
theory Fills
  imports OrderAccounts
begin

text \<open>
  What the messages of the gateway do: the fill handlers of the long and the short trade account
  (\<open>src/src/trade/LongTradeAccount.cpp\<close>, \<open>ShortTradeAccount.cpp\<close>), the callbacks of
  \<open>AbstractTradeAccount.cpp\<close>, the closures of a trade case, and the dispatch of
  \<open>OrderAccount::OnOrder\<close>, \<open>OnOrderCancel\<close>, \<open>OnOrderChange\<close> and \<open>OnFill\<close>.
\<close>

section \<open>Fills\<close>

definition setSpread :: "OrderAccountType \<Rightarrow> double \<Rightarrow> world \<Rightarrow> world" where
  "setSpread s v = upd_ta s (\<lambda>a. a\<lparr>a_spread := v\<rparr>)"

definition calculateSpread :: "OrderAccountType \<Rightarrow> double \<Rightarrow> u32 \<Rightarrow> bool \<Rightarrow> world \<Rightarrow> world" where
  "calculateSpread s fill_price fill_size open_close w =
     (let a = w_ta w s; other = other_account s;
          equality = a_total (w_ta w other);
          disparity = \<bar>a_total a - equality\<bar>;
          shift = ddiv (dmul (dsub fill_price (a_average a)) (dbl_of_int disparity)) (dbl_of_int equality)
      in if a_total a < equality \<and> equality \<le> a_total a + uint fill_size \<and> open_close then
           let v = dabs (dsub (dadd (a_average a) shift) (getAverage other w))
           in setSpread other v (setSpread s v w)
         else if equality < a_total a \<and> a_total a - uint fill_size \<le> equality \<and> \<not> open_close then
           let v = dabs (dsub (dsub (a_average a) shift) (getAverage other w))
           in setSpread other v (setSpread s v w)
         else w)"

definition inc_tranch :: "OrderAccountType \<Rightarrow> world \<Rightarrow> world" where
  "inc_tranch s = upd_ta s (\<lambda>a. a\<lparr>a_tranch_counter := a_tranch_counter a + 1\<rparr>)"

definition dec_tranch :: "OrderAccountType \<Rightarrow> world \<Rightarrow> world" where
  "dec_tranch s = upd_ta s (\<lambda>a. a\<lparr>a_tranch_counter := a_tranch_counter a - 1\<rparr>)"

definition onOpenFill_base :: "OrderAccountType \<Rightarrow> ref \<Rightarrow> double \<Rightarrow> u32 \<Rightarrow> world \<Rightarrow> world" where
  "onOpenFill_base s r price sz w =
     upd_ta s (\<lambda>a. a\<lparr>a_position_table :=
       recordOpenPosition (o_request_id (w_heap w r)) sz price (a_position_table a),
       a_last_open_price := price\<rparr>) w"

definition onCloseFill_base :: "OrderAccountType \<Rightarrow> ref \<Rightarrow> double \<Rightarrow> u32 \<Rightarrow> world \<Rightarrow> world" where
  "onCloseFill_base s r price sz w =
     upd_ta s (\<lambda>a. a\<lparr>a_position_table :=
       recordClosePosition (o_request_id (w_heap w r)) sz price (a_position_table a),
       a_last_close_price := price\<rparr>) w"

text \<open>The running average of an account; \<open>towards\<close> is the difference the handler weighs.\<close>

definition new_average :: "double \<Rightarrow> u32 \<Rightarrow> TradeAccount \<Rightarrow> double" where
  "new_average towards sz a =
     (if a_total a \<noteq> 0
      then dadd (a_average a) (ddiv (dmul towards (dbl_of_u32 sz)) (dbl_of_int (a_total a)))
      else Fin 0)"

definition add_fill :: "ref \<Rightarrow> u32 \<Rightarrow> world \<Rightarrow> world" where
  "add_fill r sz = upd_heap r (\<lambda>q. q\<lparr>o_fill_size := o_fill_size q + sz\<rparr>)"

definition onOpenFill_long :: "ref \<Rightarrow> double \<Rightarrow> u32 \<Rightarrow> world \<Rightarrow> world" where
  "onOpenFill_long r price sz w =
     (let s = ORDER_ACCOUNT_LONG;
          w = add_fill r sz w;
          w = calculateSpread s price sz True w;
          w = upd_ta s (\<lambda>a. a\<lparr>a_total := a_total a + uint sz, a_last_open_price := price\<rparr>) w;
          w = upd_ta s (\<lambda>a. a\<lparr>a_average := new_average (dsub price (a_average a)) sz a\<rparr>) w
      in onOpenFill_base s r price sz w)"

definition onOpenFill_short :: "ref \<Rightarrow> double \<Rightarrow> u32 \<Rightarrow> world \<Rightarrow> world" where
  "onOpenFill_short r price sz w =
     (let s = ORDER_ACCOUNT_SHORT;
          w = calculateSpread s price sz True w;
          w = upd_ta s (\<lambda>a. a\<lparr>a_total := a_total a + uint sz, a_last_open_price := price\<rparr>) w;
          w = add_fill r sz w;
          w = (if getPosition ORDER_ACCOUNT_LONG w \<le> getPosition s w
               then upd_ta s (\<lambda>a. a\<lparr>a_pif := price\<rparr>) w else w);
          w = upd_ta s (\<lambda>a. a\<lparr>a_average := new_average (dsub price (a_average a)) sz a\<rparr>) w
      in onOpenFill_base s r price sz w)"

text \<open>The close handlers of both accounts are the same code.\<close>

definition onCloseFill :: "OrderAccountType \<Rightarrow> ref \<Rightarrow> double \<Rightarrow> u32 \<Rightarrow> world \<Rightarrow> world res" where
  "onCloseFill s r price sz w =
     (let w = add_fill r sz w; a = w_ta w s in
      if a_max_pos a = 0 then Inl DivByZero
      else
        let before_close = trunc_div (a_total a) (uint (a_max_pos a));
            after_close = trunc_div (a_total a - uint sz) (uint (a_max_pos a));
            w = upd_ta s (\<lambda>a. a\<lparr>a_total := a_total a - uint sz\<rparr>) w;
            w = (if after_close < before_close then dec_tranch s w else w);
            w = upd_ta s (\<lambda>a. a\<lparr>a_average := new_average (dsub (a_average a) price) sz a\<rparr>) w
        in Inr (onCloseFill_base s r price sz w))"

definition run_fill :: "fill_callback \<Rightarrow> ref \<Rightarrow> double \<Rightarrow> u32 \<Rightarrow> world \<Rightarrow> world res" where
  "run_fill f r price sz w = (case f of
     FILL_OPEN ORDER_ACCOUNT_LONG \<Rightarrow> Inr (onOpenFill_long r price sz w)
   | FILL_OPEN ORDER_ACCOUNT_SHORT \<Rightarrow> Inr (onOpenFill_short r price sz w)
   | FILL_CLOSE s \<Rightarrow> onCloseFill s r price sz w)"

section \<open>Closures of a trade case\<close>

definition push_pending :: "OrderAccountType \<Rightarrow> PositionRequest \<Rightarrow> world \<Rightarrow> world" where
  "push_pending s q = upd_ta s (\<lambda>a. a\<lparr>a_pending_orders := a_pending_orders a @ [q]\<rparr>)"

definition closePending :: "OrderAccountType \<Rightarrow> double \<Rightarrow> u32 \<Rightarrow> trade_done \<Rightarrow> world \<Rightarrow> world" where
  "closePending s price sz td =
     push_pending s ((new_PositionRequest sz price)
       \<lparr>p_type := REQ_CLOSE, p_is_trade_done_define := True, p_trade_done := td\<rparr>)"

text \<open>The source gives the request of \<open>openPending\<close> the type of a close request.\<close>

definition openPending :: "OrderAccountType \<Rightarrow> double \<Rightarrow> u32 \<Rightarrow> trade_done \<Rightarrow> world \<Rightarrow> world" where
  "openPending s price sz td =
     push_pending s ((new_PositionRequest sz price)
       \<lparr>p_type := REQ_CLOSE, p_is_trade_done_define := True, p_trade_done := td\<rparr>)"

definition estimation_error :: "TradeInstance \<Rightarrow> double" where
  "estimation_error ti =
     dmul (dmax (dabs (dsub (bar_open (i_bar0 ti)) (i_price_estimate ti))) (i_mpv_value ti))
          (dbl_of_u32 (i_mpv_multiplier ti))"

definition on_requote_order_done :: "nat \<Rightarrow> world \<Rightarrow> world res" where
  "on_requote_order_done n w =
     rbind (this_case n w) (\<lambda>c.
     rbind (rget NullDeref (c_current_acc c)) (\<lambda>cur.
     rbind (rget NullDeref (c_opposite_acc c)) (\<lambda>opp.
     Inr (if getPosition cur w = getPosition opp w
          then upd_case n (\<lambda>c. c\<lparr>c_requote_order_flag := True\<rparr>) w else w))))"

definition on_trade_send_close :: "nat \<Rightarrow> double \<Rightarrow> u32 \<Rightarrow> world \<Rightarrow> world res" where
  "on_trade_send_close n price sz w =
     rbind (this_case n w) (\<lambda>c.
     rbind (rget NullDeref (c_current_acc c)) (\<lambda>cur.
     rbind (rget NullDeref (c_opposite_acc c)) (\<lambda>opp.
     Inr (if getPosition opp w < getPosition cur w
          then closePending cur
                 (dadd price (dmul (estimation_error (w_ti w)) (dbl_of_int (c_sign c))))
                 (sz * i_divisor (w_ti w)) (TD_requote_done n) w
          else w))))"

definition run_trade_done :: "trade_done \<Rightarrow> double \<Rightarrow> u32 \<Rightarrow> world \<Rightarrow> world res" where
  "run_trade_done td price sz w = (case td of
     TD_none \<Rightarrow> Inl BadFunctionCall
   | TD_requote_done n \<Rightarrow> on_requote_order_done n w
   | TD_trade_send_close n \<Rightarrow> on_trade_send_close n price sz w)"

section \<open>Callbacks of a trade account\<close>

definition orders_erase :: "OrderAccountType \<Rightarrow> u32 \<Rightarrow> world \<Rightarrow> world" where
  "orders_erase s oid = upd_ta s (\<lambda>a. a\<lparr>a_orders := om_erase oid (a_orders a)\<rparr>)"

definition orders_emplace :: "OrderAccountType \<Rightarrow> u32 \<Rightarrow> ref \<Rightarrow> world \<Rightarrow> world" where
  "orders_emplace s oid r = upd_ta s (\<lambda>a. a\<lparr>a_orders := om_emplace oid r (a_orders a)\<rparr>)"

definition orders_find :: "OrderAccountType \<Rightarrow> u32 \<Rightarrow> world \<Rightarrow> ref option" where
  "orders_find s oid w = om_lookup (a_orders (w_ta w s)) oid"

text \<open>
  Whether an order counts as open or close in the live totals: by the type of the account it was
  sent from and whether it buys or sells (\<open>None\<close> for an order without a type).
\<close>

definition counts_as_close :: "OrderAccountType \<Rightarrow> BuySell \<Rightarrow> bool option" where
  "counts_as_close acc bs = (case bs of
     BS_NONE \<Rightarrow> None
   | BS_BUY \<Rightarrow> Some (acc \<noteq> ORDER_ACCOUNT_LONG)
   | _ \<Rightarrow> Some (acc = ORDER_ACCOUNT_LONG))"

definition add_live :: "OrderAccountType \<Rightarrow> bool option \<Rightarrow> int \<Rightarrow> world \<Rightarrow> world" where
  "add_live s k d = (case k of
     None \<Rightarrow> (\<lambda>w. w)
   | Some True \<Rightarrow> upd_ta s (\<lambda>a. a\<lparr>a_totalclose := a_totalclose a + d\<rparr>)
   | Some False \<Rightarrow> upd_ta s (\<lambda>a. a\<lparr>a_totalopen := a_totalopen a + d\<rparr>))"

definition onNewOrderAcknowledgement :: "OrderAccountType \<Rightarrow> ref \<Rightarrow> bool \<Rightarrow> world \<Rightarrow> world" where
  "onNewOrderAcknowledgement s r is_success w = w"

definition onOrderDone :: "OrderAccountType \<Rightarrow> ref \<Rightarrow> world \<Rightarrow> world res" where
  "onOrderDone s r w =
     (let q = w_heap w r in
      rbind (if p_is_trade_done_define q then run_trade_done (p_trade_done q) (o_price q) (o_size q) w
             else Inr w) (\<lambda>w.
      let w = upd_ta s (\<lambda>a. a\<lparr>a_totalExecuted := a_totalExecuted a + uint (o_size q)\<rparr>) w;
          w = add_live s (counts_as_close (o_account_type q) (o_type q)) (- uint (o_size q)) w;
          w = redis (RedisOrderExecTime s (o_request_id q)) w
      in Inr (orders_erase s (o_request_id q) w)))"

definition onOrderCancel :: "OrderAccountType \<Rightarrow> ref \<Rightarrow> bool \<Rightarrow> world \<Rightarrow> world" where
  "onOrderCancel s r is_cancel =
     upd_heap r (\<lambda>q. q\<lparr>o_cancel_stage := (if is_cancel then CANCEL_DONE else CANCEL_FAIL)\<rparr>)"

definition onOrderChange :: "OrderAccountType \<Rightarrow> ref \<Rightarrow> bool \<Rightarrow> world \<Rightarrow> world" where
  "onOrderChange s r is_changed w =
     (if is_changed then orders_erase s (o_request_id (w_heap w r)) w else w)"

section \<open>Messages of the gateway\<close>

definition OnOrder_failed :: "OrderAccountType \<Rightarrow> ref \<Rightarrow> world \<Rightarrow> world" where
  "OnOrder_failed s r w =
     (let w = (case o_onAcknowledgement (w_heap w r) of
          Some t \<Rightarrow> onNewOrderAcknowledgement t r False
            (upd_heap r (\<lambda>q. q\<lparr>o_stage := STAGE_FAILED, o_is_acknowledged := False\<rparr>) w)
        | None \<Rightarrow> w)
      in hash_erase s (o_request_id (w_heap w r)) w)"

definition OnOrder :: "OrderAccountType \<Rightarrow> u32 \<Rightarrow> Order \<Rightarrow> world \<Rightarrow> world res" where
  "OnOrder s oid ord w =
     (case hash_find s oid w of
        None \<Rightarrow> Inr w
      | Some r \<Rightarrow>
          let w = upd_heap r (\<lambda>q. q\<lparr>o_order := ord\<rparr>) w; q = w_heap w r in
          (case g_condition ord of
             ORDER_COND_PENDING_NEW \<Rightarrow> Inr w
           | ORDER_COND_NEW \<Rightarrow>
               (case o_onAcknowledgement q of
                  Some t \<Rightarrow> Inr (onNewOrderAcknowledgement t r True
                    (upd_heap r (\<lambda>q. q\<lparr>o_stage := STAGE_ACKNOWLEDGED, o_is_acknowledged := True\<rparr>) w))
                | None \<Rightarrow> Inr w)
           | ORDER_COND_PARTIAL \<Rightarrow> Inr w
           | ORDER_COND_DONE \<Rightarrow>
               rbind (case o_onOrderDone q of
                  Some t \<Rightarrow> onOrderDone t r (upd_heap r (\<lambda>q. q\<lparr>o_stage := STAGE_DONE\<rparr>) w)
                | None \<Rightarrow> Inr w) (\<lambda>w.
               Inr (hash_erase s (o_request_id (w_heap w r)) w))
           | ORDER_COND_CANCELED \<Rightarrow>
               let w = (case o_onOrderCancel q of
                  Some t \<Rightarrow> onOrderCancel t r True
                    (upd_heap r (\<lambda>q. q\<lparr>o_stage := STAGE_CANCELLED, o_cancel_stage := CANCEL_DONE\<rparr>) w)
                | None \<Rightarrow> w)
               in Inr (hash_erase s (o_request_id (w_heap w r)) w)
           | ORDER_COND_CANCEL_REJECTED \<Rightarrow> Inr (case o_onOrderCancel q of
                  Some t \<Rightarrow> onOrderCancel t r False (upd_heap r (\<lambda>q. q\<lparr>o_cancel_stage := CANCEL_FAIL\<rparr>) w)
                | None \<Rightarrow> w)
           | ORDER_COND_TOO_LATE_TO_CANCEL \<Rightarrow> Inr (case o_onOrderCancel q of
                  Some t \<Rightarrow> onOrderCancel t r False (upd_heap r (\<lambda>q. q\<lparr>o_cancel_stage := CANCEL_FAIL\<rparr>) w)
                | None \<Rightarrow> w)
           | ORDER_COND_PENDING_CHANGE \<Rightarrow> Inr w
           | ORDER_COND_CHANGED \<Rightarrow>
               let w = (case o_onOrderChange q of Some t \<Rightarrow> onOrderChange t r True w | None \<Rightarrow> w)
               in Inr (hash_erase s oid w)
           | ORDER_COND_CHANGE_REJECTED \<Rightarrow>
               Inr (case o_onOrderChange q of Some t \<Rightarrow> onOrderChange t r False w | None \<Rightarrow> w)
           | ORDER_COND_GATEWAY_THROTTLE \<Rightarrow> Inr (gw_call w)
           | _ \<Rightarrow> Inr (OnOrder_failed s r w)))"

definition OnOrderCancel :: "OrderAccountType \<Rightarrow> u32 \<Rightarrow> world \<Rightarrow> world" where
  "OnOrderCancel s oid w = (case hash_find s oid w of
     None \<Rightarrow> w
   | Some r \<Rightarrow> upd_heap r (\<lambda>q. q\<lparr>o_stage := STAGE_CANCELLED\<rparr>) w)"

definition OnOrderChange :: "OrderAccountType \<Rightarrow> u32 \<Rightarrow> OrderCondition \<Rightarrow> world \<Rightarrow> world" where
  "OnOrderChange s oid cond w = (case hash_find s oid w of
     None \<Rightarrow> w
   | Some r \<Rightarrow>
       if cond = ORDER_COND_ORDER_UNKNOWN then upd_heap r (\<lambda>q. q\<lparr>o_stage := STAGE_FAILED\<rparr>) w else w)"

definition OnFill :: "OrderAccountType \<Rightarrow> u32 \<Rightarrow> double \<Rightarrow> u32 \<Rightarrow> u32 \<Rightarrow> world \<Rightarrow> world res" where
  "OnFill s oid price sz open_size w = (case hash_find s oid w of
     None \<Rightarrow> Inr w
   | Some r \<Rightarrow>
       let w = (if open_size = 0 then upd_heap r (\<lambda>q. q\<lparr>o_stage := STAGE_FILLED\<rparr>) w else w) in
       (case o_onFill (w_heap w r) of None \<Rightarrow> Inr w | Some f \<Rightarrow> run_fill f r price sz w))"

definition deliver :: "event \<Rightarrow> world \<Rightarrow> world res" where
  "deliver e w = (case e of
     EvOrder s oid ord \<Rightarrow> OnOrder s oid ord w
   | EvOrderCancel s oid \<Rightarrow> Inr (OnOrderCancel s oid w)
   | EvOrderChange s oid cond \<Rightarrow> Inr (OnOrderChange s oid cond w)
   | EvFill s oid price sz open_size \<Rightarrow> OnFill s oid price sz open_size w)"

end
