(* ===== verification/Utils.thy ===== *)
theory Utils
  imports Binary64
begin

text \<open>
  The rounding helpers of \<open>src/src/utils/utils.h\<close>. \<open>pow(10, digits)\<close> of the C library is taken
  to be correctly rounded; the conversions to integers are undefined out of range.
\<close>

definition pow10 :: "u32 \<Rightarrow> double" where
  "pow10 digits = round64 (10 ^ unat digits)"

definition truncate :: "double \<Rightarrow> u32 \<Rightarrow> double res" where
  "truncate number digits =
     rbind (dbl_to_i32 (dmul number (pow10 digits))) (\<lambda>n.
     Inr (ddiv (dbl_of_int n) (pow10 digits)))"

definition dceil :: "double \<Rightarrow> u32 \<Rightarrow> double res" where
  "dceil number digits =
     (let factor = pow10 digits; d = dmul number factor in
      rbind (dbl_to_u32 d) (\<lambda>n.
      let n = (if dlt (Fin 0) (dsub d (dbl_of_u32 n)) then n + 1 else n)
      in Inr (ddiv (dbl_of_u32 n) factor)))"

definition dfloor :: "double \<Rightarrow> u32 \<Rightarrow> double res" where
  "dfloor number digits =
     (let factor = pow10 digits in
      rbind (dbl_to_u32 (dmul number factor)) (\<lambda>n. Inr (ddiv (dbl_of_u32 n) factor)))"

end
