(* ===== verification/TradeAccounts.thy ===== *)
theory TradeAccounts
  imports Fills Utils
begin

text \<open>
  The operations of a trade account (\<open>src/src/trade/AbstractTradeAccount.h\<close> and \<open>.cpp\<close>): new orders,
  changes and cancelations with the waits for their acknowledgement, the queue of pending orders, and
  the accessors the trade cases use.

  A wait delivers the messages of the inbox one at a time until its condition holds; it is blocked
  when the inbox runs out. A condition that looks through a reference to an element of \<open>orders\<close>
  is itself a result: the reference dangles once a message has erased the element.
\<close>

definition MAXIMUM_ORDER_LIMIT :: u32 where
  "MAXIMUM_ORDER_LIMIT = 5000"

section \<open>Waiting\<close>

fun wait_until :: "(world \<Rightarrow> bool res) \<Rightarrow> event list \<Rightarrow> world \<Rightarrow> world res" where
  "wait_until P [] w = rbind (P w) (\<lambda>b. if b then Inr w else Inl Blocked)"
| "wait_until P (e # es) w =
     rbind (P w) (\<lambda>b. if b then Inr w
       else rbind (deliver e (w\<lparr>w_inbox := es\<rparr>)) (\<lambda>w. wait_until P es w))"

definition wait_for :: "(world \<Rightarrow> bool res) \<Rightarrow> world \<Rightarrow> world res" where
  "wait_for P w = wait_until P (w_inbox w) w"

definition waitAcknowledgement :: "OrderAccountType \<Rightarrow> ref \<Rightarrow> world \<Rightarrow> (bool \<times> world) res" where
  "waitAcknowledgement s r w =
     rbind (wait_for (\<lambda>w. Inr (isAcknowledged (w_heap w r))) w) (\<lambda>w.
     if \<not> o_is_acknowledged (w_heap w r) then Inr (False, w)
     else Inr (True, orders_emplace s (o_request_id (w_heap w r)) r w))"

text \<open>The wait for a change is the same code.\<close>

definition waitChangeAcknowledgement ::
    "OrderAccountType \<Rightarrow> ref \<Rightarrow> world \<Rightarrow> (bool \<times> world) res" where
  "waitChangeAcknowledgement s r w =
     rbind (wait_for (\<lambda>w. Inr (isAcknowledged (w_heap w r))) w) (\<lambda>w.
     if \<not> o_is_acknowledged (w_heap w r) then Inr (False, w)
     else Inr (True, orders_emplace s (o_request_id (w_heap w r)) r w))"

definition cancel_answered :: "OrderAccountType \<Rightarrow> u32 \<Rightarrow> ref \<Rightarrow> world \<Rightarrow> bool res" where
  "cancel_answered s oid r w = (case orders_find s oid w of
     None \<Rightarrow> Inl DanglingRef
   | Some _ \<Rightarrow> Inr (o_cancel_stage (w_heap w r) = CANCEL_DONE \<or> o_cancel_stage (w_heap w r) = CANCEL_FAIL))"

definition waitCancelAcknowledgement ::
    "OrderAccountType \<Rightarrow> u32 \<Rightarrow> ref \<Rightarrow> world \<Rightarrow> (bool \<times> world) res" where
  "waitCancelAcknowledgement s oid r w =
     rbind (wait_for (cancel_answered s oid r) w) (\<lambda>w.
     let q = w_heap w r in
     if o_cancel_stage q = CANCEL_FAIL then
       Inr (False, upd_heap r (\<lambda>q. q\<lparr>o_cancel_stage := CANCEL_NONE\<rparr>) w)
     else
       Inr (True, add_live s (counts_as_close (o_account_type q) (o_type q))
                    (- uint (g_openSize (o_order q))) w))"

section \<open>New orders\<close>

definition valid_request :: "double \<Rightarrow> u32 \<Rightarrow> bool" where
  "valid_request price sz \<longleftrightarrow> \<not> (dle price (Fin 0) \<or> MAXIMUM_ORDER_LIMIT < sz)"

text \<open>What the overloads of \<open>open\<close> and \<open>close\<close> have in common, from the allocated request on.\<close>

definition send_new :: "OrderAccountType \<Rightarrow> bool \<Rightarrow> PositionRequest \<Rightarrow> world \<Rightarrow> (u32 \<times> world) res" where
  "send_new s is_open q w =
     (let (r, w) = alloc q w;
          (sent, w) = (if is_open then oa_open s r w else oa_close s r w)
      in if \<not> sent then Inr (0, w)
         else rbind (waitAcknowledgement s r w) (\<lambda>(acknowledged, w).
           if \<not> acknowledged then Inr (0, w)
           else
             let w = (if is_open then upd_ta s (\<lambda>a. a\<lparr>a_totalopen := a_totalopen a + uint (o_size q)\<rparr>) w
                      else upd_ta s (\<lambda>a. a\<lparr>a_totalclose := a_totalclose a + uint (o_size q)\<rparr>) w);
                 q' = w_heap w r;
                 w = redis (RedisOrderInfo s (o_request_id q') (o_size q') (o_price q') (o_type q')) w
             in Inr (o_request_id q', w)))"

definition with_divisor :: "OrderAccountType \<Rightarrow> u32 \<Rightarrow> world \<Rightarrow> (u32 \<Rightarrow> 'a res) \<Rightarrow> 'a res" where
  "with_divisor s sz w f =
     (if a_divisor (w_ta w s) = 0 then Inl DivByZero else f (sz div a_divisor (w_ta w s)))"

definition open_mmf :: "OrderAccountType \<Rightarrow> double \<Rightarrow> u32 \<Rightarrow> bool \<Rightarrow> world \<Rightarrow> (u32 \<times> world) res" where
  "open_mmf s price sz send_mmf w =
     with_divisor s sz w (\<lambda>sz.
     if \<not> valid_request price sz then Inr (0, w)
     else send_new s True ((new_PositionRequest sz price)
       \<lparr>p_send_mmf_on_fills := send_mmf, p_is_trade_done_define := False,
        o_onAcknowledgement := Some s, o_onOrderDone := Some s, o_onFill := Some (FILL_OPEN s)\<rparr>) w)"

definition open_done :: "OrderAccountType \<Rightarrow> double \<Rightarrow> u32 \<Rightarrow> trade_done \<Rightarrow> world \<Rightarrow> (u32 \<times> world) res" where
  "open_done s price sz td w =
     with_divisor s sz w (\<lambda>sz.
     if \<not> valid_request price sz then Inr (0, w)
     else send_new s True ((new_PositionRequest sz price)
       \<lparr>p_trade_done := td, p_send_mmf_on_fills := False,
        o_onAcknowledgement := Some s, o_onOrderDone := Some s, o_onFill := Some (FILL_OPEN s)\<rparr>) w)"

definition close_fco :: "OrderAccountType \<Rightarrow> double \<Rightarrow> u32 \<Rightarrow> bool \<Rightarrow> world \<Rightarrow> (u32 \<times> world) res" where
  "close_fco s price sz is_fco w =
     with_divisor s sz w (\<lambda>sz.
     if \<not> valid_request price sz then Inr (0, w)
     else send_new s False ((new_PositionRequest sz price)
       \<lparr>p_is_mmf := False, p_open_order := None, p_is_fco := is_fco, p_is_trade_done_define := False,
        o_onAcknowledgement := Some s, o_onOrderDone := Some s, o_onFill := Some (FILL_CLOSE s)\<rparr>) w)"

definition close_done :: "OrderAccountType \<Rightarrow> double \<Rightarrow> u32 \<Rightarrow> trade_done \<Rightarrow> world \<Rightarrow> (u32 \<times> world) res" where
  "close_done s price sz td w =
     with_divisor s sz w (\<lambda>sz.
     if \<not> valid_request price sz then Inr (0, w)
     else send_new s False ((new_PositionRequest sz price)
       \<lparr>p_is_mmf := False, p_open_order := None, p_is_fco := False, p_is_trade_done_define := True,
        p_trade_done := td,
        o_onAcknowledgement := Some s, o_onOrderDone := Some s, o_onFill := Some (FILL_CLOSE s)\<rparr>) w)"

definition mmfPrice :: "OrderAccountType \<Rightarrow> world \<Rightarrow> double res" where
  "mmfPrice s w =
     (let a = w_ta w s in case s of
        ORDER_ACCOUNT_LONG \<Rightarrow> rbind (truncate (a_average a) 2) (\<lambda>p. Inr (dadd p (a_mmf_mpv a)))
      | ORDER_ACCOUNT_SHORT \<Rightarrow> rbind (dceil (a_average a) 2) (\<lambda>p. Inr (dsub p (a_mmf_mpv a))))"

text \<open>This overload does not divide the size, and leaves the empty \<open>trade_done_function\<close> defined.\<close>

definition close_mmf ::
    "OrderAccountType \<Rightarrow> double \<Rightarrow> u32 \<Rightarrow> ref option \<Rightarrow> world \<Rightarrow> (u32 \<times> world) res" where
  "close_mmf s price sz open_order w =
     (if \<not> valid_request price sz then Inr (0, w)
      else rbind (mmfPrice s w) (\<lambda>p.
        send_new s False ((new_PositionRequest sz price)
          \<lparr>o_price := p, p_is_mmf := True, p_open_order := open_order,
           o_onAcknowledgement := Some s, o_onOrderDone := Some s, o_onFill := Some (FILL_CLOSE s)\<rparr>) w))"

section \<open>Changing an order\<close>

text \<open>The adjustment of the live totals, with the source's operator precedence.\<close>

definition change_totals ::
    "OrderAccountType \<Rightarrow> BuySell \<Rightarrow> u32 \<Rightarrow> BuySell \<Rightarrow> u32 \<Rightarrow> TradeAccount \<Rightarrow> TradeAccount" where
  "change_totals acc ctype csize otype osize a =
     (let cl = (\<lambda>d a. a\<lparr>a_totalclose := a_totalclose a + d\<rparr>);
          op = (\<lambda>d a. a\<lparr>a_totalopen := a_totalopen a + d\<rparr>);
          c = uint csize; old = - uint osize
      in if acc = ORDER_ACCOUNT_LONG then
           if ctype = BS_SELL_SHORT \<or> ctype = BS_SELL \<and> otype = BS_SELL then cl c (cl old a)
           else if ctype = BS_BUY \<and> otype = BS_SELL then op c (cl old a)
           else if ctype = BS_SELL_SHORT \<or> ctype = BS_SELL \<and> otype = BS_BUY then cl c (op old a)
           else if ctype = BS_BUY \<and> otype = BS_BUY then op c (op old a)
           else a
         else
           if ctype = BS_SELL_SHORT \<or> ctype = BS_SELL \<and> otype = BS_SELL then op c (op old a)
           else if ctype = BS_BUY \<and> otype = BS_SELL then cl c (op old a)
           else if ctype = BS_SELL_SHORT \<or> ctype = BS_SELL \<and> otype = BS_BUY then op c (cl old a)
           else if ctype = BS_BUY \<and> otype = BS_BUY then cl c (cl old a)
           else a)"

definition change :: "OrderAccountType \<Rightarrow> u32 \<Rightarrow> double \<Rightarrow> u32 \<Rightarrow> world \<Rightarrow> (u32 \<times> world) res" where
  "change s request_id new_price new_size w =
     with_divisor s new_size w (\<lambda>original_size.
     case orders_find s request_id w of
       None \<Rightarrow> Inr (0, w)
     | Some r \<Rightarrow>
         let (r', w) = alloc (changed_PositionRequest (w_heap w r) new_price original_size) w;
             w = upd_heap r (\<lambda>q. q\<lparr>o_onOrderChange := Some s\<rparr>) w;
             (sent, w) = oa_change s r r' w
         in if \<not> sent then Inr (request_id, w)
            else rbind (waitChangeAcknowledgement s r' w) (\<lambda>(acknowledged, w).
              if \<not> acknowledged then Inr (request_id, w)
              else
                let w = redis (RedisOrderChangeTime s request_id) w;
                    c = w_heap w r'; q = w_heap w r;
                    w = (if 0 < new_size
                         then upd_ta s (change_totals (o_account_type c) (o_type c) (o_size c)
                                          (o_type q) (o_size q)) w
                         else w)
                in Inr (o_request_id c, w)))"

section \<open>Canceling orders\<close>

definition cancel :: "OrderAccountType \<Rightarrow> u32 \<Rightarrow> world \<Rightarrow> (bool \<times> world) res" where
  "cancel s request_id w = (case orders_find s request_id w of
     None \<Rightarrow> Inr (False, w)
   | Some r \<Rightarrow>
       let q = w_heap w r in
       if \<not> canCancel q then Inr (False, orders_erase s (o_request_id q) w)
       else
         let w = upd_heap r (\<lambda>q. q\<lparr>o_onOrderCancel := Some s, o_cancel_stage := CANCEL_INIT\<rparr>) w;
             (sent, w) = oa_cancel r w
         in if \<not> sent then Inr (False, w)
            else rbind (waitCancelAcknowledgement s request_id r w) (\<lambda>(cancelled, w).
              Inr (cancelled, if cancelled then redis (RedisOrderCancelTime s request_id) w else w)))"

text \<open>
  The loop of \<open>cancelAll\<close> visits the orders in the order of the map; nothing is inserted meanwhile,
  and an element that a message erases ahead of the iterator is not visited. Advancing the iterator
  from an element that is gone is undefined.
\<close>

fun cancel_loop :: "OrderAccountType \<Rightarrow> u32 list \<Rightarrow> world \<Rightarrow> world res" where
  "cancel_loop s [] w = Inr w"
| "cancel_loop s (k # ks) w =
     (case orders_find s k w of
        None \<Rightarrow> cancel_loop s ks w
      | Some r \<Rightarrow>
          if canCancel (w_heap w r)
          then rbind (cancel s (o_request_id (w_heap w r)) w) (\<lambda>(_, w).
            if orders_find s k w = None then Inl DanglingRef else cancel_loop s ks w)
          else cancel_loop s ks w)"

definition cancelAll :: "OrderAccountType \<Rightarrow> world \<Rightarrow> world res" where
  "cancelAll s w =
     (let w = upd_ta s (\<lambda>a. a\<lparr>a_pending_orders := []\<rparr>) w in
      rbind (cancel_loop s (om_keys (a_orders (w_ta w s))) w) (\<lambda>w.
      Inr (upd_ta s (\<lambda>a. a\<lparr>a_orders :=
             filter (\<lambda>(k, r). o_cancel_stage (w_heap w r) \<noteq> CANCEL_DONE) (a_orders a)\<rparr>) w)))"

definition checkOrderStatus :: "OrderAccountType \<Rightarrow> u32 \<Rightarrow> world \<Rightarrow> bool \<times> world" where
  "checkOrderStatus s order_id w =
     (case orders_find s order_id w of None \<Rightarrow> (False, w) | Some _ \<Rightarrow> getStatus w)"

section \<open>Pending orders\<close>

definition pop_pending :: "OrderAccountType \<Rightarrow> world \<Rightarrow> world" where
  "pop_pending s = upd_ta s (\<lambda>a. a\<lparr>a_pending_orders := tl (a_pending_orders a)\<rparr>)"

definition sendPendingOrders :: "OrderAccountType \<Rightarrow> world \<Rightarrow> world res" where
  "sendPendingOrders s w = (case a_pending_orders (w_ta w s) of
     [] \<Rightarrow> Inr w
   | q # _ \<Rightarrow>
       (case p_type q of
          REQ_OPEN \<Rightarrow> rbind (open_done s (o_price q) (o_size q) (p_trade_done q) w) (\<lambda>(oid, w).
            Inr (if oid = 0 then w else pop_pending s w))
        | REQ_CLOSE \<Rightarrow> rbind (close_done s (o_price q) (o_size q) (p_trade_done q) w) (\<lambda>(oid, w).
            Inr (if oid = 0 then w else pop_pending s w))
        | REQ_CHANGE \<Rightarrow> Inr (pop_pending s w)))"

text \<open>
  The update of second close orders; \<open>validity\<close> is the price function the caller passes. An order a
  change adds to the map has a greater identifier and is not a second close order, so the loop
  passes it by; an element that disappears under the iterator is undefined.
\<close>

fun sco_loop :: "OrderAccountType \<Rightarrow> (u32 \<Rightarrow> world \<Rightarrow> double \<times> u32) \<Rightarrow> u32 list \<Rightarrow> world \<Rightarrow> world res" where
  "sco_loop s validity [] w = Inr w"
| "sco_loop s validity (k # ks) w =
     (case orders_find s k w of
        None \<Rightarrow> sco_loop s validity ks w
      | Some r \<Rightarrow>
          let new_price = fst (validity (a_close_live (w_ta w s)) w) in
          if p_is_sco (w_heap w r) \<and> \<not> deq new_price (o_price (w_heap w r))
          then rbind (change s k new_price 0 w) (\<lambda>(_, w).
            if orders_find s k w = None then Inl DanglingRef else sco_loop s validity ks w)
          else sco_loop s validity ks w)"

definition executeSCOPendingOrders ::
    "OrderAccountType \<Rightarrow> (u32 \<Rightarrow> world \<Rightarrow> double \<times> u32) \<Rightarrow> world \<Rightarrow> world res" where
  "executeSCOPendingOrders s validity w =
     rbind (case a_pending_orders (w_ta w s) of
        [] \<Rightarrow> Inr w
      | q # _ \<Rightarrow>
          rbind (if p_is_sco q then
              let (price, sz) = validity (o_size q) w in
              if 0 < sz then rbind (close_fco s price sz False w) (\<lambda>(_, w). Inr w) else Inr w
            else Inr w) (\<lambda>w. Inr (pop_pending s w))) (\<lambda>w.
     sco_loop s validity (om_keys (a_orders (w_ta w s))) w)"

section \<open>Round trips through the other account\<close>

definition onOpenFillsWithMMFOrders :: "OrderAccountType \<Rightarrow> ref \<Rightarrow> double \<Rightarrow> u32 \<Rightarrow> world \<Rightarrow> world res" where
  "onOpenFillsWithMMFOrders s open_order fill_price fill_size w =
     (if \<not> p_send_mmf_on_fills (w_heap w open_order) then Inr w
      else rbind (mmfPrice s w) (\<lambda>p.
        Inr (push_pending s ((new_PositionRequest fill_size p)
          \<lparr>p_is_mmf := True, p_type := REQ_CLOSE, p_open_order := Some open_order\<rparr>) w)))"

definition onMMFOrderFills :: "OrderAccountType \<Rightarrow> ref \<Rightarrow> double \<Rightarrow> u32 \<Rightarrow> world \<Rightarrow> world" where
  "onMMFOrderFills s r price fills w =
     (if \<not> p_is_mmf (w_heap w r) then w
      else case p_open_order (w_heap w r) of
        None \<Rightarrow> w
      | Some o_ref \<Rightarrow>
          let w = upd_heap o_ref (\<lambda>q. q\<lparr>p_mmf_closed := p_mmf_closed q + fills\<rparr>) w;
              q = w_heap w o_ref
          in if p_mmf_closed q < o_size q then w
             else push_pending s ((new_PositionRequest (o_size q * a_divisor (w_ta w s)) (o_price q))
               \<lparr>p_send_mmf_on_fills := True, p_type := REQ_OPEN\<rparr>) w)"

definition onFCOrderFills :: "OrderAccountType \<Rightarrow> ref \<Rightarrow> double \<Rightarrow> u32 \<Rightarrow> world \<Rightarrow> world res" where
  "onFCOrderFills s fco_order price fills w =
     (if \<not> p_is_fco (w_heap w fco_order) then Inr w
      else rbind (mmfPrice s w) (\<lambda>p.
        Inr (push_pending (other_account s) ((new_PositionRequest (fills * a_divisor (w_ta w s)) p)
          \<lparr>p_is_sco := True, p_type := REQ_CLOSE\<rparr>) w)))"

section \<open>Accessors with arithmetic\<close>

definition sizeofCloseOrderWithPNL :: "OrderAccountType \<Rightarrow> double \<Rightarrow> world \<Rightarrow> u32 \<times> double" where
  "sizeofCloseOrderWithPNL s send_price w =
     (let (sz, pnl) = sizeofOrderWithPnl send_price (a_position_table (w_ta w s))
      in (min (sz * a_divisor (w_ta w s)) (word_of_int (getPosition s w)), pnl))"

definition getOpenPNL :: "OrderAccountType \<Rightarrow> double \<Rightarrow> world \<Rightarrow> double" where
  "getOpenPNL s reference_price w =
     (let t = a_position_table (w_ta w s)
      in dmul (dmul (dsub reference_price (t_average t)) (dbl_of_u32 (t_open_size t)))
              (dbl_of_int (if s = ORDER_ACCOUNT_LONG then 1 else - 1)))"

definition hedgedModeCondition :: "OrderAccountType \<Rightarrow> double \<Rightarrow> double \<Rightarrow> world \<Rightarrow> bool" where
  "hedgedModeCondition s bid ask w =
     (let a = w_ta w s; endprice = a_last_open_price a;
          price_cond = (if s = ORDER_ACCOUNT_LONG then dlt bid endprice else dlt endprice ask)
      in getPosition s w - uint (a_max_pos a * a_tranch_counter a) = uint (a_max_pos a) \<and> price_cond)"

definition checkPNL :: "OrderAccountType \<Rightarrow> double \<Rightarrow> world \<Rightarrow> bool" where
  "checkPNL s close_price w =
     (if s = ORDER_ACCOUNT_LONG then dlt (a_average (w_ta w s)) close_price
      else dlt close_price (a_average (w_ta w s)))"

definition setPriceInForce :: "OrderAccountType \<Rightarrow> double \<Rightarrow> world \<Rightarrow> world" where
  "setPriceInForce s pif w = redis (RedisPIF s pif) (upd_ta s (\<lambda>a. a\<lparr>a_pif := pif\<rparr>) w)"

definition setPriceInForceAsAverage :: "OrderAccountType \<Rightarrow> world \<Rightarrow> world" where
  "setPriceInForceAsAverage s = upd_ta s (\<lambda>a. a\<lparr>a_pif := a_average a\<rparr>)"

definition setRoundInForce :: "OrderAccountType \<Rightarrow> u32 \<Rightarrow> world \<Rightarrow> world" where
  "setRoundInForce s rif w = redis (RedisRIF s rif) (upd_ta s (\<lambda>a. a\<lparr>a_rif := rif\<rparr>) w)"

definition setAverage :: "OrderAccountType \<Rightarrow> double \<Rightarrow> world \<Rightarrow> world" where
  "setAverage s avg = upd_ta s (\<lambda>a. a\<lparr>a_average := avg\<rparr>)"

definition setPosition :: "OrderAccountType \<Rightarrow> int \<Rightarrow> world \<Rightarrow> world" where
  "setPosition s position = upd_ta s (\<lambda>a. a\<lparr>a_total := position\<rparr>)"

definition getTotalLiveOrderCount :: "OrderAccountType \<Rightarrow> world \<Rightarrow> int" where
  "getTotalLiveOrderCount s w = int32_of (a_totalopen (w_ta w s) + a_totalclose (w_ta w s))"

definition repackagePositionTable ::
    "OrderAccountType \<Rightarrow> u32 \<Rightarrow> double \<Rightarrow> double \<Rightarrow> world \<Rightarrow> world res" where
  "repackagePositionTable s base_qty mpv adjustment w =
     rbind (repackaging base_qty mpv adjustment (a_position_table (w_ta w s))) (\<lambda>t.
     Inr (upd_ta s (\<lambda>a. a\<lparr>a_position_table := t\<rparr>) w))"

definition resetPNL :: "OrderAccountType \<Rightarrow> world \<Rightarrow> world" where
  "resetPNL s = upd_ta s (\<lambda>a. a\<lparr>a_position_table := (a_position_table a)\<lparr>t_pnl := Fin 0\<rparr>\<rparr>)"

definition deleteCompletePositions :: "OrderAccountType \<Rightarrow> world \<Rightarrow> world" where
  "deleteCompletePositions s =
     upd_ta s (\<lambda>a. a\<lparr>a_position_table := deleteCompletePosition (a_position_table a)\<rparr>)"

definition new_TradeAccount :: "OrderAccountType \<Rightarrow> u32 \<Rightarrow> double \<Rightarrow> double \<Rightarrow> TradeAccount" where
  "new_TradeAccount s divisor last_open mmf_mpv =
     \<lparr>a_orders = [], a_pending_orders = [], a_total = 0, a_average = Fin 0, a_spread = Fin 0,
      a_last_open_price = last_open, a_last_close_price = Fin 0, a_totalopen = 0, a_totalclose = 0,
      a_totalExecuted = 0, a_close_live = 0, a_mmf_mpv = mmf_mpv, a_pif = Fin 0, a_rif = 0,
      a_maximum_order_size = 0, a_opened_for_close = False, a_max_pos = 0, a_tranch_value = 0,
      a_tranch_counter = 0, a_divisor = divisor,
      a_position_table = new_table (s = ORDER_ACCOUNT_LONG)\<rparr>"

end
