(* ===== verification/TradeCaseBase.thy ===== *)
theory TradeCaseBase
  imports TradeAccounts
begin

text \<open>
  The base class of the trade cases (\<open>src/src/trade/TradeCase.cpp\<close>): the prices a case sends at,
  the requote orders, the default \<open>reprice\<close> and the destructor; and \<open>TradeInstance::sendPrice\<close>.

  A method takes the number of the case it is called on. The two account pointers of a case are null
  together (a case created before the first trigger), so a method that needs them reads both first.
\<close>

section \<open>Prices\<close>

text \<open>What is left on a side of the book when an order of \<open>qto\<close> lots has taken its part.\<close>

definition size_left :: "u32 \<Rightarrow> u32 \<Rightarrow> TradeInstance \<Rightarrow> double" where
  "size_left book qto ti = dsub (dbl_of_u32 book) (dmul (dbl_of_u32 qto) (i_multiplier ti))"

definition sendPrice :: "u32 \<Rightarrow> TradeInstance \<Rightarrow> double res" where
  "sendPrice qto ti = (case i_trigger_state ti of
     TRIGGER_STATE_POSITIVE \<Rightarrow>
       rbind (dbl_to_i64 (size_left (i_ask_size ti) qto ti)) (\<lambda>os.
       Inr (if os \<le> 0 then i_ask_price ti else i_bid_price ti))
   | TRIGGER_STATE_NEGATIVE \<Rightarrow>
       rbind (dbl_to_i64 (size_left (i_bid_size ti) qto ti)) (\<lambda>os.
       Inr (if os \<le> 0 then i_bid_price ti else i_ask_price ti))
   | TRIGGER_STATE_INIT \<Rightarrow> Inr (Fin 0))"

text \<open>The two branches of \<open>openPrice\<close> and \<open>closePrice\<close>: a price at which to buy and one at which to sell.\<close>

definition buying_price :: "u32 \<Rightarrow> double \<Rightarrow> TradeInstance \<Rightarrow> double res" where
  "buying_price qto current_price ti =
     rbind (dbl_to_i64 (size_left (i_ask_size ti) qto ti)) (\<lambda>os.
     Inr (if dlt (Fin 0) current_price \<and> dlt (i_bid_price ti) current_price then current_price
          else if os < 0 then i_ask_price ti else i_bid_price ti))"

definition selling_price :: "u32 \<Rightarrow> double \<Rightarrow> TradeInstance \<Rightarrow> double res" where
  "selling_price qto current_price ti =
     rbind (dbl_to_i64 (size_left (i_bid_size ti) qto ti)) (\<lambda>os.
     Inr (if dlt (Fin 0) current_price \<and> dlt current_price (i_ask_price ti) then current_price
          else if os < 0 then i_bid_price ti else i_ask_price ti))"

definition openPrice :: "u32 \<Rightarrow> double \<Rightarrow> TradeInstance \<Rightarrow> double res" where
  "openPrice qto current_price ti = (case i_trigger_state ti of
     TRIGGER_STATE_POSITIVE \<Rightarrow> buying_price qto current_price ti
   | TRIGGER_STATE_NEGATIVE \<Rightarrow> selling_price qto current_price ti
   | TRIGGER_STATE_INIT \<Rightarrow> Inr (Fin 0))"

definition closePrice :: "u32 \<Rightarrow> double \<Rightarrow> TradeInstance \<Rightarrow> double res" where
  "closePrice qto current_price ti = (case i_trigger_state ti of
     TRIGGER_STATE_NEGATIVE \<Rightarrow> buying_price qto current_price ti
   | TRIGGER_STATE_POSITIVE \<Rightarrow> selling_price qto current_price ti
   | TRIGGER_STATE_INIT \<Rightarrow> Inr (Fin 0))"

definition buyPrice :: "u32 \<Rightarrow> TradeInstance \<Rightarrow> double" where
  "buyPrice qty ti =
     (if dle (size_left (i_ask_size ti) qty ti) (Fin 0) then i_ask_price ti else i_bid_price ti)"

definition sellPrice :: "u32 \<Rightarrow> TradeInstance \<Rightarrow> double" where
  "sellPrice qty ti =
     (if dle (size_left (i_bid_size ti) qty ti) (Fin 0) then i_bid_price ti else i_ask_price ti)"

section \<open>Construction\<close>

definition new_TradeCase :: "CaseType \<Rightarrow> TradeInstance \<Rightarrow> TradeCase" where
  "new_TradeCase ty ti =
     \<lparr>c_type = ty, c_current_acc = i_current_acc ti, c_opposite_acc = i_opposite_acc ti,
      c_send_price = Fin 0, c_requote_price = Fin 0, c_main_order_id = 0, c_state = INIT,
      c_sign = (if i_trigger_state ti = TRIGGER_STATE_POSITIVE then 1 else - 1),
      c_requote_order_flag = False, c_requote_orders = [], c_close_size = 0,
      c_prev_send_price = Fin 0, c_init_pos = 0, c_threshold = Fin 0, c_threshold_limit = Fin 0,
      c_first_order = 0, c_first_order_size = 0, c_first_order_price = Fin 0, c_target_pos = 0,
      c_curr_close_size = 0, c_oppo_close_size = 0, c_curr_send_price = Fin 0,
      c_oppo_send_price = Fin 0, c_curr_order = 0, c_oppo_order = 0, c_close_price = Fin 0,
      c_init_size = 0, c_close_id = 0, c_ho_size = 0, c_tranch_at_init = 0, c_curr_size_init = 0,
      c_oppo_size_init = 0, c_order_id = 0, c_price = Fin 0, c_selected_account = None,
      c_other_account = None, c_original_size = 0, c_error = Fin 0, c_orders = [],
      c_account_to_close = None\<rparr>"

definition with_accs ::
    "nat \<Rightarrow> world \<Rightarrow> (TradeCase \<Rightarrow> OrderAccountType \<Rightarrow> OrderAccountType \<Rightarrow> 'a res) \<Rightarrow> 'a res" where
  "with_accs n w f =
     rbind (this_case n w) (\<lambda>c.
     rbind (rget NullDeref (c_current_acc c)) (\<lambda>cur.
     rbind (rget NullDeref (c_opposite_acc c)) (\<lambda>opp. f c cur opp)))"

definition set_state :: "nat \<Rightarrow> CaseState \<Rightarrow> world \<Rightarrow> world" where
  "set_state n st = upd_case n (\<lambda>c. c\<lparr>c_state := st\<rparr>)"

section \<open>Requote orders\<close>

text \<open>
  The loop that cuts a residual into orders of \<open>base_qty\<close>, shared by \<open>sendRequoteOrders\<close> (which
  starts at 0 and keeps the identifiers) and \<open>TradeCase6C::init\<close> (which starts at 1). Its two
  variables are of type \<open>int\<close>: with a base quantity of zero the residual stays what it is and the
  counter overflows, with a negative one the residual grows until it or the counter does.
\<close>

definition INT_MAX :: int where
  "INT_MAX = 2147483647"

function open_lots :: "OrderAccountType \<Rightarrow> double \<Rightarrow> int \<Rightarrow> double \<Rightarrow> int \<Rightarrow> trade_done \<Rightarrow> int \<Rightarrow> int \<Rightarrow> world \<Rightarrow>
    (u32 list \<times> world) res" where
  "open_lots cur price sign mpv base_qty td remainder i w =
     (if remainder \<le> 0 then Inr ([], w)
      else
        let order_size = (if base_qty < remainder then base_qty else remainder);
            order_price = dsub price (dmul (dmul (dbl_of_int sign) mpv) (dbl_of_int i))
        in rbind (open_done cur order_price (word_of_int order_size) td w) (\<lambda>(oid, w).
           if INT_MAX < remainder - order_size \<or> INT_MAX \<le> i then Inl IntOverflow
           else rbind (open_lots cur price sign mpv base_qty td (remainder - order_size) (i + 1) w) (\<lambda>(ids, w).
             Inr (if oid \<noteq> 0 then oid # ids else ids, w))))"
  by pat_completeness auto

termination
  by (relation "measure (\<lambda>(cur, price, sign, mpv, base_qty, td, remainder, i, w). nat (INT_MAX - i))") auto

declare open_lots.simps [simp del]

definition residual :: "OrderAccountType \<Rightarrow> world \<Rightarrow> u64" where
  "residual cur w =
     i_max_pos (w_ti w) * ucast (a_tranch_counter (w_ta w cur) + 1) - word_of_int (getPosition cur w)"

definition sendRequoteOrders :: "nat \<Rightarrow> world \<Rightarrow> world res" where
  "sendRequoteOrders n w =
     with_accs n w (\<lambda>c cur opp.
     let ti = w_ti w in
     if a_tranch_counter (w_ta w cur) = i_tranch_value ti then Inr w
     else
       let sign = c_sign c;
           requote_price = (if sign = 1 then i_bid_price ti else i_ask_price ti);
           right_side = dadd (bar_close (i_bar1 ti))
             (dmul (dmul (i_mpv_value ti) (dbl_of_u32 (i_mpv_multiplier ti))) (dbl_of_int sign));
           price_condition =
             (if 0 < sign then dle requote_price right_side else dle right_side requote_price);
           w = upd_case n (\<lambda>c. c\<lparr>c_requote_price := requote_price\<rparr>) w
       in if price_condition then
            rbind (open_lots cur requote_price sign (i_mpv_value ti) (i_base_qty ti)
                     (TD_trade_send_close n) (int32_of (uint (residual cur w))) 0 w) (\<lambda>(ids, w).
            Inr (upd_case n (\<lambda>c. c\<lparr>c_requote_orders := c_requote_orders c @ ids\<rparr>) w))
          else Inr w)"

fun live_requotes :: "OrderAccountType \<Rightarrow> u32 list \<Rightarrow> world \<Rightarrow> u32 list \<times> world" where
  "live_requotes cur [] w = ([], w)"
| "live_requotes cur (k # ks) w =
     (if k = 0 then live_requotes cur ks w
      else
        let (alive, w) = checkOrderStatus cur k w; (rest, w) = live_requotes cur ks w
        in (if alive then k # rest else rest, w))"

text \<open>The source's condition \<open>new_order != 0 || new_order != order\<close>.\<close>

fun change_requotes :: "OrderAccountType \<Rightarrow> double \<Rightarrow> double \<Rightarrow> int \<Rightarrow> u32 list \<Rightarrow> int \<Rightarrow> world \<Rightarrow>
    (u32 list \<times> world) res" where
  "change_requotes cur price mpv sign [] i w = Inr ([], w)"
| "change_requotes cur price mpv sign (k # ks) i w =
     (let new_price = dadd price (dmul (dmul (dbl_of_int i) mpv) (dbl_of_int sign)) in
      rbind (change cur k new_price 0 w) (\<lambda>(new_order, w).
      let changed = new_order \<noteq> 0 \<or> new_order \<noteq> k in
      rbind (change_requotes cur price mpv sign ks (if changed then i + 1 else i) w) (\<lambda>(rest, w).
      Inr ((if changed then new_order else 0) # rest, w))))"

definition updateRequoteOrders :: "nat \<Rightarrow> world \<Rightarrow> world res" where
  "updateRequoteOrders n w =
     with_accs n w (\<lambda>c cur opp.
     let fresh = (\<lambda>w. rbind (cancelAll cur w) (sendRequoteOrders n)) in
     if getPosition cur w \<noteq> getPosition opp w then Inr w
     else if c_requote_orders c = [] then fresh w
     else
       let (live, w) = live_requotes cur (c_requote_orders c) w;
           w = upd_case n (\<lambda>c. c\<lparr>c_requote_orders := live\<rparr>) w
       in if live = [] then fresh w
          else
            let ti = w_ti w;
                up = (i_trigger_state ti = TRIGGER_STATE_POSITIVE \<and>
                      dlt (c_requote_price c) (i_bid_price ti) \<and> dlt (Fin 0) (i_instrument_skew ti));
                down = (i_trigger_state ti = TRIGGER_STATE_NEGATIVE \<and>
                        dlt (i_ask_price ti) (c_requote_price c) \<and> dlt (i_instrument_skew ti) (Fin 0))
            in if \<not> up \<and> \<not> down then Inr w
               else
                 let price = (if up then i_bid_price ti else i_ask_price ti);
                     w = upd_case n (\<lambda>c. c\<lparr>c_requote_price := price\<rparr>) w
                 in rbind (change_requotes cur price (i_mpv_value ti) (c_sign c) live 0 w) (\<lambda>(ids, w).
                    Inr (upd_case n (\<lambda>c. c\<lparr>c_requote_orders := ids\<rparr>) w)))"

definition base_reprice :: "nat \<Rightarrow> world \<Rightarrow> world res" where
  "base_reprice n w =
     with_accs n w (\<lambda>c cur opp.
     rbind (if getPosition cur w = getPosition opp w \<and> c_requote_order_flag c
            then updateRequoteOrders n w else Inr w) (\<lambda>w.
     sendPendingOrders cur w))"

section \<open>Destruction\<close>

definition base_destructor :: "nat \<Rightarrow> world \<Rightarrow> world res" where
  "base_destructor n w =
     rbind (if i_cancel_on_trigger (w_ti w)
            then rbind (cancelAll ORDER_ACCOUNT_LONG w) (cancelAll ORDER_ACCOUNT_SHORT)
            else Inr w) (\<lambda>w.
     let w = upd_case n (\<lambda>c. c\<lparr>c_requote_orders := []\<rparr>) w in
     with_accs n w (\<lambda>c cur opp.
     let w = deleteCompletePositions opp (deleteCompletePositions cur w) in
     Inr (if getPosition cur w = getPosition opp w
          then upd_ti (\<lambda>ti. ti\<lparr>i_wait_for_next_time_window := True,
                 i_wait_for_next_time_window_avicenna := i_price_estimate ti\<rparr>) w
          else w)))"

end
