(* ===== verification/TradeCases.thy ===== *)
theory TradeCases
  imports TradeCaseBase
begin

text \<open>
  The trade cases (\<open>src/src/trade/TradeCase.cpp\<close>): constructors, handlers and destructors of the
  derived classes, the factory, and \<open>TradeCase::run\<close>. A handler that only ends a case, or that the
  source leaves empty, is the state unchanged.
\<close>

abbreviation LONG :: OrderAccountType where "LONG \<equiv> ORDER_ACCOUNT_LONG"
abbreviation SHORT :: OrderAccountType where "SHORT \<equiv> ORDER_ACCOUNT_SHORT"

text \<open>A change request that fails returns 0 or the identifier it was given.\<close>

abbreviation unchanged :: "u32 \<Rightarrow> u32 \<Rightarrow> bool" where
  "unchanged new_id old_id \<equiv> new_id = 0 \<or> new_id = old_id"

definition as_u64 :: "int \<Rightarrow> u64" where
  "as_u64 x = word_of_int x"

definition as_u32 :: "int \<Rightarrow> u32" where
  "as_u32 x = word_of_int x"

section \<open>PanicClose\<close>

definition panic_accounts :: "nat \<Rightarrow> world \<Rightarrow> world" where
  "panic_accounts n w =
     (let (trigger, cur) = (if getPosition LONG w < getPosition SHORT w
                            then (TRIGGER_STATE_POSITIVE, LONG) else (TRIGGER_STATE_NEGATIVE, SHORT))
      in upd_case n (\<lambda>c. c\<lparr>c_current_acc := Some cur, c_opposite_acc := Some (other_account cur)\<rparr>)
           (upd_ti (\<lambda>ti. ti\<lparr>i_trigger_state := trigger\<rparr>) w))"

definition market_price :: "TradeInstance \<Rightarrow> double" where
  "market_price ti = (case i_trigger_state ti of
     TRIGGER_STATE_POSITIVE \<Rightarrow> i_ask_price ti
   | TRIGGER_STATE_NEGATIVE \<Rightarrow> i_bid_price ti
   | TRIGGER_STATE_INIT \<Rightarrow> Fin 0)"

definition PanicClose_init :: "nat \<Rightarrow> world \<Rightarrow> world res" where
  "PanicClose_init n w =
     (if getPosition SHORT w = getPosition LONG w then Inr (set_state n DONE w)
      else
        let w = panic_accounts n w in
        with_accs n w (\<lambda>c cur opp.
        let price = market_price (w_ti w);
            close_size = as_u32 (getPosition opp w - getPosition cur w);
            w = upd_case n (\<lambda>c. c\<lparr>c_send_price := price, c_close_size := close_size\<rparr>) w
        in rbind (close_fco opp price close_size False w) (\<lambda>(oid, w).
           Inr (upd_case n (\<lambda>c. c\<lparr>c_main_order_id := oid,
                  c_state := (if oid = 0 then FAILED else PRICE_CHANGE)\<rparr>) w))))"

definition PanicClose_reprice :: "nat \<Rightarrow> world \<Rightarrow> world res" where
  "PanicClose_reprice n w =
     with_accs n w (\<lambda>c cur opp.
     if getPosition opp w = getPosition cur w then Inr (set_state n DONE w)
     else
       let new_price = market_price (w_ti w) in
       if deq new_price (c_send_price c) then Inr w
       else rbind (change opp (c_main_order_id c) new_price 0 w) (\<lambda>(oid, w).
         if unchanged oid (c_main_order_id c) then Inr (set_state n WAIT w)
         else Inr (upd_case n (\<lambda>c. c\<lparr>c_main_order_id := oid, c_send_price := new_price\<rparr>) w)))"

definition wait_for_equality :: "nat \<Rightarrow> world \<Rightarrow> world res" where
  "wait_for_equality n w =
     with_accs n w (\<lambda>c cur opp.
     Inr (if getPosition cur w = getPosition opp w then set_state n DONE w else w))"

definition PanicClose_wait :: "nat \<Rightarrow> world \<Rightarrow> world res" where
  "PanicClose_wait = wait_for_equality"

section \<open>SoftClose\<close>

definition close_gain :: "double \<Rightarrow> OrderAccountType \<Rightarrow> world \<Rightarrow> double" where
  "close_gain price opp w = (case i_trigger_state (w_ti w) of
     TRIGGER_STATE_POSITIVE \<Rightarrow> dsub price (getAverage opp w)
   | TRIGGER_STATE_NEGATIVE \<Rightarrow> dsub (getAverage opp w) price
   | TRIGGER_STATE_INIT \<Rightarrow> Fin 0)"

text \<open>
  On equal positions the source sets the state and goes on with the accounts the case was created
  with. The state after a failed close is overwritten by the last assignment.
\<close>

definition SoftClose_init :: "nat \<Rightarrow> world \<Rightarrow> world res" where
  "SoftClose_init n w =
     (let w = (if getPosition SHORT w = getPosition LONG w then set_state n DONE w
               else panic_accounts n w) in
      with_accs n w (\<lambda>c cur opp.
      let close_size = as_u32 (getPosition opp w - getPosition cur w);
          w = upd_case n (\<lambda>c. c\<lparr>c_close_size := close_size\<rparr>) w
      in rbind (closePrice close_size (Fin 0) (w_ti w)) (\<lambda>price.
         let w = upd_case n (\<lambda>c. c\<lparr>c_send_price := price\<rparr>) w in
         if dlt (close_gain price opp w) (Fin 0) then Inr w
         else rbind (close_fco opp price close_size False w) (\<lambda>(oid, w).
           let w = upd_case n (\<lambda>c. c\<lparr>c_main_order_id := oid\<rparr>) w;
               w = (if oid = 0 then set_state n FAILED w else w)
           in Inr (set_state n PRICE_CHANGE w)))))"

definition SoftClose_reprice :: "nat \<Rightarrow> world \<Rightarrow> world res" where
  "SoftClose_reprice n w =
     with_accs n w (\<lambda>c cur opp.
     if getPosition opp w = getPosition cur w then Inr (set_state n DONE w)
     else rbind (closePrice (c_close_size c) (Fin 0) (w_ti w)) (\<lambda>new_price.
       if deq (c_send_price c) new_price then Inr w
       else if dlt (close_gain new_price opp w) (Fin 0) then Inr w
       else rbind (change opp (c_main_order_id c) new_price 0 w) (\<lambda>(oid, w).
         let w = (if unchanged oid (c_main_order_id c) then set_state n WAIT w else w)
         in Inr (upd_case n (\<lambda>c. c\<lparr>c_main_order_id := oid, c_send_price := new_price\<rparr>) w))))"

definition SoftClose_wait :: "nat \<Rightarrow> world \<Rightarrow> world res" where
  "SoftClose_wait = wait_for_equality"

section \<open>TradeCase1\<close>

definition TradeCase1_checkFails :: "nat \<Rightarrow> world \<Rightarrow> (bool \<times> world) res" where
  "TradeCase1_checkFails n w =
     with_accs n w (\<lambda>c cur opp.
     let close_size = as_u32 (getPosition opp w);
         w = upd_case n (\<lambda>c. c\<lparr>c_close_size := close_size\<rparr>) w
     in if close_size = 0 then Inr (False, set_state n DONE w)
        else rbind (sendPrice close_size (w_ti w)) (\<lambda>price.
          let w = upd_case n (\<lambda>c. c\<lparr>c_prev_send_price := c_send_price c, c_send_price := price\<rparr>) w
          in if dle price (Fin 0) then Inr (False, set_state n DONE w)
             else if \<not> checkPNL opp price w then Inr (False, set_state n DONE w)
             else Inr (True, w)))"

definition TradeCase1_init :: "nat \<Rightarrow> world \<Rightarrow> world res" where
  "TradeCase1_init n w =
     rbind (TradeCase1_checkFails n w) (\<lambda>(ok, w).
     if \<not> ok then Inr w
     else with_accs n w (\<lambda>c cur opp.
       rbind (close_fco opp (c_send_price c) (c_close_size c) False w) (\<lambda>(oid, w).
       Inr (upd_case n (\<lambda>c. c\<lparr>c_main_order_id := oid,
              c_state := (if oid = 0 then DONE else PRICE_CHANGE)\<rparr>) w))))"

definition TradeCase1_reprice :: "nat \<Rightarrow> world \<Rightarrow> world res" where
  "TradeCase1_reprice n w =
     rbind (TradeCase1_checkFails n w) (\<lambda>(ok, w).
     if \<not> ok then Inr w
     else with_accs n w (\<lambda>c cur opp.
       if deq (c_send_price c) (c_prev_send_price c) then Inr w
       else rbind (change opp (c_main_order_id c) (c_send_price c) 0 w) (\<lambda>(oid, w).
         if unchanged oid (c_main_order_id c) then Inr (set_state n DONE w)
         else Inr (upd_case n (\<lambda>c. c\<lparr>c_main_order_id := oid\<rparr>) w))))"

section \<open>TradeCase3\<close>

definition TradeCase3_init :: "nat \<Rightarrow> world \<Rightarrow> world res" where
  "TradeCase3_init n w =
     with_accs n w (\<lambda>c cur opp.
     let close_size = as_u32 (i_base_qty (w_ti w));
         w = upd_case n (\<lambda>c. c\<lparr>c_close_size := close_size\<rparr>) w
     in rbind (sendPrice close_size (w_ti w)) (\<lambda>price.
        let w = upd_case n (\<lambda>c. c\<lparr>c_send_price := price\<rparr>) w in
        rbind (close_fco cur price close_size False w) (\<lambda>(oid, w).
        Inr (upd_case n (\<lambda>c. c\<lparr>c_main_order_id := oid,
               c_state := (if oid = 0 then DONE else PRICE_CHANGE)\<rparr>) w))))"

text \<open>The order was sent by the current account; the source changes it through the opposite one.\<close>

definition TradeCase3_reprice :: "nat \<Rightarrow> world \<Rightarrow> world res" where
  "TradeCase3_reprice n w =
     with_accs n w (\<lambda>c cur opp.
     let w = (if as_u64 (getPosition cur w) \<le> i_max_pos (w_ti w) - ucast (c_close_size c)
              then set_state n DONE w else w)
     in rbind (sendPrice (c_close_size c) (w_ti w)) (\<lambda>new_price.
        if deq new_price (c_send_price c) then Inr w
        else rbind (change opp (c_main_order_id c) new_price 0 w) (\<lambda>(oid, w).
          if unchanged oid (c_main_order_id c) then Inr (set_state n DONE w)
          else Inr (upd_case n (\<lambda>c. c\<lparr>c_main_order_id := oid\<rparr>) w))))"

section \<open>TradeCase4\<close>

definition TradeCase4_threshold :: "TradeInstance \<Rightarrow> double" where
  "TradeCase4_threshold ti =
     (let t = ddiv (ddiv (dmul (dbl_of_u64 (i_max_pos ti)) (i_mpv_value ti)) (dbl_of_int (i_base_qty ti)))
                   (Fin 2)
      in if dlt t (round64 (1 / 100)) then Fin 0
         else if dlt (round64 (25 / 1000)) t then round64 (3 / 100)
         else if dlt (round64 (15 / 1000)) t then round64 (2 / 100)
         else t)"

fun open_rounds :: "nat \<Rightarrow> OrderAccountType \<Rightarrow> double \<Rightarrow> double \<Rightarrow> ShareRound list \<Rightarrow> int \<Rightarrow> world \<Rightarrow> world res" where
  "open_rounds n cur limit factor [] counter w = Inr w"
| "open_rounds n cur limit factor (rd # rds) counter w =
     rbind (open_done cur (dadd limit (dmul factor (dbl_of_int counter))) (ucast (rd_position rd))
              (TD_trade_send_close n) w) (\<lambda>(_, w).
     open_rounds n cur limit factor rds (counter + 1) w)"

definition TradeCase4_init :: "nat \<Rightarrow> world \<Rightarrow> world res" where
  "TradeCase4_init n w =
     with_accs n w (\<lambda>c cur opp.
     let ti = w_ti w;
         positive = (i_trigger_state ti = TRIGGER_STATE_POSITIVE);
         threshold = TradeCase4_threshold ti;
         limit = (if positive then dsub (i_bid_price ti) threshold else dadd (i_ask_price ti) threshold);
         factor = (if positive then dmul (i_mpv_value ti) (Fin (- 1)) else i_mpv_value ti)
     in case i_share_rounds ti of
          [] \<Rightarrow> Inl EmptyDeref
        | first_round # rounds \<Rightarrow>
            let sz = ucast (rd_position first_round) in
            rbind (openPrice sz (Fin 0) ti) (\<lambda>price.
            let w = upd_case n (\<lambda>c. c\<lparr>c_threshold := threshold, c_threshold_limit := limit,
                      c_first_order_size := sz, c_first_order_price := price\<rparr>) w in
            rbind (open_done cur price sz (TD_trade_send_close n) w) (\<lambda>(oid, w).
            let w = upd_case n (\<lambda>c. c\<lparr>c_first_order := oid\<rparr>) w in
            rbind (open_rounds n cur limit factor rounds 0 w) (\<lambda>w.
            Inr (set_state n PRICE_CHANGE w)))))"

text \<open>After a failed change the source stores 0 and then the identifier \<open>change\<close> returned.\<close>

definition TradeCase4_reprice :: "nat \<Rightarrow> world \<Rightarrow> world res" where
  "TradeCase4_reprice n w =
     rbind (base_reprice n w) (\<lambda>w.
     with_accs n w (\<lambda>c cur opp.
     if c_first_order c = 0 then Inr w
     else rbind (openPrice (c_first_order_size c) (Fin 0) (w_ti w)) (\<lambda>new_price.
       if deq (c_first_order_price c) new_price then Inr w
       else rbind (change cur (c_first_order c) new_price 0 w) (\<lambda>(oid, w).
         let w = (if unchanged oid (c_first_order c)
                  then upd_case n (\<lambda>c. c\<lparr>c_first_order := 0\<rparr>) w else w)
         in Inr (upd_case n (\<lambda>c. c\<lparr>c_first_order_price := new_price, c_first_order := oid\<rparr>) w)))))"

definition TradeCase4_wait :: "nat \<Rightarrow> world \<Rightarrow> world res" where
  "TradeCase4_wait n w =
     with_accs n w (\<lambda>c cur opp.
     Inr (if i_max_pos (w_ti w) \<le> as_u64 (getPosition cur w) then set_state n DONE w else w))"

section \<open>OnEquality\<close>

definition OnEquality_init :: "nat \<Rightarrow> world \<Rightarrow> world res" where
  "OnEquality_init n w = rbind (sendRequoteOrders n w) (\<lambda>w. Inr (set_state n PRICE_CHANGE w))"

definition OnEquality_reprice :: "nat \<Rightarrow> world \<Rightarrow> world res" where
  "OnEquality_reprice = base_reprice"

definition OnEquality_wait :: "nat \<Rightarrow> world \<Rightarrow> world res" where
  "OnEquality_wait n w =
     with_accs n w (\<lambda>c cur opp.
     Inr (if uint (c_target_pos c) \<le> getPosition cur w then set_state n DONE w else w))"

section \<open>TradeCase5\<close>

definition currentPrice :: "TradeInstance \<Rightarrow> double" where
  "currentPrice ti =
     (if i_trigger_state ti = TRIGGER_STATE_POSITIVE then i_ask_price ti else i_bid_price ti)"

definition oppositePrice :: "TradeInstance \<Rightarrow> double" where
  "oppositePrice ti =
     (if i_trigger_state ti = TRIGGER_STATE_POSITIVE then i_bid_price ti else i_ask_price ti)"

definition TradeCase5_init :: "nat \<Rightarrow> world \<Rightarrow> world res" where
  "TradeCase5_init n w =
     with_accs n w (\<lambda>c cur opp.
     rbind (if i_max_pos (w_ti w) < as_u64 (getPosition cur w) then
         let sz = ucast (as_u64 (getPosition cur w) - i_max_pos (w_ti w));
             price = currentPrice (w_ti w);
             w = upd_case n (\<lambda>c. c\<lparr>c_curr_close_size := sz, c_curr_send_price := price\<rparr>) w
         in rbind (close_fco cur price sz False w) (\<lambda>(oid, w).
            Inr (upd_case n (\<lambda>c. c\<lparr>c_curr_order := oid\<rparr>) w))
       else Inr w) (\<lambda>w.
     rbind (if i_max_pos (w_ti w) < as_u64 (getPosition opp w) then
         let sz = ucast (as_u64 (getPosition opp w) - i_max_pos (w_ti w));
             price = oppositePrice (w_ti w);
             w = upd_case n (\<lambda>c. c\<lparr>c_oppo_close_size := sz, c_oppo_send_price := price\<rparr>) w
         in rbind (close_fco opp price sz False w) (\<lambda>(oid, w).
            Inr (upd_case n (\<lambda>c. c\<lparr>c_oppo_order := oid\<rparr>) w))
       else Inr w) (\<lambda>w.
     Inr (set_state n PRICE_CHANGE w))))"

definition TradeCase5_reprice :: "nat \<Rightarrow> world \<Rightarrow> world res" where
  "TradeCase5_reprice n w =
     with_accs n w (\<lambda>c cur opp.
     if as_u64 (getPosition opp w) \<le> i_max_pos (w_ti w) \<and> as_u64 (getPosition cur w) \<le> i_max_pos (w_ti w)
     then Inr (set_state n DONE w)
     else
       let new_curr_price = currentPrice (w_ti w) in
       rbind (if \<not> deq (c_curr_send_price c) new_curr_price \<and> c_curr_order c \<noteq> 0 then
           rbind (change cur (c_curr_order c) new_curr_price 0 w) (\<lambda>(oid, w).
           Inr (if unchanged oid (c_curr_order c)
                then upd_case n (\<lambda>c. c\<lparr>c_curr_order := 0\<rparr>) w else w))
         else Inr w) (\<lambda>w.
       let new_oppo_price = oppositePrice (w_ti w) in
       if \<not> deq (c_oppo_send_price c) new_oppo_price \<and> c_oppo_order c \<noteq> 0 then
         rbind (change opp (c_oppo_order c) new_oppo_price 0 w) (\<lambda>(oid, w).
         Inr (if unchanged oid (c_oppo_order c)
              then upd_case n (\<lambda>c. c\<lparr>c_oppo_order := 0\<rparr>) w else w))
       else Inr w))"

section \<open>CloseOppositeWithPNL\<close>

definition CloseOppositeWithPNL_init :: "nat \<Rightarrow> world \<Rightarrow> world res" where
  "CloseOppositeWithPNL_init n w =
     with_accs n w (\<lambda>c cur opp.
     let price = i_trade_price (w_ti w);
         w = upd_case n (\<lambda>c. c\<lparr>c_close_price := price\<rparr>) w
     in if dle price (Fin 0) then Inr (set_state n FAILED w)
        else
          let close_size = fst (sizeofCloseOrderWithPNL opp price w);
              w = upd_case n (\<lambda>c. c\<lparr>c_close_size := close_size\<rparr>) w
          in if close_size = 0 then Inr (set_state n FAILED w)
             else rbind (close_fco opp price close_size False w) (\<lambda>(oid, w).
               Inr (upd_case n (\<lambda>c. c\<lparr>c_close_id := oid,
                      c_state := (if oid = 0 then FAILED else PRICE_CHANGE)\<rparr>) w)))"

definition CloseOppositeWithPNL_reprice :: "nat \<Rightarrow> world \<Rightarrow> world res" where
  "CloseOppositeWithPNL_reprice n w =
     with_accs n w (\<lambda>c cur opp.
     let w = (if uint (c_init_size c) - getPosition opp w = uint (c_close_size c)
              then set_state n DONE w else w);
         new_price = i_trade_price (w_ti w)
     in if deq new_price (c_send_price c) then Inr w
        else
          let new_size = fst (sizeofCloseOrderWithPNL opp new_price w) in
          if new_size = 0
          then rbind (cancel opp (c_main_order_id c) w) (\<lambda>(_, w). Inr (set_state n DONE w))
          else rbind (change opp (c_main_order_id c) new_price new_size w) (\<lambda>(oid, w).
            if unchanged oid (c_main_order_id c) then Inr (set_state n DONE w)
            else Inr (upd_case n (\<lambda>c. c\<lparr>c_main_order_id := oid, c_send_price := new_price,
                        c_close_size := new_size\<rparr>) w)))"

definition CloseOppositeWithPNL_done :: "nat \<Rightarrow> world \<Rightarrow> world res" where
  "CloseOppositeWithPNL_done n w =
     with_accs n w (\<lambda>c cur opp.
     Inr (if uint (c_init_size c) = getPosition opp w then set_state n FAILED w else w))"

section \<open>HedgeCurrent\<close>

definition HedgeCurrent_init :: "nat \<Rightarrow> world \<Rightarrow> world res" where
  "HedgeCurrent_init n w =
     with_accs n w (\<lambda>c cur opp.
     let ho_size = as_u32 (getPosition opp w - getPosition cur w);
         w = upd_case n (\<lambda>c. c\<lparr>c_ho_size := ho_size\<rparr>) w
     in rbind (sendPrice ho_size (w_ti w)) (\<lambda>price.
        let w = upd_case n (\<lambda>c. c\<lparr>c_send_price := price\<rparr>) w in
        if 0 < ho_size \<and> dlt (Fin 0) price then
          rbind (open_mmf cur price ho_size False w) (\<lambda>(oid, w).
          Inr (upd_case n (\<lambda>c. c\<lparr>c_main_order_id := oid, c_state := PRICE_CHANGE\<rparr>) w))
        else Inr (set_state n FAILED w)))"

definition HedgeCurrent_reprice :: "nat \<Rightarrow> world \<Rightarrow> world res" where
  "HedgeCurrent_reprice n w =
     with_accs n w (\<lambda>c cur opp.
     let w = (if getPosition cur w = getPosition opp w then set_state n DONE w else w) in
     rbind (openPrice (c_ho_size c) (c_send_price c) (w_ti w)) (\<lambda>new_price.
     if deq new_price (c_send_price c) then Inr w
     else rbind (change cur (c_main_order_id c) new_price 0 w) (\<lambda>(oid, w).
       if unchanged oid (c_main_order_id c) then Inr (set_state n WAIT w)
       else Inr (upd_case n (\<lambda>c. c\<lparr>c_main_order_id := oid, c_send_price := new_price\<rparr>) w))))"

definition HedgeCurrent_wait :: "nat \<Rightarrow> world \<Rightarrow> world res" where
  "HedgeCurrent_wait = wait_for_equality"

definition HedgeCurrent_destructor :: "nat \<Rightarrow> world \<Rightarrow> world res" where
  "HedgeCurrent_destructor n w =
     with_accs n w (\<lambda>c cur opp.
     if getPosition cur w = getPosition opp w
     then repackagePositionTable cur (as_u32 (i_base_qty (w_ti w))) (i_mpv_value (w_ti w)) (Fin 0) w
     else Inr w)"

section \<open>TradeCase6C\<close>

definition TradeCase6C_init :: "nat \<Rightarrow> world \<Rightarrow> world res" where
  "TradeCase6C_init n w =
     with_accs n w (\<lambda>c cur opp.
     let ti = w_ti w in
     if a_tranch_counter (w_ta w cur) = i_tranch_value ti then Inr (set_state n DONE w)
     else rbind (open_lots cur (table_startingPrice (a_position_table (w_ta w cur))) (c_sign c)
                   (i_mpv_value ti) (i_base_qty ti) (TD_trade_send_close n)
                   (int32_of (uint (residual cur w))) 1 w) (\<lambda>(_, w).
       Inr (set_state n WAIT w)))"

definition TradeCase6C_wait :: "nat \<Rightarrow> world \<Rightarrow> world res" where
  "TradeCase6C_wait n w =
     with_accs n w (\<lambda>c cur opp.
     Inr (if c_tranch_at_init c + 1 = a_tranch_counter (w_ta w cur) then set_state n DONE w else w))"

section \<open>TradeCase7\<close>

definition TradeCase7_init :: "nat \<Rightarrow> world \<Rightarrow> world res" where
  "TradeCase7_init n w =
     with_accs n w (\<lambda>c cur opp.
     let pnl = getOpenPNL cur (i_reference_price (w_ti w)) w;
         adjustment = ddiv pnl (dbl_of_int (getPosition opp w))
     in rbind (repackagePositionTable opp (as_u32 (i_base_qty (w_ti w))) (i_mpv_value (w_ti w))
                 adjustment w) (\<lambda>w.
        Inr (set_state n DONE w)))"

section \<open>TradeCase9\<close>

definition TradeCase9_init :: "nat \<Rightarrow> world \<Rightarrow> world res" where
  "TradeCase9_init n w =
     with_accs n w (\<lambda>c cur opp.
     rbind (closePrice (as_u32 (getPosition cur w)) (Fin 0) (w_ti w)) (\<lambda>price.
     let w = upd_case n (\<lambda>c. c\<lparr>c_send_price := price\<rparr>) w in
     if dle price (Fin 0) then Inr (set_state n FAILED w)
     else
       let close_size = fst (sizeofCloseOrderWithPNL cur price w);
           w = upd_case n (\<lambda>c. c\<lparr>c_close_size := close_size\<rparr>) w
       in if close_size = 0 then Inr (set_state n FAILED w)
          else rbind (close_fco cur price close_size False w) (\<lambda>(oid, w).
            Inr (upd_case n (\<lambda>c. c\<lparr>c_main_order_id := oid,
                   c_state := (if oid = 0 then FAILED else PRICE_CHANGE)\<rparr>) w))))"

definition TradeCase9_reprice :: "nat \<Rightarrow> world \<Rightarrow> world res" where
  "TradeCase9_reprice n w =
     with_accs n w (\<lambda>c cur opp.
     if getPosition cur w = 0 then Inr (set_state n DONE w)
     else rbind (closePrice (as_u32 (getPosition cur w)) (Fin 0) (w_ti w)) (\<lambda>new_price.
       if dle new_price (Fin 0) \<or> deq new_price (c_send_price c) then Inr w
       else
         let new_size = fst (sizeofCloseOrderWithPNL cur new_price w) in
         if new_size = 0 then Inr w
         else rbind (change cur (c_main_order_id c) new_price new_size w) (\<lambda>(oid, w).
           if unchanged oid (c_main_order_id c) then Inr (set_state n WAIT w)
           else Inr (upd_case n (\<lambda>c. c\<lparr>c_main_order_id := oid, c_send_price := new_price,
                       c_close_size := new_size\<rparr>) w))))"

definition TradeCase9_wait :: "nat \<Rightarrow> world \<Rightarrow> world res" where
  "TradeCase9_wait n w =
     with_accs n w (\<lambda>c cur opp. Inr (if getPosition cur w = 0 then set_state n DONE w else w))"

section \<open>MaxTLV\<close>

text \<open>The source passes \<open>send_price\<close>, which nothing has set, instead of the two prices it computes.\<close>

definition MaxTLV_init :: "nat \<Rightarrow> world \<Rightarrow> world res" where
  "MaxTLV_init n w =
     with_accs n w (\<lambda>c cur opp.
     let sz = ucast (i_max_pos (w_ti w)) in
     rbind (closePrice sz (Fin 0) (w_ti w)) (\<lambda>curr_price.
     rbind (openPrice sz (Fin 0) (w_ti w)) (\<lambda>oppo_price.
     let w = upd_case n (\<lambda>c. c\<lparr>c_curr_send_price := curr_price, c_oppo_send_price := oppo_price\<rparr>) w in
     rbind (close_fco cur (c_send_price c) sz False w) (\<lambda>(curr_id, w).
     let w = upd_case n (\<lambda>c. c\<lparr>c_curr_order := curr_id\<rparr>) w in
     rbind (close_fco opp (c_send_price c) sz False w) (\<lambda>(oppo_id, w).
     Inr (upd_case n (\<lambda>c. c\<lparr>c_oppo_order := oppo_id, c_state := PRICE_CHANGE\<rparr>) w))))))"

definition MaxTLV_closed :: "u32 \<Rightarrow> OrderAccountType \<Rightarrow> world \<Rightarrow> bool" where
  "MaxTLV_closed size_init s w \<longleftrightarrow>
     as_u64 (getPosition s w) = ucast size_init - i_max_pos (w_ti w)"

definition MaxTLV_reprice :: "nat \<Rightarrow> world \<Rightarrow> world res" where
  "MaxTLV_reprice n w =
     with_accs n w (\<lambda>c cur opp.
     let sz = ucast (i_max_pos (w_ti w)) in
     if MaxTLV_closed (c_curr_size_init c) cur w \<and> MaxTLV_closed (c_oppo_size_init c) opp w
     then Inr (set_state n DONE w)
     else
       rbind (if \<not> MaxTLV_closed (c_curr_size_init c) cur w then
           rbind (closePrice sz (c_curr_send_price c) (w_ti w)) (\<lambda>new_price.
           if \<not> deq new_price (c_curr_send_price c) then
             rbind (change cur (c_curr_order c) new_price 0 w) (\<lambda>(oid, w).
             Inr (if unchanged oid (c_curr_order c) then upd_case n (\<lambda>c. c\<lparr>c_curr_order := 0\<rparr>) w
                  else upd_case n (\<lambda>c. c\<lparr>c_curr_order := oid, c_curr_send_price := new_price\<rparr>) w))
           else Inr w)
         else Inr w) (\<lambda>w.
       if \<not> MaxTLV_closed (c_oppo_size_init c) opp w then
         rbind (openPrice sz (c_oppo_send_price c) (w_ti w)) (\<lambda>new_price.
         if \<not> deq new_price (c_oppo_send_price c) then
           rbind (change opp (c_oppo_order c) new_price 0 w) (\<lambda>(oid, w).
           Inr (if unchanged oid (c_oppo_order c) then upd_case n (\<lambda>c. c\<lparr>c_oppo_order := 0\<rparr>) w
                else upd_case n (\<lambda>c. c\<lparr>c_oppo_order := oid, c_oppo_send_price := new_price\<rparr>) w))
         else Inr w)
       else Inr w))"

section \<open>CloseOppositeWithAnticipatedPNL\<close>

definition isOppositeCloseProfitable :: "TradeCase \<Rightarrow> OrderAccountType \<Rightarrow> OrderAccountType \<Rightarrow> double \<Rightarrow> world \<Rightarrow> bool" where
  "isOppositeCloseProfitable c cur opp price w =
     (let pnl = snd (sizeofCloseOrderWithPNL opp price w);
          adjustment = ddiv pnl (dbl_of_int (getPosition cur w));
          reprice = dsub (getAverage cur w) (dmul adjustment (dbl_of_int (c_sign c)));
          ti = w_ti w
      in dle reprice (i_trade_price ti) \<and> i_trigger_state ti = TRIGGER_STATE_POSITIVE \<or>
         dle (i_trade_price ti) reprice \<and> i_trigger_state ti = TRIGGER_STATE_NEGATIVE)"

definition CloseOppositeWithAnticipatedPNL_init :: "nat \<Rightarrow> world \<Rightarrow> world res" where
  "CloseOppositeWithAnticipatedPNL_init n w =
     with_accs n w (\<lambda>c cur opp.
     let diff = as_u32 (getPosition opp w - getPosition cur w);
         w = upd_case n (\<lambda>c. c\<lparr>c_close_size := diff\<rparr>) w
     in rbind (openPrice diff (Fin 0) (w_ti w)) (\<lambda>price.
        if isOppositeCloseProfitable c cur opp price w then
          let w = upd_case n (\<lambda>c. c\<lparr>c_close_price := price\<rparr>) w in
          rbind (close_fco opp price diff False w) (\<lambda>(oid, w).
          Inr (upd_case n (\<lambda>c. c\<lparr>c_order_id := oid,
                 c_state := (if oid = 0 then FAILED else PRICE_CHANGE)\<rparr>) w))
        else Inr (set_state n FAILED w)))"

definition CloseOppositeWithAnticipatedPNL_reprice :: "nat \<Rightarrow> world \<Rightarrow> world res" where
  "CloseOppositeWithAnticipatedPNL_reprice n w =
     with_accs n w (\<lambda>c cur opp.
     let diff = getPosition opp w - getPosition cur w in
     rbind (openPrice (as_u32 diff) (Fin 0) (w_ti w)) (\<lambda>price.
     let is_profitable = isOppositeCloseProfitable c cur opp price w in
     if diff = 0 then Inr (set_state n DONE w)
     else if \<not> deq price (c_close_price c) \<and> is_profitable then
       rbind (change opp (c_order_id c) price (as_u32 diff) w) (\<lambda>(oid, w).
       if unchanged oid (c_order_id c) then Inr (set_state n WAIT w)
       else Inr (upd_case n (\<lambda>c. c\<lparr>c_order_id := oid, c_close_price := price,
                   c_close_size := as_u32 diff\<rparr>) w))
     else if \<not> is_profitable then
       rbind (cancel opp (c_order_id c) w) (\<lambda>(_, w). Inr (set_state n FAILED w))
     else Inr w))"

definition CloseOppositeWithAnticipatedPNL_wait :: "nat \<Rightarrow> world \<Rightarrow> world res" where
  "CloseOppositeWithAnticipatedPNL_wait = wait_for_equality"

definition CloseOppositeWithAnticipatedPNL_destructor :: "nat \<Rightarrow> world \<Rightarrow> world res" where
  "CloseOppositeWithAnticipatedPNL_destructor n w =
     with_accs n w (\<lambda>c cur opp.
     let pnl = t_pnl (a_position_table (w_ta w opp)); curr_pos = getPosition cur w in
     if dlt (Fin 0) pnl \<and> 0 < curr_pos then
       rbind (repackagePositionTable cur (as_u32 (i_base_qty (w_ti w))) (i_mpv_value (w_ti w))
                (ddiv pnl (dbl_of_int curr_pos)) w) (\<lambda>w.
       Inr (resetPNL opp w))
     else Inr w)"

section \<open>HedgedMode\<close>

definition HedgedMode_open :: "nat \<Rightarrow> OrderAccountType \<Rightarrow> world \<Rightarrow> world res" where
  "HedgedMode_open n full w =
     (let sel = other_account full;
          ho_size = as_u32 (getPosition full w - getPosition sel w);
          w = upd_case n (\<lambda>c. c\<lparr>c_ho_size := ho_size\<rparr>) w
      in rbind (sendPrice ho_size (w_ti w)) (\<lambda>price.
         let w = upd_case n (\<lambda>c. c\<lparr>c_price := price\<rparr>) w in
         rbind (open_mmf sel price ho_size False w) (\<lambda>(oid, w).
         Inr (upd_case n (\<lambda>c. c\<lparr>c_order_id := oid, c_selected_account := Some sel,
                c_other_account := Some full\<rparr>) w))))"

definition HedgedMode_init :: "nat \<Rightarrow> world \<Rightarrow> world res" where
  "HedgedMode_init n w =
     (let bid = i_bid_price (w_ti w); ask = i_ask_price (w_ti w) in
      rbind (if hedgedModeCondition SHORT bid ask w then HedgedMode_open n SHORT w
             else if hedgedModeCondition LONG bid ask w then HedgedMode_open n LONG w
             else Inr w) (\<lambda>w.
      Inr (set_state n PRICE_CHANGE w)))"

definition HedgedMode_reprice :: "nat \<Rightarrow> world \<Rightarrow> world res" where
  "HedgedMode_reprice n w =
     rbind (this_case n w) (\<lambda>c.
     rbind (sendPrice (c_ho_size c) (w_ti w)) (\<lambda>new_price.
     if getPosition SHORT w = getPosition LONG w then Inr (set_state n DONE w)
     else if \<not> deq (c_price c) new_price then
       rbind (rget NullDeref (c_selected_account c)) (\<lambda>sel.
       rbind (change sel (c_order_id c) new_price 0 w) (\<lambda>(oid, w).
       if unchanged oid (c_order_id c) then Inr (set_state n WAIT w)
       else Inr (upd_case n (\<lambda>c. c\<lparr>c_price := new_price, c_order_id := oid\<rparr>) w)))
     else Inr w))"

definition HedgedMode_wait :: "nat \<Rightarrow> world \<Rightarrow> world res" where
  "HedgedMode_wait n w =
     Inr (if getPosition SHORT w = getPosition LONG w then set_state n DONE w else w)"

definition HedgedMode_destructor :: "nat \<Rightarrow> world \<Rightarrow> world res" where
  "HedgedMode_destructor n w =
     rbind (this_case n w) (\<lambda>c.
     if c_state c = DONE \<and> getPosition SHORT w = getPosition LONG w
     then rbind (rget NullDeref (c_other_account c)) (\<lambda>s. Inr (inc_tranch s w))
     else Inr w)"

section \<open>CloseTrigger\<close>

text \<open>
  The loop runs under the lock of the position table. A fill that arrives while it waits for an
  acknowledgement needs the same lock, so the thread that delivers messages stops, and with it the
  acknowledgement: a wait during which the table would have changed never ends.
\<close>

fun close_positions :: "nat \<Rightarrow> OrderAccountType \<Rightarrow> double \<Rightarrow> int \<Rightarrow> PositionRecord list \<Rightarrow> u32 \<Rightarrow> world \<Rightarrow>
    (OrderRep list \<times> world) res" where
  "close_positions n cur err sign [] excess w = Inr ([], w)"
| "close_positions n cur err sign (r # rs) excess w =
     (if \<not> r_is_complete r \<and> 0 < excess then
        let price = dadd (r_open_price r) (dmul err (dbl_of_int sign));
            sz = min (r_open_size r) excess;
            table = a_position_table (w_ta w cur)
        in rbind (close_fco cur price (sz * i_divisor (w_ti w)) False w) (\<lambda>(oid, w).
           if a_position_table (w_ta w cur) \<noteq> table then Inl Blocked
           else if oid = 0 then close_positions n cur err sign rs excess w
           else rbind (close_positions n cur err sign rs (excess - sz) w) (\<lambda>(reps, w).
             Inr (\<lparr>rep_id = oid, rep_size = sz, rep_open = r_open_price r, rep_close = price,
                    rep_is_executed = False\<rparr> # reps, w)))
      else close_positions n cur err sign rs excess w)"

definition CloseTrigger_init :: "nat \<Rightarrow> world \<Rightarrow> world res" where
  "CloseTrigger_init n w =
     with_accs n w (\<lambda>c cur opp.
     let excess = as_u32 (getPosition cur w - getPosition opp w);
         w = (if excess \<le> 0 then set_state n DONE w else w);
         err = estimation_error (w_ti w);
         w = upd_case n (\<lambda>c. c\<lparr>c_error := err\<rparr>) w
     in rbind (close_positions n cur err (c_sign c) (t_rows (a_position_table (w_ta w cur))) excess w) (\<lambda>(reps, w).
        Inr (upd_case n (\<lambda>c. c\<lparr>c_orders := c_orders c @ reps,
               c_state := (if c_orders c @ reps = [] then FAILED else PRICE_CHANGE)\<rparr>) w)))"

fun change_reps :: "OrderAccountType \<Rightarrow> double \<Rightarrow> int \<Rightarrow> OrderRep list \<Rightarrow> world \<Rightarrow>
    (nat \<times> OrderRep list \<times> world) res" where
  "change_reps cur err sign [] w = Inr (0, [], w)"
| "change_reps cur err sign (q # qs) w =
     (if rep_is_executed q then
        rbind (change_reps cur err sign qs w) (\<lambda>(k, rest, w). Inr (k, q # rest, w))
      else
        let price = dadd (rep_open q) (dmul err (dbl_of_int sign)) in
        rbind (change cur (rep_id q) price 0 w) (\<lambda>(oid, w).
        rbind (change_reps cur err sign qs w) (\<lambda>(k, rest, w).
        Inr (if unchanged oid (rep_id q) then (k, q\<lparr>rep_is_executed := True\<rparr> # rest, w)
             else (Suc k, q\<lparr>rep_id := oid, rep_close := price\<rparr> # rest, w)))))"

definition CloseTrigger_reprice :: "nat \<Rightarrow> world \<Rightarrow> world res" where
  "CloseTrigger_reprice n w =
     with_accs n w (\<lambda>c cur opp.
     let excess = as_u32 (getPosition cur w - getPosition opp w);
         w = (if excess \<le> 0 then set_state n DONE w else w);
         new_error = estimation_error (w_ti w)
     in if deq new_error (c_error c) then Inr w
        else
          let w = upd_case n (\<lambda>c. c\<lparr>c_error := new_error\<rparr>) w in
          rbind (change_reps cur new_error (c_sign c) (c_orders c) w) (\<lambda>(nchanged, reps, w).
          let w = upd_case n (\<lambda>c. c\<lparr>c_orders := reps\<rparr>) w
          in Inr (if nchanged = 0 then set_state n DONE w else w)))"

definition CloseTrigger_wait :: "nat \<Rightarrow> world \<Rightarrow> world res" where
  "CloseTrigger_wait = wait_for_equality"

section \<open>TradeCase10\<close>

text \<open>A \<open>dynamic_cast\<close> of the null pointer is null, so the price is that of a short account.\<close>

definition TradeCase10_price :: "OrderAccountType option \<Rightarrow> double \<Rightarrow> TradeInstance \<Rightarrow> double res" where
  "TradeCase10_price s err ti =
     truncate (if s = Some LONG then dadd (bar_open (i_bar0 ti)) err else dsub (bar_open (i_bar0 ti)) err) 2"

definition TradeCase10_init :: "nat \<Rightarrow> world \<Rightarrow> world res" where
  "TradeCase10_init n w =
     with_accs n w (\<lambda>c cur opp.
     let curr_pos = getPosition cur w; oppo_pos = getPosition opp w;
         w = (if 0 < curr_pos \<and> oppo_pos = 0 then set_state n DONE w
              else if oppo_pos < curr_pos
              then upd_case n (\<lambda>c. c\<lparr>c_account_to_close := i_current_acc (w_ti w)\<rparr>) w
              else w)
     in rbind (this_case n w) (\<lambda>c.
        rbind (rget NullDeref (c_account_to_close c)) (\<lambda>acc.
        let original_size = as_u32 (getPosition acc w);
            close_size = as_u32 (min (i_base_qty (w_ti w)) (uint original_size));
            w = (if close_size \<le> 0 then set_state n DONE w else w);
            err = estimation_error (w_ti w);
            w = upd_case n (\<lambda>c. c\<lparr>c_original_size := original_size, c_close_size := close_size,
                  c_error := err\<rparr>) w
        in rbind (TradeCase10_price (Some acc) err (w_ti w)) (\<lambda>price.
           let w = upd_case n (\<lambda>c. c\<lparr>c_send_price := price\<rparr>) w in
           rbind (close_fco acc price close_size False w) (\<lambda>(oid, w).
           Inr (upd_case n (\<lambda>c. c\<lparr>c_main_order_id := oid,
                  c_state := (if oid = 0 then FAILED else PRICE_CHANGE)\<rparr>) w))))))"

definition TradeCase10_reprice :: "nat \<Rightarrow> world \<Rightarrow> world res" where
  "TradeCase10_reprice n w =
     rbind (this_case n w) (\<lambda>c.
     let err = estimation_error (w_ti w);
         w = upd_case n (\<lambda>c. c\<lparr>c_error := err\<rparr>) w
     in rbind (TradeCase10_price (c_account_to_close c) err (w_ti w)) (\<lambda>new_price.
        if deq new_price (c_send_price c) then Inr w
        else rbind (rget NullDeref (c_account_to_close c)) (\<lambda>acc.
          rbind (change acc (c_main_order_id c) new_price 0 w) (\<lambda>(oid, w).
          if unchanged oid (c_main_order_id c) then Inr (set_state n WAIT w)
          else Inr (upd_case n (\<lambda>c. c\<lparr>c_send_price := new_price, c_main_order_id := oid\<rparr>) w)))))"

definition TradeCase10_wait :: "nat \<Rightarrow> world \<Rightarrow> world res" where
  "TradeCase10_wait n w =
     with_accs n w (\<lambda>c cur opp.
     if 0 < getPosition cur w \<and> getPosition opp w = 0 then Inr (set_state n DONE w)
     else rbind (rget NullDeref (c_account_to_close c)) (\<lambda>acc.
       if getPosition acc w \<le> uint (c_original_size c - c_close_size c)
       then TradeCase10_init n w else Inr w))"

section \<open>The factory\<close>

text \<open>The constructors of the classes: the base class first, then the members of the class in their order.\<close>

definition new_PanicClose :: "world \<Rightarrow> TradeCase res" where
  "new_PanicClose w =
     Inr ((new_TradeCase PANIC_CLOSE (w_ti w))
       \<lparr>c_close_size := 0\<rparr>)"

definition new_SoftClose :: "world \<Rightarrow> TradeCase res" where
  "new_SoftClose w =
     Inr ((new_TradeCase SOFT_CLOSE (w_ti w))
       \<lparr>c_close_size := 0\<rparr>)"

definition new_TradeCase1 :: "world \<Rightarrow> TradeCase res" where
  "new_TradeCase1 w =
     Inr ((new_TradeCase CASE_1 (w_ti w))
       \<lparr>c_prev_send_price := Fin 0, c_close_size := 0\<rparr>)"

definition new_TradeCase3 :: "world \<Rightarrow> TradeCase res" where
  "new_TradeCase3 w =
     Inr ((new_TradeCase CASE_3 (w_ti w))
       \<lparr>c_prev_send_price := Fin 0, c_close_size := 0\<rparr>)"

definition new_TradeCase4 :: "world \<Rightarrow> TradeCase res" where
  "new_TradeCase4 w =
     (let c = new_TradeCase CASE_4 (w_ti w) in
      rbind (rget NullDeref (c_current_acc c)) (\<lambda>cur.
      Inr (c\<lparr>c_init_pos := as_u32 (getPosition cur w), c_threshold := Fin 0,
       c_threshold_limit := Fin 0, c_first_order := 0, c_first_order_price := Fin 0,
       c_first_order_size := 0\<rparr>)))"

definition new_OnEquality :: "world \<Rightarrow> TradeCase res" where
  "new_OnEquality w =
     (let c = new_TradeCase CASE_ONEQUALITY (w_ti w) in
      rbind (rget NullDeref (c_current_acc c)) (\<lambda>cur.
      Inr (c\<lparr>c_init_pos := as_u32 (getPosition cur w),
       c_target_pos := ucast (i_max_pos (w_ti w) * ucast (a_tranch_counter (w_ta w cur) + 1))\<rparr>)))"

definition new_TradeCase5 :: "world \<Rightarrow> TradeCase res" where
  "new_TradeCase5 w =
     Inr ((new_TradeCase CASE_5 (w_ti w))
       \<lparr>c_curr_close_size := 0, c_oppo_close_size := 0, c_curr_send_price := Fin 0,
       c_oppo_send_price := Fin 0, c_curr_order := 0, c_oppo_order := 0\<rparr>)"

definition new_CloseOppositeWithPNL :: "world \<Rightarrow> TradeCase res" where
  "new_CloseOppositeWithPNL w =
     (let c = new_TradeCase CASE_CLOSEOPPOSITE (w_ti w) in
      rbind (rget NullDeref (c_opposite_acc c)) (\<lambda>opp.
      Inr (c\<lparr>c_close_size := 0, c_init_size := as_u32 (getPosition opp w),
       c_close_price := Fin 0, c_close_id := 0\<rparr>)))"

definition new_HedgeCurrent :: "world \<Rightarrow> TradeCase res" where
  "new_HedgeCurrent w =
     Inr ((new_TradeCase CASE_HEDGECURRENT (w_ti w))
       \<lparr>c_ho_size := 0\<rparr>)"

definition new_TradeCase6C :: "world \<Rightarrow> TradeCase res" where
  "new_TradeCase6C w =
     (let c = new_TradeCase CASE_6C (w_ti w) in
      rbind (rget NullDeref (c_current_acc c)) (\<lambda>cur.
      Inr (c\<lparr>c_init_pos := as_u32 (getPosition cur w),
       c_tranch_at_init := a_tranch_counter (w_ta w cur)\<rparr>)))"

definition new_TradeCase7 :: "world \<Rightarrow> TradeCase res" where
  "new_TradeCase7 w =
     Inr (new_TradeCase CASE_7 (w_ti w))"

definition new_TradeCase9 :: "world \<Rightarrow> TradeCase res" where
  "new_TradeCase9 w =
     Inr ((new_TradeCase CASE_9 (w_ti w))
       \<lparr>c_close_size := 0\<rparr>)"

definition new_MaxTLV :: "world \<Rightarrow> TradeCase res" where
  "new_MaxTLV w =
     (let c = new_TradeCase CASE_MAXTLV (w_ti w) in
      rbind (rget NullDeref (c_current_acc c)) (\<lambda>cur.
      rbind (rget NullDeref (c_opposite_acc c)) (\<lambda>opp.
      Inr (c\<lparr>c_curr_order := 0, c_oppo_order := 0, c_curr_send_price := Fin 0,
       c_oppo_send_price := Fin 0, c_curr_size_init := as_u32 (getPosition cur w),
       c_oppo_size_init := as_u32 (getPosition opp w)\<rparr>))))"

definition new_CloseOppositeWithAnticipatedPNL :: "world \<Rightarrow> TradeCase res" where
  "new_CloseOppositeWithAnticipatedPNL w =
     (let c = new_TradeCase CASE_CLOSEOPPOSITEWITH_ANTICIPATED_PNL (w_ti w) in
      rbind (rget NullDeref (c_opposite_acc c)) (\<lambda>opp.
      Inr (c\<lparr>c_close_size := as_u32 (getPosition opp w), c_close_price := Fin 0,
       c_order_id := 0\<rparr>)))"

definition new_HedgedMode :: "world \<Rightarrow> TradeCase res" where
  "new_HedgedMode w =
     Inr ((new_TradeCase CASE_HEDGEDMODE (w_ti w))
       \<lparr>c_ho_size := 0, c_price := Fin 0, c_order_id := 0, c_selected_account := None,
       c_other_account := None\<rparr>)"

definition new_CloseTrigger :: "world \<Rightarrow> TradeCase res" where
  "new_CloseTrigger w =
     Inr ((new_TradeCase CASE_CLOSE_TRIGGER (w_ti w))
       \<lparr>c_close_size := 0, c_error := Fin 0\<rparr>)"

definition new_TradeCase10 :: "world \<Rightarrow> TradeCase res" where
  "new_TradeCase10 w =
     Inr ((new_TradeCase CASE_10 (w_ti w))
       \<lparr>c_account_to_close := i_opposite_acc (w_ti w), c_close_size := 0,
       c_original_size := 0, c_error := Fin 0\<rparr>)"

text \<open>\<open>None\<close> is the null pointer of a type without a class.\<close>

definition construct :: "CaseType \<Rightarrow> world \<Rightarrow> TradeCase option res" where
  "construct ty w = (case ty of
     CASE_NONE \<Rightarrow> Inr None | CASE_2 \<Rightarrow> Inr None
   | PANIC_CLOSE \<Rightarrow> rbind (new_PanicClose w) (Inr \<circ> Some)
   | SOFT_CLOSE \<Rightarrow> rbind (new_SoftClose w) (Inr \<circ> Some)
   | CASE_1 \<Rightarrow> rbind (new_TradeCase1 w) (Inr \<circ> Some)
   | CASE_3 \<Rightarrow> rbind (new_TradeCase3 w) (Inr \<circ> Some)
   | CASE_4 \<Rightarrow> rbind (new_TradeCase4 w) (Inr \<circ> Some)
   | CASE_ONEQUALITY \<Rightarrow> rbind (new_OnEquality w) (Inr \<circ> Some)
   | CASE_5 \<Rightarrow> rbind (new_TradeCase5 w) (Inr \<circ> Some)
   | CASE_CLOSEOPPOSITE \<Rightarrow> rbind (new_CloseOppositeWithPNL w) (Inr \<circ> Some)
   | CASE_HEDGECURRENT \<Rightarrow> rbind (new_HedgeCurrent w) (Inr \<circ> Some)
   | CASE_6C \<Rightarrow> rbind (new_TradeCase6C w) (Inr \<circ> Some)
   | CASE_7 \<Rightarrow> rbind (new_TradeCase7 w) (Inr \<circ> Some)
   | CASE_9 \<Rightarrow> rbind (new_TradeCase9 w) (Inr \<circ> Some)
   | CASE_MAXTLV \<Rightarrow> rbind (new_MaxTLV w) (Inr \<circ> Some)
   | CASE_CLOSEOPPOSITEWITH_ANTICIPATED_PNL \<Rightarrow> rbind (new_CloseOppositeWithAnticipatedPNL w) (Inr \<circ> Some)
   | CASE_HEDGEDMODE \<Rightarrow> rbind (new_HedgedMode w) (Inr \<circ> Some)
   | CASE_CLOSE_TRIGGER \<Rightarrow> rbind (new_CloseTrigger w) (Inr \<circ> Some)
   | CASE_10 \<Rightarrow> rbind (new_TradeCase10 w) (Inr \<circ> Some))"

lemmas constructors = new_PanicClose_def new_SoftClose_def new_TradeCase1_def new_TradeCase3_def new_TradeCase4_def new_OnEquality_def new_TradeCase5_def new_CloseOppositeWithPNL_def new_HedgeCurrent_def new_TradeCase6C_def new_TradeCase7_def new_TradeCase9_def new_MaxTLV_def new_CloseOppositeWithAnticipatedPNL_def new_HedgedMode_def new_CloseTrigger_def new_TradeCase10_def

lemma construct_cases:
  "construct ty w = Inr c \<Longrightarrow> (c = None \<longleftrightarrow> ty = CASE_NONE \<or> ty = CASE_2) \<and> (\<forall>d. c = Some d \<longrightarrow> c_type d = ty)"
  by (cases ty) (auto simp: construct_def constructors new_TradeCase_def Let_def rbind_eq_Inr)

definition factory_create :: "CaseType \<Rightarrow> world \<Rightarrow> (nat option \<times> world) res" where
  "factory_create ty w =
     rbind (construct ty w) (\<lambda>c. case c of
       None \<Rightarrow> Inr (None, w)
     | Some c \<Rightarrow> Inr (Some (w_next_case w),
         w\<lparr>w_cases := (w_cases w)(w_next_case w \<mapsto> c), w_next_case := Suc (w_next_case w)\<rparr>))"

definition run_destructors :: "nat \<Rightarrow> world \<Rightarrow> world res" where
  "run_destructors n w =
     rbind (rbind (this_case n w) (\<lambda>c. case c_type c of
         CASE_HEDGECURRENT \<Rightarrow> HedgeCurrent_destructor n w
       | CASE_CLOSEOPPOSITEWITH_ANTICIPATED_PNL \<Rightarrow> CloseOppositeWithAnticipatedPNL_destructor n w
       | CASE_HEDGEDMODE \<Rightarrow> HedgedMode_destructor n w
       | _ \<Rightarrow> Inr w)) (base_destructor n)"

definition case_destructor :: "nat \<Rightarrow> world \<Rightarrow> world res" where
  "case_destructor n w =
     rbind (run_destructors n w) (\<lambda>w. Inr (w\<lparr>w_cases := (w_cases w)(n := None)\<rparr>))"

text \<open>Assignment to the \<open>unique_ptr\<close>: the new pointer is stored, then the old object is destroyed.\<close>

definition assign_case :: "nat option \<Rightarrow> world \<Rightarrow> world res" where
  "assign_case p w =
     (let old = i_trade_case (w_ti w);
          w = upd_ti (\<lambda>ti. ti\<lparr>i_trade_case := p\<rparr>) w
      in case old of None \<Rightarrow> Inr w | Some n \<Rightarrow> case_destructor n w)"

definition replace_case :: "CaseType \<Rightarrow> world \<Rightarrow> world res" where
  "replace_case ty w = rbind (factory_create ty w) (\<lambda>(p, w). assign_case p w)"

section \<open>Dispatch\<close>

definition case_init :: "nat \<Rightarrow> CaseType \<Rightarrow> world \<Rightarrow> world res" where
  "case_init n ty = (case ty of
     PANIC_CLOSE \<Rightarrow> PanicClose_init n | SOFT_CLOSE \<Rightarrow> SoftClose_init n
   | CASE_1 \<Rightarrow> TradeCase1_init n | CASE_3 \<Rightarrow> TradeCase3_init n | CASE_4 \<Rightarrow> TradeCase4_init n
   | CASE_ONEQUALITY \<Rightarrow> OnEquality_init n | CASE_5 \<Rightarrow> TradeCase5_init n
   | CASE_CLOSEOPPOSITE \<Rightarrow> CloseOppositeWithPNL_init n | CASE_HEDGECURRENT \<Rightarrow> HedgeCurrent_init n
   | CASE_6C \<Rightarrow> TradeCase6C_init n | CASE_7 \<Rightarrow> TradeCase7_init n | CASE_9 \<Rightarrow> TradeCase9_init n
   | CASE_MAXTLV \<Rightarrow> MaxTLV_init n
   | CASE_CLOSEOPPOSITEWITH_ANTICIPATED_PNL \<Rightarrow> CloseOppositeWithAnticipatedPNL_init n
   | CASE_HEDGEDMODE \<Rightarrow> HedgedMode_init n | CASE_CLOSE_TRIGGER \<Rightarrow> CloseTrigger_init n
   | CASE_10 \<Rightarrow> TradeCase10_init n | _ \<Rightarrow> Inr)"

definition case_reprice :: "nat \<Rightarrow> CaseType \<Rightarrow> world \<Rightarrow> world res" where
  "case_reprice n ty = (case ty of
     PANIC_CLOSE \<Rightarrow> PanicClose_reprice n | SOFT_CLOSE \<Rightarrow> SoftClose_reprice n
   | CASE_1 \<Rightarrow> TradeCase1_reprice n | CASE_3 \<Rightarrow> TradeCase3_reprice n | CASE_4 \<Rightarrow> TradeCase4_reprice n
   | CASE_ONEQUALITY \<Rightarrow> OnEquality_reprice n | CASE_5 \<Rightarrow> TradeCase5_reprice n
   | CASE_CLOSEOPPOSITE \<Rightarrow> CloseOppositeWithPNL_reprice n
   | CASE_HEDGECURRENT \<Rightarrow> HedgeCurrent_reprice n
   | CASE_9 \<Rightarrow> TradeCase9_reprice n | CASE_MAXTLV \<Rightarrow> MaxTLV_reprice n
   | CASE_CLOSEOPPOSITEWITH_ANTICIPATED_PNL \<Rightarrow> CloseOppositeWithAnticipatedPNL_reprice n
   | CASE_HEDGEDMODE \<Rightarrow> HedgedMode_reprice n | CASE_CLOSE_TRIGGER \<Rightarrow> CloseTrigger_reprice n
   | CASE_10 \<Rightarrow> TradeCase10_reprice n | _ \<Rightarrow> Inr)"

definition case_wait :: "nat \<Rightarrow> CaseType \<Rightarrow> world \<Rightarrow> world res" where
  "case_wait n ty = (case ty of
     PANIC_CLOSE \<Rightarrow> PanicClose_wait n | SOFT_CLOSE \<Rightarrow> SoftClose_wait n
   | CASE_4 \<Rightarrow> TradeCase4_wait n | CASE_ONEQUALITY \<Rightarrow> OnEquality_wait n
   | CASE_HEDGECURRENT \<Rightarrow> HedgeCurrent_wait n | CASE_6C \<Rightarrow> TradeCase6C_wait n
   | CASE_9 \<Rightarrow> TradeCase9_wait n
   | CASE_CLOSEOPPOSITEWITH_ANTICIPATED_PNL \<Rightarrow> CloseOppositeWithAnticipatedPNL_wait n
   | CASE_HEDGEDMODE \<Rightarrow> HedgedMode_wait n | CASE_CLOSE_TRIGGER \<Rightarrow> CloseTrigger_wait n
   | CASE_10 \<Rightarrow> TradeCase10_wait n | _ \<Rightarrow> Inr)"

definition case_done :: "nat \<Rightarrow> CaseType \<Rightarrow> world \<Rightarrow> world res" where
  "case_done n ty = (case ty of CASE_CLOSEOPPOSITE \<Rightarrow> CloseOppositeWithPNL_done n | _ \<Rightarrow> Inr)"

text \<open>\<open>run\<close> returns the state the handler left.\<close>

definition run :: "nat \<Rightarrow> world \<Rightarrow> (CaseState \<times> world) res" where
  "run n w =
     rbind (this_case n w) (\<lambda>c.
     rbind (case c_state c of
         INIT \<Rightarrow> case_init n (c_type c) w
       | PRICE_CHANGE \<Rightarrow> case_reprice n (c_type c) w
       | DONE \<Rightarrow> case_done n (c_type c) w
       | WAIT \<Rightarrow> case_wait n (c_type c) w
       | _ \<Rightarrow> Inr w) (\<lambda>w.
     rbind (this_case n w) (\<lambda>c. Inr (c_state c, w))))"

end
