(* ===== verification/SymbolFeed.thy ===== *)
theory SymbolFeed
  imports World
begin

text \<open>
  The market data of a symbol (\<open>src/src/config/SymbolConfig.h\<close>): the bar of the current interval, the
  quote, the two price estimates, and the stack of stamps from which the trading thread takes the
  last one.
\<close>

definition dbl_to_u64 :: "double \<Rightarrow> u64 res" where
  "dbl_to_u64 x = rbind (dbl_to_int 0 (2 ^ 64) x) (\<lambda>t. Inr (word_of_int t))"

definition new_Symbol :: "double \<Rightarrow> double \<Rightarrow> double \<Rightarrow> double \<Rightarrow> Symbol" where
  "new_Symbol open_prev min_prev max_prev close_prev =
     \<lparr>s_start_interval = True, s_open_price = Fin (- 1), s_min_price = Fin (- 1),
      s_max_price = Fin (- 1), s_close_price = Fin (- 1), s_open_price_prev = open_prev,
      s_min_price_prev = min_prev, s_max_price_prev = max_prev, s_close_price_prev = close_prev,
      s_price_estimate1 = Fin (- 1), s_price_estimate2 = Fin (- 1), s_instrument_skew = Fin 0,
      s_bid_size = 0, s_bid_price = Fin 0, s_ask_size = 0, s_ask_price = Fin 0,
      s_symbol_stack = []\<rparr>"

definition stamp_of :: "Symbol \<Rightarrow> SymbolStamp" where
  "stamp_of s =
     \<lparr>st_price_estimate1 = s_price_estimate1 s, st_price_estimate2 = s_price_estimate2 s,
      st_instrument_skew = s_instrument_skew s, st_bid_size = s_bid_size s,
      st_bid_price = s_bid_price s, st_ask_size = s_ask_size s, st_ask_price = s_ask_price s\<rparr>"

definition push :: "Symbol \<Rightarrow> Symbol" where
  "push s = s\<lparr>s_symbol_stack := s_symbol_stack s @ [stamp_of s]\<rparr>"

text \<open>\<open>pop\<close> waits for a stamp, takes the last one and drops the others.\<close>

definition pop :: "Symbol \<Rightarrow> (SymbolStamp \<times> Symbol) res" where
  "pop s = (case rev (s_symbol_stack s) of
     [] \<Rightarrow> Inl Blocked
   | st # _ \<Rightarrow> Inr (st, s\<lparr>s_symbol_stack := []\<rparr>))"

definition updatePrice :: "double \<Rightarrow> Symbol \<Rightarrow> Symbol" where
  "updatePrice price s =
     (if s_start_interval s then
        s\<lparr>s_start_interval := False,
          s_close_price_prev := s_close_price s, s_open_price_prev := s_open_price s,
          s_max_price_prev := s_max_price s, s_min_price_prev := s_min_price s,
          s_close_price := price, s_open_price := price, s_max_price := price, s_min_price := price\<rparr>
      else
        s\<lparr>s_max_price := (if dlt (s_max_price s) price then price else s_max_price s),
          s_min_price := (if dlt price (s_min_price s) then price else s_min_price s),
          s_close_price := price\<rparr>)"

definition quote_changed :: "double \<Rightarrow> double \<Rightarrow> double \<Rightarrow> double \<Rightarrow> Symbol \<Rightarrow> bool" where
  "quote_changed bid_size bid_price ask_size ask_price s \<longleftrightarrow>
     (\<not> deq (dbl_of_u64 (s_bid_size s)) bid_size \<or> \<not> deq (dbl_of_u64 (s_ask_size s)) ask_size \<or>
      \<not> deq (s_bid_price s) bid_price \<or> \<not> deq (s_ask_price s) ask_price) \<and>
     dlt (round64 (1 / 1000)) bid_price \<and> dlt (round64 (1 / 1000)) ask_price"

definition store_quote :: "double \<Rightarrow> double \<Rightarrow> double \<Rightarrow> double \<Rightarrow> double \<Rightarrow> Symbol \<Rightarrow> Symbol res" where
  "store_quote skew bid_size bid_price ask_size ask_price s =
     rbind (dbl_to_u64 bid_size) (\<lambda>bs.
     rbind (dbl_to_u64 ask_size) (\<lambda>as.
     Inr (push (s\<lparr>s_bid_size := bs, s_bid_price := bid_price, s_ask_size := as,
                  s_ask_price := ask_price, s_instrument_skew := skew\<rparr>))))"

definition updateQuoteData :: "double \<Rightarrow> double \<Rightarrow> double \<Rightarrow> double \<Rightarrow> Symbol \<Rightarrow> Symbol res" where
  "updateQuoteData bid_size bid_price ask_size ask_price s =
     (if quote_changed bid_size bid_price ask_size ask_price s
      then store_quote (ddiv (dsub bid_size ask_size) (dadd bid_size ask_size))
             bid_size bid_price ask_size ask_price s
      else Inr s)"

definition updateQuoteData_skew ::
    "double \<Rightarrow> double \<Rightarrow> double \<Rightarrow> double \<Rightarrow> double \<Rightarrow> Symbol \<Rightarrow> Symbol res" where
  "updateQuoteData_skew skew bid_size bid_price ask_size ask_price s =
     (if quote_changed bid_size bid_price ask_size ask_price s
      then store_quote skew bid_size bid_price ask_size ask_price s
      else Inr s)"

definition updateInstrumentSkew :: "double \<Rightarrow> Symbol \<Rightarrow> Symbol" where
  "updateInstrumentSkew skew s = s\<lparr>s_instrument_skew := skew\<rparr>"

text \<open>
  \<open>estimate\<close> is the callback's function of the interval's close, minimum, maximum and open price. The
  second branch of the source is also taken with index 0 when the first estimate is unchanged.
\<close>

definition resetIntervalCallback ::
    "(double \<Rightarrow> double \<Rightarrow> double \<Rightarrow> double \<Rightarrow> double) \<Rightarrow> int \<Rightarrow> Symbol \<Rightarrow> Symbol" where
  "resetIntervalCallback estimate index s =
     (let temp = estimate (s_close_price s) (s_min_price s) (s_max_price s) (s_open_price s);
          s = (if dlt (Fin 0) temp then
                 if index = 0 \<and> \<not> deq temp (s_price_estimate1 s)
                 then push (s\<lparr>s_price_estimate1 := temp\<rparr>)
                 else if \<not> deq temp (s_price_estimate2 s)
                 then push (s\<lparr>s_price_estimate2 := temp\<rparr>)
                 else s
               else s)
      in s\<lparr>s_start_interval := True\<rparr>)"

end
