(* ===== verification/TradeInstances.thy ===== *)
theory TradeInstances
  imports TradeCases SymbolFeed
begin

text \<open>
  The trading thread of a pair of accounts and a symbol (\<open>src/src/trade/TradeInstance.cpp\<close> and
  \<open>.h\<close>): reading the market data, the trigger, the selection of a case, the special closing cases
  and one round of the main loop, and the transitions of the whole system.
\<close>

section \<open>Rounds\<close>

definition rounded_to_100 :: "int \<Rightarrow> int" where
  "rounded_to_100 x = trunc_div (x + 50) 100 * 100"

text \<open>The first round whose position is not exceeded, with the rounds after it.\<close>

definition current_round :: "int \<Rightarrow> ShareRound list \<Rightarrow> ShareRound list" where
  "current_round max_pos rounds = dropWhile (\<lambda>rd. rd_position rd < as_u64 max_pos) rounds"

definition quantityToOpen :: "world \<Rightarrow> u32 res" where
  "quantityToOpen w =
     (let ti = w_ti w in
      rbind (rget NullDeref (i_opposite_acc ti)) (\<lambda>opp.
      rbind (rget NullDeref (i_current_acc ti)) (\<lambda>cur.
      let oppo_pos = getPosition opp w * uint (i_divisor ti);
          curr_pos = getPosition cur w * uint (i_divisor ti);
          rounded = as_u64 (rounded_to_100 oppo_pos)
      in case current_round (max oppo_pos curr_pos) (i_share_rounds ti) of
           [] \<Rightarrow> Inr 0
         | rd # rest \<Rightarrow>
             let rd = (if rd_position rd < rounded + rd_increments rd
                       then (case rest of [] \<Rightarrow> rd | next # _ \<Rightarrow> next) else rd);
                 target_pos = min (rd_increments rd + rounded) (i_max_round ti)
             in if as_u64 curr_pos < target_pos
                then if i_divisor ti = 0 then Inl DivByZero
                     else Inr (ucast ((target_pos - as_u64 curr_pos) div ucast (i_divisor ti)))
                else Inr 0)))"

definition roundInForce :: "world \<Rightarrow> u64 res" where
  "roundInForce w =
     (let ti = w_ti w in
      rbind (rget NullDeref (i_opposite_acc ti)) (\<lambda>opp.
      rbind (rget NullDeref (i_current_acc ti)) (\<lambda>cur.
      let max_pos = max (getPosition opp w) (getPosition cur w) in
      Inr (case dropWhile (\<lambda>rd. rd_position rd \<le> as_u64 max_pos) (i_share_rounds ti) of
             [] \<Rightarrow> 0 | rd # _ \<Rightarrow> rd_position rd))))"

definition instance_reprice :: "world \<Rightarrow> world res" where
  "instance_reprice w =
     (let ti = w_ti w in
      rbind (rget NullDeref (i_current_acc ti)) (\<lambda>cur.
      rbind (rget NullDeref (i_opposite_acc ti)) (\<lambda>opp.
      let spread = dabs (dsub (getAverage cur w) (getAverage opp w));
          ap = i_price_estimate_on_trigger ti
      in Inr (case i_trigger_state ti of
           TRIGGER_STATE_POSITIVE \<Rightarrow>
             setPriceInForce SHORT (dsub ap spread) (setPriceInForce LONG ap w)
         | TRIGGER_STATE_NEGATIVE \<Rightarrow>
             setPriceInForce LONG (dadd ap spread) (setPriceInForce SHORT ap w)
         | TRIGGER_STATE_INIT \<Rightarrow> w))))"

definition firstReprice :: "world \<Rightarrow> world res" where
  "firstReprice w =
     (let ti = w_ti w in
      rbind (rget NullDeref (i_current_acc ti)) (\<lambda>cur.
      rbind (rget NullDeref (i_opposite_acc ti)) (\<lambda>opp.
      let spread = dabs (dsub (getAverage cur w) (getAverage opp w));
          w = setAverage cur (i_price_estimate ti) w
      in Inr (setAverage opp (if cur = LONG then dsub (getAverage cur w) spread
                              else dadd (getAverage cur w) spread) w))))"

section \<open>Switches\<close>

definition resume :: "world \<Rightarrow> world" where
  "resume = upd_ti (\<lambda>ti. ti\<lparr>i_is_enable := True\<rparr>)"

definition pause :: "world \<Rightarrow> world" where
  "pause = upd_ti (\<lambda>ti. ti\<lparr>i_is_enable := False\<rparr>)"

definition startAction :: "world \<Rightarrow> world" where
  "startAction = upd_ti (\<lambda>ti. ti\<lparr>i_is_enable := True\<rparr>)"

definition stopAction :: "world \<Rightarrow> world res" where
  "stopAction w =
     rbind (cancelAll SHORT w) (\<lambda>w. rbind (cancelAll LONG w) (\<lambda>w.
     Inr (upd_ti (\<lambda>ti. ti\<lparr>i_is_enable := False\<rparr>) w)))"

definition enablePanicClose :: "world \<Rightarrow> world" where
  "enablePanicClose = upd_ti (\<lambda>ti. ti\<lparr>i_is_panic_close := True, i_panic_close_init := True,
     i_state := TRADE_INSTANCE_PANIC_CLOSE\<rparr>)"

definition disablePanicClose :: "world \<Rightarrow> world" where
  "disablePanicClose = upd_ti (\<lambda>ti. ti\<lparr>i_is_panic_close := False, i_panic_close_init := False\<rparr>)"

definition enableSoftClose :: "world \<Rightarrow> world" where
  "enableSoftClose = upd_ti (\<lambda>ti. ti\<lparr>i_is_soft_close := True, i_soft_close_init := True,
     i_state := TRADE_INSTANCE_SOFT_CLOSE\<rparr>)"

definition disableSoftClose :: "world \<Rightarrow> world" where
  "disableSoftClose = upd_ti (\<lambda>ti. ti\<lparr>i_is_soft_close := False, i_soft_close_init := False\<rparr>)"

definition avicennaToggle :: "world \<Rightarrow> world" where
  "avicennaToggle = upd_ti (\<lambda>ti. ti\<lparr>i_avicenna_toggle := \<not> i_avicenna_toggle ti\<rparr>)"

section \<open>Market data\<close>

definition readSymbolData :: "world \<Rightarrow> world res" where
  "readSymbolData w =
     rbind (pop (w_sym w)) (\<lambda>(stamp, sym).
     Inr (upd_ti (\<lambda>ti. ti
       \<lparr>i_ask_size := ucast (st_ask_size stamp), i_ask_price := st_ask_price stamp,
        i_bid_size := ucast (st_bid_size stamp), i_bid_price := st_bid_price stamp,
        i_bar1 := \<lparr>bar_open = s_open_price_prev sym, bar_close = s_close_price_prev sym,
                    bar_minimum = s_min_price_prev sym, bar_maximum = s_max_price_prev sym\<rparr>,
        i_bar0 := \<lparr>bar_open = s_open_price sym, bar_close = s_close_price sym,
                    bar_minimum = s_min_price sym, bar_maximum = s_max_price sym\<rparr>,
        i_price_estimate := (if i_avicenna_toggle ti then st_price_estimate1 stamp
                             else st_price_estimate2 stamp),
        i_data_wait := False\<rparr>) (w\<lparr>w_sym := sym\<rparr>)))"

section \<open>Selecting a case\<close>

definition selected_case :: "int \<Rightarrow> int \<Rightarrow> TradeInstance \<Rightarrow> CaseType" where
  "selected_case curr_pos oppo_pos ti =
     (if oppo_pos = 0 \<and> curr_pos = 0 then CASE_4
      else if 0 < curr_pos \<and> oppo_pos = 0 then CASE_9
      else if curr_pos = oppo_pos \<and> i_wait_for_next_time_window ti \<and>
              \<not> deq (i_wait_for_next_time_window_avicenna ti) (i_price_estimate ti) then CASE_10
      else if curr_pos < oppo_pos then CASE_HEDGECURRENT
      else CASE_NONE)"

definition caseSelection :: "world \<Rightarrow> world res" where
  "caseSelection w =
     (case (i_current_acc (w_ti w), i_opposite_acc (w_ti w)) of
        (Some cur, Some opp) \<Rightarrow>
          let ty = selected_case (getPosition cur w) (getPosition opp w) (w_ti w);
              w = (if ty = CASE_10
                   then upd_ti (\<lambda>ti. ti\<lparr>i_wait_for_next_time_window := False\<rparr>) w else w)
          in replace_case ty w
      | _ \<Rightarrow> Inr w)"

definition next_avicenna_trigger :: "TradeInstance \<Rightarrow> TriggerState" where
  "next_avicenna_trigger ti = (case i_avicenna_trigger_state ti of
     TRIGGER_STATE_INIT \<Rightarrow>
       if dlt (i_price_estimate ti) (i_bid_price ti) then TRIGGER_STATE_POSITIVE
       else if dlt (i_ask_price ti) (i_price_estimate ti) then TRIGGER_STATE_NEGATIVE
       else TRIGGER_STATE_INIT
   | TRIGGER_STATE_POSITIVE \<Rightarrow>
       if dle (i_ask_price ti) (i_price_estimate ti) then TRIGGER_STATE_NEGATIVE
       else TRIGGER_STATE_POSITIVE
   | TRIGGER_STATE_NEGATIVE \<Rightarrow>
       if dle (i_price_estimate ti) (i_bid_price ti) then TRIGGER_STATE_POSITIVE
       else TRIGGER_STATE_NEGATIVE)"

definition next_trigger :: "TradeInstance \<Rightarrow> TriggerState" where
  "next_trigger ti =
     (if dlt (i_price_estimate_prev ti) (i_price_estimate ti) then TRIGGER_STATE_POSITIVE
      else if dlt (i_price_estimate ti) (i_price_estimate_prev ti) then TRIGGER_STATE_NEGATIVE
      else i_trigger_state ti)"

definition triggerSelection :: "world \<Rightarrow> world res" where
  "triggerSelection w =
     (let w = upd_ti (\<lambda>ti. ti\<lparr>i_avicenna_trigger_state := next_avicenna_trigger ti\<rparr>) w;
          w = upd_ti (\<lambda>ti. ti\<lparr>i_trigger_state := next_trigger ti,
                i_price_estimate_prev := i_price_estimate ti\<rparr>) w;
          w = upd_ti (\<lambda>ti. ti\<lparr>i_trade_price := market_price ti\<rparr>) w;
          t = i_trigger_state (w_ti w)
      in if i_prev_trigger_state (w_ti w) \<noteq> t \<and> t \<noteq> TRIGGER_STATE_INIT then
           let cur = (if t = TRIGGER_STATE_POSITIVE then LONG else SHORT);
               w = upd_ti (\<lambda>ti. ti\<lparr>i_prev_trigger_state := t, i_state := TRADE_INSTANCE_INIT,
                     i_price_estimate_on_trigger := i_price_estimate ti,
                     i_previous_case := CASE_NONE,
                     i_current_acc := Some cur, i_opposite_acc := Some (other_account cur),
                     i_reference_price := (if t = TRIGGER_STATE_POSITIVE then i_bid_price ti
                                           else i_ask_price ti)\<rparr>) w
           in caseSelection w
         else Inr w)"

section \<open>Special cases\<close>

text \<open>The live counts are signed and the limit is unsigned, so the comparison is unsigned.\<close>

definition over_live_limit :: "world \<Rightarrow> bool" where
  "over_live_limit w \<longleftrightarrow>
     i_maximum_live_limit (w_ti w) < as_u32 (getTotalLiveOrderCount SHORT w) \<or>
     i_maximum_live_limit (w_ti w) < as_u32 (getTotalLiveOrderCount LONG w)"

definition selfDestruct :: "world \<Rightarrow> world" where
  "selfDestruct w = (if over_live_limit w then enablePanicClose w else w)"

definition specialCases :: "world \<Rightarrow> (bool \<times> world) res" where
  "specialCases w =
     (let w = selfDestruct w; ti = w_ti w in
      if i_is_panic_close ti then
        if i_panic_close_init ti
        then rbind (replace_case PANIC_CLOSE (upd_ti (\<lambda>ti. ti\<lparr>i_panic_close_init := False\<rparr>) w)) (\<lambda>w.
          Inr (True, w))
        else Inr (True, w)
      else if i_is_soft_close ti then
        if i_soft_close_init ti
        then rbind (replace_case SOFT_CLOSE (upd_ti (\<lambda>ti. ti\<lparr>i_soft_close_init := False\<rparr>) w)) (\<lambda>w.
          Inr (True, w))
        else Inr (True, w)
      else if i_current_acc ti = None \<or> i_opposite_acc ti = None then Inr (False, w)
      else if i_trade_case ti = None then rbind (caseSelection w) (\<lambda>w. Inr (False, w))
      else Inr (False, w))"

section \<open>The main loop\<close>

definition closing_type :: "CaseType \<Rightarrow> bool" where
  "closing_type ty \<longleftrightarrow> ty = PANIC_CLOSE \<or> ty = SOFT_CLOSE"

text \<open>Running the case; the result is whether the thread is to exit.\<close>

definition run_case :: "world \<Rightarrow> (bool \<times> world) res" where
  "run_case w = (case i_trade_case (w_ti w) of
     None \<Rightarrow> Inr (False, w)
   | Some n \<Rightarrow>
       rbind (run n w) (\<lambda>(st, w).
       let w = upd_ti (\<lambda>ti. ti\<lparr>i_last_state := st\<rparr>) w in
       rbind (this_case n w) (\<lambda>c.
       let ty = c_type c; is_done = (c_state c = DONE) in
       if closing_type ty \<and> is_done then Inr (True, w)
       else if (is_done \<or> st = FAILED) \<and> \<not> closing_type ty then
         rbind (assign_case None (upd_ti (\<lambda>ti. ti\<lparr>i_previous_case := ty\<rparr>) w)) (\<lambda>w. Inr (False, w))
       else Inr (False, w))))"

text \<open>
  One round of the loop of \<open>triggerProcessing\<close>. The report to the key-value store at its end names the
  symbol through the current account when there is a case; nothing else of it can fail or changes
  the state.
\<close>

definition report :: "world \<Rightarrow> world res" where
  "report w =
     (if i_trade_case (w_ti w) = None then Inr w
      else rbind (rget NullDeref (i_current_acc (w_ti w))) (\<lambda>_. Inr w))"

definition processing_round :: "world \<Rightarrow> (bool \<times> world) res" where
  "processing_round w =
     (if \<not> i_is_enable (w_ti w) then Inr (False, w)
      else rbind (readSymbolData w) (\<lambda>w.
        if dle (i_price_estimate (w_ti w)) (Fin 0) then Inr (False, w)
        else
          let w = upd_ti (\<lambda>ti. ti\<lparr>i_trade_price := i_price_estimate ti\<rparr>) w in
          rbind (specialCases w) (\<lambda>(special, w).
          rbind (if special then Inr w else triggerSelection w) (\<lambda>w.
          rbind (run_case w) (\<lambda>(finished, w).
          rbind (report w) (\<lambda>w. Inr (finished, w)))))))"

section \<open>Construction\<close>

text \<open>
  What the constructor takes from the symbol and from the trade account's configuration, a position
  it reads back from the key-value store (parsed), and the members it leaves uninitialised.
\<close>

record settings =
  cfg_share_rounds :: "ShareRound list"
  cfg_tranch_value :: u32
  cfg_divisor :: u32
  cfg_multiplier :: double
  cfg_mpv_value :: double
  cfg_mpv_multiplier :: u32
  cfg_base_qty :: u32
  cfg_cancel_on_trigger :: bool
  cfg_maximum_live :: u32
  cfg_maximum_order :: u32

record stored_position =
  pos_price :: double
  pos_pif :: "double option"
  pos_rif :: "u32 option"
  pos_quantity :: int
  pos_total_executed :: int

record uninitialised =
  u_wait_avicenna :: double
  u_last_open_price :: double
  u_mmf_mpv :: double
  u_bar :: Bar

definition rounds_total :: "ShareRound list \<Rightarrow> u64" where
  "rounds_total rds = sum_list (map rd_position rds)"

definition new_TradeInstance :: "settings \<Rightarrow> Symbol \<Rightarrow> uninitialised \<Rightarrow> TradeInstance" where
  "new_TradeInstance cfg symb u =
     \<lparr>i_trade_case = None, i_previous_case = CASE_NONE, i_last_state = NOT_SELECTED,
      i_wait_for_next_time_window_avicenna = u_wait_avicenna u, i_wait_for_next_time_window = False,
      i_share_rounds = cfg_share_rounds cfg, i_tranch_value = cfg_tranch_value cfg,
      i_max_round = rd_position (last (cfg_share_rounds cfg)),
      i_max_pos = rounds_total (cfg_share_rounds cfg),
      i_mpv_value = cfg_mpv_value cfg, i_mpv_multiplier = cfg_mpv_multiplier cfg,
      i_base_qty = int32_of (uint (cfg_base_qty cfg)),
      i_cancel_on_trigger = cfg_cancel_on_trigger cfg,
      i_multiplier = cfg_multiplier cfg, i_divisor = cfg_divisor cfg,
      i_trigger_state = TRIGGER_STATE_INIT, i_avicenna_trigger_state = TRIGGER_STATE_INIT,
      i_prev_trigger_state = TRIGGER_STATE_INIT,
      i_ask_size = 0, i_ask_price = Fin 0, i_bid_size = 0, i_bid_price = Fin 0,
      i_price_estimate = Fin 0, i_price_estimate_prev = Fin 0, i_avicenna_toggle = True,
      i_instrument_skew = s_instrument_skew symb, i_trade_price = Fin 0,
      i_price_estimate_on_trigger = Fin 0, i_reference_price = Fin 0,
      i_state = TRADE_INSTANCE_NONE, i_current_acc = None, i_opposite_acc = None,
      i_data_wait = True, i_is_enable = True, i_is_panic_close = False, i_panic_close_init = False,
      i_is_soft_close = False, i_soft_close_init = False, i_bar0 = u_bar u, i_bar1 = u_bar u,
      i_maximum_live_limit = cfg_maximum_live cfg\<rparr>"

definition load_position :: "OrderAccountType \<Rightarrow> stored_position \<Rightarrow> world \<Rightarrow> world" where
  "load_position s p w =
     (let w = setAverage s (pos_price p) w;
          w = (case pos_pif p of None \<Rightarrow> w | Some v \<Rightarrow> setPriceInForce s v w);
          w = (case pos_rif p of None \<Rightarrow> w | Some v \<Rightarrow> setRoundInForce s v w);
          w = setPosition s (if s = LONG then pos_quantity p else - pos_quantity p) w
      in upd_ta s (\<lambda>a. a\<lparr>a_totalExecuted := pos_total_executed p\<rparr>) w)"

definition start_world :: "settings \<Rightarrow> Symbol \<Rightarrow> gateway \<Rightarrow> uninitialised \<Rightarrow>
    stored_position option \<Rightarrow> stored_position option \<Rightarrow> world" where
  "start_world cfg symb gw u stored_long stored_short =
     (let w = \<lparr>w_heap = (\<lambda>_. new_PositionRequest 0 (Fin 0)), w_next = 0,
            w_oa = (\<lambda>_. \<lparr>oa_request_id_generator = 0, oa_order_hash = (\<lambda>_. None)\<rparr>),
            w_ta = (\<lambda>s. (new_TradeAccount s (cfg_divisor cfg) (u_last_open_price u) (u_mmf_mpv u))
              \<lparr>a_maximum_order_size := cfg_maximum_order cfg,
               a_max_pos := ucast (rounds_total (cfg_share_rounds cfg)),
               a_tranch_value := cfg_tranch_value cfg\<rparr>),
            w_ti = new_TradeInstance cfg symb u, w_sym = symb, w_cases = (\<lambda>_. None),
            w_next_case = 0, w_inbox = [], w_gw = gw, w_calls = 0, w_redis = []\<rparr>;
          w = (case stored_long of None \<Rightarrow> w | Some p \<Rightarrow> load_position LONG p w)
      in case stored_short of None \<Rightarrow> w | Some p \<Rightarrow> load_position SHORT p w)"

text \<open>The constructor reads the last of the configured rounds.\<close>

definition start_instance :: "settings \<Rightarrow> Symbol \<Rightarrow> gateway \<Rightarrow> uninitialised \<Rightarrow>
    stored_position option \<Rightarrow> stored_position option \<Rightarrow> world res" where
  "start_instance cfg symb gw u stored_long stored_short =
     (if cfg_share_rounds cfg = [] then Inl EmptyDeref
      else Inr (start_world cfg symb gw u stored_long stored_short))"

section \<open>Transitions of the system\<close>

text \<open>
  The other threads: messages of the gateway that arrive while the trading thread does not wait,
  prices and quotes of the market, estimates at the end of an interval, and the operator's switches.
  New messages may also be queued for the next wait.
\<close>

inductive step :: "world \<Rightarrow> world \<Rightarrow> bool" where
  step_round: "processing_round w = Inr (b, w') \<Longrightarrow> step w w'"
| step_message: "deliver e w = Inr w' \<Longrightarrow> step w w'"
| step_queue: "step w (w\<lparr>w_inbox := w_inbox w @ [e]\<rparr>)"
| step_price: "step w (w\<lparr>w_sym := updatePrice p (w_sym w)\<rparr>)"
| step_quote: "updateQuoteData bs bp as ap (w_sym w) = Inr s \<Longrightarrow> step w (w\<lparr>w_sym := s\<rparr>)"
| step_interval: "step w (w\<lparr>w_sym := resetIntervalCallback f i (w_sym w)\<rparr>)"
| step_panic: "step w (enablePanicClose w)"
| step_soft: "step w (enableSoftClose w)"
| step_no_panic: "step w (disablePanicClose w)"
| step_no_soft: "step w (disableSoftClose w)"
| step_stop: "stopAction w = Inr w' \<Longrightarrow> step w w'"
| step_start: "step w (startAction w)"
| step_toggle: "step w (avicennaToggle w)"

inductive reachable :: "world \<Rightarrow> world \<Rightarrow> bool" for w0 where
  reachable_start: "reachable w0 w0"
| reachable_step: "reachable w0 w \<Longrightarrow> step w w' \<Longrightarrow> reachable w0 w'"

end
