(* ===== verification/PositionTable_Laws.thy ===== *)
theory PositionTable_Laws
  imports PositionTable
begin

text \<open>
  What the position table guarantees: order, the agreement of its counter with its rows, the
  effect of a close fill, the selection of profitable rows, and the lots of a repackaging.
\<close>

section \<open>The invariant\<close>

definition open_total :: "PositionRecord list \<Rightarrow> u32" where
  "open_total rows = sum_list (map r_open_size (filter (\<lambda>r. \<not> r_is_complete r) rows))"

definition closed_total :: "PositionRecord list \<Rightarrow> u32" where
  "closed_total rows = sum_list (map r_close_size (filter r_is_complete rows))"

definition row_ok :: "PositionRecord \<Rightarrow> bool" where
  "row_ok r \<longleftrightarrow> is_fin (r_open_price r) \<and>
     r_close_size r = (if r_is_complete r then r_open_size r else 0)"

definition rows_sorted :: "int \<Rightarrow> PositionRecord list \<Rightarrow> bool" where
  "rows_sorted sign rows \<longleftrightarrow>
     sorted_wrt (\<lambda>a b. \<not> dgt_side sign (r_open_price a) (r_open_price b)) rows"

definition table_inv :: "PositionRecordTable \<Rightarrow> bool" where
  "table_inv t \<longleftrightarrow>
     t_sign t = (if t_is_long t then 1 else - 1) \<and>
     (\<forall>r \<in> set (t_rows t). row_ok r) \<and>
     rows_sorted (t_sign t) (t_rows t) \<and>
     t_open_size t = open_total (t_rows t)"

lemma table_invD:
  assumes "table_inv t"
  shows "t_sign t = (if t_is_long t then 1 else - 1)"
    and "\<forall>r \<in> set (t_rows t). row_ok r"
    and "rows_sorted (t_sign t) (t_rows t)"
    and "t_open_size t = open_total (t_rows t)"
  using assms unfolding table_inv_def by blast+

lemma open_total_simps [simp]:
  "open_total [] = 0"
  "open_total (r # rs) = (if r_is_complete r then open_total rs else r_open_size r + open_total rs)"
  "open_total (xs @ ys) = open_total xs + open_total ys"
  "open_total (rev xs) = open_total xs"
  by (simp_all add: open_total_def sum_list_rev flip: rev_filter rev_map)

lemma closed_total_simps [simp]:
  "closed_total [] = 0"
  "closed_total (r # rs) =
     (if r_is_complete r then r_close_size r + closed_total rs else closed_total rs)"
  "closed_total (xs @ ys) = closed_total xs + closed_total ys"
  "closed_total (rev xs) = closed_total xs"
  by (simp_all add: closed_total_def sum_list_rev flip: rev_filter rev_map)

lemma total_visit_order [simp]:
  "open_total (visit_order l xs) = open_total xs"
  "closed_total (visit_order l xs) = closed_total xs"
  "set (visit_order l xs) = set xs"
  "visit_order l (visit_order l xs) = xs"
  by (simp_all add: visit_order_def)

lemma table_inv_new: "table_inv (new_table is_long)"
  by (simp add: table_inv_def new_table_def rows_sorted_def)

section \<open>Open fills\<close>

lemma open_total_insert_before:
  "open_total (insert_before P r xs) = (if r_is_complete r then 0 else r_open_size r) + open_total xs"
  by (induction xs) auto

lemma rows_sorted_insert:
  assumes "sign = 1 \<or> sign = - 1" "\<forall>r \<in> set rows. row_ok r" "is_fin (r_open_price x)"
    "rows_sorted sign rows"
  shows "rows_sorted sign (insert_record sign x rows)"
  using assms long_order.sorted_insert_before [of rows r_open_price x]
    short_order.sorted_insert_before [of rows r_open_price x]
  by (auto simp: rows_sorted_def insert_record_def row_ok_def)

lemma new_record_simps [simp]:
  "r_is_complete (new_record oid sz price avg sign) = False"
  "r_open_size (new_record oid sz price avg sign) = sz"
  "r_close_size (new_record oid sz price avg sign) = 0"
  "r_open_price (new_record oid sz price avg sign) = price"
  "r_open_order_id (new_record oid sz price avg sign) = oid"
  by (simp_all add: new_record_def)

lemma recordOpenPosition_simps [simp]:
  "t_is_long (recordOpenPosition oid sz price t) = t_is_long t"
  "t_sign (recordOpenPosition oid sz price t) = t_sign t"
  "t_open_size (recordOpenPosition oid sz price t) = t_open_size t + sz"
  "t_pnl (recordOpenPosition oid sz price t) = t_pnl t"
  by (simp_all add: recordOpenPosition_def Let_def)

lemma recordOpenPosition_rows:
  "t_rows (recordOpenPosition oid sz price t) =
     insert_record (t_sign t)
       (new_record oid sz price (t_average (recordOpenPosition oid sz price t)) (t_sign t)) (t_rows t)"
  by (simp add: recordOpenPosition_def Let_def)

lemma table_inv_open:
  assumes t: "table_inv t" and p: "is_fin price"
  shows "table_inv (recordOpenPosition oid sz price t)"
proof -
  define x where
    "x = new_record oid sz price (t_average (recordOpenPosition oid sz price t)) (t_sign t)"
  have x: "row_ok x" "is_fin (r_open_price x)" "\<not> r_is_complete x" "r_open_size x = sz"
    using p by (simp_all add: x_def row_ok_def)
  have rows: "t_rows (recordOpenPosition oid sz price t) = insert_record (t_sign t) x (t_rows t)"
    by (simp add: x_def recordOpenPosition_rows)
  have "t_sign t = 1 \<or> t_sign t = - 1" using t by (auto simp: table_inv_def)
  then have "rows_sorted (t_sign t) (insert_record (t_sign t) x (t_rows t))"
    using t x by (intro rows_sorted_insert) (auto simp: table_inv_def)
  moreover have "open_total (insert_record (t_sign t) x (t_rows t)) = t_open_size t + sz"
    using t x by (simp add: insert_record_def open_total_insert_before table_inv_def)
  moreover have "\<forall>r \<in> set (insert_record (t_sign t) x (t_rows t)). row_ok r"
    using t x by (simp add: insert_record_def table_inv_def)
  ultimately show ?thesis using t by (simp add: table_inv_def rows)
qed

section \<open>Close fills\<close>

lemma setCloseInfo_simps [simp]:
  "r_is_complete (setCloseInfo oid sz price avg b r) = b"
  "r_open_size (setCloseInfo oid sz price avg b r) = r_open_size r"
  "r_close_size (setCloseInfo oid sz price avg b r) = sz"
  "r_open_price (setCloseInfo oid sz price avg b r) = r_open_price r"
  "r_is_complete (setPartialCloseInfo oid sz price avg r)"
  "r_open_size (setPartialCloseInfo oid sz price avg r) = sz"
  "r_close_size (setPartialCloseInfo oid sz price avg r) = sz"
  "r_open_price (setPartialCloseInfo oid sz price avg r) = r_open_price r"
  "\<not> r_is_complete (split_record r sz)"
  "r_open_size (split_record r sz) = r_open_size r - sz"
  "r_close_size (split_record r sz) = 0"
  "r_open_price (split_record r sz) = r_open_price r"
  by (simp_all add: setCloseInfo_def setPartialCloseInfo_def split_record_def)

lemma close_walk_ConsE:
  assumes "close_walk c oid price avg d p (r # rs) = (rows', d', p')"
  obtains (stop) "d = 0" "rows' = r # rs" "d' = d" "p' = p"
  | (full) rs' where "c r" "r_open_size r \<le> d" "d \<noteq> 0"
      "close_walk c oid price avg (d - r_open_size r)
         (dadd p (r_pnl (setCloseInfo oid (r_open_size r) price avg True r))) rs = (rs', d', p')"
      "rows' = setCloseInfo oid (r_open_size r) price avg True r # rs'"
  | (part) "c r" "d < r_open_size r" "d \<noteq> 0"
      "rows' = split_record r d # setPartialCloseInfo oid d price avg r # rs" "d' = 0"
  | (skip) rs' where "\<not> c r" "d \<noteq> 0" "close_walk c oid price avg d p rs = (rs', d', p')"
      "rows' = r # rs'"
  using assms by (auto simp: Let_def not_le split: if_splits prod.splits)

text \<open>A pass that touches open rows only moves what it consumes from open to closed.\<close>

lemma close_walk_totals:
  "close_walk c oid price avg d p rows = (rows', d', p') \<Longrightarrow>
   \<forall>r \<in> set rows. c r \<longrightarrow> \<not> r_is_complete r \<Longrightarrow>
   open_total rows' = open_total rows - (d - d') \<and>
   closed_total rows' = closed_total rows + (d - d')"
proof (induction rows arbitrary: rows' d d' p p')
  case (Cons r rs)
  have rs: "\<forall>r \<in> set rs. c r \<longrightarrow> \<not> r_is_complete r" using Cons.prems(2) by simp
  have r: "c r \<Longrightarrow> \<not> r_is_complete r" using Cons.prems(2) by simp
  from Cons.prems(1) show ?case
  proof (cases rule: close_walk_ConsE)
    case (full rs')
    then show ?thesis using Cons.IH [OF full(4) rs] r by simp
  next
    case (skip rs')
    then show ?thesis using Cons.IH [OF skip(3) rs] by simp
  next
    case part
    then show ?thesis using r by simp
  qed simp
qed simp

lemma row_ok_close [simp]:
  "row_ok (setCloseInfo oid (r_open_size r) price avg True r) = is_fin (r_open_price r)"
  "row_ok (setPartialCloseInfo oid sz price avg r) = is_fin (r_open_price r)"
  "row_ok (split_record r sz) = is_fin (r_open_price r)"
  by (simp_all add: row_ok_def)

lemma close_walk_row_ok:
  "close_walk c oid price avg d p rows = (rows', d', p') \<Longrightarrow>
   \<forall>r \<in> set rows. row_ok r \<Longrightarrow> \<forall>r \<in> set rows'. row_ok r"
proof (induction rows arbitrary: rows' d d' p p')
  case (Cons r rs)
  have rs: "\<forall>r \<in> set rs. row_ok r" and r: "row_ok r" using Cons.prems(2) by simp_all
  have price: "is_fin (r_open_price r)" using r by (simp add: row_ok_def)
  from Cons.prems(1) show ?case
  proof (cases rule: close_walk_ConsE)
    case (full rs')
    show ?thesis using Cons.IH [OF full(4) rs] price by (simp add: full(5))
  next
    case (skip rs')
    show ?thesis using Cons.IH [OF skip(3) rs] r by (simp add: skip(4))
  next
    case part
    show ?thesis using rs price by (simp add: part(4))
  next
    case stop
    show ?thesis using rs r by (simp add: stop(2))
  qed
qed simp

lemma close_walk_prices:
  "close_walk c oid price avg d p rows = (rows', d', p') \<Longrightarrow>
   r_open_price ` set rows' = r_open_price ` set rows"
proof (induction rows arbitrary: rows' d d' p p')
  case (Cons r rs)
  from Cons.prems(1) show ?case
  proof (cases rule: close_walk_ConsE)
    case (full rs')
    then show ?thesis using Cons.IH [OF full(4)] by simp
  next
    case (skip rs')
    then show ?thesis using Cons.IH [OF skip(3)] by simp
  qed simp_all
qed simp

lemma close_walk_sorted:
  "close_walk c oid price avg d p rows = (rows', d', p') \<Longrightarrow>
   sorted_wrt (\<lambda>a b. P (r_open_price a) (r_open_price b)) rows \<Longrightarrow>
   \<forall>r \<in> set rows. P (r_open_price r) (r_open_price r) \<Longrightarrow>
   sorted_wrt (\<lambda>a b. P (r_open_price a) (r_open_price b)) rows'"
proof (induction rows arbitrary: rows' d d' p p')
  case (Cons r rs)
  have hd: "\<forall>b \<in> set ys. P (r_open_price r) (r_open_price b)"
    if "close_walk c oid price avg e q rs = (ys, e', q')" for e q ys e' q'
  proof -
    have "\<forall>x \<in> r_open_price ` set rs. P (r_open_price r) x" using Cons.prems(2) by simp
    then have "\<forall>x \<in> r_open_price ` set ys. P (r_open_price r) x"
      by (simp only: close_walk_prices [OF that])
    then show ?thesis by simp
  qed
  from Cons.prems(1) show ?case
  proof (cases rule: close_walk_ConsE)
    case (full rs')
    then show ?thesis using Cons.IH [OF full(4)] hd [OF full(4)] Cons.prems(2,3) by simp
  next
    case (skip rs')
    then show ?thesis using Cons.IH [OF skip(3)] hd [OF skip(3)] Cons.prems(2,3) by simp
  qed (use Cons.prems(2,3) in simp_all)
qed simp

lemma close_walk_le:
  "close_walk c oid price avg d p rows = (rows', d', p') \<Longrightarrow> d' \<le> d"
proof (induction rows arbitrary: rows' d d' p p')
  case (Cons r rs)
  from Cons.prems(1) show ?case
  proof (cases rule: close_walk_ConsE)
    case (full rs')
    then show ?thesis
      using Cons.IH [OF full(4)] word_sub_le [OF full(2)] by simp
  next
    case (skip rs')
    then show ?thesis using Cons.IH [OF skip(3)] by simp
  qed simp_all
qed simp

definition capacity :: "(PositionRecord \<Rightarrow> bool) \<Rightarrow> PositionRecord list \<Rightarrow> nat" where
  "capacity c rows = sum_list (map (\<lambda>r. unat (r_open_size r)) (filter c rows))"

lemma capacity_simps [simp]:
  "capacity c [] = 0"
  "capacity c (r # rs) = (if c r then unat (r_open_size r) + capacity c rs else capacity c rs)"
  "capacity c (visit_order l rs) = capacity c rs"
  by (simp_all add: capacity_def visit_order_def sum_list_rev flip: rev_filter rev_map)

lemma close_walk_enough:
  "close_walk c oid price avg d p rows = (rows', d', p') \<Longrightarrow>
   unat d \<le> capacity c rows \<Longrightarrow> d' = 0"
proof (induction rows arbitrary: rows' d d' p p')
  case Nil
  then show ?case by (simp add: unat_eq_zero)
next
  case (Cons r rs)
  from Cons.prems(1) show ?case
  proof (cases rule: close_walk_ConsE)
    case (full rs')
    then have "unat (d - r_open_size r) = unat d - unat (r_open_size r)" by (simp add: unat_sub)
    then show ?thesis using Cons.IH [OF full(4)] Cons.prems(2) full(1) by simp
  next
    case (skip rs')
    then show ?thesis using Cons.IH [OF skip(3)] Cons.prems(2) by simp
  qed simp_all
qed

lemma close_walk_cong:
  "\<forall>r \<in> set rows. c r = c' r \<Longrightarrow>
   close_walk c oid price avg d p rows = close_walk c' oid price avg d p rows"
  by (induction rows arbitrary: d p) simp_all

text \<open>What a pass takes, it takes from the rows its condition selects.\<close>

lemma close_walk_capacity:
  "close_walk c oid price avg d p rows = (rows', d', p') \<Longrightarrow>
   (\<And>r. r_is_complete r \<Longrightarrow> \<not> c r) \<Longrightarrow> (\<And>r e. c r \<Longrightarrow> c (split_record r e)) \<Longrightarrow>
   capacity c rows' + (unat d - unat d') = capacity c rows"
proof (induction rows arbitrary: rows' d d' p p')
  case (Cons r rs)
  note IH = Cons.IH [OF _ Cons.prems(2,3)]
  from Cons.prems(1) show ?case
  proof (cases rule: close_walk_ConsE)
    case (full rs')
    have "unat (d - r_open_size r) = unat d - unat (r_open_size r)" "unat (r_open_size r) \<le> unat d"
      using full(2) by (simp_all add: unat_sub word_le_nat_alt)
    moreover have "unat d' \<le> unat (d - r_open_size r)"
      using close_walk_le [OF full(4)] by (simp add: word_le_nat_alt)
    ultimately show ?thesis using IH [OF full(4)] full(1) Cons.prems(2) by (simp add: full(5))
  next
    case (skip rs')
    show ?thesis using IH [OF skip(3)] skip(1) by (simp add: skip(4))
  next
    case part
    have "unat (r_open_size r - d) = unat (r_open_size r) - unat d" "unat d < unat (r_open_size r)"
      using part(2) unat_sub [OF less_imp_le [OF part(2)]] by (simp_all add: word_less_nat_alt)
    then show ?thesis using part(1) Cons.prems(2,3) by (simp add: part(4,5))
  next
    case stop
    show ?thesis by (simp add: stop(2,3))
  qed
qed simp

section \<open>Close fills of a table\<close>

definition profitable :: "int \<Rightarrow> double \<Rightarrow> PositionRecord \<Rightarrow> bool" where
  "profitable sign price r \<longleftrightarrow> \<not> r_is_complete r \<and> dgt_side sign price (r_open_price r)"

lemma profit_cond_profitable:
  assumes "table_inv t" "is_fin price" "t_is_long t \<or> (\<forall>r \<in> set (t_rows t). \<not> r_is_complete r)"
  shows "\<forall>r \<in> set (t_rows t). profit_cond (t_is_long t) price r = profitable (t_sign t) price r"
proof
  fix r assume r: "r \<in> set (t_rows t)"
  then have "is_fin (r_open_price r)" using assms(1) by (simp add: table_inv_def row_ok_def)
  then show "profit_cond (t_is_long t) price r = profitable (t_sign t) price r"
    using assms r by (cases "t_is_long t")
      (simp_all add: table_inv_def profit_cond_def profitable_def dgt_side_long dgt_side_short conj_commute)
qed

text \<open>One pass in the visiting order keeps the rows well formed and sorted.\<close>

lemma visit_rows_inv:
  assumes sign: "sign = (if l then 1 else - 1)" and ok: "\<forall>r \<in> set rows. row_ok r"
    and sorted: "rows_sorted sign rows"
    and walk: "close_walk c oid price avg d p (visit_order l rows) = (rows', d', p')"
  shows "(\<forall>r \<in> set rows'. row_ok r) \<and> rows_sorted sign (visit_order l rows')"
proof
  have rows: "\<forall>r \<in> set (visit_order l rows). row_ok r" using ok by simp
  show "\<forall>r \<in> set rows'. row_ok r" by (rule close_walk_row_ok [OF walk rows])
  have fin: "\<forall>r \<in> set (visit_order l rows). is_fin (r_open_price r)"
    using rows by (simp add: row_ok_def)
  show "rows_sorted sign (visit_order l rows')"
  proof (cases l)
    case True
    have "sorted_wrt (\<lambda>a b. \<not> dgt_side 1 (r_open_price b) (r_open_price a)) rows'"
    proof (rule close_walk_sorted [OF walk, where P = "\<lambda>a b. \<not> dgt_side 1 b a"])
      show "sorted_wrt (\<lambda>a b. \<not> dgt_side 1 (r_open_price b) (r_open_price a)) (visit_order l rows)"
        using sorted sign True by (simp add: rows_sorted_def visit_order_def sorted_wrt_rev)
      show "\<forall>r \<in> set (visit_order l rows). \<not> dgt_side 1 (r_open_price r) (r_open_price r)"
        using fin long_order.gt_irrefl by blast
    qed
    then show ?thesis using sign True by (simp add: rows_sorted_def visit_order_def sorted_wrt_rev)
  next
    case False
    have "sorted_wrt (\<lambda>a b. \<not> dgt_side (- 1) (r_open_price a) (r_open_price b)) rows'"
    proof (rule close_walk_sorted [OF walk, where P = "\<lambda>a b. \<not> dgt_side (- 1) a b"])
      show "sorted_wrt (\<lambda>a b. \<not> dgt_side (- 1) (r_open_price a) (r_open_price b)) (visit_order l rows)"
        using sorted sign False by (simp add: rows_sorted_def visit_order_def)
      show "\<forall>r \<in> set (visit_order l rows). \<not> dgt_side (- 1) (r_open_price r) (r_open_price r)"
        using fin short_order.gt_irrefl by blast
    qed
    then show ?thesis using sign False by (simp add: rows_sorted_def visit_order_def)
  qed
qed

lemma recordClosePosition_simps [simp]:
  "t_is_long (recordClosePosition oid sz price t) = t_is_long t"
  "t_sign (recordClosePosition oid sz price t) = t_sign t"
  "t_open_size (recordClosePosition oid sz price t) = t_open_size t - sz"
  by (simp_all add: recordClosePosition_def Let_def split: prod.splits)

lemma recordClosePosition_one_pass:
  assumes "unat sz \<le> capacity (profit_cond (t_is_long t) price) (t_rows t)"
  obtains avg rows' p' where
    "close_walk (profit_cond (t_is_long t) price) oid price avg sz (t_pnl t)
       (visit_order (t_is_long t) (t_rows t)) = (rows', 0, p')"
    "t_rows (recordClosePosition oid sz price t) = visit_order (t_is_long t) rows'"
proof -
  define avg where "avg = t_average (recordClosePosition oid sz price t)"
  obtain rows' d' p' where walk: "close_walk (profit_cond (t_is_long t) price) oid price avg sz (t_pnl t)
       (visit_order (t_is_long t) (t_rows t)) = (rows', d', p')"
    by (metis prod_cases3)
  then have d': "d' = 0" using close_walk_enough [OF walk] assms by simp
  have "avg = (if 0 < t_open_size t - sz
                 then dadd (t_average t)
                        (ddiv (dmul (dsub (t_average t) price) (dbl_of_u32 sz)) (dbl_of_u32 (t_open_size t - sz)))
                 else Fin 0)"
    by (simp add: avg_def recordClosePosition_def Let_def split: prod.splits)
  then have "t_rows (recordClosePosition oid sz price t) = visit_order (t_is_long t) rows'"
    using walk d' by (simp add: recordClosePosition_def Let_def)
  with walk d' show thesis using that by blast
qed

lemma capacity_cong:
  "\<forall>r \<in> set rows. c r = c' r \<Longrightarrow> capacity c rows = capacity c' rows"
  by (induction rows) simp_all

lemma profitable_closed [simp]: "r_is_complete r \<Longrightarrow> \<not> profitable sign price r"
  by (simp add: profitable_def)

lemma profitable_split [simp]:
  "profitable sign price (split_record r e) = dgt_side sign price (r_open_price r)"
  by (simp add: profitable_def)

text \<open>A close fill that the profitable rows can cover.\<close>

lemma close_in_profit:
  assumes t: "table_inv t" and price: "is_fin price"
    and fresh: "t_is_long t \<or> (\<forall>r \<in> set (t_rows t). \<not> r_is_complete r)"
    and sz: "unat sz \<le> capacity (profitable (t_sign t) price) (t_rows t)"
  shows "table_inv (recordClosePosition oid sz price t)"
    and "closed_total (t_rows (recordClosePosition oid sz price t)) = closed_total (t_rows t) + sz"
    and "capacity (profitable (t_sign t) price) (t_rows (recordClosePosition oid sz price t)) + unat sz
           = capacity (profitable (t_sign t) price) (t_rows t)"
proof -
  let ?c = "profitable (t_sign t) price" and ?l = "t_is_long t"
  have eq: "\<forall>r \<in> set (t_rows t). profit_cond ?l price r = ?c r"
    by (rule profit_cond_profitable [OF t price fresh])
  have cap: "capacity (profit_cond ?l price) (t_rows t) = capacity ?c (t_rows t)"
    by (rule capacity_cong [OF eq])
  obtain avg rows' p' where walk0: "close_walk (profit_cond ?l price) oid price avg sz (t_pnl t)
       (visit_order ?l (t_rows t)) = (rows', 0, p')"
    and rows: "t_rows (recordClosePosition oid sz price t) = visit_order ?l rows'"
    using recordClosePosition_one_pass [of sz t price] sz cap by metis
  have walk: "close_walk ?c oid price avg sz (t_pnl t) (visit_order ?l (t_rows t)) = (rows', 0, p')"
    using walk0 close_walk_cong [of "visit_order ?l (t_rows t)" "profit_cond ?l price" ?c] eq by simp
  have totals: "open_total rows' = open_total (t_rows t) - sz"
      "closed_total rows' = closed_total (t_rows t) + sz"
    using close_walk_totals [OF walk] by (simp_all add: profitable_def)
  have "(\<forall>r \<in> set rows'. row_ok r) \<and> rows_sorted (t_sign t) (visit_order ?l rows')"
    by (rule visit_rows_inv [OF table_invD(1) [OF t] table_invD(2) [OF t] table_invD(3) [OF t] walk])
  then show "table_inv (recordClosePosition oid sz price t)"
    using table_invD(1,4) [OF t] totals by (simp add: table_inv_def rows)
  show "closed_total (t_rows (recordClosePosition oid sz price t)) = closed_total (t_rows t) + sz"
    by (simp add: rows totals)
  show "capacity ?c (t_rows (recordClosePosition oid sz price t)) + unat sz = capacity ?c (t_rows t)"
    using close_walk_capacity [OF walk] by (simp add: rows profitable_def)
qed

section \<open>Selecting the profitable rows\<close>

lemma pnl_walk_fst:
  "fst (pnl_walk sign send acc rows) =
     fst acc + sum_list (map r_open_size (filter (profitable sign send) rows))"
  by (induction sign send acc rows rule: pnl_walk.induct) (simp_all add: profitable_def)

lemma word_sum_capacity:
  "(sum_list (map r_open_size (filter c rows)) :: u32) = of_nat (capacity c rows)"
  by (induction rows) (simp_all add: capacity_def)

lemma sizeofOrderWithPnl_fst:
  "fst (sizeofOrderWithPnl send t) = of_nat (capacity (profitable (t_sign t) send) (t_rows t))"
  by (simp add: sizeofOrderWithPnl_def pnl_walk_fst word_sum_capacity)

section \<open>Completed rows\<close>

lemma deleteCompletePosition_simps [simp]:
  "t_is_long (deleteCompletePosition t) = t_is_long t"
  "t_sign (deleteCompletePosition t) = t_sign t"
  "t_open_size (deleteCompletePosition t) = t_open_size t"
  "t_rows (deleteCompletePosition t) = filter (\<lambda>r. \<not> r_is_complete r) (t_rows t)"
  by (simp_all add: deleteCompletePosition_def)

lemma open_total_incomplete: "open_total (filter (\<lambda>r. \<not> r_is_complete r) rows) = open_total rows"
  by (simp add: open_total_def)

lemma table_inv_delete:
  assumes t: "table_inv t"
  shows "table_inv (deleteCompletePosition t)"
proof -
  have "rows_sorted (t_sign t) (filter (\<lambda>r. \<not> r_is_complete r) (t_rows t))"
    using table_invD(3) [OF t] unfolding rows_sorted_def by (rule sorted_wrt_filter)
  then show ?thesis
    using table_invD(1,2,4) [OF t] by (simp add: table_inv_def open_total_incomplete)
qed

lemma pnl_walk_incomplete:
  "pnl_walk sign send acc (filter (\<lambda>r. \<not> r_is_complete r) rows) = pnl_walk sign send acc rows"
  by (induction sign send acc rows rule: pnl_walk.induct) simp_all

section \<open>Repackaging\<close>

text \<open>The lots a size is cut into.\<close>

definition lots :: "nat \<Rightarrow> nat \<Rightarrow> nat \<Rightarrow> nat list" where
  "lots b n sz = map (\<lambda>i. min b (sz - i * b)) [0..<n]"

lemma lots_Suc: "lots b (Suc n) sz = min b sz # lots b n (sz - min b sz)"
proof -
  have "[0..<Suc n] = 0 # map Suc [0..<n]" by (simp only: upt_conv_Cons map_Suc_upt zero_less_Suc)
  then have "lots b (Suc n) sz = min b sz # map (\<lambda>i. min b (sz - Suc i * b)) [0..<n]"
    by (simp add: lots_def comp_def)
  moreover have "sz - Suc i * b = sz - min b sz - i * b" for i by (simp add: min_def)
  ultimately show ?thesis by (simp only: lots_def)
qed

lemma lots_add: "lots b (m + n) sz = lots b m sz @ lots b n (sz - m * b)"
proof (induction m arbitrary: sz)
  case 0
  then show ?case by (simp add: lots_def)
next
  case (Suc m)
  have "sz - min b sz - m * b = sz - Suc m * b" by (simp add: min_def)
  then show ?case using Suc [of "sz - min b sz"] by (simp only: add_Suc lots_Suc append_Cons)
qed

lemma sum_lots: "sum_list (lots b n sz) = min (n * b) sz"
proof (induction n arbitrary: sz)
  case 0
  then show ?case by (simp add: lots_def)
next
  case (Suc n)
  have "sum_list (lots b (Suc n) sz) = min b sz + min (n * b) (sz - min b sz)"
    by (simp add: lots_Suc Suc)
  also have "\<dots> = min (b + n * b) sz" by linarith
  finally show ?case by simp
qed

lemma repack_loop_lots:
  "repack_loop b avg sign f js (oid, rem, rows) = (oid', rem', rows') \<Longrightarrow>
   unat rem' = unat rem - length js * unat b \<and>
   (\<exists>news. rows' = rows @ news \<and> (\<forall>r \<in> set news. \<not> r_is_complete r) \<and>
     map r_open_price news = map f js \<and>
     map (\<lambda>r. unat (r_open_size r)) news = lots (unat b) (length js) (unat rem))"
proof (induction js arbitrary: oid rem rows)
  case Nil
  then show ?case by (simp add: lots_def)
next
  case (Cons i js)
  define sz where "sz = (if b \<le> rem then b else rem)"
  have sz: "unat sz = min (unat b) (unat rem)" by (simp add: sz_def word_le_nat_alt min_def)
  have left: "unat (rem - sz) = unat rem - min (unat b) (unat rem)"
    using sz by (subst unat_sub) (simp_all add: sz_def)
  have "repack_loop b avg sign f js (oid + 1, rem - sz, rows @ [new_record oid sz (f i) avg sign])
          = (oid', rem', rows')"
    using Cons.prems by (simp add: sz_def Let_def)
  note IH = Cons.IH [OF this, unfolded left]
  from IH obtain news where
    news: "rows' = (rows @ [new_record oid sz (f i) avg sign]) @ news"
      "\<forall>r \<in> set news. \<not> r_is_complete r" "map r_open_price news = map f js"
      "map (\<lambda>r. unat (r_open_size r)) news
         = lots (unat b) (length js) (unat rem - min (unat b) (unat rem))"
    by blast
  have "unat rem - min (unat b) (unat rem) - length js * unat b = unat rem - length (i # js) * unat b"
    by (simp add: min_def)
  then have "unat rem' = unat rem - length (i # js) * unat b" using IH by simp
  then show ?case
    using news sz by (intro conjI exI [of _ "new_record oid sz (f i) avg sign # news"])
      (simp_all add: lots_Suc)
qed

definition entries :: "u32 \<Rightarrow> u32 \<Rightarrow> int" where
  "entries sz b = \<lceil>of_int (uint sz) / of_int (uint b) :: rat\<rceil>"

lemma number_of_entries_eq:
  assumes b: "0 < b"
  shows "number_of_entries sz b = Inr (word_of_int (entries sz b))"
    and "0 \<le> entries sz b" and "entries sz b \<le> uint sz" and "uint sz \<le> entries sz b * uint b"
proof -
  have b': "0 < uint b" "uint b < 2 ^ 32" and sz': "0 \<le> uint sz" "uint sz < 2 ^ 32"
    using b uint_bounded [of b] uint_bounded [of sz] by (simp_all add: word_less_def)
  note q = ceiling_quotient [OF sz' b' entries_def]
  show "0 \<le> entries sz b" "entries sz b \<le> uint sz" "uint sz \<le> entries sz b * uint b"
    by (rule q)+
  then show "number_of_entries sz b = Inr (word_of_int (entries sz b))"
    using sz' by (simp only: number_of_entries_def dbl_of_u32_eq q(1)) (intro dbl_to_u32_int, simp_all)
qed

lemma half_entries:
  "dbl_to_u32 (dceiling (ddiv (dbl_of_u32 n) (Fin 2))) = Inr (word_of_int ((uint n + 1) div 2))"
proof -
  have n: "0 \<le> uint n" "uint n < 2 ^ 32" using uint_bounded [of n] by simp_all
  show ?thesis
    by (simp only: dbl_of_u32_eq ceiling_half [OF n]) (rule dbl_to_u32_int, use n in simp_all)
qed

lemma open_total_lots:
  "\<forall>r \<in> set rows. \<not> r_is_complete r \<Longrightarrow>
   map (\<lambda>r. unat (r_open_size r)) rows = ns \<Longrightarrow> open_total rows = of_nat (sum_list ns)"
  by (induction rows arbitrary: ns) auto

lemma repackaging_rows:
  assumes b: "0 < base_qty"
  obtains t' where "repackaging base_qty mpv adj t = Inr t'" "t_open_size t' = t_open_size t"
    "t_is_long t' = t_is_long t" "t_sign t' = t_sign t" "t_pnl t' = Fin 0"
    "t_average t' = dsub (t_average t) (dmul adj (dbl_of_int (t_sign t)))"
    "\<forall>r \<in> set (t_rows t'). \<not> r_is_complete r"
    "map (\<lambda>r. unat (r_open_size r)) (t_rows t')
       = lots (unat base_qty) (nat (entries (t_open_size t) base_qty)) (unat (t_open_size t))"
proof -
  define e where "e = entries (t_open_size t) base_qty"
  define h where "h = (e + 1) div 2"
  define noe :: u32 where "noe = word_of_int e"
  define noeh :: u32 where "noeh = word_of_int h"
  have e: "0 \<le> e" "e < 2 ^ 32"
    using number_of_entries_eq(2,3) [OF b, of "t_open_size t"] uint_bounded [of "t_open_size t"]
    by (simp_all add: e_def)
  have noe: "uint noe = e" using e by (simp add: noe_def uint_word_of_int)
  have h: "0 \<le> h" "h \<le> e" "h < 2 ^ 32" using e by (simp_all add: h_def)
  have noeh: "uint noeh = h" using h by (simp add: noeh_def uint_word_of_int)
  have "noeh \<le> noe" using h noe noeh by (simp add: word_le_def)
  then have "uint (noe - noeh) = e - h" using noe noeh by (simp add: uint_sub_if' word_le_def)
  then have len: "unat noeh + unat (noe - noeh) = nat e"
    using noeh e h by (simp flip: nat_uint_eq nat_add_distrib)
  define avg where "avg = dsub (t_average t) (dmul adj (dbl_of_int (t_sign t)))"
  define high where "high = (\<lambda>i. dsub avg (dmul (dmul (dbl_of_u32 (noeh - of_nat i)) mpv) (dbl_of_int (t_sign t))))"
  define low where "low = (\<lambda>i. dsub avg (dmul (dmul (dbl_of_int (int i)) mpv) (dbl_of_int (t_sign t))))"
  obtain o1 m1 rows1 where loop1: "repack_loop base_qty avg (t_sign t) high [1..<Suc (unat noeh)]
      (1, t_open_size t, []) = (o1, m1, rows1)"
    by (metis prod_cases3)
  obtain o2 m2 rows2 where loop2: "repack_loop base_qty avg (t_sign t) low [1..<Suc (unat (noe - noeh))]
      (o1, m1, rows1) = (o2, m2, rows2)"
    by (metis prod_cases3)
  let ?b = "unat base_qty" and ?sz = "unat (t_open_size t)" and ?sizes = "map (\<lambda>r. unat (r_open_size r))"
  have res: "repackaging base_qty mpv adj t = Inr ((table_reset t)\<lparr>t_average := avg, t_rows := rows2\<rparr>)"
    using loop1 loop2 number_of_entries_eq(1) [OF b, of "t_open_size t"]
    by (simp add: repackaging_def half_entries Let_def noe avg_def high_def low_def del: upt_Suc
        flip: e_def noe_def h_def noeh_def)
  have m1: "unat m1 = ?sz - unat noeh * ?b" using repack_loop_lots [OF loop1] by (simp del: upt_Suc)
  obtain news where news: "rows2 = rows1 @ news" "\<forall>r \<in> set news. \<not> r_is_complete r"
    "?sizes news = lots ?b (unat (noe - noeh)) (unat m1)"
    using repack_loop_lots [OF loop2] by (simp del: upt_Suc) blast
  have rows1: "\<forall>r \<in> set rows1. \<not> r_is_complete r" "?sizes rows1 = lots ?b (unat noeh) ?sz"
    using repack_loop_lots [OF loop1] by (simp_all del: upt_Suc)
  have "?sizes rows2 = lots ?b (unat noeh) ?sz @ lots ?b (unat (noe - noeh)) (?sz - unat noeh * ?b)"
    by (simp only: news(1) map_append rows1(2) news(3) m1)
  also have "\<dots> = lots ?b (nat e) ?sz" by (simp only: lots_add [symmetric] len)
  finally have sizes: "?sizes rows2 = lots ?b (nat e) ?sz" .
  show thesis
    by (rule that [OF res])
      (use sizes news(1,2) rows1(1) in \<open>auto simp: table_reset_def avg_def e_def\<close>)
qed

section \<open>Properties of the table\<close>

lemmas dbl_eval = dgt_side_def dsub_def dbl_of_int_def is_fin_def dbl_of_u32_eq

text \<open>C2: recording a fill of an open order keeps the table well formed (rows sorted for the
  account's side, close sizes consistent, the size counter equal to the sum of the open rows) and
  inserts exactly one row, behind every row at the same or a nearer price and before every row at
  a farther one.\<close>

theorem recordOpenPosition_ordered:
  assumes t: "table_inv t" and price: "is_fin price"
  shows "table_inv (recordOpenPosition oid sz price t) \<and>
    t_open_size (recordOpenPosition oid sz price t) = t_open_size t + sz \<and>
    (\<exists>xs r ys. t_rows t = xs @ ys \<and> t_rows (recordOpenPosition oid sz price t) = xs @ r # ys \<and>
       r_open_price r = price \<and> r_open_size r = sz \<and> \<not> r_is_complete r \<and>
       (\<forall>x \<in> set xs. \<not> dgt_side (t_sign t) (r_open_price x) price) \<and>
       (\<forall>y \<in> set ys. dgt_side (t_sign t) (r_open_price y) price))"
proof (intro conjI)
  define P where "P = (\<lambda>x :: PositionRecord. dgt_side (t_sign t) (r_open_price x) price)"
  define r where "r = new_record oid sz price (t_average (recordOpenPosition oid sz price t)) (t_sign t)"
  let ?xs = "takeWhile (\<lambda>x. \<not> P x) (t_rows t)" and ?ys = "dropWhile (\<lambda>x. \<not> P x) (t_rows t)"
  have fin: "\<forall>x \<in> set (t_rows t). is_fin (r_open_price x)"
    using table_invD(2) [OF t] by (simp add: row_ok_def)
  have rows: "t_rows (recordOpenPosition oid sz price t) = ?xs @ r # ?ys"
    by (subst recordOpenPosition_rows) (simp add: insert_record_def insert_before_split r_def P_def)
  have "P y" if y: "y \<in> set ?ys" for y
  proof -
    obtain z zs where z: "?ys = z # zs" using y by (cases ?ys) auto
    have "P z" using hd_dropWhile [of "\<lambda>x. \<not> P x" "t_rows t"] z by simp
    have "rows_sorted (t_sign t) ?ys"
      using table_invD(3) [OF t] unfolding rows_sorted_def by (rule sorted_wrt_dropWhile)
    then have zy: "y = z \<or> \<not> dgt_side (t_sign t) (r_open_price z) (r_open_price y)"
      using y unfolding z rows_sorted_def by auto
    have "z \<in> set ?ys" by (simp add: z)
    then have "is_fin (r_open_price z)" "is_fin (r_open_price y)"
      using fin y set_dropWhileD by fast+
    note order = long_order.not_gt_trans [OF this price] short_order.not_gt_trans [OF this price]
    show "P y"
    proof (cases "t_is_long t")
      case True
      then show ?thesis using \<open>P z\<close> zy order(1) table_invD(1) [OF t] by (simp add: P_def) blast
    next
      case False
      then show ?thesis using \<open>P z\<close> zy order(2) table_invD(1) [OF t] by (simp add: P_def) blast
    qed
  qed
  then have "\<forall>y \<in> set ?ys. P y" by blast
  then have after: "\<forall>y \<in> set ?ys. dgt_side (t_sign t) (r_open_price y) price" by (simp only: P_def)
  have before: "\<forall>x \<in> set ?xs. \<not> dgt_side (t_sign t) (r_open_price x) price"
    unfolding P_def using set_takeWhileD by fast
  have r: "r_open_price r = price" "r_open_size r = sz" "\<not> r_is_complete r" by (simp_all add: r_def)
  show "\<exists>xs r ys. t_rows t = xs @ ys \<and> t_rows (recordOpenPosition oid sz price t) = xs @ r # ys \<and>
       r_open_price r = price \<and> r_open_size r = sz \<and> \<not> r_is_complete r \<and>
       (\<forall>x \<in> set xs. \<not> dgt_side (t_sign t) (r_open_price x) price) \<and>
       (\<forall>y \<in> set ys. dgt_side (t_sign t) (r_open_price y) price)"
    by (rule exI [of _ ?xs], rule exI [of _ r], rule exI [of _ ?ys])
      (intro conjI rows r before after takeWhile_dropWhile_id [symmetric])
qed (use table_inv_open [OF t price] in simp_all)

lemma recordOpenPosition_ordered_witness:
  "table_inv (recordOpenPosition 7 10 (Fin 5) (recordOpenPosition 6 10 (Fin 8) (new_table True)))"
proof -
  have "is_fin (Fin 5)" "is_fin (Fin 8)" by (simp_all add: is_fin_def)
  then show ?thesis
    using recordOpenPosition_ordered [of "recordOpenPosition 6 10 (Fin 8) (new_table True)" "Fin 5" 7 10]
      table_inv_open [OF table_inv_new] by simp
qed

text \<open>A table of two lots, for the examples: ten at 5 and ten at 8, on either side.\<close>

definition two_lots :: "bool \<Rightarrow> PositionRecordTable" where
  "two_lots l = recordOpenPosition 7 10 (Fin 5) (recordOpenPosition 6 10 (Fin 8) (new_table l))"

lemma two_lots_inv: "table_inv (two_lots l)"
  by (simp add: two_lots_def table_inv_open table_inv_new is_fin_def)

lemma two_lots_rows:
  "map (\<lambda>r. (r_open_price r, r_open_size r, r_is_complete r)) (t_rows (two_lots True))
     = [(Fin 5, 10, False), (Fin 8, 10, False)]"
  by (simp add: two_lots_def recordOpenPosition_rows insert_record_def dbl_eval new_table_def)

text \<open>C3: a close fill that the profitable open rows can cover (for the short account: in a table
  from which the completed rows have been deleted) keeps the table well formed, moves exactly its
  size from the open to the closed rows, and takes it all from profitable rows.\<close>

theorem recordClosePosition_in_profit:
  assumes "table_inv t" "is_fin price"
    and "t_is_long t \<or> (\<forall>r \<in> set (t_rows t). \<not> r_is_complete r)"
    and "unat sz \<le> capacity (profitable (t_sign t) price) (t_rows t)"
  shows "table_inv (recordClosePosition oid sz price t) \<and>
    t_open_size (recordClosePosition oid sz price t) = t_open_size t - sz \<and>
    closed_total (t_rows (recordClosePosition oid sz price t)) = closed_total (t_rows t) + sz \<and>
    capacity (profitable (t_sign t) price) (t_rows (recordClosePosition oid sz price t)) + unat sz
      = capacity (profitable (t_sign t) price) (t_rows t)"
  using close_in_profit [OF assms] by simp

lemma recordClosePosition_in_profit_witness:
  "table_inv (recordClosePosition 9 12 (Fin 9) (two_lots True))"
proof -
  have "capacity (profitable 1 (Fin 9)) (t_rows (two_lots True)) = 20"
    by (simp add: two_lots_def recordOpenPosition_rows insert_record_def dbl_eval new_table_def profitable_def)
  moreover have "t_sign (two_lots True) = 1" "t_is_long (two_lots True)"
    by (simp_all add: two_lots_def new_table_def)
  ultimately show ?thesis
    using recordClosePosition_in_profit [OF two_lots_inv [of True], of "Fin 9" 12 9]
    by (simp add: is_fin_def)
qed

text \<open>
  The table of \<open>stable_close_multiple_complete_fill\<close> in \<open>tests/position_table.cpp\<close>, whose prices
  39.5, 39.6, 38.2, 37.1, 38.3 and 38.19 are in the order of the hypotheses: a size of 900 closed on
  the short side leaves 600 open, where the test expects 800.
\<close>

definition test_table :: "rat \<Rightarrow> rat \<Rightarrow> rat \<Rightarrow> rat \<Rightarrow> rat \<Rightarrow> PositionRecordTable" where
  "test_table p1 p2 p3 p4 p5 = recordOpenPosition 5 500 (Fin p5) (recordOpenPosition 4 400 (Fin p4)
     (recordOpenPosition 3 300 (Fin p3) (recordOpenPosition 2 200 (Fin p2) (recordOpenPosition 1 100 (Fin p1)
     (new_table False)))))"

lemma close_of_the_test:
  assumes "p4 < p" "p < p3" "p3 < p5" "p5 < p1" "p1 < p2" "\<forall>x \<in> {p, p1, p2, p3, p4, p5}. is_fin (Fin x)"
  shows "t_open_size (recordClosePosition 33 900 (Fin p) (test_table p1 p2 p3 p4 p5)) = 600"
proof -
  let ?t = "test_table p1 p2 p3 p4 p5"
  have inv: "table_inv ?t" unfolding test_table_def
    by (intro table_inv_open table_inv_new) (use assms(6) in simp_all)
  have sides: "t_sign ?t = - 1" "t_open_size ?t = 1500" by (simp_all add: test_table_def new_table_def recordOpenPosition_def Let_def)
  have rows: "map (\<lambda>r. (r_open_price r, r_open_size r, r_is_complete r)) (t_rows ?t)
      = [(Fin p2, 200, False), (Fin p1, 100, False), (Fin p5, 500, False), (Fin p3, 300, False), (Fin p4, 400, False)]"
    using assms by (simp add: test_table_def recordOpenPosition_rows insert_record_def dgt_side_short new_table_def)
  have "unat (900 :: u32) \<le> capacity (profitable (t_sign ?t) (Fin p)) (t_rows ?t)"
    using rows assms by (auto simp: sides map_eq_Cons_conv profitable_def dgt_side_short)
  moreover have "\<forall>r \<in> set (t_rows ?t). \<not> r_is_complete r" using rows by (auto simp: map_eq_Cons_conv)
  ultimately show ?thesis using close_in_profit [OF inv, of "Fin p" 900] assms(6) by (simp add: sides)
qed

text \<open>Closing exactly the size \<open>sizeofOrderWithPnl\<close> selects at a price leaves nothing to be
  selected at that price, and the table's counter falls by that size.\<close>

theorem close_selected_size:
  assumes "table_inv t" "is_fin price"
    and "t_is_long t \<or> (\<forall>r \<in> set (t_rows t). \<not> r_is_complete r)"
    and "capacity (profitable (t_sign t) price) (t_rows t) < 2 ^ 32"
  shows "fst (sizeofOrderWithPnl price
           (recordClosePosition oid (fst (sizeofOrderWithPnl price t)) price t)) = 0 \<and>
    table_inv (recordClosePosition oid (fst (sizeofOrderWithPnl price t)) price t)"
proof -
  let ?sz = "fst (sizeofOrderWithPnl price t)"
  have sz: "unat ?sz = capacity (profitable (t_sign t) price) (t_rows t)"
    using assms(4) by (simp add: sizeofOrderWithPnl_fst unat_of_nat take_bit_nat_eq_self)
  then have "unat ?sz \<le> capacity (profitable (t_sign t) price) (t_rows t)" by simp
  note c = close_in_profit [OF assms(1-3) this, of oid]
  show ?thesis using c(1,3) sz by (simp add: sizeofOrderWithPnl_fst)
qed

lemma close_selected_size_witness:
  "fst (sizeofOrderWithPnl (Fin 6)
     (recordClosePosition 9 (fst (sizeofOrderWithPnl (Fin 6) (two_lots True))) (Fin 6) (two_lots True))) = 0"
proof -
  have "capacity (profitable 1 (Fin 6)) (t_rows (two_lots True)) = 10"
    by (simp add: two_lots_def recordOpenPosition_rows insert_record_def dbl_eval new_table_def profitable_def)
  moreover have "t_sign (two_lots True) = 1" "t_is_long (two_lots True)"
    by (simp_all add: two_lots_def new_table_def)
  ultimately show ?thesis
    using close_selected_size [OF two_lots_inv [of True], of "Fin 6" 9] by (simp add: is_fin_def)
qed

text \<open>C13: repackaging with a positive base quantity always succeeds; the new rows are all open,
  their sizes are the full lots of \<open>base_qty\<close> followed by the remainder, as many as the open size
  divided by \<open>base_qty\<close> rounded up, and they sum to the open size, which the counter keeps.\<close>

theorem repackaging_lots:
  assumes "0 < base_qty"
  shows "\<exists>t'. repackaging base_qty mpv adj t = Inr t' \<and>
    t_open_size t' = t_open_size t \<and> open_total (t_rows t') = t_open_size t \<and>
    (\<forall>r \<in> set (t_rows t'). \<not> r_is_complete r) \<and>
    map (\<lambda>r. unat (r_open_size r)) (t_rows t')
      = lots (unat base_qty) (nat \<lceil>of_int (uint (t_open_size t)) / of_int (uint base_qty) :: rat\<rceil>)
          (unat (t_open_size t))"
proof -
  obtain t' where t': "repackaging base_qty mpv adj t = Inr t'" "t_open_size t' = t_open_size t"
    "\<forall>r \<in> set (t_rows t'). \<not> r_is_complete r"
    and sizes: "map (\<lambda>r. unat (r_open_size r)) (t_rows t')
       = lots (unat base_qty) (nat (entries (t_open_size t) base_qty)) (unat (t_open_size t))"
    using repackaging_rows [OF assms, of mpv adj t] by metis
  have "int (unat (t_open_size t)) \<le> entries (t_open_size t) base_qty * int (unat base_qty)"
    using number_of_entries_eq(4) [OF assms, of "t_open_size t"] by simp
  then have "unat (t_open_size t) \<le> nat (entries (t_open_size t) base_qty) * unat base_qty"
    using number_of_entries_eq(2) [OF assms, of "t_open_size t"]
    by (simp add: nat_mult_distrib flip: zle_int)
  then have "open_total (t_rows t') = of_nat (unat (t_open_size t))"
    using open_total_lots [OF t'(3) sizes] by (simp add: sum_lots)
  then show ?thesis using t' sizes by (simp add: entries_def)
qed

lemma repackaging_lots_witness:
  "\<exists>t'. repackaging 3 (Fin 1) (Fin 0) (two_lots True) = Inr t' \<and> open_total (t_rows t') = 20"
proof -
  have "t_open_size (two_lots True) = 20" by (simp add: two_lots_def new_table_def)
  then show ?thesis using repackaging_lots [of 3 "Fin 1" "Fin 0" "two_lots True"] by auto
qed

text \<open>Repackaging with a base quantity of zero converts an infinite or undefined quotient to
  an integer, whatever the table.\<close>

theorem repackaging_zero_base: "repackaging 0 mpv adj t = Inl BadCast"
proof -
  have "number_of_entries (t_open_size t) 0 = Inl BadCast"
    by (simp add: number_of_entries_def dbl_of_u32_eq inf_sgn_def dbl_to_u32_def dbl_to_int_def)
  then show ?thesis by (simp add: repackaging_def)
qed

text \<open>The short account's table loses track when one close fill covers profitable and
  unprofitable rows: the second pass starts again at the head of the table and closes rows the first
  pass has just completed, so five are left on the counter and fifteen in the open rows.\<close>

theorem short_close_recloses:
  "open_total (t_rows (recordClosePosition 9 15 (Fin 6) (two_lots False))) = 15 \<and>
   t_open_size (recordClosePosition 9 15 (Fin 6) (two_lots False)) = 5"
  by (simp add: two_lots_def recordOpenPosition_rows insert_record_def dbl_eval new_table_def
      recordClosePosition_def Let_def visit_order_def profit_cond_def)

end
