(* ===== verification/Preservation.thy ===== *)
theory Preservation
  imports TradeInstances PositionTable_Laws
begin

text \<open>
  What every operation of the program keeps. The locale \<open>quiet_world\<close> is the interface between an
  invariant and the program: an invariant that survives the elementary updates the code makes
  survives every handler, every case and every wait. \<open>switching_world\<close> adds what a change of the
  trigger does, and gives the invariant after every round; \<open>stable_world\<close> adds what the market
  does, and gives it for every reachable state.
\<close>

section \<open>Results all of whose outcomes satisfy a condition\<close>

definition res_all :: "('a \<Rightarrow> bool) \<Rightarrow> 'a res \<Rightarrow> bool" where
  "res_all Q m \<longleftrightarrow> (\<forall>x. m = Inr x \<longrightarrow> Q x)"

lemma res_all_simps [simp]:
  "res_all Q (Inl e)"
  "res_all Q (Inr x) = Q x"
  by (simp_all add: res_all_def)

lemma res_all_rbind: "res_all R m \<Longrightarrow> (\<And>x. R x \<Longrightarrow> res_all Q (f x)) \<Longrightarrow> res_all Q (rbind m f)"
  by (auto simp: res_all_def)

lemma res_all_pure: "(\<And>x. m = Inr x \<Longrightarrow> res_all Q (f x)) \<Longrightarrow> res_all Q (rbind m f)"
  by (auto simp: res_all_def)

lemma res_allD: "res_all Q m \<Longrightarrow> m = Inr x \<Longrightarrow> Q x"
  by (simp add: res_all_def)

named_theorems keeps_intro

section \<open>Elementary updates\<close>

text \<open>
  An update of a trade account that is not a fill: the total, the table's counter and the constants
  stay, and the map of orders stays sorted.
\<close>

definition quiet_ta :: "(TradeAccount \<Rightarrow> TradeAccount) \<Rightarrow> bool" where
  "quiet_ta f \<longleftrightarrow> (\<forall>a. a_total (f a) = a_total a \<and>
     t_open_size (a_position_table (f a)) = t_open_size (a_position_table a) \<and>
     t_is_long (a_position_table (f a)) = t_is_long (a_position_table a) \<and>
     a_divisor (f a) = a_divisor a \<and> a_max_pos (f a) = a_max_pos a \<and>
     (om_inv (a_orders a) \<longrightarrow> om_inv (a_orders (f a))))"

text \<open>The members of a trade instance that the constructor sets for good.\<close>

definition ti_constants :: "TradeInstance \<Rightarrow>
    ShareRound list \<times> u32 \<times> u64 \<times> u64 \<times> double \<times> u32 \<times> int \<times> bool \<times> double \<times> u32 \<times> double \<times> u32" where
  "ti_constants ti = (i_share_rounds ti, i_tranch_value ti, i_max_round ti, i_max_pos ti,
     i_mpv_value ti, i_mpv_multiplier ti, i_base_qty ti, i_cancel_on_trigger ti, i_multiplier ti,
     i_divisor ti, i_instrument_skew ti, i_maximum_live_limit ti)"

definition ti_accounts :: "TradeInstance \<Rightarrow> OrderAccountType option \<times> OrderAccountType option" where
  "ti_accounts ti = (i_current_acc ti, i_opposite_acc ti)"

definition quiet_ti :: "(TradeInstance \<Rightarrow> TradeInstance) \<Rightarrow> bool" where
  "quiet_ti f \<longleftrightarrow> (\<forall>ti. ti_constants (f ti) = ti_constants ti \<and> ti_accounts (f ti) = ti_accounts ti \<and>
     i_trade_case (f ti) = i_trade_case ti)"

lemma upd_ta_comp: "upd_ta s f (upd_ta s g w) = upd_ta s (\<lambda>a. f (g a)) w"
  by (simp add: upd_ta_def)

lemma upd_ta_cong: "(\<And>a. f a = g a) \<Longrightarrow> upd_ta s f w = upd_ta s g w"
  by (simp add: upd_ta_def)

lemma add_fill_upd_ta: "add_fill r sz (upd_ta s f w) = upd_ta s f (add_fill r sz w)"
  by (simp add: add_fill_def upd_heap_def upd_ta_def)

text \<open>The types of cases the trading thread ever creates.\<close>

definition run_types :: "CaseType set" where
  "run_types = {CASE_4, CASE_9, CASE_10, CASE_HEDGECURRENT, PANIC_CLOSE, SOFT_CLOSE}"

text \<open>
  \<open>quiet_messages\<close> is what the gateway's messages do: of a trade case they only ever set the flag of
  its requote orders, and they leave the trade instance, the inbox and the allocator alone.
\<close>

locale quiet_messages =
  fixes P :: "world \<Rightarrow> bool"
  assumes P_heap: "P w \<Longrightarrow> P (w\<lparr>w_heap := h\<rparr>)"
    and P_oa: "P w \<Longrightarrow> P (w\<lparr>w_oa := v\<rparr>)"
    and P_flag: "P w \<Longrightarrow> P (upd_case n (\<lambda>c. c\<lparr>c_requote_order_flag := True\<rparr>) w)"
    and P_calls: "P w \<Longrightarrow> P (w\<lparr>w_calls := k\<rparr>)"
    and P_redis: "P w \<Longrightarrow> P (w\<lparr>w_redis := l\<rparr>)"
    and P_ta: "P w \<Longrightarrow> quiet_ta f \<Longrightarrow> P (upd_ta s f w)"
    and P_open_fill: "P w \<Longrightarrow> P (upd_ta s (\<lambda>a. a\<lparr>a_total := a_total a + uint sz,
          a_position_table := recordOpenPosition oid sz price (a_position_table a)\<rparr>) w)"
    and P_close_fill: "P w \<Longrightarrow> P (upd_ta s (\<lambda>a. a\<lparr>a_total := a_total a - uint sz,
          a_position_table := recordClosePosition oid sz price (a_position_table a)\<rparr>) w)"
begin

lemma P_upd [keeps_intro]:
  "P w \<Longrightarrow> P (upd_heap r h w)"
  "P w \<Longrightarrow> P (upd_oa s v w)"
  "P w \<Longrightarrow> P (gw_call w)"
  "P w \<Longrightarrow> P (redis c w)"
  by (simp_all add: upd_heap_def upd_oa_def gw_call_def redis_def P_heap P_oa P_calls P_redis)

section \<open>Messages\<close>

lemma P_add_fill [keeps_intro]: "P w \<Longrightarrow> P (add_fill r sz w)"
  by (simp add: add_fill_def P_upd)

lemma P_calculateSpread [keeps_intro]: "P w \<Longrightarrow> P (calculateSpread s price sz b w)"
  by (simp add: calculateSpread_def setSpread_def Let_def P_ta quiet_ta_def)

lemma P_onOpenFill_long: "P w \<Longrightarrow> P (onOpenFill_long r price sz w)"
proof -
  assume w: "P w"
  define v where "v = calculateSpread ORDER_ACCOUNT_LONG price sz True (add_fill r sz w)"
  define k where "k = o_request_id (w_heap v r)"
  let ?fill = "\<lambda>a. a\<lparr>a_total := a_total a + uint sz,
    a_position_table := recordOpenPosition k sz price (a_position_table a)\<rparr>"
  let ?rest = "\<lambda>a. a\<lparr>a_average := new_average (dsub price (a_average a)) sz a, a_last_open_price := price\<rparr>"
  have "P (upd_ta ORDER_ACCOUNT_LONG ?rest (upd_ta ORDER_ACCOUNT_LONG ?fill v))"
    using w by (intro P_ta P_open_fill) (auto simp: v_def quiet_ta_def keeps_intro)
  also have "upd_ta ORDER_ACCOUNT_LONG ?rest (upd_ta ORDER_ACCOUNT_LONG ?fill v) = onOpenFill_long r price sz w"
    unfolding onOpenFill_long_def onOpenFill_base_def Let_def upd_ta_comp v_def [symmetric]
    by (rule upd_ta_cong, rule TradeAccount.equality) (simp_all add: new_average_def k_def)
  finally show ?thesis .
qed

lemma P_onOpenFill_short: "P w \<Longrightarrow> P (onOpenFill_short r price sz w)"
proof -
  let ?s = ORDER_ACCOUNT_SHORT
  assume w: "P w"
  define v where "v = add_fill r sz (calculateSpread ?s price sz True w)"
  define k where "k = o_request_id (w_heap v r)"
  let ?fill = "\<lambda>a. a\<lparr>a_total := a_total a + uint sz,
    a_position_table := recordOpenPosition k sz price (a_position_table a)\<rparr>"
  define b where "b \<longleftrightarrow> getPosition ORDER_ACCOUNT_LONG (upd_ta ?s ?fill v) \<le> getPosition ?s (upd_ta ?s ?fill v)"
  let ?rest = "\<lambda>a. a\<lparr>a_average := new_average (dsub price (a_average a)) sz a, a_last_open_price := price,
    a_pif := (if b then price else a_pif a)\<rparr>"
  have pos: "getPosition ORDER_ACCOUNT_LONG (upd_ta ?s (\<lambda>a. a\<lparr>a_total := a_total a + uint sz, a_last_open_price := price\<rparr>) v)
      \<le> getPosition ?s (upd_ta ?s (\<lambda>a. a\<lparr>a_total := a_total a + uint sz, a_last_open_price := price\<rparr>) v) \<longleftrightarrow> b"
    by (simp add: b_def getPosition_def)
  have "P (upd_ta ?s ?rest (upd_ta ?s ?fill v))"
    using w by (intro P_ta P_open_fill) (auto simp: v_def quiet_ta_def keeps_intro)
  also have "upd_ta ?s ?rest (upd_ta ?s ?fill v) = onOpenFill_short r price sz w"
    unfolding onOpenFill_short_def onOpenFill_base_def Let_def add_fill_upd_ta v_def [symmetric]
    by (cases b) (simp_all add: upd_ta_comp pos k_def, (rule upd_ta_cong, rule TradeAccount.equality,
        simp_all add: new_average_def)+)
  finally show ?thesis .
qed

lemma P_onCloseFill [keeps_intro]: "P w \<Longrightarrow> res_all P (onCloseFill s r price sz w)"
proof -
  assume w: "P w"
  define v where "v = add_fill r sz w"
  define k where "k = o_request_id (w_heap v r)"
  define d where "d \<longleftrightarrow> trunc_div (a_total (w_ta v s) - uint sz) (uint (a_max_pos (w_ta v s)))
      < trunc_div (a_total (w_ta v s)) (uint (a_max_pos (w_ta v s)))"
  let ?fill = "\<lambda>a. a\<lparr>a_total := a_total a - uint sz,
    a_position_table := recordClosePosition k sz price (a_position_table a)\<rparr>"
  let ?rest = "\<lambda>a. a\<lparr>a_average := new_average (dsub (a_average a) price) sz a, a_last_close_price := price,
    a_tranch_counter := (if d then a_tranch_counter a - 1 else a_tranch_counter a)\<rparr>"
  have "P (upd_ta s ?rest (upd_ta s ?fill v))"
    using w by (intro P_ta P_close_fill) (auto simp: v_def quiet_ta_def keeps_intro)
  moreover have "onCloseFill s r price sz w =
      (if a_max_pos (w_ta v s) = 0 then Inl DivByZero else Inr (upd_ta s ?rest (upd_ta s ?fill v)))"
    unfolding onCloseFill_def onCloseFill_base_def dec_tranch_def Let_def v_def [symmetric] d_def [symmetric]
    by (cases d) (simp_all add: upd_ta_comp k_def, (intro impI upd_ta_cong TradeAccount.equality;
        simp add: new_average_def)+)
  ultimately show ?thesis by simp
qed

lemma P_run_fill [keeps_intro]: "P w \<Longrightarrow> res_all P (run_fill f r price sz w)"
  by (cases f; cases "case f of FILL_OPEN s \<Rightarrow> s | FILL_CLOSE s \<Rightarrow> s")
    (simp_all add: run_fill_def P_onOpenFill_long P_onOpenFill_short P_onCloseFill)

lemma P_closePending [keeps_intro]:
  "P w \<Longrightarrow> P (closePending s price sz td w)"
  "P w \<Longrightarrow> P (push_pending s q w)"
  "P w \<Longrightarrow> P (pop_pending s w)"
  by (simp_all add: closePending_def push_pending_def pop_pending_def P_ta quiet_ta_def)

lemma P_orders [keeps_intro]:
  "P w \<Longrightarrow> P (orders_erase s k w)"
  "P w \<Longrightarrow> P (orders_emplace s k r w)"
  by (simp_all add: orders_erase_def orders_emplace_def P_ta quiet_ta_def om_inv_erase om_inv_emplace)

lemma P_hash [keeps_intro]: "P w \<Longrightarrow> P (hash_erase s k w)" "P w \<Longrightarrow> P (hash_emplace s k r w)"
  by (simp_all add: hash_erase_def hash_emplace_def P_upd)

lemma P_add_live [keeps_intro]: "P w \<Longrightarrow> P (add_live s k d w)"
  by (auto simp: add_live_def P_ta quiet_ta_def split: option.splits bool.splits)

lemma res_with_accs [keeps_intro]:
  "(\<And>c cur opp. res_all Q (f c cur opp)) \<Longrightarrow> res_all Q (with_accs n w f)"
  unfolding with_accs_def by (intro res_all_pure)

lemma P_run_trade_done [keeps_intro]: "P w \<Longrightarrow> res_all P (run_trade_done td price sz w)"
  unfolding run_trade_done_def on_requote_order_done_def on_trade_send_close_def
  by (cases td) (auto intro!: res_all_pure keeps_intro P_flag)

lemma P_onOrderDone [keeps_intro]: "P w \<Longrightarrow> res_all P (onOrderDone s r w)"
  unfolding onOrderDone_def Let_def
  by (intro res_all_rbind [where R = P]) (auto intro!: keeps_intro simp: P_ta quiet_ta_def)

lemma P_callbacks [keeps_intro]:
  "P w \<Longrightarrow> P (onNewOrderAcknowledgement s r b w)"
  "P w \<Longrightarrow> P (onOrderCancel s r b w)"
  "P w \<Longrightarrow> P (onOrderChange s r b w)"
  "P w \<Longrightarrow> P (OnOrder_failed s r w)"
  by (auto simp: onNewOrderAcknowledgement_def onOrderCancel_def onOrderChange_def OnOrder_failed_def
      Let_def intro!: keeps_intro split: option.splits)

lemma P_OnOrder [keeps_intro]: "P w \<Longrightarrow> res_all P (OnOrder s k ord w)"
  unfolding OnOrder_def Let_def
  by (auto split: option.splits OrderCondition.splits intro!: keeps_intro res_all_rbind [where R = P])

lemma P_deliver [keeps_intro]: "P w \<Longrightarrow> res_all P (deliver e w)"
  by (cases e) (auto simp: deliver_def OnOrderCancel_def OnOrderChange_def OnFill_def Let_def
      intro!: keeps_intro split: option.splits)

end

section \<open>Waits\<close>

text \<open>The operations of an account also allocate requests and consume the inbox.\<close>

locale quiet_accounts = quiet_messages +
  assumes P_next: "P w \<Longrightarrow> P (w\<lparr>w_next := k\<rparr>)"
    and P_inbox: "P w \<Longrightarrow> P (w\<lparr>w_inbox := es\<rparr>)"
begin

lemma P_alloc: "P w \<Longrightarrow> alloc q w = (r, w') \<Longrightarrow> P w'"
  using P_next [OF P_heap] by (auto simp: alloc_def)

lemma P_wait_until: "P w \<Longrightarrow> res_all P (wait_until Q es w)"
proof (induction es arbitrary: w)
  case Nil
  then show ?case by (auto intro!: res_all_pure)
next
  case (Cons e es)
  have "res_all P (deliver e (w\<lparr>w_inbox := es\<rparr>))" by (intro P_deliver P_inbox Cons.prems)
  then show ?case using Cons.prems
    by (auto intro!: res_all_pure res_all_rbind [where R = P] Cons.IH)
qed

lemma P_wait_for [keeps_intro]: "P w \<Longrightarrow> res_all P (wait_for Q w)"
  by (simp add: wait_for_def P_wait_until)

abbreviation PP :: "'a \<times> world \<Rightarrow> bool" where
  "PP \<equiv> \<lambda>(x, w). P w"

lemma bind_world [keeps_intro]:
  "res_all P m \<Longrightarrow> (\<And>w. P w \<Longrightarrow> res_all Q (f w)) \<Longrightarrow> res_all Q (rbind m f)"
  by (rule res_all_rbind)

lemma bind_pair [keeps_intro]:
  "res_all PP m \<Longrightarrow> (\<And>x w. P w \<Longrightarrow> res_all Q (f (x, w))) \<Longrightarrow> res_all Q (rbind m f)"
  by (rule res_all_rbind [where R = PP]) auto

lemma P_waits [keeps_intro]:
  "P w \<Longrightarrow> res_all PP (waitAcknowledgement s r w)"
  "P w \<Longrightarrow> res_all PP (waitChangeAcknowledgement s r w)"
  "P w \<Longrightarrow> res_all PP (waitCancelAcknowledgement s k r w)"
  unfolding waitAcknowledgement_def waitChangeAcknowledgement_def waitCancelAcknowledgement_def Let_def
  by (auto intro!: keeps_intro)

section \<open>Requests\<close>

lemma P_limit: 
  "P w \<Longrightarrow> PP (limitBuy s r w)"
  "P w \<Longrightarrow> PP (limitSell s r w)"
  by (auto simp: limitBuy_def limitSell_def bump_id_def Let_def intro!: keeps_intro)

lemma P_requests:
  "P w \<Longrightarrow> PP (oa_open s r w)"
  "P w \<Longrightarrow> PP (oa_close s r w)"
  "P w \<Longrightarrow> PP (oa_cancel r w)"
  "P w \<Longrightarrow> PP (oa_change s r r' w)"
  "P w \<Longrightarrow> PP (getStatus w)"
  "P w \<Longrightarrow> PP (checkOrderStatus s k w)"
  using P_limit by (auto simp: oa_open_def oa_close_def oa_cancel_def oa_change_def bump_id_def
      getStatus_def checkOrderStatus_def Let_def intro!: keeps_intro
      split: OrderAccountType.splits option.splits)

lemma P_pairD: "PP p \<Longrightarrow> p = (x, w) \<Longrightarrow> P w"
  by simp

lemma P_send_new [keeps_intro]: "P w \<Longrightarrow> res_all PP (send_new s b q w)"
proof -
  assume w: "P w"
  obtain r w1 where a: "alloc q w = (r, w1)" by (cases "alloc q w")
  then have w1: "P w1" by (rule P_alloc [OF w])
  obtain ok w2 where o2: "(if b then oa_open s r w1 else oa_close s r w1) = (ok, w2)"
    by (cases "if b then oa_open s r w1 else oa_close s r w1")
  have "PP (if b then oa_open s r w1 else oa_close s r w1)" using P_requests(1,2) [OF w1] by simp
  then have w2: "P w2" by (rule P_pairD [OF _ o2])
  show ?thesis
    unfolding send_new_def a o2 Let_def prod.case
    using w2 by (auto intro!: keeps_intro P_ta simp: quiet_ta_def)
qed

lemma P_orders_sent [keeps_intro]:
  "P w \<Longrightarrow> res_all PP (open_mmf s price sz b w)"
  "P w \<Longrightarrow> res_all PP (open_done s price sz td w)"
  "P w \<Longrightarrow> res_all PP (close_fco s price sz b w)"
  "P w \<Longrightarrow> res_all PP (close_done s price sz td w)"
  "P w \<Longrightarrow> res_all PP (close_mmf s price sz oo w)"
  by (auto simp: open_mmf_def open_done_def close_fco_def close_done_def close_mmf_def with_divisor_def
      intro!: keeps_intro res_all_pure)

lemma quiet_change_totals [simp]: "quiet_ta (change_totals acc ct cs ot os)"
  by (simp add: quiet_ta_def change_totals_def Let_def)

lemma P_change [keeps_intro]: "P w \<Longrightarrow> res_all PP (change s k price sz w)"
proof (cases "orders_find s k w")
  case None
  assume "P w"
  with None show ?thesis by (simp add: change_def with_divisor_def)
next
  case (Some r)
  assume w: "P w"
  let ?q = "changed_PositionRequest (w_heap w r) price (sz div a_divisor (w_ta w s))"
  obtain r' w1 where a: "alloc ?q w = (r', w1)" by (cases "alloc ?q w")
  define w2 where "w2 = upd_heap r (\<lambda>q. q\<lparr>o_onOrderChange := Some s\<rparr>) w1"
  have w2: "P w2" using P_alloc [OF w a] by (simp add: w2_def P_upd)
  obtain ok w3 where c: "oa_change s r r' w2 = (ok, w3)" by (cases "oa_change s r r' w2")
  have w3: "P w3" by (rule P_pairD [OF P_requests(4) [OF w2] c])
  show ?thesis
    using w3 Some by (auto simp: change_def with_divisor_def a c Let_def P_ta
        simp flip: w2_def intro!: keeps_intro P_ta)
qed

lemma P_cancel [keeps_intro]: "P w \<Longrightarrow> res_all PP (cancel s k w)"
proof (cases "orders_find s k w")
  case None
  assume "P w"
  with None show ?thesis by (simp add: cancel_def)
next
  case (Some r)
  assume w: "P w"
  define w2 where
    "w2 = upd_heap r (\<lambda>q. q\<lparr>o_onOrderCancel := Some s, o_cancel_stage := CANCEL_INIT\<rparr>) w"
  have w2: "P w2" using w by (simp add: w2_def P_upd)
  obtain ok w3 where c: "oa_cancel r w2 = (ok, w3)" by (cases "oa_cancel r w2")
  have w3: "P w3" by (rule P_pairD [OF P_requests(3) [OF w2] c])
  show ?thesis
    using w w3 Some by (auto simp: cancel_def c Let_def simp flip: w2_def intro!: keeps_intro)
qed

lemma P_cancel_loop: "P w \<Longrightarrow> res_all P (cancel_loop s ks w)"
proof (induction ks arbitrary: w)
  case Nil
  then show ?case by simp
next
  case (Cons k ks)
  then show ?case by (auto split: option.splits intro!: bind_pair P_cancel)
qed

lemma P_cancelAll [keeps_intro]: "P w \<Longrightarrow> res_all P (cancelAll s w)"
  unfolding cancelAll_def Let_def
  by (intro bind_world P_cancel_loop P_ta) (auto simp: quiet_ta_def om_inv_filter intro!: P_ta)

lemma P_sendPendingOrders [keeps_intro]: "P w \<Longrightarrow> res_all P (sendPendingOrders s w)"
  unfolding sendPendingOrders_def by (auto split: list.splits request_kind.splits intro!: keeps_intro)

lemma t_open_size_repackaging:
  "repackaging b mpv adj t = Inr t' \<Longrightarrow> t_open_size t' = t_open_size t \<and> t_is_long t' = t_is_long t"
  by (auto simp: repackaging_def Let_def table_reset_def split: prod.splits)

lemma P_repackage [keeps_intro]: "P w \<Longrightarrow> res_all P (repackagePositionTable s b mpv adj w)"
proof (cases "repackaging b mpv adj (a_position_table (w_ta w s))")
  case (Inl e)
  then show ?thesis by (simp add: repackagePositionTable_def)
next
  case (Inr t)
  assume w: "P w"
  let ?f = "\<lambda>a. if a_position_table a = a_position_table (w_ta w s)
    then a\<lparr>a_position_table := t\<rparr> else a"
  have "quiet_ta ?f" using t_open_size_repackaging [OF Inr] by (auto simp: quiet_ta_def)
  then have "P (upd_ta s ?f w)" by (rule P_ta [OF w])
  moreover have "upd_ta s ?f w = upd_ta s (\<lambda>a. a\<lparr>a_position_table := t\<rparr>) w" by (simp add: upd_ta_def)
  ultimately show ?thesis by (simp add: repackagePositionTable_def Inr)
qed

lemma P_account_setters [keeps_intro]:
  "P w \<Longrightarrow> P (resetPNL s w)"
  "P w \<Longrightarrow> P (deleteCompletePositions s w)"
  "P w \<Longrightarrow> P (inc_tranch s w)"
  "P w \<Longrightarrow> P (setPriceInForce s v w)"
  "P w \<Longrightarrow> P (setRoundInForce s k w)"
  "P w \<Longrightarrow> P (setAverage s v w)"
  by (auto simp: resetPNL_def deleteCompletePositions_def inc_tranch_def setPriceInForce_def
      setRoundInForce_def setAverage_def quiet_ta_def intro!: keeps_intro P_ta)

end

section \<open>Cases\<close>

lemma construct_type: "construct ty w = Inr (Some c) \<Longrightarrow> c_type c = ty"
  using construct_cases by blast

text \<open>The handlers of a case update cases but neither create nor destroy one.\<close>

locale case_world = quiet_accounts +
  assumes P_ti: "P w \<Longrightarrow> quiet_ti g \<Longrightarrow> P (upd_ti g w)"
    and P_case: "P w \<Longrightarrow> (\<And>c. c_type (m c) = c_type c) \<Longrightarrow> P (upd_case n m w)"
begin

lemma P_set_state [keeps_intro]: "P w \<Longrightarrow> P (set_state n st w)"
  by (simp add: set_state_def P_case)

lemma bind_this [keeps_intro]:
  fixes m :: "TradeCase res"
  shows "(\<And>x. res_all Q (f x)) \<Longrightarrow> res_all Q (rbind m f)"
  by (rule res_all_pure)

lemma bind_account [keeps_intro]:
  fixes m :: "OrderAccountType res"
  shows "(\<And>x. res_all Q (f x)) \<Longrightarrow> res_all Q (rbind m f)"
  by (rule res_all_pure)

lemma bind_price [keeps_intro]:
  fixes m :: "double res"
  shows "(\<And>x. res_all Q (f x)) \<Longrightarrow> res_all Q (rbind m f)"
  by (rule res_all_pure)

lemma P_panic_accounts [keeps_intro]: "P w \<Longrightarrow> P (panic_accounts n w)"
  by (simp add: panic_accounts_def P_case P_ti quiet_ti_def ti_constants_def ti_accounts_def)

lemma P_open_lots [keeps_intro]:
  "P w \<Longrightarrow> res_all PP (open_lots cur price sign mpv b td remainder i w)"
proof (induction cur price sign mpv b td remainder i w rule: open_lots.induct)
  case (1 cur price sign mpv b td remainder i w)
  show ?case
  proof (cases "remainder \<le> 0")
    case True
    then show ?thesis using 1(2) by (subst open_lots.simps) simp
  next
    case False
    let ?sz = "if b < remainder then b else remainder"
    have IH: "P w \<Longrightarrow> res_all PP (open_lots cur price sign mpv b td (remainder - ?sz) (i + 1) w)"
      if "\<not> (INT_MAX < remainder - ?sz \<or> INT_MAX \<le> i)" for w
      using False that by (intro 1(1) [OF _ refl refl]) auto
    have next_lot: "res_all PP (if INT_MAX < remainder - ?sz \<or> INT_MAX \<le> i then Inl IntOverflow
        else rbind (open_lots cur price sign mpv b td (remainder - ?sz) (i + 1) v) (\<lambda>(ids, w).
          Inr (if oid \<noteq> 0 then oid # ids else ids, w)))" if "P v" for oid v
      using IH [of v] that by (auto intro!: bind_pair)
    show ?thesis unfolding open_lots.simps [of cur price sign mpv b td remainder i w] Let_def if_not_P [OF False]
      by (rule bind_pair [OF P_orders_sent(2)]) (use 1(2) next_lot in auto)
  qed
qed

lemma P_sendRequoteOrders [keeps_intro]: "P w \<Longrightarrow> res_all P (sendRequoteOrders n w)"
  unfolding sendRequoteOrders_def Let_def by (auto intro!: keeps_intro P_case)

lemma P_live_requotes: "P w \<Longrightarrow> PP (live_requotes cur ks w)"
proof (induction ks arbitrary: w)
  case Nil
  then show ?case by simp
next
  case (Cons k ks)
  obtain b w1 where 1: "checkOrderStatus cur k w = (b, w1)" by (cases "checkOrderStatus cur k w")
  have w1: "P w1" by (rule P_pairD [OF P_requests(6) [OF Cons.prems] 1])
  show ?case using Cons.IH [OF w1] Cons.IH [OF Cons.prems] by (auto simp: 1 Let_def split: prod.splits)
qed

lemma P_change_requotes [keeps_intro]: "P w \<Longrightarrow> res_all PP (change_requotes cur p mpv sign ks i w)"
proof (induction ks arbitrary: i w)
  case Nil
  then show ?case by simp
next
  case (Cons k ks)
  then show ?case by (auto simp: Let_def intro!: bind_pair P_change Cons.IH)
qed

lemma P_updateRequoteOrders [keeps_intro]:
  assumes w: "P w"
  shows "res_all P (updateRequoteOrders n w)"
  unfolding updateRequoteOrders_def
proof (rule res_with_accs)
  fix c cur opp
  obtain live w1 where 1: "live_requotes cur (c_requote_orders c) w = (live, w1)"
    by (cases "live_requotes cur (c_requote_orders c) w")
  have w1: "P w1" by (rule P_pairD [OF P_live_requotes [OF w] 1])
  have fresh: "P w \<Longrightarrow> res_all P (rbind (cancelAll cur w) (sendRequoteOrders n))" for w
    by (intro bind_world P_cancelAll P_sendRequoteOrders)
  show "res_all P (let fresh = (\<lambda>w. rbind (cancelAll cur w) (sendRequoteOrders n)) in
     if getPosition cur w \<noteq> getPosition opp w then Inr w
     else if c_requote_orders c = [] then fresh w
     else
       let (live, w) = live_requotes cur (c_requote_orders c) w;
           w = upd_case n (\<lambda>c. c\<lparr>c_requote_orders := live\<rparr>) w
       in if live = [] then fresh w
          else
            let ti = w_ti w;
                up = (i_trigger_state ti = TRIGGER_STATE_POSITIVE \<and>
                      dlt (c_requote_price c) (i_bid_price ti) \<and> dlt (Fin 0) (i_instrument_skew ti));
                down = (i_trigger_state ti = TRIGGER_STATE_NEGATIVE \<and>
                        dlt (i_ask_price ti) (c_requote_price c) \<and> dlt (i_instrument_skew ti) (Fin 0))
            in if \<not> up \<and> \<not> down then Inr w
               else
                 let price = (if up then i_bid_price ti else i_ask_price ti);
                     w = upd_case n (\<lambda>c. c\<lparr>c_requote_price := price\<rparr>) w
                 in rbind (change_requotes cur price (i_mpv_value ti) (c_sign c) live 0 w) (\<lambda>(ids, w).
                    Inr (upd_case n (\<lambda>c. c\<lparr>c_requote_orders := ids\<rparr>) w)))"
    unfolding Let_def 1 prod.case using w w1
    by (auto intro!: fresh bind_pair P_change_requotes P_case)
qed

lemma P_base [keeps_intro]:
  "P w \<Longrightarrow> res_all P (base_reprice n w)"
  "P w \<Longrightarrow> res_all P (base_destructor n w)"
  unfolding base_reprice_def base_destructor_def Let_def
  by (auto intro!: keeps_intro P_case P_ti simp: quiet_ti_def ti_constants_def ti_accounts_def)

lemma P_closing_cases [keeps_intro]:
  "P w \<Longrightarrow> res_all P (PanicClose_init n w)"
  "P w \<Longrightarrow> res_all P (PanicClose_reprice n w)"
  "P w \<Longrightarrow> res_all P (wait_for_equality n w)"
  "P w \<Longrightarrow> res_all P (SoftClose_init n w)"
  "P w \<Longrightarrow> res_all P (SoftClose_reprice n w)"
  unfolding PanicClose_init_def PanicClose_reprice_def wait_for_equality_def SoftClose_init_def
    SoftClose_reprice_def Let_def
  by (auto intro!: keeps_intro P_case)

lemma P_case_1_3 [keeps_intro]:
  "P w \<Longrightarrow> res_all PP (TradeCase1_checkFails n w)"
  "P w \<Longrightarrow> res_all P (TradeCase3_init n w)"
  "P w \<Longrightarrow> res_all P (TradeCase3_reprice n w)"
  unfolding TradeCase1_checkFails_def TradeCase3_init_def TradeCase3_reprice_def Let_def
  by (auto intro!: keeps_intro P_case)

lemma P_case_1 [keeps_intro]:
  "P w \<Longrightarrow> res_all P (TradeCase1_init n w)"
  "P w \<Longrightarrow> res_all P (TradeCase1_reprice n w)"
  unfolding TradeCase1_init_def TradeCase1_reprice_def by (auto intro!: keeps_intro P_case)

lemma P_open_rounds [keeps_intro]: "P w \<Longrightarrow> res_all P (open_rounds n cur l f rds k w)"
proof (induction rds arbitrary: k w)
  case Nil
  then show ?case by simp
next
  case (Cons rd rds)
  then show ?case by (auto intro!: bind_pair P_orders_sent Cons.IH)
qed

lemma P_case_4_5 [keeps_intro]:
  "P w \<Longrightarrow> res_all P (TradeCase4_init n w)"
  "P w \<Longrightarrow> res_all P (TradeCase4_reprice n w)"
  "P w \<Longrightarrow> res_all P (TradeCase4_wait n w)"
  "P w \<Longrightarrow> res_all P (OnEquality_init n w)"
  "P w \<Longrightarrow> res_all P (OnEquality_wait n w)"
  "P w \<Longrightarrow> res_all P (TradeCase5_init n w)"
  "P w \<Longrightarrow> res_all P (TradeCase5_reprice n w)"
  unfolding TradeCase4_init_def TradeCase4_reprice_def TradeCase4_wait_def OnEquality_init_def
    OnEquality_wait_def TradeCase5_init_def TradeCase5_reprice_def Let_def
  by (auto intro!: keeps_intro P_case split: list.splits)

lemma P_case_6_9 [keeps_intro]:
  "P w \<Longrightarrow> res_all P (CloseOppositeWithPNL_init n w)"
  "P w \<Longrightarrow> res_all P (CloseOppositeWithPNL_reprice n w)"
  "P w \<Longrightarrow> res_all P (CloseOppositeWithPNL_done n w)"
  "P w \<Longrightarrow> res_all P (HedgeCurrent_init n w)"
  "P w \<Longrightarrow> res_all P (HedgeCurrent_reprice n w)"
  "P w \<Longrightarrow> res_all P (HedgeCurrent_destructor n w)"
  "P w \<Longrightarrow> res_all P (TradeCase6C_init n w)"
  "P w \<Longrightarrow> res_all P (TradeCase6C_wait n w)"
  "P w \<Longrightarrow> res_all P (TradeCase7_init n w)"
  "P w \<Longrightarrow> res_all P (TradeCase9_init n w)"
  "P w \<Longrightarrow> res_all P (TradeCase9_reprice n w)"
  "P w \<Longrightarrow> res_all P (TradeCase9_wait n w)"
  unfolding CloseOppositeWithPNL_init_def CloseOppositeWithPNL_reprice_def CloseOppositeWithPNL_done_def
    HedgeCurrent_init_def HedgeCurrent_reprice_def HedgeCurrent_destructor_def TradeCase6C_init_def
    TradeCase6C_wait_def TradeCase7_init_def TradeCase9_init_def TradeCase9_reprice_def
    TradeCase9_wait_def Let_def
  by (auto intro!: keeps_intro P_case)

lemma P_MaxTLV [keeps_intro]:
  "P w \<Longrightarrow> res_all P (MaxTLV_init n w)"
  "P w \<Longrightarrow> res_all P (MaxTLV_reprice n w)"
  unfolding MaxTLV_init_def MaxTLV_reprice_def Let_def by (auto intro!: keeps_intro P_case)

lemma P_anticipated [keeps_intro]:
  "P w \<Longrightarrow> res_all P (CloseOppositeWithAnticipatedPNL_init n w)"
  "P w \<Longrightarrow> res_all P (CloseOppositeWithAnticipatedPNL_reprice n w)"
  "P w \<Longrightarrow> res_all P (CloseOppositeWithAnticipatedPNL_destructor n w)"
  unfolding CloseOppositeWithAnticipatedPNL_init_def CloseOppositeWithAnticipatedPNL_reprice_def
    CloseOppositeWithAnticipatedPNL_destructor_def Let_def
  by (auto intro!: keeps_intro P_case)

lemma P_HedgedMode [keeps_intro]:
  "P w \<Longrightarrow> res_all P (HedgedMode_open n s w)"
  "P w \<Longrightarrow> res_all P (HedgedMode_init n w)"
  "P w \<Longrightarrow> res_all P (HedgedMode_reprice n w)"
  "P w \<Longrightarrow> res_all P (HedgedMode_wait n w)"
  "P w \<Longrightarrow> res_all P (HedgedMode_destructor n w)"
proof -
  show open_ok: "P w \<Longrightarrow> res_all P (HedgedMode_open n s w)" for s
    unfolding HedgedMode_open_def Let_def by (auto intro!: keeps_intro P_case)
  show "P w \<Longrightarrow> res_all P (HedgedMode_init n w)"
    unfolding HedgedMode_init_def Let_def by (auto intro!: keeps_intro P_case open_ok)
  show "P w \<Longrightarrow> res_all P (HedgedMode_reprice n w)" "P w \<Longrightarrow> res_all P (HedgedMode_wait n w)"
    "P w \<Longrightarrow> res_all P (HedgedMode_destructor n w)"
    unfolding HedgedMode_reprice_def HedgedMode_wait_def HedgedMode_destructor_def Let_def
    by (auto intro!: keeps_intro P_case)
qed

lemma P_close_positions [keeps_intro]:
  "P w \<Longrightarrow> res_all PP (close_positions n cur err sign rs excess w)"
proof (induction rs arbitrary: excess w)
  case Nil
  then show ?case by simp
next
  case (Cons r rs)
  then show ?case by (auto simp: Let_def intro!: bind_pair P_orders_sent Cons.IH)
qed

lemma P_change_reps: "P w \<Longrightarrow> res_all (\<lambda>(k, reps, w). P w) (change_reps cur err sign qs w)"
proof (induction qs arbitrary: w)
  case Nil
  then show ?case by simp
next
  case (Cons q qs)
  have rest: "P w \<Longrightarrow> res_all (\<lambda>(k, reps, w). P w) (rbind (change_reps cur err sign qs w) f)"
    if "\<And>k reps w. P w \<Longrightarrow> res_all (\<lambda>(k, reps, w). P w) (f (k, reps, w))" for w f
    using Cons.IH [of w] that by (intro res_all_rbind [where R = "\<lambda>(k, reps, w). P w"]) auto
  show ?case using Cons.prems by (auto simp: Let_def intro!: rest bind_pair P_change)
qed

lemma P_CloseTrigger [keeps_intro]:
  "P w \<Longrightarrow> res_all P (CloseTrigger_init n w)"
  "P w \<Longrightarrow> res_all P (CloseTrigger_reprice n w)"
proof -
  have reps: "P w \<Longrightarrow> (\<And>k reps w. P w \<Longrightarrow> res_all P (f (k, reps, w))) \<Longrightarrow>
      res_all P (rbind (change_reps cur err sign qs w) f)" for w cur err sign qs f
    using P_change_reps [of w cur err sign qs]
    by (intro res_all_rbind [where R = "\<lambda>(k, reps, w). P w"]) auto
  show "P w \<Longrightarrow> res_all P (CloseTrigger_init n w)"
    unfolding CloseTrigger_init_def Let_def by (auto intro!: keeps_intro P_case)
  show "P w \<Longrightarrow> res_all P (CloseTrigger_reprice n w)"
    unfolding CloseTrigger_reprice_def Let_def by (auto intro!: keeps_intro P_case reps)
qed

lemma P_case_10 [keeps_intro]:
  "P w \<Longrightarrow> res_all P (TradeCase10_init n w)"
  "P w \<Longrightarrow> res_all P (TradeCase10_reprice n w)"
  "P w \<Longrightarrow> res_all P (TradeCase10_wait n w)"
proof -
  show init: "P w \<Longrightarrow> res_all P (TradeCase10_init n w)"
    unfolding TradeCase10_init_def Let_def by (auto intro!: keeps_intro P_case)
  then show "P w \<Longrightarrow> res_all P (TradeCase10_wait n w)"
    unfolding TradeCase10_wait_def by (auto intro!: keeps_intro P_case)
  show "P w \<Longrightarrow> res_all P (TradeCase10_reprice n w)"
    unfolding TradeCase10_reprice_def Let_def by (auto intro!: keeps_intro P_case)
qed

section \<open>Running and replacing a case\<close>

lemma P_dispatch [keeps_intro]:
  assumes w: "P w"
  shows "res_all P (case_init n ty w)" "res_all P (case_reprice n ty w)"
    "res_all P (case_wait n ty w)" "res_all P (case_done n ty w)"
  unfolding case_init_def case_reprice_def case_wait_def case_done_def PanicClose_wait_def
    SoftClose_wait_def HedgeCurrent_wait_def CloseOppositeWithAnticipatedPNL_wait_def
    CloseTrigger_wait_def OnEquality_reprice_def
  using w by (cases ty; simp add: keeps_intro)+

lemma P_run [keeps_intro]: "P w \<Longrightarrow> res_all PP (run n w)"
proof -
  assume w: "P w"
  have "res_all P (case c_state c of
         INIT \<Rightarrow> case_init n (c_type c) w
       | PRICE_CHANGE \<Rightarrow> case_reprice n (c_type c) w
       | DONE \<Rightarrow> case_done n (c_type c) w
       | WAIT \<Rightarrow> case_wait n (c_type c) w
       | _ \<Rightarrow> Inr w)" for c
    using w by (cases "c_state c") (simp_all add: P_dispatch)
  then show ?thesis unfolding run_def by (auto intro!: bind_this bind_world)
qed

lemma P_switches [keeps_intro]:
  "P w \<Longrightarrow> P (enablePanicClose w)" "P w \<Longrightarrow> P (enableSoftClose w)"
  "P w \<Longrightarrow> P (disablePanicClose w)" "P w \<Longrightarrow> P (disableSoftClose w)"
  "P w \<Longrightarrow> P (startAction w)" "P w \<Longrightarrow> P (avicennaToggle w)"
  by (auto simp: enablePanicClose_def enableSoftClose_def disablePanicClose_def disableSoftClose_def
      startAction_def avicennaToggle_def quiet_ti_def ti_constants_def ti_accounts_def intro!: P_ti)

lemma P_selfDestruct [keeps_intro]: "P w \<Longrightarrow> P (selfDestruct w)"
  by (auto simp: selfDestruct_def enablePanicClose_def quiet_ti_def ti_constants_def ti_accounts_def
      intro!: P_ti)

lemma P_stopAction [keeps_intro]: "P w \<Longrightarrow> res_all P (stopAction w)"
  unfolding stopAction_def
  by (auto intro!: keeps_intro P_case P_ti simp: quiet_ti_def ti_constants_def ti_accounts_def)

text \<open>What a destructor does before the object is gone.\<close>

lemma P_destructors [keeps_intro]: "P w \<Longrightarrow> res_all P (run_destructors n w)"
proof -
  assume w: "P w"
  have "res_all P (case c_type c of
         CASE_HEDGECURRENT \<Rightarrow> HedgeCurrent_destructor n w
       | CASE_CLOSEOPPOSITEWITH_ANTICIPATED_PNL \<Rightarrow> CloseOppositeWithAnticipatedPNL_destructor n w
       | CASE_HEDGEDMODE \<Rightarrow> HedgedMode_destructor n w
       | _ \<Rightarrow> Inr w)" for c
    using w by (cases "c_type c") (simp_all add: keeps_intro)
  then show ?thesis unfolding run_destructors_def by (intro bind_world bind_this P_base)
qed

end

section \<open>Creating and destroying cases\<close>

locale quiet_world = case_world +
  assumes P_pop: "P w \<Longrightarrow> P (w\<lparr>w_sym := (w_sym w)\<lparr>s_symbol_stack := ys\<rparr>\<rparr>)"
    and P_trade_case: "P w \<Longrightarrow> P (upd_ti (\<lambda>ti. ti\<lparr>i_trade_case := p\<rparr>) w)"
    and P_case_gone: "P w \<Longrightarrow> P (w\<lparr>w_cases := (w_cases w)(n := None)\<rparr>)"
    and P_case_new: "P w \<Longrightarrow> c_type c \<in> run_types \<Longrightarrow>
      P (w\<lparr>w_cases := (w_cases w)(w_next_case w \<mapsto> c), w_next_case := Suc (w_next_case w)\<rparr>)"
begin

lemma P_factory_create:
  "P w \<Longrightarrow> ty \<in> insert CASE_NONE run_types \<Longrightarrow> res_all PP (factory_create ty w)"
  unfolding factory_create_def
proof (rule res_all_pure)
  fix c assume w: "P w" and ty: "ty \<in> insert CASE_NONE run_types" and c: "construct ty w = Inr c"
  show "res_all PP (case c of None \<Rightarrow> Inr (None, w)
      | Some c \<Rightarrow> Inr (Some (w_next_case w),
         w\<lparr>w_cases := (w_cases w)(w_next_case w \<mapsto> c), w_next_case := Suc (w_next_case w)\<rparr>))"
  proof (cases c)
    case None
    then show ?thesis using w by simp
  next
    case (Some d)
    have "ty \<noteq> CASE_NONE" using construct_cases [OF c] Some by auto
    then have "c_type d \<in> run_types" using ty c Some construct_type by auto
    then show ?thesis using w Some by (simp add: P_case_new)
  qed
qed

lemma P_case_destructor [keeps_intro]: "P w \<Longrightarrow> res_all P (case_destructor n w)"
  unfolding case_destructor_def
  by (rule res_all_rbind [where R = P]) (auto intro!: P_destructors P_case_gone)

lemma P_assign_case [keeps_intro]: "P w \<Longrightarrow> res_all P (assign_case p w)"
  unfolding assign_case_def Let_def
  by (auto split: option.splits intro!: P_case_destructor P_trade_case)

lemma P_replace_case:
  "P w \<Longrightarrow> ty \<in> insert CASE_NONE run_types \<Longrightarrow> res_all P (replace_case ty w)"
  unfolding replace_case_def by (auto intro!: bind_pair P_factory_create P_assign_case)

lemma selected_run_type: "selected_case x y ti \<in> insert CASE_NONE run_types"
  by (simp add: selected_case_def run_types_def)

lemma closing_run_types:
  "PANIC_CLOSE \<in> insert CASE_NONE run_types" "SOFT_CLOSE \<in> insert CASE_NONE run_types"
  "CASE_10 \<in> insert CASE_NONE run_types"
  by (simp_all add: run_types_def)

lemma P_caseSelection [keeps_intro]: "P w \<Longrightarrow> res_all P (caseSelection w)"
  unfolding caseSelection_def Let_def
  by (auto split: option.splits intro!: P_replace_case selected_run_type closing_run_types P_ti
      simp del: insert_iff simp: quiet_ti_def ti_constants_def ti_accounts_def)

lemma P_run_case [keeps_intro]: "P w \<Longrightarrow> res_all PP (run_case w)"
  unfolding run_case_def Let_def
  by (auto split: option.splits intro!: keeps_intro P_case P_ti
      simp: quiet_ti_def ti_constants_def ti_accounts_def)

lemma P_specialCases [keeps_intro]: "P w \<Longrightarrow> res_all PP (specialCases w)"
  unfolding specialCases_def Let_def
  by (auto intro!: keeps_intro P_replace_case closing_run_types P_ti simp del: insert_iff simp: quiet_ti_def ti_constants_def ti_accounts_def)

lemma P_readSymbolData [keeps_intro]: "P w \<Longrightarrow> res_all P (readSymbolData w)"
  unfolding readSymbolData_def
  by (rule res_all_pure)
    (auto simp: pop_def quiet_ti_def ti_constants_def ti_accounts_def intro!: P_ti P_pop split: list.splits)

end

section \<open>Reachable states\<close>

text \<open>What a change of the trigger does to the trade instance, besides quiet updates.\<close>

definition switch_accounts :: "OrderAccountType \<Rightarrow> world \<Rightarrow> world" where
  "switch_accounts cur =
     upd_ti (\<lambda>ti. ti\<lparr>i_current_acc := Some cur, i_opposite_acc := Some (other_account cur)\<rparr>)"

locale switching_world = quiet_world +
  assumes P_switch: "P w \<Longrightarrow> P (switch_accounts cur w)"
begin

lemma P_triggerSelection [keeps_intro]: "P w \<Longrightarrow> res_all P (triggerSelection w)"
proof -
  assume w: "P w"
  define v where "v = upd_ti (\<lambda>ti. ti\<lparr>i_trade_price := market_price ti\<rparr>)
    (upd_ti (\<lambda>ti. ti\<lparr>i_trigger_state := next_trigger ti, i_price_estimate_prev := i_price_estimate ti\<rparr>)
      (upd_ti (\<lambda>ti. ti\<lparr>i_avicenna_trigger_state := next_avicenna_trigger ti\<rparr>) w))"
  have v: "P v" unfolding v_def
    by (intro P_ti w) (simp_all add: quiet_ti_def ti_constants_def ti_accounts_def)
  define t where "t = i_trigger_state (w_ti v)"
  define cur where "cur = (if t = TRIGGER_STATE_POSITIVE then LONG else SHORT)"
  let ?g = "\<lambda>ti. ti\<lparr>i_prev_trigger_state := t, i_state := TRADE_INSTANCE_INIT,
        i_price_estimate_on_trigger := i_price_estimate ti, i_previous_case := CASE_NONE,
        i_reference_price := (if t = TRIGGER_STATE_POSITIVE then i_bid_price ti else i_ask_price ti)\<rparr>"
  have "P (switch_accounts cur (upd_ti ?g v))"
    by (intro P_switch P_ti v) (simp add: quiet_ti_def ti_constants_def ti_accounts_def)
  then have "res_all P (caseSelection (switch_accounts cur (upd_ti ?g v)))" by (rule P_caseSelection)
  moreover have "switch_accounts cur (upd_ti ?g v) = upd_ti (\<lambda>ti. ti\<lparr>i_prev_trigger_state := t,
        i_state := TRADE_INSTANCE_INIT, i_price_estimate_on_trigger := i_price_estimate ti,
        i_previous_case := CASE_NONE, i_current_acc := Some cur,
        i_opposite_acc := Some (other_account cur),
        i_reference_price := (if t = TRIGGER_STATE_POSITIVE then i_bid_price ti else i_ask_price ti)\<rparr>) v"
    by (simp add: switch_accounts_def upd_ti_def)
  ultimately show ?thesis
    using v by (simp add: triggerSelection_def Let_def flip: v_def t_def cur_def)
qed

lemma P_processing_round: "P w \<Longrightarrow> res_all PP (processing_round w)"
  unfolding processing_round_def report_def Let_def
  by (auto intro!: keeps_intro P_case P_ti simp: quiet_ti_def ti_constants_def ti_accounts_def)

end

text \<open>The market may set the symbol's data to anything.\<close>

locale stable_world = switching_world +
  assumes P_sym: "P w \<Longrightarrow> P (w\<lparr>w_sym := y\<rparr>)"
begin

lemma P_step: "step w w' \<Longrightarrow> P w \<Longrightarrow> P w'"
proof (induction rule: step.induct)
  case (step_round w b w')
  show ?case using res_allD [OF P_processing_round [OF step_round(2)] step_round(1)] by simp
next
  case (step_message e w w')
  show ?case by (rule res_allD [OF P_deliver [OF step_message(2)] step_message(1)])
next
  case (step_stop w w')
  show ?case by (rule res_allD [OF P_stopAction [OF step_stop(2)] step_stop(1)])
qed (auto intro!: keeps_intro P_case P_inbox P_sym)

theorem P_reachable: "reachable w0 w \<Longrightarrow> P w0 \<Longrightarrow> P w"
  by (induction rule: reachable.induct) (auto intro: P_step)

end

end
