(* ===== verification/Invariants.thy ===== *)
theory Invariants
  imports Preservation
begin

text \<open>
  Invariants of the whole system as interpretations of \<open>stable_world\<close>: the agreement of an account's
  total with its position table, the order of the maps of live orders, the pairing of the current and
  the opposite account, and the members that never change.
\<close>

section \<open>The ledger\<close>

text \<open>\<open>q\<close> is the part of the total that was never filled: the position the program started with.\<close>

definition ledger :: "(OrderAccountType \<Rightarrow> int) \<Rightarrow> world \<Rightarrow> bool" where
  "ledger q w \<longleftrightarrow>
     (\<forall>s. t_open_size (a_position_table (w_ta w s)) = word_of_int (a_total (w_ta w s) - q s))"

interpretation ledger_world: stable_world "ledger q" for q
  by unfold_locales (auto simp: ledger_def quiet_ta_def switch_accounts_def algebra_simps)

section \<open>The types of cases\<close>

definition cases_typed :: "world \<Rightarrow> bool" where
  "cases_typed w \<longleftrightarrow> (\<forall>c \<in> ran (w_cases w). c_type c \<in> run_types)"

interpretation typed_world: stable_world cases_typed
  by unfold_locales (fastforce simp: cases_typed_def switch_accounts_def ran_def split: if_splits)+

section \<open>The maps of live orders\<close>

definition orders_sorted :: "world \<Rightarrow> bool" where
  "orders_sorted w \<longleftrightarrow> (\<forall>s. om_inv (a_orders (w_ta w s)))"

interpretation orders_world: stable_world orders_sorted
  by unfold_locales (auto simp: orders_sorted_def quiet_ta_def switch_accounts_def)

section \<open>The two accounts\<close>

definition accounts_paired :: "world \<Rightarrow> bool" where
  "accounts_paired w \<longleftrightarrow> ti_accounts (w_ti w) = (None, None) \<or>
     (\<exists>s. ti_accounts (w_ti w) = (Some s, Some (other_account s)))"

interpretation paired_world: stable_world accounts_paired
  by unfold_locales (auto simp: accounts_paired_def quiet_ti_def switch_accounts_def ti_accounts_def)

text \<open>Between two changes of the trigger the accounts stay what they are.\<close>

interpretation selected_world: quiet_world "\<lambda>w. ti_accounts (w_ti w) = x" for x
  by unfold_locales (auto simp: quiet_ti_def ti_accounts_def)

text \<open>What a message, an operation of an account and a handler of a case leave alone.\<close>

interpretation message_frame: quiet_messages
  "\<lambda>w. (w_inbox w, w_next w, w_ti w, w_sym w, w_next_case w, w_gw w) = x" for x
  by unfold_locales simp_all

definition case_types :: "(nat \<Rightarrow> TradeCase option) \<Rightarrow> nat \<Rightarrow> CaseType option" where
  "case_types cs n = map_option c_type (cs n)"

lemma case_types_upd [simp]:
  "(\<And>c. c_type (f c) = c_type c) \<Longrightarrow> case_types (cs(n := map_option f (cs n))) = case_types cs"
  by (auto simp: case_types_def option.map_comp comp_def fun_eq_iff)

interpretation account_frame: quiet_accounts
  "\<lambda>w. (w_ti w, w_sym w, w_next_case w, w_gw w, case_types (w_cases w)) = x" for x
  by unfold_locales simp_all

interpretation case_frame: case_world
  "\<lambda>w. (i_trade_case (w_ti w), ti_accounts (w_ti w), w_sym w, w_next_case w, case_types (w_cases w)) = x"
  for x
  by unfold_locales (simp_all add: quiet_ti_def)

section \<open>Constants\<close>

definition same_constants :: "world \<Rightarrow> world \<Rightarrow> bool" where
  "same_constants w0 w \<longleftrightarrow> ti_constants (w_ti w) = ti_constants (w_ti w0) \<and> w_gw w = w_gw w0 \<and>
     (\<forall>s. a_divisor (w_ta w s) = a_divisor (w_ta w0 s) \<and> a_max_pos (w_ta w s) = a_max_pos (w_ta w0 s) \<and>
        t_is_long (a_position_table (w_ta w s)) = t_is_long (a_position_table (w_ta w0 s)))"

interpretation constant_world: stable_world "same_constants w0" for w0
  by unfold_locales (auto simp: same_constants_def quiet_ti_def quiet_ta_def switch_accounts_def
      ti_constants_def)

section \<open>The symbol\<close>

text \<open>The trading thread takes stamps from the symbol's stack and changes nothing else of it.\<close>

definition sans_stack :: "Symbol \<Rightarrow> Symbol" where
  "sans_stack y = y\<lparr>s_symbol_stack := []\<rparr>"

interpretation market_world: switching_world "\<lambda>w. sans_stack (w_sym w) = y" for y
  by unfold_locales (simp_all add: sans_stack_def switch_accounts_def)

end
