(* ===== verification/CaseLifetime.thy ===== *)
theory CaseLifetime
  imports Invariants
begin

text \<open>
  The life of a trade case: between two transitions of the system the only case object is the one the
  trade instance holds, a replaced case is destroyed, and a closure of a destroyed case dangles.
\<close>

definition sole_case :: "world \<Rightarrow> bool" where
  "sole_case w \<longleftrightarrow> dom (w_cases w) = set_option (i_trade_case (w_ti w)) \<and>
     (\<forall>m \<in> set_option (i_trade_case (w_ti w)). m < w_next_case w)"

lemma dom_case_types [simp]: "dom (case_types cs) = dom cs"
  by (auto simp: case_types_def dom_def)

lemma case_types_Some: "case_types cs m = Some ty \<longleftrightarrow> (\<exists>c. cs m = Some c \<and> c_type c = ty)"
  by (auto simp: case_types_def)

lemma case_types_delete: "case_types (cs(n := None)) = (case_types cs)(n := None)"
  by (auto simp: case_types_def fun_eq_iff)

text \<open>The invariant only looks at the pointer, the allocator and the types of the cases.\<close>

lemma sole_case_types:
  "sole_case w \<longleftrightarrow> dom (case_types (w_cases w)) = set_option (i_trade_case (w_ti w)) \<and>
     (\<forall>m \<in> set_option (i_trade_case (w_ti w)). m < w_next_case w)"
  by (simp add: sole_case_def)

interpretation sole_world: case_world sole_case
  by unfold_locales (simp_all add: sole_case_types quiet_ti_def del: dom_case_types)

section \<open>Assigning the pointer\<close>

lemma assign_case_result:
  assumes "assign_case p w = Inr w'"
  shows "i_trade_case (w_ti w') = p" "ti_accounts (w_ti w') = ti_accounts (w_ti w)"
    "w_next_case w' = w_next_case w" "w_sym w' = w_sym w"
    "case_types (w_cases w') = (case i_trade_case (w_ti w) of None \<Rightarrow> case_types (w_cases w)
       | Some n \<Rightarrow> (case_types (w_cases w))(n := None))"
proof -
  let ?v = "upd_ti (\<lambda>ti. ti\<lparr>i_trade_case := p\<rparr>) w"
  have "i_trade_case (w_ti w') = p \<and> ti_accounts (w_ti w') = ti_accounts (w_ti w) \<and>
    w_next_case w' = w_next_case w \<and> w_sym w' = w_sym w \<and>
    case_types (w_cases w') = (case i_trade_case (w_ti w) of None \<Rightarrow> case_types (w_cases w)
       | Some n \<Rightarrow> (case_types (w_cases w))(n := None))"
  proof (cases "i_trade_case (w_ti w)")
    case None
    then show ?thesis using assms by (auto simp: assign_case_def Let_def ti_accounts_def)
  next
    case (Some n)
    then obtain v' where v': "run_destructors n ?v = Inr v'"
      and w': "w' = v'\<lparr>w_cases := (w_cases v')(n := None)\<rparr>"
      using assms by (auto simp: assign_case_def case_destructor_def Let_def rbind_eq_Inr)
    note res_allD [OF case_frame.P_destructors [OF refl] v']
    then show ?thesis using Some w' by (simp add: ti_accounts_def case_types_delete)
  qed
  then show "i_trade_case (w_ti w') = p" "ti_accounts (w_ti w') = ti_accounts (w_ti w)"
    "w_next_case w' = w_next_case w" "w_sym w' = w_sym w"
    "case_types (w_cases w') = (case i_trade_case (w_ti w) of None \<Rightarrow> case_types (w_cases w)
       | Some n \<Rightarrow> (case_types (w_cases w))(n := None))" by blast+
qed

lemma assign_none_sole: "sole_case w \<Longrightarrow> res_all sole_case (assign_case None w)"
  unfolding res_all_def sole_case_types
  by (cases "i_trade_case (w_ti w)") (auto simp: assign_case_result simp del: dom_case_types)

lemma replace_case_result:
  assumes w: "sole_case w" and r: "replace_case ty w = Inr w'"
  shows "sole_case w'" "ti_accounts (w_ti w') = ti_accounts (w_ti w)"
    "if ty = CASE_NONE \<or> ty = CASE_2 then i_trade_case (w_ti w') = None
     else i_trade_case (w_ti w') = Some (w_next_case w) \<and>
       case_types (w_cases w') (w_next_case w) = Some ty"
proof -
  obtain c where c: "construct ty w = Inr c" using r
    by (auto simp: replace_case_def factory_create_def rbind_eq_Inr)
  have none: "c = None \<longleftrightarrow> ty = CASE_NONE \<or> ty = CASE_2"
    using construct_cases [OF c] by blast
  have "sole_case w' \<and> ti_accounts (w_ti w') = ti_accounts (w_ti w) \<and>
    (if c = None then i_trade_case (w_ti w') = None
     else i_trade_case (w_ti w') = Some (w_next_case w) \<and>
       case_types (w_cases w') (w_next_case w) = Some ty)"
  proof (cases c)
    case None
    then have a: "assign_case None w = Inr w'"
      using r c by (simp add: replace_case_def factory_create_def)
    show ?thesis using res_allD [OF assign_none_sole [OF w] a] assign_case_result [OF a] None by simp
  next
    case (Some d)
    let ?v = "w\<lparr>w_cases := (w_cases w)(w_next_case w \<mapsto> d), w_next_case := Suc (w_next_case w)\<rparr>"
    have a: "assign_case (Some (w_next_case w)) ?v = Inr w'"
      using r c Some by (simp add: replace_case_def factory_create_def)
    have "c_type d = ty" using c Some by (simp add: construct_type)
    moreover have "case_types (w_cases ?v) = (case_types (w_cases w))(w_next_case w \<mapsto> c_type d)"
      by (simp add: case_types_def fun_eq_iff)
    ultimately show ?thesis using assign_case_result [OF a] w Some
      by (cases "i_trade_case (w_ti w)") (auto simp: sole_case_types simp del: dom_case_types)
  qed
  then show "sole_case w'" "ti_accounts (w_ti w') = ti_accounts (w_ti w)"
    "if ty = CASE_NONE \<or> ty = CASE_2 then i_trade_case (w_ti w') = None
     else i_trade_case (w_ti w') = Some (w_next_case w) \<and>
       case_types (w_cases w') (w_next_case w) = Some ty" by (simp_all add: none)
qed

section \<open>Selecting a case\<close>

lemma selected_not_2: "selected_case x y ti \<noteq> CASE_2"
  by (simp add: selected_case_def)

lemma caseSelection_result:
  assumes w: "sole_case w" and accs: "ti_accounts (w_ti w) = (Some cur, Some opp)"
    and r: "caseSelection w = Inr w'"
  shows "sole_case w'" "ti_accounts (w_ti w') = (Some cur, Some opp)"
    "if selected_case (getPosition cur w) (getPosition opp w) (w_ti w) = CASE_NONE
     then i_trade_case (w_ti w') = None
     else i_trade_case (w_ti w') = Some (w_next_case w) \<and>
       case_types (w_cases w') (w_next_case w)
         = Some (selected_case (getPosition cur w) (getPosition opp w) (w_ti w))"
proof -
  define ty where "ty = selected_case (getPosition cur w) (getPosition opp w) (w_ti w)"
  define v where "v = (if ty = CASE_10
    then upd_ti (\<lambda>ti. ti\<lparr>i_wait_for_next_time_window := False\<rparr>) w else w)"
  have v: "sole_case v" "ti_accounts (w_ti v) = (Some cur, Some opp)" "w_next_case v = w_next_case w"
    using w accs by (auto simp: v_def sole_case_def ti_accounts_def)
  have "replace_case ty v = Inr w'"
    using r accs by (simp add: caseSelection_def ti_accounts_def ty_def v_def Let_def)
  note res = replace_case_result [OF v(1) this]
  show "sole_case w'" by (rule res(1))
  show "ti_accounts (w_ti w') = (Some cur, Some opp)" using res(2) v(2) by simp
  show "if selected_case (getPosition cur w) (getPosition opp w) (w_ti w) = CASE_NONE
     then i_trade_case (w_ti w') = None
     else i_trade_case (w_ti w') = Some (w_next_case w) \<and>
       case_types (w_cases w') (w_next_case w)
         = Some (selected_case (getPosition cur w) (getPosition opp w) (w_ti w))"
    using res(3) selected_not_2 v(3) by (simp add: ty_def split: if_splits)
qed

lemma sole_caseSelection: "sole_case w \<Longrightarrow> res_all sole_case (caseSelection w)"
proof (cases "\<exists>cur opp. ti_accounts (w_ti w) = (Some cur, Some opp)")
  case True
  assume "sole_case w"
  then show ?thesis using True caseSelection_result(1) unfolding res_all_def by blast
next
  case False
  assume "sole_case w"
  moreover have "caseSelection w = Inr w"
    using False by (auto simp: caseSelection_def ti_accounts_def split: option.splits)
  ultimately show ?thesis by simp
qed

lemma sole_replace_case: "sole_case w \<Longrightarrow> res_all sole_case (replace_case ty w)"
  unfolding res_all_def using replace_case_result(1) by blast

lemma sole_upd_ti:
  "sole_case w \<Longrightarrow> (\<And>ti. i_trade_case (g ti) = i_trade_case ti) \<Longrightarrow> sole_case (upd_ti g w)"
  by (simp add: sole_case_def)

text \<open>The state in which \<open>triggerSelection\<close> selects a case after a change of the trigger.\<close>

definition triggered :: "world \<Rightarrow> world" where
  "triggered w = upd_ti (\<lambda>ti. ti\<lparr>i_trade_price := market_price ti\<rparr>)
     (upd_ti (\<lambda>ti. ti\<lparr>i_trigger_state := next_trigger ti, i_price_estimate_prev := i_price_estimate ti\<rparr>)
       (upd_ti (\<lambda>ti. ti\<lparr>i_avicenna_trigger_state := next_avicenna_trigger ti\<rparr>) w))"

definition on_side :: "OrderAccountType \<Rightarrow> world \<Rightarrow> world" where
  "on_side cur v = upd_ti (\<lambda>ti. ti\<lparr>i_prev_trigger_state := i_trigger_state (w_ti v),
     i_state := TRADE_INSTANCE_INIT, i_price_estimate_on_trigger := i_price_estimate ti,
     i_previous_case := CASE_NONE, i_current_acc := Some cur, i_opposite_acc := Some (other_account cur),
     i_reference_price := (if i_trigger_state (w_ti v) = TRIGGER_STATE_POSITIVE then i_bid_price ti
                           else i_ask_price ti)\<rparr>) v"

lemma triggerSelection_eq:
  "triggerSelection w =
    (let t = i_trigger_state (w_ti (triggered w)) in
     if i_prev_trigger_state (w_ti (triggered w)) \<noteq> t \<and> t \<noteq> TRIGGER_STATE_INIT
     then caseSelection (on_side (if t = TRIGGER_STATE_POSITIVE then LONG else SHORT) (triggered w))
     else Inr (triggered w))"
  by (simp add: triggerSelection_def triggered_def on_side_def Let_def)

lemma triggered_simps [simp]:
  "i_trigger_state (w_ti (triggered w)) = next_trigger (w_ti w)"
  "i_prev_trigger_state (w_ti (triggered w)) = i_prev_trigger_state (w_ti w)"
  "w_ta (triggered w) = w_ta w"
  "i_trade_case (w_ti (triggered w)) = i_trade_case (w_ti w)"
  "w_cases (triggered w) = w_cases w" "w_next_case (triggered w) = w_next_case w"
  by (simp_all add: triggered_def next_trigger_def)

lemma on_side_simps [simp]:
  "i_trade_case (w_ti (on_side cur v)) = i_trade_case (w_ti v)"
  "ti_accounts (w_ti (on_side cur v)) = (Some cur, Some (other_account cur))"
  "w_cases (on_side cur v) = w_cases v" "w_next_case (on_side cur v) = w_next_case v"
  "w_ta (on_side cur v) = w_ta v"
  by (simp_all add: on_side_def ti_accounts_def)

lemma sole_triggerSelection: "sole_case w \<Longrightarrow> res_all sole_case (triggerSelection w)"
  unfolding triggerSelection_eq Let_def
  by (auto intro!: sole_caseSelection simp: sole_case_def)

section \<open>A round\<close>

lemma sole_specialCases: "sole_case w \<Longrightarrow> res_all (\<lambda>(b, w). sole_case w) (specialCases w)"
proof -
  assume "sole_case w"
  then have v: "sole_case (selfDestruct w)" by (rule sole_world.P_selfDestruct)
  have sel: "sole_case v \<Longrightarrow> (\<And>v'. sole_case v' \<Longrightarrow> res_all Q (f v')) \<Longrightarrow>
      res_all Q (rbind (replace_case ty v) f)" for v ty Q and f :: "world \<Rightarrow> (bool \<times> world) res"
    by (rule res_all_rbind [OF sole_replace_case])
  show ?thesis unfolding specialCases_def Let_def
    using v by (auto intro!: sel sole_upd_ti res_all_rbind [OF sole_caseSelection])
qed

lemma sole_run_case: "sole_case w \<Longrightarrow> res_all (\<lambda>(b, w). sole_case w) (run_case w)"
proof (cases "i_trade_case (w_ti w)")
  case None
  assume "sole_case w"
  with None show ?thesis by (simp add: run_case_def)
next
  case (Some n)
  assume "sole_case w"
  then have "res_all (\<lambda>(st, w). sole_case w) (run n w)" by (rule sole_world.P_run)
  then show ?thesis unfolding run_case_def Some option.case Let_def
    by (rule res_all_rbind)
      (auto intro!: sole_world.bind_this res_all_rbind [OF assign_none_sole] sole_upd_ti)
qed

lemma sole_processing_round: "sole_case w \<Longrightarrow> res_all (\<lambda>(b, w). sole_case w) (processing_round w)"
proof -
  have read: "sole_case w \<Longrightarrow> res_all sole_case (readSymbolData w)" for w
    unfolding readSymbolData_def by (rule res_all_pure) (auto simp: sole_case_def)
  have bind: "res_all (\<lambda>(x, w). sole_case w) m \<Longrightarrow>
      (\<And>x v. sole_case v \<Longrightarrow> res_all Q (f (x, v))) \<Longrightarrow> res_all Q (rbind m f)"
    for m :: "(bool \<times> world) res" and f :: "bool \<times> world \<Rightarrow> (bool \<times> world) res" and Q
    by (erule res_all_rbind) auto
  have rep: "sole_case v \<Longrightarrow> res_all sole_case (report v)" for v
    unfolding report_def by (auto intro: res_all_pure)
  show "sole_case w \<Longrightarrow> ?thesis"
    unfolding processing_round_def Let_def
    by (auto intro!: res_all_rbind [OF read] bind sole_specialCases sole_upd_ti
        res_all_rbind [OF sole_triggerSelection] res_all_rbind [OF rep] sole_run_case)
qed

lemma sole_step: "step w w' \<Longrightarrow> sole_case w \<Longrightarrow> sole_case w'"
proof (induction rule: step.induct)
  case (step_round w b w')
  show ?case using res_allD [OF sole_processing_round [OF step_round(2)] step_round(1)] by simp
next
  case (step_message e w w')
  show ?case by (rule res_allD [OF sole_world.P_deliver [OF step_message(2)] step_message(1)])
next
  case (step_stop w w')
  show ?case by (rule res_allD [OF sole_world.P_stopAction [OF step_stop(2)] step_stop(1)])
qed (simp_all add: sole_world.P_switches, simp_all add: sole_case_def)

lemma sole_reachable: "reachable w0 w \<Longrightarrow> sole_case w0 \<Longrightarrow> sole_case w"
  by (induction rule: reachable.induct) (auto intro: sole_step)

text \<open>A closure of a case that is gone is called on a destroyed object.\<close>

lemma closure_of_lost_case:
  "sole_case w \<Longrightarrow> i_trade_case (w_ti w) \<noteq> Some n \<Longrightarrow>
    run_trade_done (TD_trade_send_close n) price sz w = Inl DanglingRef \<and>
    run_trade_done (TD_requote_done n) price sz w = Inl DanglingRef"
proof -
  assume "sole_case w" "i_trade_case (w_ti w) \<noteq> Some n"
  then have "w_cases w n = None" by (auto simp: sole_case_def dom_def)
  then show ?thesis
    by (simp add: run_trade_done_def on_trade_send_close_def on_requote_order_done_def this_case_def)
qed

end
