(* ===== verification/Samples.thy ===== *)
theory Samples
  imports TradeInstances
begin

text \<open>
  A small configuration: one account pair with two rounds of 100 shares, a divisor of 10, a gateway
  that accepts everything, and the state the program starts in. The examples evaluate on it.
\<close>

definition sample_gateway :: gateway where
  "sample_gateway = \<lparr>gw_set_limit = (\<lambda>_ _ _. True), gw_post = (\<lambda>_. True), gw_cancel = (\<lambda>_. True),
     gw_change = (\<lambda>_. True), gw_status = (\<lambda>_. True)\<rparr>"

definition sample_settings :: settings where
  "sample_settings = \<lparr>cfg_share_rounds = [\<lparr>rd_increments = 100, rd_position = 100\<rparr>,
       \<lparr>rd_increments = 100, rd_position = 200\<rparr>],
     cfg_tranch_value = 2, cfg_divisor = 10, cfg_multiplier = Fin 1, cfg_mpv_value = Fin 1,
     cfg_mpv_multiplier = 2, cfg_base_qty = 50, cfg_cancel_on_trigger = True, cfg_maximum_live = 500,
     cfg_maximum_order = 1000\<rparr>"

definition sample_symbol :: Symbol where
  "sample_symbol = new_Symbol (Fin 0) (Fin 0) (Fin 0) (Fin 0)"

definition sample_rest :: uninitialised where
  "sample_rest = \<lparr>u_wait_avicenna = Fin 0, u_last_open_price = Fin 0, u_mmf_mpv = Fin 0,
     u_bar = \<lparr>bar_open = Fin 0, bar_close = Fin 0, bar_minimum = Fin 0, bar_maximum = Fin 0\<rparr>\<rparr>"

definition sample_stored :: stored_position where
  "sample_stored = \<lparr>pos_price = Fin 20, pos_pif = Some (Fin 21), pos_rif = None, pos_quantity = 7,
     pos_total_executed = 9\<rparr>"

definition sample_world :: "event list \<Rightarrow> world" where
  "sample_world es =
     (start_world sample_settings sample_symbol sample_gateway sample_rest None None)\<lparr>w_inbox := es\<rparr>"

lemma sample_start:
  "start_instance sample_settings sample_symbol sample_gateway sample_rest p q =
     Inr (start_world sample_settings sample_symbol sample_gateway sample_rest p q)"
  by (simp add: start_instance_def sample_settings_def)

lemma sample_world_simps [simp]:
  "w_inbox (sample_world es) = es"
  "w_gw (sample_world es) = sample_gateway"
  "w_calls (sample_world es) = 0" "w_next (sample_world es) = 0"
  "w_oa (sample_world es) s = \<lparr>oa_request_id_generator = 0, oa_order_hash = (\<lambda>_. None)\<rparr>"
  "w_cases (sample_world es) = (\<lambda>_. None)" "w_next_case (sample_world es) = 0"
  "a_orders (w_ta (sample_world es) s) = []" "a_divisor (w_ta (sample_world es) s) = 10"
  "a_totalopen (w_ta (sample_world es) s) = 0" "a_totalclose (w_ta (sample_world es) s) = 0"
  "a_total (w_ta (sample_world es) s) = 0" "a_max_pos (w_ta (sample_world es) s) = 300"
  "next_id s (sample_world es) = 1" "hash_find s k (sample_world es) = None"
  "orders_find s k (sample_world es) = None"
  by (simp_all add: sample_world_def start_world_def sample_settings_def new_TradeAccount_def
      rounds_total_def next_id_def hash_find_def um_lookup_def orders_find_def)

lemma sample_gateway_simps [simp]:
  "gw_set_limit sample_gateway = (\<lambda>_ _ _. True)" "gw_post sample_gateway = (\<lambda>_. True)"
  "gw_cancel sample_gateway = (\<lambda>_. True)" "gw_change sample_gateway = (\<lambda>_. True)"
  "gw_status sample_gateway = (\<lambda>_. True)"
  by (simp_all add: sample_gateway_def)

definition message :: "OrderCondition \<Rightarrow> u32 \<Rightarrow> Order" where
  "message c k = \<lparr>g_condition = c, g_openSize = k, g_reference = 1\<rparr>"

end
