(* ===== verification/OrderLaws.thy ===== *)
theory OrderLaws
  imports CaseLifetime Samples
begin

text \<open>
  The life of an order, from the request to the message that ends it: what reaches the gateway, what
  the wait for an acknowledgement returns, and what is left in the two containers and in the live
  totals afterwards.
\<close>

section \<open>Submitting a request\<close>

definition order_type :: "OrderAccountType \<Rightarrow> bool \<Rightarrow> BuySell" where
  "order_type s is_open = (if (s = ORDER_ACCOUNT_LONG) = is_open then BS_BUY else sell_type s)"

text \<open>A request of the account \<open>s\<close> as the constructors and the callers of \<open>send_new\<close> leave it.\<close>

definition fresh_request :: "OrderAccountType \<Rightarrow> PositionRequest \<Rightarrow> bool" where
  "fresh_request s q \<longleftrightarrow> o_stage q = STAGE_SENT \<and> \<not> o_is_acknowledged q \<and>
     o_onAcknowledgement q = Some s \<and> o_onOrderDone q = Some s"

definition submitted :: "OrderAccountType \<Rightarrow> bool \<Rightarrow> PositionRequest \<Rightarrow> world \<Rightarrow> world" where
  "submitted s is_open q w =
     gw_call (hash_emplace s (next_id s w) (w_next w)
       (upd_heap (w_next w) (\<lambda>q. q\<lparr>o_type := order_type s is_open, o_request_id := next_id s w,
                                    o_account_type := s\<rparr>)
         (bump_id s (snd (alloc q w)))))"

definition acceptable :: "OrderAccountType \<Rightarrow> bool \<Rightarrow> PositionRequest \<Rightarrow> world \<Rightarrow> bool" where
  "acceptable s is_open q w \<longleftrightarrow> o_size q \<le> ORDER_ACCOUNT_MAXIMUM_LIMIT \<and>
     gw_set_limit (w_gw w) (order_type s is_open) (o_price q) (o_size q)"

lemma alloc_simps [simp]:
  "fst (alloc q w) = w_next w"
  "w_heap (snd (alloc q w)) = (w_heap w)(w_next w := q)"
  "w_next (snd (alloc q w)) = Suc (w_next w)"
  "w_oa (snd (alloc q w)) = w_oa w" "w_ta (snd (alloc q w)) = w_ta w"
  "w_ti (snd (alloc q w)) = w_ti w" "w_sym (snd (alloc q w)) = w_sym w"
  "w_cases (snd (alloc q w)) = w_cases w" "w_next_case (snd (alloc q w)) = w_next_case w"
  "w_inbox (snd (alloc q w)) = w_inbox w" "w_gw (snd (alloc q w)) = w_gw w"
  "w_calls (snd (alloc q w)) = w_calls w" "w_redis (snd (alloc q w)) = w_redis w"
  by (simp_all add: alloc_def)

lemma next_id_alloc [simp]: "next_id s (snd (alloc q w)) = next_id s w"
  by (simp add: next_id_def)

lemma submit_eq:
  "(if is_open then oa_open s (w_next w) (snd (alloc q w)) else oa_close s (w_next w) (snd (alloc q w))) =
     (if acceptable s is_open q w then (gw_post (w_gw w) (w_calls w), submitted s is_open q w)
      else (False, snd (alloc q w)))"
  by (cases s; cases is_open)
    (simp_all add: oa_open_def oa_close_def limitBuy_def limitSell_def acceptable_def submitted_def
      order_type_def sell_type_def Let_def bump_id_def hash_emplace_def next_id_def
      linorder_not_le [symmetric])

lemma submitted_simps [simp]:
  "w_heap (submitted s b q w) = (w_heap w)(w_next w :=
     q\<lparr>o_type := order_type s b, o_request_id := next_id s w, o_account_type := s\<rparr>)"
  "w_next (submitted s b q w) = Suc (w_next w)"
  "w_ta (submitted s b q w) = w_ta w"
  "w_ti (submitted s b q w) = w_ti w" "w_sym (submitted s b q w) = w_sym w"
  "w_cases (submitted s b q w) = w_cases w" "w_next_case (submitted s b q w) = w_next_case w"
  "w_inbox (submitted s b q w) = w_inbox w" "w_gw (submitted s b q w) = w_gw w"
  "w_calls (submitted s b q w) = Suc (w_calls w)" "w_redis (submitted s b q w) = w_redis w"
  by (simp_all add: submitted_def hash_emplace_def bump_id_def)

lemma hash_find_simps [simp]:
  "hash_find s k (upd_heap r f w) = hash_find s k w"
  "hash_find s k (upd_ta s' g w) = hash_find s k w"
  "hash_find s k (gw_call w) = hash_find s k w"
  "hash_find s k (redis c w) = hash_find s k w"
  "hash_find s k (w\<lparr>w_inbox := es\<rparr>) = hash_find s k w"
  "hash_find s k (upd_case n m w) = hash_find s k w"
  "hash_find s k (bump_id s' w) = hash_find s k w"
  "hash_find s k (snd (alloc q w)) = hash_find s k w"
  by (simp_all add: hash_find_def bump_id_def)

lemma hash_find_emplace [simp]:
  "hash_find s k (hash_emplace s' k' r w) =
     (if s = s' \<and> k = k' \<and> hash_find s k w = None then Some r else hash_find s k w)"
  by (auto simp: hash_find_def hash_emplace_def umap.lookup_emplace)

lemma hash_find_erase [simp]:
  "hash_find s k (hash_erase s' k' w) = (if s = s' \<and> k = k' then None else hash_find s k w)"
  by (auto simp: hash_find_def hash_erase_def umap.lookup_erase)

lemma hash_find_submitted [simp]:
  "hash_find s k (submitted s' b q w) =
     (if s = s' \<and> k = next_id s w \<and> hash_find s k w = None then Some (w_next w) else hash_find s k w)"
  by (auto simp: submitted_def next_id_def)

lemma hash_erase_simps [simp]:
  "w_heap (hash_erase s k w) = w_heap w" "w_next (hash_erase s k w) = w_next w"
  "w_ta (hash_erase s k w) = w_ta w" "w_ti (hash_erase s k w) = w_ti w"
  "w_inbox (hash_erase s k w) = w_inbox w" "w_calls (hash_erase s k w) = w_calls w"
  "w_cases (hash_erase s k w) = w_cases w" "w_gw (hash_erase s k w) = w_gw w"
  by (simp_all add: hash_erase_def)

lemma orders_find_simps [simp]:
  "orders_find s k (upd_heap r f w) = orders_find s k w"
  "orders_find s k (redis c w) = orders_find s k w"
  "orders_find s k (w\<lparr>w_inbox := es\<rparr>) = orders_find s k w"
  "orders_find s k (submitted s' b q w) = orders_find s k w"
  "orders_find s k (hash_erase s' k' w) = orders_find s k w"
  by (simp_all add: orders_find_def hash_erase_def)

lemma send_new_eq:
  "send_new s is_open q w =
     (if \<not> acceptable s is_open q w then Inr (0, snd (alloc q w))
      else if \<not> gw_post (w_gw w) (w_calls w) then Inr (0, submitted s is_open q w)
      else rbind (waitAcknowledgement s (w_next w) (submitted s is_open q w)) (\<lambda>(acknowledged, w').
        if \<not> acknowledged then Inr (0, w')
        else
          let w'' = add_live s (Some (\<not> is_open)) (uint (o_size q)) w';
              q' = w_heap w'' (w_next w)
          in Inr (o_request_id q',
               redis (RedisOrderInfo s (o_request_id q') (o_size q') (o_price q') (o_type q')) w'')))"
proof -
  obtain r v where a: "alloc q w = (r, v)" by (cases "alloc q w")
  then have r: "r = w_next w" "snd (alloc q w) = v" by (auto simp: alloc_def)
  show ?thesis
    unfolding send_new_def a prod.case r(1)
    using submit_eq [of is_open s w q] unfolding r(2)
    by (auto simp: Let_def add_live_def intro!: arg_cong2 [where f = rbind] ext)
qed

section \<open>Waiting\<close>

lemma wait_for_first:
  assumes "w_inbox w = e # es" "Q w = Inr False" "deliver e (w\<lparr>w_inbox := es\<rparr>) = Inr w'" "Q w' = Inr True"
  shows "wait_for Q w = Inr w'"
  using assms by (cases es) (simp_all add: wait_for_def)

lemma wait_for_fault:
  assumes "w_inbox w = e # es" "Q w = Inr False" "deliver e (w\<lparr>w_inbox := es\<rparr>) = Inr w'" "Q w' = Inl x"
  shows "wait_for Q w = Inl x"
  using assms by (cases es) (simp_all add: wait_for_def)

text \<open>A wait consumes the shortest prefix of the inbox after which its condition holds.\<close>

lemma wait_until_result:
  "wait_until Q es w = Inr w' \<Longrightarrow> w_inbox w = es \<Longrightarrow>
     Q w' = Inr True \<and> (\<exists>k \<le> length es. w_inbox w' = drop k es \<and> (Q w = Inr False \<longrightarrow> 0 < k))"
proof (induction es arbitrary: w)
  case Nil
  then show ?case by (auto split: if_splits)
next
  case (Cons e es)
  show ?case
  proof (cases "Q w = Inr True")
    case True
    then show ?thesis using Cons.prems by (auto intro!: exI [of _ 0])
  next
    case False
    then obtain v where v: "deliver e (w\<lparr>w_inbox := es\<rparr>) = Inr v" "wait_until Q es v = Inr w'"
      using Cons.prems(1) by (auto simp: rbind_eq_Inr split: if_splits)
    have "w_inbox v = es"
      using res_allD [OF message_frame.P_deliver [OF refl] v(1)] by simp
    from Cons.IH [OF v(2) this] obtain k where "Q w' = Inr True" "k \<le> length es" "w_inbox w' = drop k es"
      by blast
    then show ?thesis by (auto intro!: exI [of _ "Suc k"])
  qed
qed

lemma add_live_simps [simp]:
  "w_heap (add_live s k d w) = w_heap w" "w_next (add_live s k d w) = w_next w"
  "w_oa (add_live s k d w) = w_oa w" "w_ti (add_live s k d w) = w_ti w"
  "w_inbox (add_live s k d w) = w_inbox w" "w_calls (add_live s k d w) = w_calls w"
  "w_cases (add_live s k d w) = w_cases w" "w_gw (add_live s k d w) = w_gw w"
  "a_totalopen (w_ta (add_live s k d w) s') =
     a_totalopen (w_ta w s') + (if s' = s \<and> k = Some False then d else 0)"
  "a_totalclose (w_ta (add_live s k d w) s') =
     a_totalclose (w_ta w s') + (if s' = s \<and> k = Some True then d else 0)"
  "a_orders (w_ta (add_live s k d w) s') = a_orders (w_ta w s')"
  "a_totalExecuted (w_ta (add_live s k d w) s') = a_totalExecuted (w_ta w s')"
  "a_total (w_ta (add_live s k d w) s') = a_total (w_ta w s')"
  "a_position_table (w_ta (add_live s k d w) s') = a_position_table (w_ta w s')"
  by (auto simp: add_live_def split: option.split bool.split)

lemma hash_find_add_live [simp]:
  "hash_find s k (add_live s' c d w) = hash_find s k w"
  "hash_find s k (orders_emplace s' k' r w) = hash_find s k w"
  "hash_find s k (orders_erase s' k' w) = hash_find s k w"
  by (simp_all add: hash_find_def orders_emplace_def orders_erase_def)

lemma orders_simps [simp]:
  "w_heap (orders_emplace s k r w) = w_heap w" "w_heap (orders_erase s k w) = w_heap w"
  "w_inbox (orders_emplace s k r w) = w_inbox w" "w_calls (orders_emplace s k r w) = w_calls w"
  "w_cases (orders_emplace s k r w) = w_cases w" "w_ti (orders_emplace s k r w) = w_ti w"
  "a_orders (w_ta (orders_emplace s k r w) s') =
     (if s' = s then om_emplace k r (a_orders (w_ta w s)) else a_orders (w_ta w s'))"
  "a_orders (w_ta (orders_erase s k w) s') =
     (if s' = s then om_erase k (a_orders (w_ta w s)) else a_orders (w_ta w s'))"
  "a_totalopen (w_ta (orders_emplace s k r w) s') = a_totalopen (w_ta w s')"
  "a_totalclose (w_ta (orders_emplace s k r w) s') = a_totalclose (w_ta w s')"
  "a_totalopen (w_ta (orders_erase s k w) s') = a_totalopen (w_ta w s')"
  "a_totalclose (w_ta (orders_erase s k w) s') = a_totalclose (w_ta w s')"
  "a_totalExecuted (w_ta (orders_erase s k w) s') = a_totalExecuted (w_ta w s')"
  "a_totalExecuted (w_ta (orders_emplace s k r w) s') = a_totalExecuted (w_ta w s')"
  by (simp_all add: orders_emplace_def orders_erase_def)

section \<open>Acknowledgement and rejection\<close>

definition accepted :: "OrderAccountType \<Rightarrow> bool \<Rightarrow> PositionRequest \<Rightarrow> Order \<Rightarrow> event list \<Rightarrow> world \<Rightarrow> world" where
  "accepted s is_open q msg rest w =
     (let r = w_next w;
          v = upd_heap r (\<lambda>q. q\<lparr>o_stage := STAGE_ACKNOWLEDGED, o_is_acknowledged := True\<rparr>)
                (upd_heap r (\<lambda>q. q\<lparr>o_order := msg\<rparr>) ((submitted s is_open q w)\<lparr>w_inbox := rest\<rparr>));
          v = add_live s (Some (\<not> is_open)) (uint (o_size q)) (orders_emplace s (next_id s w) r v)
      in redis (RedisOrderInfo s (next_id s w) (o_size q) (o_price q) (order_type s is_open)) v)"

lemma send_new_accepted:
  assumes "acceptable s is_open q w" "gw_post (w_gw w) (w_calls w)" "fresh_request s q"
    and "hash_find s (next_id s w) w = None"
    and "w_inbox w = EvOrder s (next_id s w) msg # rest" "g_condition msg = ORDER_COND_NEW"
  shows "send_new s is_open q w = Inr (next_id s w, accepted s is_open q msg rest w)"
proof -
  let ?r = "w_next w" and ?v = "submitted s is_open q w"
  let ?v1 = "upd_heap ?r (\<lambda>q. q\<lparr>o_stage := STAGE_ACKNOWLEDGED, o_is_acknowledged := True\<rparr>)
                (upd_heap ?r (\<lambda>q. q\<lparr>o_order := msg\<rparr>) (?v\<lparr>w_inbox := rest\<rparr>))"
  have "deliver (EvOrder s (next_id s w) msg) (?v\<lparr>w_inbox := rest\<rparr>) = Inr ?v1"
    using assms by (simp add: deliver_def OnOrder_def Let_def fresh_request_def onNewOrderAcknowledgement_def)
  then have "wait_for (\<lambda>w. Inr (isAcknowledged (w_heap w ?r))) ?v = Inr ?v1"
    using assms(3,5) by (intro wait_for_first) (auto simp: isAcknowledged_def fresh_request_def)
  then show ?thesis
    using assms(1,2) by (simp add: send_new_eq waitAcknowledgement_def accepted_def Let_def)
qed

definition rejected :: "OrderAccountType \<Rightarrow> bool \<Rightarrow> PositionRequest \<Rightarrow> Order \<Rightarrow> event list \<Rightarrow> world \<Rightarrow> world" where
  "rejected s is_open q msg rest w =
     hash_erase s (next_id s w) (upd_heap (w_next w) (\<lambda>q. q\<lparr>o_stage := STAGE_FAILED, o_is_acknowledged := False\<rparr>)
       (upd_heap (w_next w) (\<lambda>q. q\<lparr>o_order := msg\<rparr>) ((submitted s is_open q w)\<lparr>w_inbox := rest\<rparr>)))"

definition rejection :: "OrderCondition \<Rightarrow> bool" where
  "rejection c \<longleftrightarrow> c = ORDER_COND_DENIED \<or> c = ORDER_COND_REJECTED \<or> c = ORDER_COND_ORDER_UNKNOWN"

lemma send_new_rejected:
  assumes "acceptable s is_open q w" "gw_post (w_gw w) (w_calls w)" "fresh_request s q"
    and "hash_find s (next_id s w) w = None"
    and "w_inbox w = EvOrder s (next_id s w) msg # rest" "rejection (g_condition msg)"
  shows "send_new s is_open q w = Inr (0, rejected s is_open q msg rest w)"
proof -
  let ?r = "w_next w" and ?v = "submitted s is_open q w"
  have "deliver (EvOrder s (next_id s w) msg) (?v\<lparr>w_inbox := rest\<rparr>) = Inr (rejected s is_open q msg rest w)"
    using assms by (auto simp: deliver_def OnOrder_def OnOrder_failed_def Let_def fresh_request_def
        onNewOrderAcknowledgement_def rejection_def rejected_def)
  then have "wait_for (\<lambda>w. Inr (isAcknowledged (w_heap w ?r))) ?v = Inr (rejected s is_open q msg rest w)"
    using assms(3,5) by (intro wait_for_first)
      (auto simp: isAcknowledged_def fresh_request_def rejected_def hash_erase_def)
  then show ?thesis
    using assms(1,2) by (simp add: send_new_eq waitAcknowledgement_def rejected_def Let_def hash_erase_def)
qed

lemma accepted_simps [simp]:
  "w_heap (accepted s b q msg rest w) = (w_heap w)(w_next w :=
     q\<lparr>o_type := order_type s b, o_request_id := next_id s w, o_account_type := s, o_order := msg,
       o_stage := STAGE_ACKNOWLEDGED, o_is_acknowledged := True\<rparr>)"
  "w_inbox (accepted s b q msg rest w) = rest"
  "w_calls (accepted s b q msg rest w) = Suc (w_calls w)"
  "w_cases (accepted s b q msg rest w) = w_cases w"
  "a_orders (w_ta (accepted s b q msg rest w) s) =
     om_emplace (next_id s w) (w_next w) (a_orders (w_ta w s))"
  "a_totalopen (w_ta (accepted s b q msg rest w) s) =
     a_totalopen (w_ta w s) + (if b then uint (o_size q) else 0)"
  "a_totalclose (w_ta (accepted s b q msg rest w) s) =
     a_totalclose (w_ta w s) + (if b then 0 else uint (o_size q))"
  "a_totalExecuted (w_ta (accepted s b q msg rest w) s) = a_totalExecuted (w_ta w s)"
  "hash_find s k (accepted s b q msg rest w) =
     (if k = next_id s w \<and> hash_find s k w = None then Some (w_next w) else hash_find s k w)"
  by (simp_all add: accepted_def Let_def)

lemma accepted_frame [simp]:
  "w_gw (accepted s b q msg rest w) = w_gw w" "w_next (accepted s b q msg rest w) = Suc (w_next w)"
  "a_divisor (w_ta (accepted s b q msg rest w) s') = a_divisor (w_ta w s')"
  "next_id s (accepted s b q msg rest w) = next_id s w + 1"
  by (cases b; simp add: accepted_def Let_def add_live_def orders_emplace_def submitted_def
      hash_emplace_def bump_id_def next_id_def)+

section \<open>Opening and closing\<close>

text \<open>The two requests without a closure at the end: \<open>open\<close> with the flag for its fills, and the
  \<open>close\<close> with the flag of a first close order.\<close>

abbreviation new_order :: "OrderAccountType \<Rightarrow> bool \<Rightarrow> bool \<Rightarrow> double \<Rightarrow> u32 \<Rightarrow> world \<Rightarrow> (u32 \<times> world) res" where
  "new_order s is_open flag price sz w \<equiv>
     (if is_open then open_mmf s price sz flag w else close_fco s price sz flag w)"

definition request :: "OrderAccountType \<Rightarrow> bool \<Rightarrow> bool \<Rightarrow> double \<Rightarrow> u32 \<Rightarrow> PositionRequest" where
  "request s is_open flag price k =
     (if is_open
      then (new_PositionRequest k price)
        \<lparr>p_send_mmf_on_fills := flag, p_is_trade_done_define := False,
         o_onAcknowledgement := Some s, o_onOrderDone := Some s, o_onFill := Some (FILL_OPEN s)\<rparr>
      else (new_PositionRequest k price)
        \<lparr>p_is_mmf := False, p_open_order := None, p_is_fco := flag, p_is_trade_done_define := False,
         o_onAcknowledgement := Some s, o_onOrderDone := Some s, o_onFill := Some (FILL_CLOSE s)\<rparr>)"

lemma request_simps [simp]:
  "o_size (request s b f price k) = k" "o_price (request s b f price k) = price"
  "fresh_request s (request s b f price k)"
  "p_is_trade_done_define (request s b f price k) = False"
  "o_onAcknowledgement (request s b f price k) = Some s"
  "o_onOrderDone (request s b f price k) = Some s"
  "o_cancel_stage (request s b f price k) = CANCEL_NONE"
  "o_fill_size (request s b f price k) = 0"
  "o_onFill (request s b f price k) = Some (if b then FILL_OPEN s else FILL_CLOSE s)"
  by (simp_all add: request_def new_PositionRequest_def fresh_request_def)

lemma new_order_eq:
  "a_divisor (w_ta w s) \<noteq> 0 \<Longrightarrow>
   new_order s b flag price sz w =
     (if valid_request price (sz div a_divisor (w_ta w s))
      then send_new s b (request s b flag price (sz div a_divisor (w_ta w s))) w else Inr (0, w))"
  by (simp add: open_mmf_def close_fco_def with_divisor_def request_def)

text \<open>The conditions under which a request reaches the gateway: a positive price, not more lots than
  the limits of the trade account and of the order account, and a price the gateway accepts.\<close>

definition admissible :: "OrderAccountType \<Rightarrow> bool \<Rightarrow> double \<Rightarrow> u32 \<Rightarrow> world \<Rightarrow> bool" where
  "admissible s is_open price k w \<longleftrightarrow> valid_request price k \<and> k \<le> ORDER_ACCOUNT_MAXIMUM_LIMIT \<and>
     gw_set_limit (w_gw w) (order_type s is_open) price k"

lemma admissible_acceptable:
  "admissible s b price k w \<longleftrightarrow> valid_request price k \<and> acceptable s b (request s b f price k) w"
  by (simp add: admissible_def acceptable_def)

section \<open>Properties of requests\<close>

text \<open>C8: a request with a price that is not positive, with more than 30 lots, or with a price the
  gateway's order refuses never reaches the gateway: it returns 0, makes no call, consumes no message
  and leaves both accounts and the hash of live orders as they are.\<close>

theorem inadmissible_request_not_sent:
  assumes "a_divisor (w_ta w s) \<noteq> 0" "\<not> admissible s is_open price (sz div a_divisor (w_ta w s)) w"
  shows "\<exists>w'. new_order s is_open flag price sz w = Inr (0, w') \<and> w_calls w' = w_calls w \<and>
    w_oa w' = w_oa w \<and> w_ta w' = w_ta w \<and> w_inbox w' = w_inbox w \<and> w_ti w' = w_ti w"
  using assms by (auto simp: new_order_eq admissible_acceptable [where f = flag] send_new_eq simp del: if_split)

lemma inadmissible_request_not_sent_witness:
  "\<exists>w'. new_order LONG True False (Fin 5) 310 (sample_world []) = Inr (0, w') \<and> w_calls w' = 0"
proof -
  have "\<not> admissible LONG True (Fin 5) (310 div 10) (sample_world [])"
    by (simp add: admissible_def ORDER_ACCOUNT_MAXIMUM_LIMIT_def)
  then show ?thesis
    using inadmissible_request_not_sent [of "sample_world []" LONG True "Fin 5" 310 False] by auto
qed

text \<open>C6: an admissible request that the gateway accepts and acknowledges returns the next
  identifier; the order is then in the hash and in the account's map under that identifier,
  acknowledged, for the size in lots, and the live total of its side has grown by that size.\<close>

theorem acknowledged_request:
  assumes "a_divisor (w_ta w s) \<noteq> 0" "k = sz div a_divisor (w_ta w s)" "admissible s is_open price k w"
    and "gw_post (w_gw w) (w_calls w)" "oid = next_id s w"
    and "hash_find s oid w = None" "orders_find s oid w = None" "om_inv (a_orders (w_ta w s))"
    and "w_inbox w = EvOrder s oid msg # rest" "g_condition msg = ORDER_COND_NEW"
  shows "\<exists>w'. new_order s is_open flag price sz w = Inr (oid, w') \<and>
    hash_find s oid w' = Some (w_next w) \<and> orders_find s oid w' = Some (w_next w) \<and>
    o_request_id (w_heap w' (w_next w)) = oid \<and> o_size (w_heap w' (w_next w)) = k \<and>
    o_price (w_heap w' (w_next w)) = price \<and> o_stage (w_heap w' (w_next w)) = STAGE_ACKNOWLEDGED \<and>
    o_type (w_heap w' (w_next w)) = order_type s is_open \<and>
    a_totalopen (w_ta w' s) = a_totalopen (w_ta w s) + (if is_open then uint k else 0) \<and>
    a_totalclose (w_ta w' s) = a_totalclose (w_ta w s) + (if is_open then 0 else uint k) \<and>
    w_inbox w' = rest \<and> w_calls w' = Suc (w_calls w)"
proof -
  let ?q = "request s is_open flag price k"
  have acc: "valid_request price k" "acceptable s is_open ?q w"
    using assms(3) admissible_acceptable [where f = flag] by blast+
  then have "new_order s is_open flag price sz w = Inr (oid, accepted s is_open ?q msg rest w)"
    using assms send_new_accepted [OF acc(2) assms(4), of msg rest] by (simp add: new_order_eq)
  moreover have "orders_find s oid (accepted s is_open ?q msg rest w) = Some (w_next w)"
    using assms(5,7,8) omap.emplace_fresh [OF assms(8)] by (simp add: orders_find_def)
  ultimately show ?thesis using assms(5,6) by (intro exI [of _ "accepted s is_open ?q msg rest w"]) simp
qed

abbreviation acknowledging :: "OrderAccountType \<Rightarrow> world" where
  "acknowledging s \<equiv> sample_world [EvOrder s 1 (message ORDER_COND_NEW 12)]"

lemma sample_admissible: "k \<le> 30 \<Longrightarrow> admissible s b (Fin 5) k (sample_world es)"
  using order.trans [of k 30 5000]
  by (simp add: admissible_def valid_request_def dle_def deq_def ORDER_ACCOUNT_MAXIMUM_LIMIT_def
      MAXIMUM_ORDER_LIMIT_def not_less)

lemma acknowledged_request_witness:
  "\<exists>w'. new_order LONG True False (Fin 5) 120 (acknowledging LONG) = Inr (1, w') \<and>
     a_totalopen (w_ta w' LONG) = 12"
  using acknowledged_request [of "acknowledging LONG" LONG 12 120 True "Fin 5" 1
      "message ORDER_COND_NEW 12" "[]" False] sample_admissible [of 12 LONG True]
  by (auto simp: message_def)

text \<open>C9: a request the gateway rejects returns 0 and leaves no trace in the containers or the live
  totals; only the identifier is used up.\<close>

theorem rejected_request:
  assumes "a_divisor (w_ta w s) \<noteq> 0" "k = sz div a_divisor (w_ta w s)" "admissible s is_open price k w"
    and "gw_post (w_gw w) (w_calls w)" "oid = next_id s w" "hash_find s oid w = None"
    and "w_inbox w = EvOrder s oid msg # rest"
    and "g_condition msg \<in> {ORDER_COND_DENIED, ORDER_COND_REJECTED, ORDER_COND_ORDER_UNKNOWN}"
  shows "\<exists>w'. new_order s is_open flag price sz w = Inr (0, w') \<and> w_ta w' = w_ta w \<and>
    oa_order_hash (w_oa w' s) = oa_order_hash (w_oa w s) \<and> next_id s w' = next_id s w + 1 \<and>
    o_stage (w_heap w' (w_next w)) = STAGE_FAILED \<and> w_inbox w' = rest"
proof -
  let ?q = "request s is_open flag price k" and ?w' = "rejected s is_open (request s is_open flag price k) msg rest w"
  have acc: "valid_request price k" "acceptable s is_open ?q w"
    using assms(3) admissible_acceptable [where f = flag] by blast+
  have "rejection (g_condition msg)" using assms(8) by (auto simp: rejection_def)
  then have "new_order s is_open flag price sz w = Inr (0, ?w')"
    using assms acc send_new_rejected [OF acc(2) assms(4), of msg rest] by (simp add: new_order_eq)
  moreover have "oa_order_hash (w_oa ?w' s) = oa_order_hash (w_oa w s)" "next_id s ?w' = next_id s w + 1"
    "w_ta ?w' = w_ta w" "w_inbox ?w' = rest" "o_stage (w_heap ?w' (w_next w)) = STAGE_FAILED"
    using assms(5,6) umap.erase_emplace_fresh [OF TrueI]
    by (simp_all add: rejected_def hash_erase_def submitted_def hash_emplace_def bump_id_def next_id_def
        hash_find_def um_lookup_def um_erase_def um_emplace_def fun_upd_idem)
  ultimately show ?thesis by blast
qed

lemma rejected_request_witness:
  "\<exists>w'. new_order SHORT False True (Fin 5) 120
     (sample_world [EvOrder SHORT 1 (message ORDER_COND_REJECTED 12)]) = Inr (0, w') \<and> next_id SHORT w' = 2"
  using rejected_request [of "sample_world [EvOrder SHORT 1 (message ORDER_COND_REJECTED 12)]" SHORT 12 120
      False "Fin 5" 1 "message ORDER_COND_REJECTED 12" "[]" True] sample_admissible [of 12 SHORT False]
  by (auto simp: message_def)

text \<open>When the gateway's post fails the request returns 0, but unlike a failed change it leaves the
  order in the hash of live orders, where a later message for its identifier still finds it.\<close>

theorem failed_post_leaves_order:
  assumes "a_divisor (w_ta w s) \<noteq> 0" "k = sz div a_divisor (w_ta w s)" "admissible s is_open price k w"
    and "\<not> gw_post (w_gw w) (w_calls w)" "hash_find s (next_id s w) w = None"
  shows "\<exists>w'. new_order s is_open flag price sz w = Inr (0, w') \<and>
    hash_find s (next_id s w) w' = Some (w_next w) \<and> w_ta w' = w_ta w"
  using assms admissible_acceptable [of s is_open price k w flag]
  by (auto simp: new_order_eq send_new_eq simp del: if_split intro!: exI [of _ "submitted s is_open (request s is_open flag price k) w"])

lemma failed_post_leaves_order_witness:
  "\<exists>w'. new_order LONG True False (Fin 5) 120
     ((sample_world [])\<lparr>w_gw := sample_gateway\<lparr>gw_post := \<lambda>_. False\<rparr>\<rparr>) = Inr (0, w') \<and>
   hash_find LONG 1 w' = Some 0"
proof -
  let ?w = "(sample_world [])\<lparr>w_gw := sample_gateway\<lparr>gw_post := \<lambda>_. False\<rparr>\<rparr>"
  have "admissible LONG True (Fin 5) 12 ?w" "next_id LONG ?w = 1" "hash_find LONG 1 ?w = None"
    using sample_admissible [of 12 LONG True "[]"]
    by (simp_all add: admissible_def next_id_def hash_find_def um_lookup_def)
  then show ?thesis using failed_post_leaves_order [of ?w LONG 12 120 True "Fin 5" False] by auto
qed

section \<open>The end of an order\<close>

lemma om_erase_emplace: "om_lookup ps k = None \<Longrightarrow> om_erase k (om_emplace k v ps) = ps"
proof (induction ps)
  case Nil
  then show ?case by (simp add: om_erase_def)
next
  case (Cons p ps)
  obtain a b where p: "p = (a, b)" by (cases p)
  have "k \<noteq> a" "om_lookup ps k = None" using Cons.prems by (auto simp: om_lookup_def p split: if_splits)
  moreover have "om_erase k ps = ps" using calculation(2)
    by (auto simp: om_erase_def om_lookup_def map_of_eq_None_iff intro: filter_True)
  ultimately show ?case using Cons.IH by (simp add: p om_erase_def)
qed

lemma counts_order_type [simp]: "counts_as_close s (order_type s b) = Some (\<not> b)"
  by (cases s; cases b) (simp_all add: counts_as_close_def order_type_def sell_type_def)

lemma OnOrder_done:
  assumes "hash_find s k w = Some r" "g_condition msg = ORDER_COND_DONE"
    and "o_onOrderDone (w_heap w r) = Some s" "\<not> p_is_trade_done_define (w_heap w r)"
    and "o_request_id (w_heap w r) = k"
  shows "OnOrder s k msg w = Inr (hash_erase s k (orders_erase s k (redis (RedisOrderExecTime s k)
    (add_live s (counts_as_close (o_account_type (w_heap w r)) (o_type (w_heap w r)))
       (- uint (o_size (w_heap w r)))
      (upd_ta s (\<lambda>a. a\<lparr>a_totalExecuted := a_totalExecuted a + uint (o_size (w_heap w r))\<rparr>)
        (upd_heap r (\<lambda>q. q\<lparr>o_stage := STAGE_DONE\<rparr>) (upd_heap r (\<lambda>q. q\<lparr>o_order := msg\<rparr>) w)))))))"
  using assms by (simp add: OnOrder_def onOrderDone_def Let_def)

text \<open>C7: an order that is acknowledged and later done leaves the map of live orders and both live
  totals exactly as they were before the request, is no longer in the hash, and has added its size
  to the executed total.\<close>

theorem acknowledged_then_done:
  assumes "a_divisor (w_ta w s) \<noteq> 0" "k = sz div a_divisor (w_ta w s)" "admissible s is_open price k w"
    and "gw_post (w_gw w) (w_calls w)" "oid = next_id s w"
    and "hash_find s oid w = None" "orders_find s oid w = None"
    and "w_inbox w = EvOrder s oid msg # rest" "g_condition msg = ORDER_COND_NEW"
    and "g_condition fin = ORDER_COND_DONE"
  shows "\<exists>w' w''. new_order s is_open flag price sz w = Inr (oid, w') \<and> OnOrder s oid fin w' = Inr w'' \<and>
    a_orders (w_ta w'' s) = a_orders (w_ta w s) \<and> hash_find s oid w'' = None \<and>
    a_totalopen (w_ta w'' s) = a_totalopen (w_ta w s) \<and>
    a_totalclose (w_ta w'' s) = a_totalclose (w_ta w s) \<and>
    a_totalExecuted (w_ta w'' s) = a_totalExecuted (w_ta w s) + uint k"
proof -
  let ?q = "request s is_open flag price k" and ?r = "w_next w"
  let ?w' = "accepted s is_open ?q msg rest w"
  have acc: "valid_request price k" "acceptable s is_open ?q w"
    using assms(3) admissible_acceptable [where f = flag] by blast+
  then have 1: "new_order s is_open flag price sz w = Inr (oid, ?w')"
    using assms send_new_accepted [OF acc(2) assms(4), of msg rest] by (simp add: new_order_eq)
  obtain w'' where w'': "OnOrder s oid fin ?w' = Inr w''" "w'' = hash_erase s oid (orders_erase s oid
      (redis (RedisOrderExecTime s oid) (add_live s (Some (\<not> is_open)) (- uint k)
        (upd_ta s (\<lambda>a. a\<lparr>a_totalExecuted := a_totalExecuted a + uint k\<rparr>)
          (upd_heap ?r (\<lambda>q. q\<lparr>o_stage := STAGE_DONE\<rparr>) (upd_heap ?r (\<lambda>q. q\<lparr>o_order := fin\<rparr>) ?w'))))))"
    using OnOrder_done [of s oid ?w' ?r fin] assms(5,6,10) by simp
  have "om_erase oid (om_emplace oid ?r (a_orders (w_ta w s))) = a_orders (w_ta w s)"
    using assms(7) by (intro om_erase_emplace) (simp add: orders_find_def)
  then have "a_orders (w_ta w'' s) = a_orders (w_ta w s)" using assms(5)
    by (simp add: w''(2) hash_erase_def)
  moreover have "hash_find s oid w'' = None" by (simp add: w''(2))
  moreover have "a_totalopen (w_ta w'' s) = a_totalopen (w_ta w s)"
    "a_totalclose (w_ta w'' s) = a_totalclose (w_ta w s)"
    "a_totalExecuted (w_ta w'' s) = a_totalExecuted (w_ta w s) + uint k"
    by (simp_all add: w''(2) hash_erase_def)
  ultimately show ?thesis using 1 w''(1) by blast
qed

lemma acknowledged_then_done_witness:
  "\<exists>w' w''. new_order LONG True False (Fin 5) 120 (acknowledging LONG) = Inr (1, w') \<and>
     OnOrder LONG 1 (message ORDER_COND_DONE 0) w' = Inr w'' \<and> a_totalopen (w_ta w'' LONG) = 0"
  using acknowledged_then_done [of "acknowledging LONG" LONG 12 120 True "Fin 5" 1
      "message ORDER_COND_NEW 12" "[]" "message ORDER_COND_DONE 0" False] sample_admissible [of 12 LONG True]
  by (auto simp: message_def)

section \<open>Cancelation\<close>

text \<open>A live order of the account, in both containers under its own identifier.\<close>

definition live_order :: "OrderAccountType \<Rightarrow> u32 \<Rightarrow> ref \<Rightarrow> world \<Rightarrow> bool" where
  "live_order s k r w \<longleftrightarrow> orders_find s k w = Some r \<and> hash_find s k w = Some r \<and>
     o_request_id (w_heap w r) = k \<and> o_account_type (w_heap w r) = s \<and>
     o_stage (w_heap w r) = STAGE_ACKNOWLEDGED \<and> g_condition (o_order (w_heap w r)) = ORDER_COND_NEW"

lemma cancel_live:
  assumes "live_order s k r w"
  shows "cancel s k w =
    (let v = upd_heap r (\<lambda>q. q\<lparr>o_onOrderCancel := Some s, o_cancel_stage := CANCEL_INIT\<rparr>) w in
     if \<not> gw_cancel (w_gw w) (w_calls w) then Inr (False, gw_call v)
     else rbind (waitCancelAcknowledgement s k r (gw_call v)) (\<lambda>(cancelled, w).
       Inr (cancelled, if cancelled then redis (RedisOrderCancelTime s k) w else w)))"
  using assms by (simp add: cancel_def live_order_def canCancel_def oa_cancel_def already_over_def Let_def)

lemma orders_find_gw_call [simp]: "orders_find s k (gw_call w) = orders_find s k w"
  by (simp add: orders_find_def)

text \<open>C11: canceling a live order that the gateway answers with \<open>CANCELED\<close> succeeds and takes the order
  out of the hash; the live total of its side falls by the open size the message reports, whatever
  the size the order was counted with, so what was filled before stays counted as live.\<close>

theorem cancelled_order:
  assumes "live_order s k r w" "gw_cancel (w_gw w) (w_calls w)"
    and "w_inbox w = EvOrder s k msg # rest" "g_condition msg = ORDER_COND_CANCELED"
    and "o_type (w_heap w r) = order_type s is_open"
  shows "\<exists>w'. cancel s k w = Inr (True, w') \<and> hash_find s k w' = None \<and>
    o_cancel_stage (w_heap w' r) = CANCEL_DONE \<and> o_stage (w_heap w' r) = STAGE_CANCELLED \<and>
    a_totalopen (w_ta w' s) = a_totalopen (w_ta w s) - (if is_open then uint (g_openSize msg) else 0) \<and>
    a_totalclose (w_ta w' s) = a_totalclose (w_ta w s) - (if is_open then 0 else uint (g_openSize msg)) \<and>
    w_inbox w' = rest"
proof -
  let ?v = "gw_call (upd_heap r (\<lambda>q. q\<lparr>o_onOrderCancel := Some s, o_cancel_stage := CANCEL_INIT\<rparr>) w)"
  let ?v' = "hash_erase s k (upd_heap r (\<lambda>q. q\<lparr>o_cancel_stage := CANCEL_DONE\<rparr>) (upd_heap r
    (\<lambda>q. q\<lparr>o_stage := STAGE_CANCELLED, o_cancel_stage := CANCEL_DONE\<rparr>)
    (upd_heap r (\<lambda>q. q\<lparr>o_order := msg\<rparr>) (?v\<lparr>w_inbox := rest\<rparr>))))"
  have "deliver (EvOrder s k msg) (?v\<lparr>w_inbox := rest\<rparr>) = Inr ?v'"
    using assms(1,4) by (simp add: deliver_def OnOrder_def live_order_def onOrderCancel_def Let_def)
  then have "wait_for (cancel_answered s k r) ?v = Inr ?v'"
    using assms(1,3) by (intro wait_for_first) (simp_all add: cancel_answered_def live_order_def)
  then show ?thesis using assms(1,2,5)
    by (simp add: cancel_live [OF assms(1)] waitCancelAcknowledgement_def Let_def live_order_def)
qed

text \<open>The order of the sample world, acknowledged for 12 lots.\<close>

definition live_sample :: "bool \<Rightarrow> event list \<Rightarrow> world" where
  "live_sample is_open es = accepted LONG is_open (request LONG is_open False (Fin 5) 12)
     (message ORDER_COND_NEW 12) es (sample_world [])"

lemma live_sample_simps [simp]:
  "w_inbox (live_sample b es) = es" "live_order LONG 1 0 (live_sample b es)"
  "w_gw (live_sample b es) = sample_gateway"
  "o_type (w_heap (live_sample b es) 0) = order_type LONG b"
  "a_totalopen (w_ta (live_sample b es) LONG) = (if b then 12 else 0)"
  "\<not> p_is_trade_done_define (w_heap (live_sample b es) 0)"
  "o_onOrderDone (w_heap (live_sample b es) 0) = Some LONG"
  "o_size (w_heap (live_sample b es) 0) = 12" "a_divisor (w_ta (live_sample b es) LONG) = 10"
  "next_id LONG (live_sample b es) = 2" "w_next (live_sample b es) = 1"
  by (simp_all add: live_sample_def live_order_def message_def orders_find_def om_lookup_def)

lemma cancelled_order_witness:
  "\<exists>w'. cancel LONG 1 (live_sample True [EvOrder LONG 1 (message ORDER_COND_CANCELED 8)]) = Inr (True, w') \<and>
     a_totalopen (w_ta w' LONG) = 4"
  using cancelled_order [of LONG 1 0 "live_sample True [EvOrder LONG 1 (message ORDER_COND_CANCELED 8)]"
      "message ORDER_COND_CANCELED 8" "[]" True]
  by (auto simp: message_def)

text \<open>When the order is done before the gateway answers the cancelation, the message handler erases
  it from the account's map while the waiting thread still holds a reference into the map: the wait
  then reads a dead element.\<close>

theorem cancel_overtaken_by_done:
  assumes "live_order s k r w" "gw_cancel (w_gw w) (w_calls w)"
    and "w_inbox w = EvOrder s k msg # rest" "g_condition msg = ORDER_COND_DONE"
    and "o_onOrderDone (w_heap w r) = Some s" "\<not> p_is_trade_done_define (w_heap w r)"
  shows "cancel s k w = Inl DanglingRef"
proof -
  let ?v = "gw_call (upd_heap r (\<lambda>q. q\<lparr>o_onOrderCancel := Some s, o_cancel_stage := CANCEL_INIT\<rparr>) w)"
  have h: "hash_find s k (?v\<lparr>w_inbox := rest\<rparr>) = Some r" "o_request_id (w_heap (?v\<lparr>w_inbox := rest\<rparr>) r) = k"
    using assms(1) by (simp_all add: live_order_def)
  obtain v' where v': "deliver (EvOrder s k msg) (?v\<lparr>w_inbox := rest\<rparr>) = Inr v'" "orders_find s k v' = None"
    using OnOrder_done [OF h(1) assms(4) _ _ h(2)] assms(5,6)
    by (simp add: deliver_def orders_find_def hash_erase_def om_lookup_erase)
  have "wait_for (cancel_answered s k r) ?v = Inl DanglingRef"
    using assms(1,3) v'(2)
    by (intro wait_for_fault [OF _ _ v'(1)]) (simp_all add: cancel_answered_def live_order_def)
  then show ?thesis using assms(1,2) by (simp add: cancel_live waitCancelAcknowledgement_def)
qed

lemma cancel_overtaken_by_done_witness:
  "cancel LONG 1 (live_sample True [EvOrder LONG 1 (message ORDER_COND_DONE 0)]) = Inl DanglingRef"
  by (rule cancel_overtaken_by_done [of _ _ 0 _ "message ORDER_COND_DONE 0" "[]"]) (simp_all add: message_def)

section \<open>Changing an order\<close>

lemma change_totals_live:
  "upd_ta s (change_totals acc ty new_size ty old_size) w =
     add_live s (counts_as_close acc ty) (uint new_size - uint old_size) w"
  by (cases ty; cases acc)
    (simp_all add: change_totals_def counts_as_close_def add_live_def upd_ta_def Let_def fun_eq_iff fun_upd_idem)

text \<open>The adjustment of the live totals after a change, written in the source as a chain of
  conditions on the two types, agrees for every account and every type with what the other
  operations count: the new size is added and the old one taken from the side of the order.\<close>

theorem change_totals_agree:
  "upd_ta s (change_totals acc ty new_size ty old_size) w =
     add_live s (counts_as_close acc ty) (uint new_size - uint old_size) w"
  by (rule change_totals_live)

lemma changed_simps [simp]:
  "o_size (changed_PositionRequest q p k) = (if k = 0 then o_size q else k)"
  "o_price (changed_PositionRequest q p k) = p" "o_type (changed_PositionRequest q p k) = o_type q"
  "o_account_type (changed_PositionRequest q p k) = o_account_type q"
  "o_stage (changed_PositionRequest q p k) = STAGE_SENT"
  "\<not> o_is_acknowledged (changed_PositionRequest q p k)"
  "o_onAcknowledgement (changed_PositionRequest q p k) = o_onAcknowledgement q"
  by (simp_all add: changed_PositionRequest_def changed_OrderInfo_def)

text \<open>The state in which the change request has been sent and no answer has arrived.\<close>

definition change_sent :: "OrderAccountType \<Rightarrow> ref \<Rightarrow> PositionRequest \<Rightarrow> world \<Rightarrow> world" where
  "change_sent s r q w =
     gw_call (hash_emplace s (next_id s w) (w_next w)
       (upd_heap (w_next w) (\<lambda>q. q\<lparr>o_request_id := next_id s w\<rparr>) (bump_id s
         (upd_heap r (\<lambda>q. q\<lparr>o_onOrderChange := Some s\<rparr>) (snd (alloc q w))))))"

definition changeable :: "OrderAccountType \<Rightarrow> u32 \<Rightarrow> ref \<Rightarrow> PositionRequest \<Rightarrow> world \<Rightarrow> bool" where
  "changeable s k r q w \<longleftrightarrow> live_order s k r w \<and> r < w_next w \<and>
     o_size q \<le> ORDER_ACCOUNT_MAXIMUM_LIMIT \<and> gw_set_limit (w_gw w) (o_type (w_heap w r)) (o_price q) (o_size q)"

lemma hash_emplace_simps [simp]:
  "w_heap (hash_emplace s k r w) = w_heap w" "w_next (hash_emplace s k r w) = w_next w"
  "w_ta (hash_emplace s k r w) = w_ta w" "w_inbox (hash_emplace s k r w) = w_inbox w"
  "w_gw (hash_emplace s k r w) = w_gw w" "w_calls (hash_emplace s k r w) = w_calls w"
  by (simp_all add: hash_emplace_def)

lemma bump_id_simps [simp]:
  "w_heap (bump_id s w) = w_heap w" "w_next (bump_id s w) = w_next w" "w_ta (bump_id s w) = w_ta w"
  "w_inbox (bump_id s w) = w_inbox w" "w_gw (bump_id s w) = w_gw w" "w_calls (bump_id s w) = w_calls w"
  by (simp_all add: bump_id_def)

lemma change_sent_simps [simp]:
  "r \<noteq> w_next w \<Longrightarrow> w_heap (change_sent s r q w) =
     (w_heap w)(w_next w := q\<lparr>o_request_id := next_id s w\<rparr>, r := (w_heap w r)\<lparr>o_onOrderChange := Some s\<rparr>)"
  "w_ta (change_sent s r q w) = w_ta w" "w_inbox (change_sent s r q w) = w_inbox w"
  "orders_find s' k (change_sent s r q w) = orders_find s' k w"
  "hash_find s' k (change_sent s r q w) = (if s' = s \<and> k = next_id s w \<and> hash_find s' k w = None
     then Some (w_next w) else hash_find s' k w)"
  by (auto simp: change_sent_def orders_find_def fun_upd_twist)

lemma oa_change_eq:
  assumes "changeable s k r q w"
  shows "oa_change s r (w_next w) (upd_heap r (\<lambda>q. q\<lparr>o_onOrderChange := Some s\<rparr>) (snd (alloc q w))) =
    (if gw_change (w_gw w) (w_calls w) then (True, change_sent s r q w)
     else (False, hash_erase s (next_id s w) (change_sent s r q w)))"
  using assms by (simp add: oa_change_def changeable_def live_order_def already_over_def change_sent_def
      Let_def next_id_def linorder_not_le [symmetric])

lemma change_live:
  assumes "changeable s k r q w" "a_divisor (w_ta w s) \<noteq> 0"
    and "q = changed_PositionRequest (w_heap w r) price (new_size div a_divisor (w_ta w s))"
  shows "change s k price new_size w =
    (if \<not> gw_change (w_gw w) (w_calls w)
     then Inr (k, hash_erase s (next_id s w) (change_sent s r q w))
     else rbind (waitChangeAcknowledgement s (w_next w) (change_sent s r q w)) (\<lambda>(acknowledged, v).
       if \<not> acknowledged then Inr (k, v)
       else
         let v = redis (RedisOrderChangeTime s k) v; c = w_heap v (w_next w); old = w_heap v r
         in Inr (o_request_id c, if 0 < new_size
              then upd_ta s (change_totals (o_account_type c) (o_type c) (o_size c) (o_type old) (o_size old)) v
              else v)))"
proof -
  define v where "v = snd (alloc q w)"
  have a: "alloc q w = (w_next w, v)" by (simp add: v_def alloc_def)
  have f: "orders_find s k w = Some r" using assms(1) by (simp add: changeable_def live_order_def)
  note oc = oa_change_eq [OF assms(1), folded v_def]
  show ?thesis
    unfolding change_def with_divisor_def f option.case assms(3) [symmetric] a Let_def prod.case oc
    using assms(2) by (cases "gw_change (w_gw w) (w_calls w)") simp_all
qed

text \<open>A change the gateway refuses to send returns the order's own identifier and leaves no entry
  for the new request in the hash; the account is untouched.\<close>

theorem refused_change:
  assumes "changeable s k r q w" "a_divisor (w_ta w s) \<noteq> 0"
    and "q = changed_PositionRequest (w_heap w r) price (new_size div a_divisor (w_ta w s))"
    and "\<not> gw_change (w_gw w) (w_calls w)"
  shows "\<exists>w'. change s k price new_size w = Inr (k, w') \<and> hash_find s (next_id s w) w' = None \<and>
    w_ta w' = w_ta w"
  using assms by (simp add: change_live [OF assms(1-3)])

lemma refused_change_witness:
  "\<exists>w'. change LONG 1 (Fin 6) 0 ((live_sample True [])\<lparr>w_gw := sample_gateway\<lparr>gw_change := \<lambda>_. False\<rparr>\<rparr>)
     = Inr (1, w')"
proof -
  let ?w = "(live_sample True [])\<lparr>w_gw := sample_gateway\<lparr>gw_change := \<lambda>_. False\<rparr>\<rparr>"
  let ?q = "changed_PositionRequest (w_heap ?w 0) (Fin 6) 0"
  have "live_order LONG 1 0 ?w"
    using live_sample_simps(2) [of True "[]"] by (simp add: live_order_def orders_find_def hash_find_def)
  then have "changeable LONG 1 0 ?q ?w" by (simp add: changeable_def ORDER_ACCOUNT_MAXIMUM_LIMIT_def)
  then show ?thesis using refused_change [of LONG 1 0 ?q ?w "Fin 6" 0] by auto
qed

lemma wait_until_pass: "Q w = Inr True \<Longrightarrow> wait_until Q es w = Inr w"
  by (cases es) simp_all

lemma wait_for_second:
  assumes "w_inbox w = e # e' # es" "Q w = Inr False" "deliver e (w\<lparr>w_inbox := e' # es\<rparr>) = Inr v"
    and "Q v = Inr False" "deliver e' (v\<lparr>w_inbox := es\<rparr>) = Inr w'" "Q w' = Inr True"
  shows "wait_for Q w = Inr w'"
  using assms by (simp add: wait_for_def wait_until_pass)

text \<open>C10: a change that the gateway carries out and acknowledges replaces the order: the old
  identifier is in neither container any more, the new one is in both, with the new price and the new
  size (the old one when the new size is less than one lot), and the live total follows the size when
  a size was given.\<close>

theorem change_replaces:
  assumes "changeable s k r q w" "a_divisor (w_ta w s) \<noteq> 0"
    and "q = changed_PositionRequest (w_heap w r) price (new_size div a_divisor (w_ta w s))"
    and "gw_change (w_gw w) (w_calls w)" "om_inv (a_orders (w_ta w s))"
    and "oid = next_id s w" "hash_find s oid w = None" "orders_find s oid w = None"
    and "o_onAcknowledgement (w_heap w r) = Some s" "o_type (w_heap w r) = order_type s is_open"
    and "w_inbox w = EvOrder s k m1 # EvOrder s oid m2 # rest"
    and "g_condition m1 = ORDER_COND_CHANGED" "g_condition m2 = ORDER_COND_NEW"
  shows "\<exists>w'. change s k price new_size w = Inr (oid, w') \<and>
    orders_find s k w' = None \<and> hash_find s k w' = None \<and>
    orders_find s oid w' = Some (w_next w) \<and> hash_find s oid w' = Some (w_next w) \<and>
    o_price (w_heap w' (w_next w)) = price \<and> o_size (w_heap w' (w_next w)) = o_size q \<and>
    a_totalopen (w_ta w' s) = a_totalopen (w_ta w s) +
      (if is_open \<and> 0 < new_size then uint (o_size q) - uint (o_size (w_heap w r)) else 0) \<and>
    a_totalclose (w_ta w' s) = a_totalclose (w_ta w s) +
      (if \<not> is_open \<and> 0 < new_size then uint (o_size q) - uint (o_size (w_heap w r)) else 0)"
proof -
  have live: "orders_find s k w = Some r" "hash_find s k w = Some r" "o_request_id (w_heap w r) = k"
    "o_account_type (w_heap w r) = s" and r: "r \<noteq> w_next w" and k: "k \<noteq> oid"
    using assms(1,7) by (auto simp: changeable_def live_order_def)
  let ?v0 = "change_sent s r q w"
  let ?v1 = "hash_erase s k (orders_erase s k (upd_heap r (\<lambda>q. q\<lparr>o_order := m1\<rparr>)
    (?v0\<lparr>w_inbox := EvOrder s oid m2 # rest\<rparr>)))"
  let ?v2 = "upd_heap (w_next w) (\<lambda>q. q\<lparr>o_stage := STAGE_ACKNOWLEDGED, o_is_acknowledged := True\<rparr>)
    (upd_heap (w_next w) (\<lambda>q. q\<lparr>o_order := m2\<rparr>) (?v1\<lparr>w_inbox := rest\<rparr>))"
  have heap: "w_heap ?v0 = (w_heap w)(w_next w := q\<lparr>o_request_id := oid\<rparr>,
      r := (w_heap w r)\<lparr>o_onOrderChange := Some s\<rparr>)"
    using r assms(6) by simp
  have q: "\<not> isAcknowledged q" "o_onAcknowledgement q = Some s"
    using assms(3,9) by (simp_all add: isAcknowledged_def)
  have qt: "o_account_type q = s" "o_type q = order_type s is_open" "o_price q = price" using assms(3,10) live(4) by simp_all
  have 1: "deliver (EvOrder s k m1) (?v0\<lparr>w_inbox := EvOrder s oid m2 # rest\<rparr>) = Inr ?v1"
    using live r k assms(12) by (simp add: deliver_def OnOrder_def onOrderChange_def Let_def heap)
  have 2: "deliver (EvOrder s oid m2) (?v1\<lparr>w_inbox := rest\<rparr>) = Inr ?v2"
    using r k q assms(6,7,13)
    by (simp add: deliver_def OnOrder_def onNewOrderAcknowledgement_def Let_def heap)
  have ack: "isAcknowledged (w_heap ?v0 (w_next w)) = False" "isAcknowledged (w_heap ?v1 (w_next w)) = False"
    using r q(1) by (simp_all add: heap isAcknowledged_def)
  have "wait_for (\<lambda>w'. Inr (isAcknowledged (w_heap w' (w_next w)))) ?v0 = Inr ?v2"
    by (rule wait_for_second [OF _ _ 1 _ 2]) (simp_all only: ack, simp_all add: assms(11) isAcknowledged_def)
  then have wait: "waitChangeAcknowledgement s (w_next w) ?v0 = Inr (True, orders_emplace s oid (w_next w) ?v2)"
    using r by (simp add: waitChangeAcknowledgement_def heap)
  let ?v3 = "redis (RedisOrderChangeTime s k) (orders_emplace s oid (w_next w) ?v2)"
  let ?d = "uint (o_size q) - uint (o_size (w_heap w r))"
  have eq: "change s k price new_size w =
      Inr (oid, if 0 < new_size then add_live s (Some (\<not> is_open)) ?d ?v3 else ?v3)"
    using r qt by (simp add: change_live [OF assms(1-3)] assms(4) wait Let_def heap assms(10)
        change_totals_live)
  have orders: "a_orders (w_ta ?v3 s) = om_emplace oid (w_next w) (om_erase k (a_orders (w_ta w s)))"
    by simp
  have inv: "om_inv (om_erase k (a_orders (w_ta w s)))" using assms(5) by (rule om_inv_erase)
  have none: "om_lookup (om_erase k (a_orders (w_ta w s))) oid = None"
    using assms(8) by (simp add: om_lookup_erase orders_find_def)
  have find: "orders_find s k ?v3 = None" "orders_find s oid ?v3 = Some (w_next w)"
    unfolding orders_find_def orders
    using omap.emplace_fresh [OF inv none] omap.emplace_other [OF inv k] by (simp_all add: om_lookup_erase)
  show ?thesis unfolding eq
    using find r k qt(3) assms(6,7)
    by (cases "0 < new_size") (simp_all add: heap orders_find_def)
qed

lemma change_replaces_witness:
  "\<exists>w'. change LONG 1 (Fin 6) 200 (live_sample True [EvOrder LONG 1 (message ORDER_COND_CHANGED 0),
      EvOrder LONG 2 (message ORDER_COND_NEW 20)]) = Inr (2, w') \<and>
    orders_find LONG 1 w' = None \<and> orders_find LONG 2 w' = Some 1 \<and> a_totalopen (w_ta w' LONG) = 20"
proof -
  let ?w = "live_sample True [EvOrder LONG 1 (message ORDER_COND_CHANGED 0),
      EvOrder LONG 2 (message ORDER_COND_NEW 20)]"
  let ?q = "changed_PositionRequest (w_heap ?w 0) (Fin 6) 20"
  have c: "changeable LONG 1 0 ?q ?w" by (simp add: changeable_def ORDER_ACCOUNT_MAXIMUM_LIMIT_def)
  have f: "hash_find LONG 2 ?w = None" "orders_find LONG 2 ?w = None" "om_inv (a_orders (w_ta ?w LONG))"
    "o_onAcknowledgement (w_heap ?w 0) = Some LONG"
    by (simp_all add: live_sample_def orders_find_def om_lookup_def om_inv_def om_keys_def)
  show ?thesis
    using change_replaces [OF c, of "Fin 6" 200 2 True "message ORDER_COND_CHANGED 0"
        "message ORDER_COND_NEW 20" "[]"] f by (auto simp: message_def)
qed

section \<open>The closing order with an empty closure\<close>

definition mmf_request :: "OrderAccountType \<Rightarrow> double \<Rightarrow> double \<Rightarrow> u32 \<Rightarrow> ref option \<Rightarrow> PositionRequest" where
  "mmf_request s price p sz open_order = (new_PositionRequest sz price)
     \<lparr>o_price := p, p_is_mmf := True, p_open_order := open_order,
      o_onAcknowledgement := Some s, o_onOrderDone := Some s, o_onFill := Some (FILL_CLOSE s)\<rparr>"

text \<open>The overload of \<open>close\<close> for a make-money-fast order says that its closure is defined and
  never sets one: once the order is acknowledged, the message that it is done throws, before the
  totals are updated and before the order leaves the two containers.\<close>

theorem mmf_close_done_throws:
  assumes "valid_request price sz" "mmfPrice s w = Inr p" "sz \<le> ORDER_ACCOUNT_MAXIMUM_LIMIT"
    and "gw_set_limit (w_gw w) (order_type s False) p sz" "gw_post (w_gw w) (w_calls w)"
    and "oid = next_id s w" "hash_find s oid w = None"
    and "w_inbox w = EvOrder s oid msg # rest" "g_condition msg = ORDER_COND_NEW"
    and "g_condition fin = ORDER_COND_DONE"
  shows "\<exists>w'. close_mmf s price sz open_order w = Inr (oid, w') \<and> OnOrder s oid fin w' = Inl BadFunctionCall"
proof -
  let ?q = "mmf_request s price p sz open_order"
  have q: "acceptable s False ?q w" "fresh_request s ?q" "p_is_trade_done_define ?q" "p_trade_done ?q = TD_none"
    "o_onOrderDone ?q = Some s"
    using assms(3,4) by (simp_all add: mmf_request_def acceptable_def fresh_request_def new_PositionRequest_def)
  then have "close_mmf s price sz open_order w = Inr (oid, accepted s False ?q msg rest w)"
    using assms send_new_accepted [OF q(1) assms(5) q(2), of msg rest]
    by (simp add: close_mmf_def mmf_request_def)
  moreover have "OnOrder s oid fin (accepted s False ?q msg rest w) = Inl BadFunctionCall"
    using assms(6,7,10) q by (simp add: OnOrder_def onOrderDone_def run_trade_done_def Let_def)
  ultimately show ?thesis by blast
qed

lemma mmf_close_done_throws_witness:
  "\<exists>w'. close_mmf LONG (Fin 5) 12 None (acknowledging LONG) = Inr (1, w') \<and>
     OnOrder LONG 1 (message ORDER_COND_DONE 0) w' = Inl BadFunctionCall"
proof -
  have "mmfPrice LONG (acknowledging LONG) = Inr (Fin 0)"
    by (simp add: mmfPrice_def Utils.truncate_def pow10_def sample_world_def start_world_def new_TradeAccount_def
        sample_rest_def dbl_to_i32_def dbl_to_int_def rat_trunc_def dbl_of_int_def)
  moreover have "valid_request (Fin 5) 12"
    using sample_admissible [of 12 LONG False "[]"] by (simp add: admissible_def)
  ultimately show ?thesis
    using mmf_close_done_throws [of "Fin 5" 12 LONG "acknowledging LONG" "Fin 0" 1
        "message ORDER_COND_NEW 12" "[]" "message ORDER_COND_DONE 0" None]
    by (simp add: ORDER_ACCOUNT_MAXIMUM_LIMIT_def message_def)
qed

section \<open>The waits\<close>

text \<open>A wait returns only when its condition holds; the messages it consumes are a prefix of the
  inbox, in order, and the rest is left for later.\<close>

theorem wait_for_returns:
  assumes "wait_for Q w = Inr w'"
  shows "Q w' = Inr True \<and> (\<exists>k \<le> length (w_inbox w). w_inbox w' = drop k (w_inbox w) \<and>
    (Q w = Inr False \<longrightarrow> 0 < k))"
  using wait_until_result assms unfolding wait_for_def by blast

lemma wait_for_returns_witness:
  "\<exists>w'. wait_for (\<lambda>w. Inr (w_inbox w = [])) (sample_world [EvOrderCancel LONG 1]) = Inr w' \<and> w_inbox w' = []"
proof -
  have w: "wait_for (\<lambda>w. Inr (w_inbox w = [])) (sample_world [EvOrderCancel LONG 1]) =
      Inr ((sample_world [EvOrderCancel LONG 1])\<lparr>w_inbox := []\<rparr>)"
    by (simp add: wait_for_def deliver_def OnOrderCancel_def)
  show ?thesis using wait_for_returns [OF w] w by simp
qed

end
