(* ===== verification/SampleRound.thy ===== *)
theory SampleRound
  imports OrderLaws
begin

text \<open>
  A whole round of the main loop evaluated on a concrete state: the first quote and estimate arrive,
  the trigger becomes positive, the case for two empty positions is created and started; the gateway
  of this example refuses to post, so nothing is waited for.
\<close>

definition closed_gateway :: gateway where
  "closed_gateway = sample_gateway\<lparr>gw_post := (\<lambda>_. False)\<rparr>"
definition fed_symbol :: Symbol where
  "fed_symbol = sample_symbol\<lparr>s_symbol_stack := [\<lparr>st_price_estimate1 = Fin 5, st_price_estimate2 = Fin 5,
     st_instrument_skew = Fin 0, st_bid_size = 100, st_bid_price = Fin 6, st_ask_size = 200,
     st_ask_price = Fin 7\<rparr>]\<rparr>"
definition fed_settings :: settings where
  "fed_settings = sample_settings\<lparr>cfg_mpv_value := Fin 0\<rparr>"

definition fed_world :: world where
  "fed_world = start_world fed_settings fed_symbol closed_gateway sample_rest None None"

lemma closed_gateway_simps [simp]:
  "gw_post closed_gateway = (\<lambda>_. False)" "gw_set_limit closed_gateway = (\<lambda>_ _ _. True)"
  by (simp_all add: closed_gateway_def)

lemma open_done_closed:
  assumes "w_gw w = closed_gateway" "a_divisor (w_ta w s) \<noteq> 0"
  shows "\<exists>w'. open_done s price sz td w = Inr (0, w') \<and> w_ta w' = w_ta w \<and> w_ti w' = w_ti w \<and> w_cases w' = w_cases w \<and>
    w_gw w' = w_gw w"
  using assms by (auto simp: open_done_def with_divisor_def send_new_eq simp del: if_split split: if_split_asm)

lemma open_rounds_closed:
  "w_gw w = closed_gateway \<Longrightarrow> a_divisor (w_ta w cur) \<noteq> 0 \<Longrightarrow>
   \<exists>w'. open_rounds n cur l f rds k w = Inr w' \<and> w_ti w' = w_ti w \<and> w_cases w' = w_cases w"
proof (induction rds arbitrary: k w)
  case (Cons r rds)
  from open_done_closed [OF Cons.prems, of "dadd l (dmul f (dbl_of_int k))" "ucast (rd_position r)" "TD_trade_send_close n"]
  obtain v where v: "open_done cur (dadd l (dmul f (dbl_of_int k))) (ucast (rd_position r)) (TD_trade_send_close n) w = Inr (0, v)"
    "w_ta v = w_ta w" "w_ti v = w_ti w" "w_cases v = w_cases w" "w_gw v = w_gw w" by blast
  then show ?case using Cons.IH [of v] Cons.prems by auto
qed simp


lemma TradeCase4_init_closed:
  assumes "w_gw w = closed_gateway" "\<And>s. a_divisor (w_ta w s) \<noteq> 0"
    and "w_cases w n = Some c" "c_current_acc c = Some cur" "c_opposite_acc c = Some opp"
    and "i_share_rounds (w_ti w) = r # rs" "openPrice (ucast (rd_position r)) (Fin 0) (w_ti w) = Inr p"
  shows "\<exists>w'. TradeCase4_init n w = Inr w' \<and> w_ti w' = w_ti w \<and>
    (\<exists>c'. w_cases w' n = Some c' \<and> c_type c' = c_type c \<and> c_state c' = PRICE_CHANGE)"
proof -
  define thr where "thr = TradeCase4_threshold (w_ti w)"
  define lim where "lim = (if i_trigger_state (w_ti w) = TRIGGER_STATE_POSITIVE
    then dsub (i_bid_price (w_ti w)) thr else dadd (i_ask_price (w_ti w)) thr)"
  define fac where "fac = (if i_trigger_state (w_ti w) = TRIGGER_STATE_POSITIVE
    then dmul (i_mpv_value (w_ti w)) (Fin (- 1)) else i_mpv_value (w_ti w))"
  define v where "v = upd_case n (\<lambda>c. c\<lparr>c_threshold := thr, c_threshold_limit := lim,
    c_first_order_size := ucast (rd_position r), c_first_order_price := p\<rparr>) w"
  have v: "w_gw v = closed_gateway" "a_divisor (w_ta v cur) \<noteq> 0" "w_ti v = w_ti w"
    using assms(1,2) by (simp_all add: v_def)
  obtain v1 where v1: "open_done cur p (ucast (rd_position r)) (TD_trade_send_close n) v = Inr (0, v1)"
    "w_ta v1 = w_ta v" "w_ti v1 = w_ti v" "w_cases v1 = w_cases v" "w_gw v1 = w_gw v"
    using open_done_closed [OF v(1,2)] by blast
  define v2 where "v2 = upd_case n (\<lambda>c. c\<lparr>c_first_order := 0\<rparr>) v1"
  have v2: "w_gw v2 = closed_gateway" "a_divisor (w_ta v2 cur) \<noteq> 0" using v v1 by (simp_all add: v2_def)
  obtain v3 where v3: "open_rounds n cur lim fac rs 0 v2 = Inr v3" "w_ti v3 = w_ti v2" "w_cases v3 = w_cases v2"
    using open_rounds_closed [OF v2] by blast
  have "TradeCase4_init n w = Inr (set_state n PRICE_CHANGE v3)"
    using assms(3-7) v1(1) [unfolded v_def] v3(1) [unfolded v2_def]
    by (cases "i_trigger_state (w_ti w) = TRIGGER_STATE_POSITIVE")
      (simp_all add: TradeCase4_init_def with_accs_def this_case_def Let_def lim_def fac_def thr_def)
  then show ?thesis using v1 v3 v assms(3) by (simp add: set_state_def v2_def) (simp add: v_def)
qed

lemma first_round:
  "\<exists>w'. processing_round fed_world = Inr (False, w') \<and> (\<exists>c. w_cases w' 0 = Some c \<and> c_type c = CASE_4)"
proof -
  obtain w1 where r: "readSymbolData fed_world = Inr w1"
    and p: "i_price_estimate (w_ti w1) = Fin 5" "i_price_estimate_prev (w_ti w1) = Fin 0" 
      "i_trigger_state (w_ti w1) = TRIGGER_STATE_INIT" "i_prev_trigger_state (w_ti w1) = TRIGGER_STATE_INIT"
      "i_ask_size (w_ti w1) = 200" "i_bid_price (w_ti w1) = Fin 6" "i_ask_price (w_ti w1) = Fin 7"
      "i_multiplier (w_ti w1) = Fin 1" "i_maximum_live_limit (w_ti w1) = 500"
      "i_trade_case (w_ti w1) = None" "i_current_acc (w_ti w1) = None" "\<not> i_is_panic_close (w_ti w1)" "\<not> i_is_soft_close (w_ti w1)"
      "i_share_rounds (w_ti w1) = cfg_share_rounds sample_settings"
    and w1: "w_gw w1 = closed_gateway" "w_next_case w1 = 0" "w_cases w1 = Map.empty" "w_ta w1 = w_ta fed_world"
    by (simp add: readSymbolData_def fed_world_def start_world_def Let_def fed_symbol_def
        pop_def new_TradeInstance_def
        fed_settings_def sample_settings_def)
  have ta: "a_total (w_ta w1 s) = 0" "a_divisor (w_ta w1 s) = 10" "a_totalopen (w_ta w1 s) = 0" "a_totalclose (w_ta w1 s) = 0" for s
    by (simp_all add: w1 fed_world_def start_world_def new_TradeAccount_def fed_settings_def
        sample_settings_def)
  define w2 where "w2 = upd_ti (\<lambda>ti. ti\<lparr>i_trade_price := i_price_estimate ti\<rparr>) w1"
  have "\<not> over_live_limit w2"
    by (simp add: over_live_limit_def getTotalLiveOrderCount_def w2_def p ta int32_of_def as_u32_def)
  then have special: "specialCases w2 = Inr (False, w2)"
    by (simp add: specialCases_def selfDestruct_def w2_def p)
  define w3 where "w3 = on_side LONG (triggered w2)"
  have trig: "next_trigger (w_ti w2) = TRIGGER_STATE_POSITIVE" by (simp add: next_trigger_def w2_def p)
  have pos: "getPosition s w3 = 0" for s by (simp add: getPosition_def w3_def w2_def ta)
  define c where "c = (new_TradeCase CASE_4 (w_ti w3))\<lparr>c_init_pos := 0\<rparr>"
  define w4 where "w4 = upd_ti (\<lambda>ti. ti\<lparr>i_trade_case := Some 0\<rparr>)
     (w3\<lparr>w_cases := (w_cases w3)(0 \<mapsto> c), w_next_case := 1\<rparr>)"
  have acc: "i_current_acc (w_ti w3) = Some LONG" "i_opposite_acc (w_ti w3) = Some SHORT" "i_trade_case (w_ti w3) = None"
    "w_next_case w3 = 0"
    by (simp_all add: w3_def on_side_def other_account_def triggered_def w2_def p w1)
  have c: "c_type c = CASE_4" "c_current_acc c = Some LONG" "c_opposite_acc c = Some SHORT" "c_state c = INIT"
    by (simp_all add: c_def new_TradeCase_def acc)
  have "triggerSelection w2 = caseSelection w3"
    using trig by (simp add: triggerSelection_eq w3_def) (simp add: w2_def p)
  also have "\<dots> = Inr w4"
    using acc c(2) by (simp add: caseSelection_def pos selected_case_def replace_case_def factory_create_def construct_def constructors
        assign_case_def Let_def new_TradeCase_def as_u32_def c_def w4_def)
  finally have sel: "triggerSelection w2 = Inr w4" .
  have w4: "w_cases w4 0 = Some c" "i_trade_case (w_ti w4) = Some 0" "w_gw w4 = closed_gateway" "a_divisor (w_ta w4 s) \<noteq> 0"
    "i_share_rounds (w_ti w4) = cfg_share_rounds sample_settings" for s
    by (simp_all add: w4_def w3_def on_side_def triggered_def w2_def w1(1) p ta)
  have cur4: "i_current_acc (w_ti w4) = Some LONG" by (simp add: w4_def acc)
  have enable: "i_is_enable (w_ti fed_world)" by (simp add: fed_world_def start_world_def new_TradeInstance_def Let_def)
  have "openPrice 100 (Fin 0) (w_ti w4) = Inr (Fin 6)"
    by (simp add: openPrice_def buying_price_def size_left_def w4_def w3_def on_side_def triggered_def w2_def p
        next_trigger_def dsub_def dbl_of_u32_eq dbl_to_i64_def dbl_to_int_def rat_trunc_def)
  then obtain w5 c' where w5: "TradeCase4_init 0 w4 = Inr w5" "w_ti w5 = w_ti w4" "w_cases w5 0 = Some c'"
    "c_type c' = CASE_4" "c_state c' = PRICE_CHANGE"
    using TradeCase4_init_closed [OF w4(3,4,1) c(2,3), of "\<lparr>rd_increments = 100, rd_position = 100\<rparr>"
        "[\<lparr>rd_increments = 100, rd_position = 200\<rparr>]" "Fin 6"] w4(5) c(1)
    by (auto simp: sample_settings_def)
  have "run_case w4 = Inr (False, upd_ti (\<lambda>ti. ti\<lparr>i_last_state := PRICE_CHANGE\<rparr>) w5)"
    using w4(1,2) w5 c by (simp add: run_case_def run_def this_case_def case_init_def closing_type_def)
  then have "processing_round fed_world = Inr (False, upd_ti (\<lambda>ti. ti\<lparr>i_last_state := PRICE_CHANGE\<rparr>) w5)"
    using acc w4(2) enable cur4 w5(2) by (simp add: processing_round_def r special sel report_def dle_def deq_def p flip: w2_def)
  then show ?thesis using w5 by simp
qed
end
