(* ===== verification/SystemLaws.thy ===== *)
theory SystemLaws
  imports SampleRound
begin

text \<open>
  Properties of the running system: what holds in every state reachable from the constructor, what a
  change of the trigger does, and the two closing cases.
\<close>

section \<open>The state the constructor leaves\<close>

lemma start_instanceD:
  "start_instance cfg symb gw u pl ps = Inr w0 \<Longrightarrow>
     cfg_share_rounds cfg \<noteq> [] \<and> w0 = start_world cfg symb gw u pl ps"
  by (auto simp: start_instance_def split: if_splits)

lemma load_position_simps [simp]:
  "w_ti (load_position s p w) = w_ti w" "w_cases (load_position s p w) = w_cases w"
  "w_next_case (load_position s p w) = w_next_case w" "w_gw (load_position s p w) = w_gw w"
  "a_position_table (w_ta (load_position s p w) s') = a_position_table (w_ta w s')"
  "a_total (w_ta (load_position s p w) s') =
     (if s' = s then if s = LONG then pos_quantity p else - pos_quantity p else a_total (w_ta w s'))"
  "a_divisor (w_ta (load_position s p w) s') = a_divisor (w_ta w s')"
  by (simp_all add: load_position_def setAverage_def setPriceInForce_def setRoundInForce_def
      setPosition_def Let_def split: option.splits)

lemma start_world_simps [simp]:
  "w_ti (start_world cfg symb gw u pl ps) = new_TradeInstance cfg symb u"
  "w_cases (start_world cfg symb gw u pl ps) = (\<lambda>_. None)"
  "w_next_case (start_world cfg symb gw u pl ps) = 0"
  "w_gw (start_world cfg symb gw u pl ps) = gw"
  "t_open_size (a_position_table (w_ta (start_world cfg symb gw u pl ps) s)) = 0"
  "t_is_long (a_position_table (w_ta (start_world cfg symb gw u pl ps) s)) = (s = LONG)"
  "a_divisor (w_ta (start_world cfg symb gw u pl ps) s) = cfg_divisor cfg"
  by (simp_all add: start_world_def new_TradeAccount_def new_table_def Let_def split: option.split)

text \<open>The part of an account's position that was read back from the key-value store.\<close>

definition stored_quantity ::
    "stored_position option \<Rightarrow> stored_position option \<Rightarrow> OrderAccountType \<Rightarrow> int" where
  "stored_quantity pl ps s = (case s of
     ORDER_ACCOUNT_LONG \<Rightarrow> (case pl of None \<Rightarrow> 0 | Some p \<Rightarrow> pos_quantity p)
   | ORDER_ACCOUNT_SHORT \<Rightarrow> (case ps of None \<Rightarrow> 0 | Some p \<Rightarrow> - pos_quantity p))"

lemma start_ledger: "ledger (stored_quantity pl ps) (start_world cfg symb gw u pl ps)"
  by (simp add: ledger_def stored_quantity_def start_world_def new_TradeAccount_def new_table_def
      Let_def split: option.split OrderAccountType.split)

lemma start_sole: "sole_case (start_world cfg symb gw u pl ps)"
  by (simp add: sole_case_def new_TradeInstance_def)

lemma start_typed: "cases_typed (start_world cfg symb gw u pl ps)"
  by (simp add: cases_typed_def)

lemma start_paired: "accounts_paired (start_world cfg symb gw u pl ps)"
  by (simp add: accounts_paired_def ti_accounts_def new_TradeInstance_def)

section \<open>Reachable states\<close>

text \<open>C1: in every reachable state the size counter of each account's position table is the account's
  total less the position read back when the program started, modulo \<open>2 ^ 32\<close>: every fill the program
  handles enters both, and a position loaded at the start never enters the table.\<close>

theorem position_ledger:
  assumes "start_instance cfg symb gw u pl ps = Inr w0" "reachable w0 w"
  shows "t_open_size (a_position_table (w_ta w s)) =
    word_of_int (a_total (w_ta w s) - stored_quantity pl ps s)"
  using ledger_world.P_reachable [OF assms(2)] start_ledger start_instanceD [OF assms(1)]
  by (simp add: ledger_def)

lemma position_ledger_witness:
  "t_open_size (a_position_table (w_ta (enablePanicClose
       (start_world sample_settings sample_symbol sample_gateway sample_rest (Some sample_stored) None)) LONG)) = 0 \<and>
   a_total (w_ta (enablePanicClose
       (start_world sample_settings sample_symbol sample_gateway sample_rest (Some sample_stored) None)) LONG) = 7"
proof -
  let ?w = "start_world sample_settings sample_symbol sample_gateway sample_rest (Some sample_stored) None"
  have "reachable ?w (enablePanicClose ?w)" by (rule reachable_step [OF reachable_start step_panic])
  from position_ledger [OF sample_start this, of LONG] show ?thesis
    by (simp add: stored_quantity_def sample_stored_def enablePanicClose_def start_world_def Let_def)
qed

text \<open>C4: in every reachable state the only trade case object that exists is the one the trade instance
  holds, and a closure of any other case that an order still carries is called on a destroyed
  object.\<close>

theorem only_current_case_exists:
  assumes "start_instance cfg symb gw u pl ps = Inr w0" "reachable w0 w"
  shows "dom (w_cases w) = set_option (i_trade_case (w_ti w)) \<and>
    (i_trade_case (w_ti w) \<noteq> Some n \<longrightarrow>
       run_trade_done (TD_trade_send_close n) price sz w = Inl DanglingRef \<and>
       run_trade_done (TD_requote_done n) price sz w = Inl DanglingRef)"
proof -
  have "sole_case w" using sole_reachable [OF assms(2)] start_sole start_instanceD [OF assms(1)] by simp
  then show ?thesis using closure_of_lost_case by (simp add: sole_case_def)
qed

lemma only_current_case_exists_witness:
  "run_trade_done (TD_requote_done 3) (Fin 5) 1 (avicennaToggle
     (start_world sample_settings sample_symbol sample_gateway sample_rest None None)) = Inl DanglingRef"
proof -
  let ?w = "start_world sample_settings sample_symbol sample_gateway sample_rest None None"
  have "reachable ?w (avicennaToggle ?w)" by (rule reachable_step [OF reachable_start step_toggle])
  from only_current_case_exists [OF sample_start this, of 3 "Fin 5" 1] show ?thesis
    by (simp add: avicennaToggle_def new_TradeInstance_def)
qed

text \<open>C12: in every reachable state a trade case has one of six types: the other eleven classes of cases
  are never instantiated.\<close>

theorem only_six_cases_run:
  assumes "start_instance cfg symb gw u pl ps = Inr w0" "reachable w0 w" "w_cases w n = Some c"
  shows "c_type c \<in> {CASE_4, CASE_9, CASE_10, CASE_HEDGECURRENT, PANIC_CLOSE, SOFT_CLOSE}"
  using typed_world.P_reachable [OF assms(2)] start_typed start_instanceD [OF assms(1)] assms(3)
  by (auto simp: cases_typed_def run_types_def ran_def)

lemma only_six_cases_run_witness:
  "\<exists>w' c. reachable fed_world w' \<and> w_cases w' 0 = Some c \<and>
     c_type c \<in> {CASE_4, CASE_9, CASE_10, CASE_HEDGECURRENT, PANIC_CLOSE, SOFT_CLOSE}"
proof -
  obtain w' c where w': "processing_round fed_world = Inr (False, w')" "w_cases w' 0 = Some c"
    using first_round by blast
  have start: "start_instance fed_settings fed_symbol closed_gateway sample_rest None None = Inr fed_world"
    by (simp add: start_instance_def fed_world_def fed_settings_def sample_settings_def)
  have reach: "reachable fed_world w'" by (rule reachable_step [OF reachable_start step_round [OF w'(1)]])
  show ?thesis using only_six_cases_run [OF start reach w'(2)] reach w'(2) by blast
qed

text \<open>In every reachable state the current and the opposite account are both unset (before the
  first trigger) or they are the two different accounts; and the settings, the divisors and the
  instrument's skew are still those of the constructor, so the skew the market data carry is never
  looked at.\<close>

theorem accounts_and_settings_kept:
  assumes "start_instance cfg symb gw u pl ps = Inr w0" "reachable w0 w"
  shows "(i_current_acc (w_ti w) = None \<and> i_opposite_acc (w_ti w) = None \<or>
      (\<exists>s. i_current_acc (w_ti w) = Some s \<and> i_opposite_acc (w_ti w) = Some (other_account s))) \<and>
    i_instrument_skew (w_ti w) = s_instrument_skew symb \<and>
    i_share_rounds (w_ti w) = cfg_share_rounds cfg \<and> i_divisor (w_ti w) = cfg_divisor cfg \<and>
    i_maximum_live_limit (w_ti w) = cfg_maximum_live cfg \<and> a_divisor (w_ta w s) = cfg_divisor cfg"
proof -
  have w0: "w0 = start_world cfg symb gw u pl ps" using start_instanceD [OF assms(1)] by simp
  have "accounts_paired w" using paired_world.P_reachable [OF assms(2)] start_paired w0 by simp
  moreover have "same_constants w0 w" by (rule constant_world.P_reachable [OF assms(2)]) (simp add: same_constants_def)
  ultimately show ?thesis
    by (auto simp: accounts_paired_def same_constants_def ti_accounts_def ti_constants_def w0 new_TradeInstance_def)
qed

lemma accounts_and_settings_kept_witness:
  "i_instrument_skew (w_ti (enableSoftClose
     (start_world sample_settings sample_symbol sample_gateway sample_rest None None))) = Fin 0"
proof -
  let ?w = "start_world sample_settings sample_symbol sample_gateway sample_rest None None"
  have "reachable ?w (enableSoftClose ?w)" by (rule reachable_step [OF reachable_start step_soft])
  from accounts_and_settings_kept [OF sample_start this] show ?thesis
    by (simp add: sample_symbol_def new_Symbol_def)
qed

section \<open>The trigger\<close>

text \<open>C5: when the price estimate moves to the other side of its last value the trigger changes, the
  account of that side becomes the current one and the other the opposite one, the old case is
  destroyed, and the case selected from the two positions is the only one that exists.\<close>

theorem trigger_selects_case:
  assumes "sole_case w" "triggerSelection w = Inr w'"
    and "i_prev_trigger_state (w_ti w) \<noteq> next_trigger (w_ti w)" "next_trigger (w_ti w) \<noteq> TRIGGER_STATE_INIT"
    and "cur = (if next_trigger (w_ti w) = TRIGGER_STATE_POSITIVE then LONG else SHORT)"
    and "ty = selected_case (getPosition cur w) (getPosition (other_account cur) w) (w_ti w)"
  shows "i_current_acc (w_ti w') = Some cur \<and> i_opposite_acc (w_ti w') = Some (other_account cur) \<and>
    (if ty = CASE_NONE then i_trade_case (w_ti w') = None \<and> w_cases w' = Map.empty
     else i_trade_case (w_ti w') = Some (w_next_case w) \<and> dom (w_cases w') = {w_next_case w} \<and>
       (\<exists>c. w_cases w' (w_next_case w) = Some c \<and> c_type c = ty))"
proof -
  let ?v = "on_side cur (triggered w)"
  have v: "caseSelection ?v = Inr w'"
    using assms(2-5) by (simp add: triggerSelection_eq Let_def)
  have sole: "sole_case ?v" using assms(1) by (simp add: sole_case_def)
  have pos: "getPosition a ?v = getPosition a w" for a by (simp add: getPosition_def)
  have sel: "selected_case x y (w_ti ?v) = selected_case x y (w_ti w)" for x y
    by (simp add: selected_case_def on_side_def triggered_def)
  have ty: "selected_case (getPosition cur ?v) (getPosition (other_account cur) ?v) (w_ti ?v) = ty"
    by (simp only: pos sel assms(6))
  note res = caseSelection_result [OF sole _ v, of cur "other_account cur", unfolded ty, simplified]
  show ?thesis using res by (auto simp: sole_case_def ti_accounts_def case_types_Some split: if_splits)
qed

definition rising_world :: world where
  "rising_world = upd_ti (\<lambda>ti. ti\<lparr>i_price_estimate := Fin 5\<rparr>) (sample_world [])"

lemma rising_world_simps [simp]:
  "w_ta rising_world = w_ta (sample_world [])" "w_cases rising_world = Map.empty"
  "w_next_case rising_world = 0" "i_trade_case (w_ti rising_world) = None"
  "next_trigger (w_ti rising_world) = TRIGGER_STATE_POSITIVE"
  "i_prev_trigger_state (w_ti rising_world) = TRIGGER_STATE_INIT" "getPosition s rising_world = 0"
  by (simp_all add: rising_world_def sample_world_def start_world_def new_TradeInstance_def Let_def
      next_trigger_def getPosition_def new_TradeAccount_def)

lemma rising_world_selects: "\<exists>w'. triggerSelection rising_world = Inr w'"
  by (simp add: triggerSelection_eq Let_def caseSelection_def on_side_def other_account_def
      replace_case_def factory_create_def construct_def constructors new_TradeCase_def assign_case_def selected_case_def
      getPosition_def)

lemma trigger_selects_case_witness:
  "\<exists>w' c. triggerSelection rising_world = Inr w' \<and> i_current_acc (w_ti w') = Some LONG \<and>
     w_cases w' 0 = Some c \<and> c_type c = CASE_4"
proof -
  obtain w' where w': "triggerSelection rising_world = Inr w'" using rising_world_selects by blast
  have "sole_case rising_world" by (simp add: sole_case_def)
  with trigger_selects_case [OF this w', of LONG CASE_4] w' show ?thesis by (auto simp: selected_case_def)
qed

end
