(* ===== verification/ClosingLaws.thy ===== *)
theory ClosingLaws
  imports SystemLaws
begin

text \<open>
  The two closing cases: when they are done the two positions are equal, what happens when they are
  asked for before the first trigger, and how the limit on live orders creates them.
\<close>

section \<open>A closing case is done only with equal positions\<close>

definition balanced :: "world \<Rightarrow> bool" where
  "balanced w \<longleftrightarrow> getPosition LONG w = getPosition SHORT w"

definition paired_case :: "TradeCase \<Rightarrow> bool" where
  "paired_case c \<longleftrightarrow> c_opposite_acc c = map_option other_account (c_current_acc c)"

definition done_balanced :: "nat \<Rightarrow> world \<Rightarrow> bool" where
  "done_balanced n w \<longleftrightarrow> (\<forall>c. w_cases w n = Some c \<longrightarrow> c_state c = DONE \<longrightarrow> balanced w)"

text \<open>What an operation of an account leaves of a case.\<close>

interpretation state_frame: quiet_accounts
  "\<lambda>w. map_option (\<lambda>c. (c_state c, c_current_acc c, c_opposite_acc c)) (w_cases w n) = x" for n x
  by unfold_locales (auto simp: option.map_comp comp_def)

lemma other_account_simps [simp]:
  "other_account LONG = SHORT" "other_account SHORT = LONG"
  by (simp_all add: other_account_def)

lemma balanced_iff: "getPosition s w = getPosition (other_account s) w \<longleftrightarrow> balanced w"
  by (cases s) (auto simp: balanced_def)

lemma balanced_upd [simp]:
  "balanced (upd_case n f w) = balanced w" "balanced (set_state n st w) = balanced w"
  by (simp_all add: balanced_def getPosition_def set_state_def)

lemma done_balanced_state:
  "st \<noteq> DONE \<or> balanced w \<Longrightarrow> done_balanced n (set_state n st w)"
  by (auto simp: done_balanced_def set_state_def)

lemma done_balanced_upd:
  "(\<And>c. c_state (f c) \<noteq> DONE) \<Longrightarrow> done_balanced n (upd_case n f w)"
  by (auto simp: done_balanced_def)

lemma done_balanced_frame:
  assumes "map_option (\<lambda>c. (c_state c, c_current_acc c, c_opposite_acc c)) (w_cases w' n)
      = map_option (\<lambda>c. (c_state c, c_current_acc c, c_opposite_acc c)) (w_cases w n)"
    and "w_cases w n = Some c" "c_state c \<noteq> DONE"
  shows "done_balanced n w'"
  using assms by (auto simp: done_balanced_def)

text \<open>A change request, whatever its answer, leaves the case in a state that is not \<open>DONE\<close>.\<close>

lemma change_done_balanced:
  assumes c: "w_cases w n = Some c" "c_state c \<noteq> DONE"
    and f: "\<And>oid v. map_option c_state (w_cases v n) = Some (c_state c) \<Longrightarrow> res_all (done_balanced n) (f (oid, v))"
  shows "res_all (done_balanced n) (rbind (change s k price sz w) f)"
proof (rule res_all_rbind [OF state_frame.P_change [OF refl]])
  fix x :: "u32 \<times> world"
  obtain oid v where x: "x = (oid, v)" by (cases x)
  assume "case x of (x, w') \<Rightarrow> map_option (\<lambda>c. (c_state c, c_current_acc c, c_opposite_acc c)) (w_cases w' n)
      = map_option (\<lambda>c. (c_state c, c_current_acc c, c_opposite_acc c)) (w_cases w n)"
  then have "map_option c_state (w_cases v n) = Some (c_state c)"
    using c by (auto simp: x)
  then show "res_all (done_balanced n) (f x)" unfolding x by (rule f)
qed

lemma wait_done_balanced:
  assumes "w_cases w n = Some c" "c_state c \<noteq> DONE" "paired_case c"
  shows "res_all (done_balanced n) (wait_for_equality n w)"
proof (cases "c_current_acc c")
  case None
  then show ?thesis using assms by (simp add: wait_for_equality_def with_accs_def this_case_def rget_def)
next
  case (Some s)
  then show ?thesis using assms
    by (auto simp: wait_for_equality_def with_accs_def this_case_def rget_def paired_case_def balanced_iff
        done_balanced_state) (simp add: done_balanced_def)
qed

lemma PanicClose_init_balanced:
  assumes "w_cases w n = Some c" "c_state c \<noteq> DONE"
  shows "res_all (done_balanced n) (PanicClose_init n w)"
proof (cases "getPosition SHORT w = getPosition LONG w")
  case True
  then have "balanced w" by (simp add: balanced_def)
  with True show ?thesis by (simp add: PanicClose_init_def done_balanced_state)
next
  case False
  then show ?thesis unfolding PanicClose_init_def Let_def
    by (auto intro!: state_frame.res_with_accs res_all_pure done_balanced_upd)
qed

lemma with_accs_known:
  "w_cases w n = Some c \<Longrightarrow>
   with_accs n w f = rbind (rget NullDeref (c_current_acc c)) (\<lambda>cur.
     rbind (rget NullDeref (c_opposite_acc c)) (\<lambda>opp. f c cur opp))"
  by (simp add: with_accs_def this_case_def rget_def)

lemma PanicClose_reprice_balanced:
  assumes c: "w_cases w n = Some c" "c_state c \<noteq> DONE" "paired_case c"
  shows "res_all (done_balanced n) (PanicClose_reprice n w)"
proof (cases "c_current_acc c")
  case None
  then show ?thesis using c by (simp add: PanicClose_reprice_def with_accs_known rget_def)
next
  case (Some s)
  have same: "done_balanced n w" using c by (simp add: done_balanced_def)
  show ?thesis using c Some same
    by (auto simp: PanicClose_reprice_def with_accs_known rget_def paired_case_def Let_def
        balanced_iff eq_commute [of "getPosition (other_account s) w"] done_balanced_state
        intro!: change_done_balanced [OF c(1,2)]) (auto simp: done_balanced_def)
qed

lemma SoftClose_init_balanced:
  assumes c: "w_cases w n = Some c" "c_state c \<noteq> DONE"
  shows "res_all (done_balanced n) (SoftClose_init n w)"
proof -
  define v where "v = (if getPosition SHORT w = getPosition LONG w then set_state n DONE w else panic_accounts n w)"
  have v: "done_balanced n v"
  proof (cases "getPosition SHORT w = getPosition LONG w")
    case True
    then have "balanced w" by (simp add: balanced_def)
    then show ?thesis using True by (simp add: v_def done_balanced_state)
  next
    case False
    then show ?thesis using c by (auto simp: v_def panic_accounts_def done_balanced_def Let_def split: prod.splits)
  qed
  have keep: "done_balanced n (upd_case n (\<lambda>c. c\<lparr>c_send_price := p\<rparr>) (upd_case n (\<lambda>c. c\<lparr>c_close_size := k\<rparr>) v))"
    for p k using v by (auto simp: done_balanced_def)
  show ?thesis unfolding SoftClose_init_def Let_def v_def [symmetric]
    by (auto intro!: state_frame.res_with_accs res_all_pure keep done_balanced_state)
qed

lemma SoftClose_reprice_balanced:
  assumes c: "w_cases w n = Some c" "c_state c \<noteq> DONE" "paired_case c"
  shows "res_all (done_balanced n) (SoftClose_reprice n w)"
proof (cases "c_current_acc c")
  case None
  then show ?thesis using c by (simp add: SoftClose_reprice_def with_accs_known rget_def)
next
  case (Some s)
  have same: "done_balanced n w" using c by (simp add: done_balanced_def)
  show ?thesis using c Some same
    by (auto simp: SoftClose_reprice_def with_accs_known rget_def paired_case_def Let_def
        balanced_iff eq_commute [of "getPosition (other_account s) w"] done_balanced_state
        intro!: res_all_pure change_done_balanced [OF c(1,2)])
      (auto simp: done_balanced_def set_state_def)
qed

lemma run_state: "run n w = Inr (st, w') \<Longrightarrow> \<exists>c. w_cases w' n = Some c \<and> c_state c = st"
  by (auto simp: run_def this_case_def rget_def split: option.splits)

lemma closing_run_balanced:
  assumes c: "w_cases w n = Some c" "c_state c \<noteq> DONE" "paired_case c" "closing_type (c_type c)"
    and r: "run n w = Inr (DONE, w')"
  shows "balanced w'"
proof -
  have same: "done_balanced n w" using c by (simp add: done_balanced_def)
  have "res_all (\<lambda>(st, w). done_balanced n w) (run n w)"
    unfolding run_def
    using c same PanicClose_init_balanced [OF c(1,2)] PanicClose_reprice_balanced [OF c(1-3)]
      SoftClose_init_balanced [OF c(1,2)] SoftClose_reprice_balanced [OF c(1-3)] wait_done_balanced [OF c(1-3)]
    by (cases "c_state c"; cases "c_type c")
      (auto simp: this_case_def rget_def closing_type_def case_init_def case_reprice_def case_wait_def
        PanicClose_wait_def SoftClose_wait_def intro!: res_all_rbind [where R = "done_balanced n"]
        split: option.split)
  then have "done_balanced n w'" using res_allD [OF _ r] by fastforce
  then show ?thesis using run_state [OF r] by (auto simp: done_balanced_def)
qed

text \<open>C14: the trading thread ends only after a panic or soft close, and then the positions of the two
  accounts are equal.\<close>

theorem thread_ends_balanced:
  assumes "run_case w = Inr (True, w')" "i_trade_case (w_ti w) = Some n" "w_cases w n = Some c"
    and "c_state c \<noteq> DONE" "paired_case c"
  shows "closing_type (c_type c) \<and> getPosition LONG w' = getPosition SHORT w'"
proof -
  obtain st v where r: "run n w = Inr (st, v)" using assms(1,2) by (auto simp: run_case_def)
  obtain d where d: "w_cases v n = Some d" "c_state d = st" using run_state [OF r] by blast
  have "case_types (w_cases v) = case_types (w_cases w)"
    using res_allD [OF case_frame.P_run [OF refl] r] by simp
  then have "c_type d = c_type c" using assms(3) d(1) by (auto simp: case_types_def dest: fun_cong [of _ _ n])
  then have "closing_type (c_type c)" "st = DONE" "w' = upd_ti (\<lambda>ti. ti\<lparr>i_last_state := st\<rparr>) v"
    using assms(1,2) r d by (auto simp: run_case_def this_case_def rget_def Let_def split: if_splits)
  then show ?thesis using closing_run_balanced [OF assms(3-5), of v] r
    by (simp add: balanced_def getPosition_def)
qed

definition panic_sample :: world where
  "panic_sample = upd_ti (\<lambda>ti. ti\<lparr>i_trade_case := Some 0\<rparr>)
     ((sample_world [])\<lparr>w_cases := [0 \<mapsto> new_TradeCase PANIC_CLOSE (w_ti (sample_world []))]\<rparr>)"

lemma panic_sample_paired: "paired_case (new_TradeCase PANIC_CLOSE (w_ti (sample_world es)))"
  by (simp add: paired_case_def new_TradeCase_def sample_world_def start_world_def new_TradeInstance_def Let_def)

lemma thread_ends_balanced_witness:
  "\<exists>w'. run_case panic_sample = Inr (True, w') \<and> getPosition LONG w' = getPosition SHORT w'"
proof -
  have st: "c_state (new_TradeCase PANIC_CLOSE ti) = INIT" "c_type (new_TradeCase PANIC_CLOSE ti) = PANIC_CLOSE" for ti
    by (simp_all add: new_TradeCase_def)
  have "\<exists>w'. run_case panic_sample = Inr (True, w')"
    by (simp add: run_case_def panic_sample_def run_def this_case_def rget_def st case_init_def PanicClose_init_def
        getPosition_def closing_type_def set_state_def)
  then obtain w' where w': "run_case panic_sample = Inr (True, w')" by blast
  have "i_trade_case (w_ti panic_sample) = Some 0"
    "w_cases panic_sample 0 = Some (new_TradeCase PANIC_CLOSE (w_ti (sample_world [])))"
    by (simp_all add: panic_sample_def)
  with thread_ends_balanced [OF w'] show ?thesis using w' st panic_sample_paired by simp
qed

section \<open>A panic close before the first trigger\<close>

lemma pop_nonempty:
  "s_symbol_stack s \<noteq> [] \<Longrightarrow> pop s = Inr (last (s_symbol_stack s), s\<lparr>s_symbol_stack := []\<rparr>)"
  by (cases "s_symbol_stack s" rule: rev_cases) (simp_all add: pop_def)

lemma run_case_keeps:
  assumes "sole_case w" "i_trade_case (w_ti w) = Some n" "case_types (w_cases w) n = Some ty" "closing_type ty"
    and r: "run_case w = Inr (b, w')"
  shows "i_trade_case (w_ti w') = Some n" "ti_accounts (w_ti w') = ti_accounts (w_ti w)"
proof -
  obtain st v where run: "run n w = Inr (st, v)" using r assms(2) by (auto simp: run_case_def)
  note f = res_allD [OF case_frame.P_run [OF refl] run]
  then have "case_types (w_cases v) n = Some ty" using assms(3) by simp
  then obtain d where "w_cases v n = Some d" "c_type d = ty" by (auto simp: case_types_Some)
  then have "w' = upd_ti (\<lambda>ti. ti\<lparr>i_last_state := st\<rparr>) v"
    using r run assms(2,4) by (auto simp: run_case_def this_case_def rget_def Let_def split: if_splits)
  then show "i_trade_case (w_ti w') = Some n" "ti_accounts (w_ti w') = ti_accounts (w_ti w)"
    using f assms(2) by (simp_all add: ti_accounts_def)
qed

lemma specialCases_panic:
  assumes "i_is_panic_close (w_ti w)" "i_panic_close_init (w_ti w)" "\<not> over_live_limit w"
  shows "specialCases w =
    rbind (replace_case PANIC_CLOSE (upd_ti (\<lambda>ti. ti\<lparr>i_panic_close_init := False\<rparr>) w)) (\<lambda>w. Inr (True, w))"
  using assms by (simp add: specialCases_def selfDestruct_def)

text \<open>A panic close that is asked for before the first trigger never completes a round: the report
  at the end of the round reads the symbol through the current account, which is still null.\<close>

theorem panic_before_trigger:
  assumes "sole_case w" "i_is_enable (w_ti w)" "ti_accounts (w_ti w) = (None, None)"
    and "i_is_panic_close (w_ti w)" "i_panic_close_init (w_ti w)" "\<not> over_live_limit w"
    and "s_symbol_stack (w_sym w) \<noteq> []"
    and "dlt (Fin 0) (if i_avicenna_toggle (w_ti w) then st_price_estimate1 (last (s_symbol_stack (w_sym w)))
           else st_price_estimate2 (last (s_symbol_stack (w_sym w))))"
  shows "processing_round w \<noteq> Inr r"
proof
  assume r: "processing_round w = Inr r"
  let ?st = "last (s_symbol_stack (w_sym w))"
  obtain v where v: "readSymbolData w = Inr v" and v_ti: "i_is_panic_close (w_ti v)" "i_panic_close_init (w_ti v)"
      "ti_accounts (w_ti v) = (None, None)" "i_trade_case (w_ti v) = i_trade_case (w_ti w)"
      "i_maximum_live_limit (w_ti v) = i_maximum_live_limit (w_ti w)"
      "i_price_estimate (w_ti v) = (if i_avicenna_toggle (w_ti w) then st_price_estimate1 ?st
         else st_price_estimate2 ?st)"
    and v_w: "w_ta v = w_ta w" "w_cases v = w_cases w" "w_next_case v = w_next_case w"
    using assms(3-5,7)
    by (simp add: readSymbolData_def pop_nonempty ti_accounts_def)
  let ?v = "upd_ti (\<lambda>ti. ti\<lparr>i_trade_price := i_price_estimate ti\<rparr>) v"
  have pos: "\<not> dle (i_price_estimate (w_ti v)) (Fin 0)"
    using assms(8) by (cases "i_price_estimate (w_ti v)") (auto simp: v_ti(6) dle_def deq_def split: if_splits)
  have "\<not> over_live_limit ?v"
    using assms(6) v_ti(5) v_w(1) by (simp add: over_live_limit_def getTotalLiveOrderCount_def)
  then have sp: "specialCases ?v = rbind (replace_case PANIC_CLOSE
      (upd_ti (\<lambda>ti. ti\<lparr>i_panic_close_init := False\<rparr>) ?v)) (\<lambda>w. Inr (True, w))"
    using v_ti by (intro specialCases_panic) simp_all
  obtain w1 fin w2 where w1: "replace_case PANIC_CLOSE (upd_ti (\<lambda>ti. ti\<lparr>i_panic_close_init := False\<rparr>) ?v) = Inr w1"
    and w2: "run_case w1 = Inr (fin, w2)" and rep: "report w2 = Inr w2"
    using r assms(2) v pos by (auto simp: processing_round_def sp report_def rbind_eq_Inr Let_def split: if_splits)
  have "sole_case (upd_ti (\<lambda>ti. ti\<lparr>i_panic_close_init := False\<rparr>) ?v)"
    using assms(1) v_ti(4) v_w by (simp add: sole_case_def)
  note res = replace_case_result [OF this w1]
  have "i_trade_case (w_ti w2) = Some (w_next_case v)" "ti_accounts (w_ti w2) = (None, None)"
    using run_case_keeps [OF res(1) _ _ _ w2, of "w_next_case v" PANIC_CLOSE] res(2,3) v_ti(3)
    by (simp_all add: closing_type_def ti_accounts_def)
  then show False using rep by (simp add: report_def rget_def ti_accounts_def)
qed

lemma panic_before_trigger_witness:
  "\<forall>r. processing_round (enablePanicClose fed_world) \<noteq> Inr r"
proof -
  have "\<not> over_live_limit (enablePanicClose fed_world)"
    by (simp add: over_live_limit_def getTotalLiveOrderCount_def enablePanicClose_def fed_world_def start_world_def
        new_TradeAccount_def Let_def int32_of_def as_u32_def)
  then show ?thesis
    by (intro allI panic_before_trigger)
      (simp_all add: enablePanicClose_def fed_world_def start_world_def new_TradeInstance_def Let_def
        ti_accounts_def fed_symbol_def sole_case_def)
qed

section \<open>The limit on live orders\<close>

text \<open>C15: while one of the live counts is over its limit every round destroys the running case, a
  panic close included, and creates a new panic close.\<close>

theorem over_limit_restarts_panic:
  assumes "sole_case w" "over_live_limit w" "specialCases w = Inr (special, w')"
  shows "special \<and> i_trade_case (w_ti w') = Some (w_next_case w) \<and> dom (w_cases w') = {w_next_case w} \<and>
    (\<exists>c. w_cases w' (w_next_case w) = Some c \<and> c_type c = PANIC_CLOSE)"
proof -
  let ?v = "upd_ti (\<lambda>ti. ti\<lparr>i_panic_close_init := False\<rparr>) (enablePanicClose w)"
  have r: "special" "replace_case PANIC_CLOSE ?v = Inr w'"
    using assms(2,3) by (auto simp: specialCases_def selfDestruct_def enablePanicClose_def)
  have "sole_case ?v" using assms(1) by (simp add: sole_case_def enablePanicClose_def)
  from replace_case_result [OF this r(2)] r(1) show ?thesis
    by (simp add: enablePanicClose_def sole_case_def case_types_Some)
qed

text \<open>The sample world with a live count of its long account.\<close>

definition live_count_world :: "int \<Rightarrow> world" where
  "live_count_world k = upd_ta LONG (\<lambda>a. a\<lparr>a_totalopen := k\<rparr>) (sample_world [])"

lemma live_count_world_simps [simp]:
  "getTotalLiveOrderCount LONG (live_count_world k) = int32_of k"
  "i_maximum_live_limit (w_ti (live_count_world k)) = 500" "w_cases (live_count_world k) = Map.empty"
  "i_trade_case (w_ti (live_count_world k)) = None" "w_next_case (live_count_world k) = 0"
  by (simp_all add: live_count_world_def getTotalLiveOrderCount_def)
    (simp_all add: sample_world_def start_world_def new_TradeInstance_def sample_settings_def Let_def)

lemma over_limit_restarts_panic_witness:
  "\<exists>w' c. specialCases (live_count_world 600) = Inr (True, w') \<and> w_cases w' 0 = Some c \<and> c_type c = PANIC_CLOSE"
proof -
  have over: "over_live_limit (live_count_world 600)" by (simp add: over_live_limit_def as_u32_def int32_of_def)
  have "\<exists>w'. specialCases (live_count_world 600) = Inr (True, w')" using over
    by (simp add: specialCases_def selfDestruct_def enablePanicClose_def replace_case_def factory_create_def
        construct_def constructors assign_case_def Let_def)
  then obtain w' where w': "specialCases (live_count_world 600) = Inr (True, w')" by blast
  have "sole_case (live_count_world 600)" by (simp add: sole_case_def)
  from over_limit_restarts_panic [OF this over w'] w' show ?thesis by auto
qed

text \<open>A negative live count, which a cancelation that reports more than was counted leaves, is over
  every limit below \<open>2 ^ 31\<close>, since the comparison is unsigned.\<close>

theorem negative_count_is_over_limit:
  assumes "getTotalLiveOrderCount s w < 0" "uint (i_maximum_live_limit (w_ti w)) < 2 ^ 31"
  shows "over_live_limit w"
proof -
  let ?n = "getTotalLiveOrderCount s w"
  have lo: "- (2 ^ 31) \<le> ?n" unfolding getTotalLiveOrderCount_def int32_of_def using sint_ge [where 'a = 32] by simp
  have "uint (as_u32 ?n) = ?n mod 2 ^ 32" by (simp add: as_u32_def uint_word_of_int)
  also have "\<dots> = (?n + 2 ^ 32) mod 2 ^ 32" by simp
  also have "\<dots> = ?n + 2 ^ 32" using assms(1) lo by (intro mod_pos_pos_trivial) simp_all
  finally have "2 ^ 31 \<le> uint (as_u32 ?n)" using lo by simp
  then have "i_maximum_live_limit (w_ti w) < as_u32 ?n" using assms(2) by (simp add: word_less_def)
  then show ?thesis by (cases s) (auto simp: over_live_limit_def)
qed

lemma negative_count_is_over_limit_witness: "over_live_limit (live_count_world (- 1))"
  by (rule negative_count_is_over_limit [of LONG]) (simp_all add: int32_of_def)

end
