(* ===== verification/MarketLaws.thy ===== *)
theory MarketLaws
  imports SampleRound
begin

text \<open>
  Properties of the market side: the bar of an interval against its definition from the prices, the
  stack of stamps, the estimates, the prices a case sends at and the lots of a requote.
\<close>

section \<open>The bar of an interval\<close>

lemma updatePrice_running:
  assumes "\<not> s_start_interval s" "s_max_price s = Fin a" "s_min_price s = Fin b" "p = Fin x"
  shows "updatePrice p s = s\<lparr>s_max_price := Fin (max a x), s_min_price := Fin (min b x), s_close_price := p\<rparr>"
  using assms by (simp add: updatePrice_def max_def min_def not_less)

lemma bar_running:
  assumes "\<not> s_start_interval s" "s_max_price s = Fin a" "s_min_price s = Fin b"
  shows "\<exists>s'. fold updatePrice (map Fin xs) s = s' \<and> \<not> s_start_interval s' \<and>
    s_max_price s' = Fin (fold max xs a) \<and> s_min_price s' = Fin (fold min xs b) \<and>
    s_open_price s' = s_open_price s \<and> s_close_price s' = last (s_close_price s # map Fin xs) \<and>
    s_close_price_prev s' = s_close_price_prev s \<and> s_max_price_prev s' = s_max_price_prev s"
  using assms
proof (induction xs arbitrary: s a b)
  case (Cons x xs)
  show ?case
    using Cons.IH [of "updatePrice (Fin x) s" "max a x" "min b x"] Cons.prems
    by (simp add: updatePrice_running max.commute min.commute)
qed simp

text \<open>C16: the bar the symbol keeps is the bar of the prices of the interval: from the start of an
  interval on, the open price is the first, the close price the last, the maximum and the minimum
  those of all the prices, and the previous bar is the one that was there before.\<close>

theorem bar_of_prices:
  assumes "s_start_interval s" "s' = fold updatePrice (map Fin (p # ps)) s"
  shows "s_open_price s' = Fin p \<and> s_close_price s' = Fin (last (p # ps)) \<and>
    s_max_price s' = Fin (Max (set (p # ps))) \<and> s_min_price s' = Fin (Min (set (p # ps))) \<and>
    s_close_price_prev s' = s_close_price s \<and> s_max_price_prev s' = s_max_price s"
proof -
  let ?s = "updatePrice (Fin p) s"
  have s: "\<not> s_start_interval ?s" "s_max_price ?s = Fin p" "s_min_price ?s = Fin p" "s_open_price ?s = Fin p"
    "s_close_price ?s = Fin p" "s_close_price_prev ?s = s_close_price s" "s_max_price_prev ?s = s_max_price s"
    using assms(1) by (simp_all add: updatePrice_def)
  have "fold max ps p = Max (set (p # ps))" "fold min ps p = Min (set (p # ps))"
    by (simp_all only: Max.set_eq_fold Min.set_eq_fold)
  moreover have "last (Fin p # map Fin ps) = Fin (last (p # ps))" by (cases ps rule: rev_cases) simp_all
  ultimately show ?thesis using bar_running [OF s(1-3), of ps] assms(2) s(4-7) by simp
qed

lemma bar_of_prices_witness:
  "s_max_price (fold updatePrice (map Fin [5, 7, 6]) sample_symbol) = Fin 7 \<and>
   s_close_price (fold updatePrice (map Fin [5, 7, 6]) sample_symbol) = Fin 6"
  using bar_of_prices [of sample_symbol "fold updatePrice (map Fin [5, 7, 6]) sample_symbol" 5 "[7, 6]"]
  by (simp add: sample_symbol_def new_Symbol_def)

section \<open>The stack of stamps\<close>

text \<open>A quote that differs from the last one is what the trading thread reads next, with the
  estimates of that moment, and every older stamp is dropped with it.\<close>

theorem quote_reaches_reader:
  assumes "quote_changed bs bp asz ap s" "updateQuoteData bs bp asz ap s = Inr s'"
  shows "\<exists>st. pop s' = Inr (st, s'\<lparr>s_symbol_stack := []\<rparr>) \<and> st_bid_price st = bp \<and> st_ask_price st = ap \<and>
    dbl_to_u64 bs = Inr (st_bid_size st) \<and> dbl_to_u64 asz = Inr (st_ask_size st) \<and>
    st_price_estimate1 st = s_price_estimate1 s \<and> st_price_estimate2 st = s_price_estimate2 s"
  using assms by (auto simp: updateQuoteData_def store_quote_def rbind_eq_Inr push_def pop_def stamp_of_def)

lemma quote_reaches_reader_witness:
  "\<exists>s' st. updateQuoteData (Fin 100) (Fin 6) (Fin 200) (Fin 7) sample_symbol = Inr s' \<and>
    pop s' = Inr (st, s'\<lparr>s_symbol_stack := []\<rparr>) \<and> st_ask_price st = Fin 7"
proof -
  have changed: "quote_changed (Fin 100) (Fin 6) (Fin 200) (Fin 7) sample_symbol"
  proof -
    have "round64 (1 / 1000) \<noteq> NaN \<and> (\<forall>x. round64 (1 / 1000) = Fin x \<longrightarrow> x \<le> 1) \<and> round64 (1 / 1000) \<noteq> PInf"
    proof -
      have "rnd (1 / 1000) \<le> rnd 1" by (rule rnd_mono) simp
      moreover have "rnd 1 = 1" using rnd_of_int [of 1] by simp
      moreover have "0 \<le> rnd (1 / 1000)" by (rule rnd_nonneg) simp
      ultimately have "rnd (1 / 1000) \<le> 1" "\<bar>rnd (1 / 1000)\<bar> < dbl_limit"
        using small_less_limit [of 1] by (auto simp: abs_le_iff intro: le_less_trans)
      then show ?thesis by (simp add: round64_eq)
    qed
    then show ?thesis
      by (cases "round64 (1 / 1000)")
        (auto simp: quote_changed_def sample_symbol_def new_Symbol_def dbl_of_u64_def deq_def intro: le_less_trans)
  qed
  obtain s' where s': "updateQuoteData (Fin 100) (Fin 6) (Fin 200) (Fin 7) sample_symbol = Inr s'"
    using changed by (simp add: updateQuoteData_def store_quote_def dbl_to_u64_def dbl_to_int_def rat_trunc_def)
  show ?thesis using quote_reaches_reader [OF changed s'] s' by blast
qed

section \<open>The two estimates\<close>

text \<open>An estimate of the first interval that repeats the first estimate is stored as the second
  one: the index is not looked at again in the second branch.\<close>

theorem interval_overwrites_second:
  assumes "estimate (s_close_price s) (s_min_price s) (s_max_price s) (s_open_price s) = s_price_estimate1 s"
    and "dlt (Fin 0) (s_price_estimate1 s)" "\<not> deq (s_price_estimate1 s) (s_price_estimate2 s)"
  shows "s_price_estimate2 (resetIntervalCallback estimate 0 s) = s_price_estimate1 s \<and>
    st_price_estimate2 (last (s_symbol_stack (resetIntervalCallback estimate 0 s))) = s_price_estimate1 s"
proof -
  have "deq (s_price_estimate1 s) (s_price_estimate1 s)" using assms(2) by (cases "s_price_estimate1 s") (auto simp: deq_def)
  then show ?thesis using assms by (simp add: resetIntervalCallback_def Let_def push_def stamp_of_def)
qed

lemma interval_overwrites_second_witness:
  "s_price_estimate2 (resetIntervalCallback (\<lambda>_ _ _ _. Fin 5) 0
     (sample_symbol\<lparr>s_price_estimate1 := Fin 5, s_price_estimate2 := Fin 8\<rparr>)) = Fin 5"
  using interval_overwrites_second [of "\<lambda>_ _ _ _. Fin 5" "sample_symbol\<lparr>s_price_estimate1 := Fin 5, s_price_estimate2 := Fin 8\<rparr>"]
  by (simp add: deq_def)

section \<open>Prices from the book\<close>

lemma u32_diff: "\<bar>uint (x :: u32) - uint (y :: u32)\<bar> < 2 ^ 32"
proof -
  have "uint x < 2 ^ 32" "uint y < 2 ^ 32" using uint_bounded [of x] uint_bounded [of y] by simp_all
  then show ?thesis using uint_nonnegative [of x] uint_nonnegative [of y] unfolding abs_less_iff by linarith
qed

lemma size_left_exact:
  assumes "i_multiplier ti = Fin 1"
  shows "size_left book qto ti = Fin (of_int (uint book - uint qto))"
proof -
  have "round64 (of_int (uint book - uint qto)) = Fin (of_int (uint book - uint qto))"
    using u32_diff [of book qto] by (intro round64_of_int) simp
  moreover have "round64 (of_int (uint qto)) = Fin (of_int (uint qto))"
    using u32_diff [of qto 0] by (intro round64_of_int) simp
  ultimately show ?thesis using assms by (simp add: size_left_def dbl_of_u32_eq dsub_def)
qed

lemma size_left_i64:
  "i_multiplier ti = Fin 1 \<Longrightarrow> dbl_to_i64 (size_left book qto ti) = Inr (uint book - uint qto)"
  using u32_diff [of book qto]
  by (auto simp add: abs_less_iff size_left_exact dbl_to_i64_def dbl_to_int_def rat_trunc_def Let_def simp del: of_int_diff)

text \<open>C17: with multiplier one, \<open>sendPrice\<close> and \<open>openPrice\<close> agree on every order but the one that takes
  exactly what is on the far side of the book: that one is sent on the far side by the first and on
  the near side by the second.\<close>

theorem send_and_open_price:
  assumes "i_multiplier ti = Fin 1" "i_trigger_state ti \<noteq> TRIGGER_STATE_INIT"
    and "far = (if i_trigger_state ti = TRIGGER_STATE_POSITIVE then i_ask_size ti else i_bid_size ti)"
  shows "sendPrice qto ti = openPrice qto (Fin 0) ti \<longleftrightarrow> qto \<noteq> far \<or> i_bid_price ti = i_ask_price ti"
proof -
  have "uint far = uint qto \<longleftrightarrow> qto = far" by (auto simp: word_uint_eq_iff)
  then show ?thesis using assms
    by (cases "i_trigger_state ti")
      (auto simp: sendPrice_def openPrice_def buying_price_def selling_price_def size_left_i64)
qed

definition even_book :: TradeInstance where
  "even_book = (new_TradeInstance sample_settings sample_symbol sample_rest)\<lparr>
     i_trigger_state := TRIGGER_STATE_POSITIVE, i_ask_size := 50, i_ask_price := Fin 7, i_bid_price := Fin 6\<rparr>"

lemma send_and_open_price_witness: "sendPrice 50 even_book \<noteq> openPrice 50 (Fin 0) even_book"
  using send_and_open_price [of even_book "i_ask_size even_book" 50]
  by (simp add: even_book_def new_TradeInstance_def sample_settings_def)

section \<open>The lots of a requote\<close>

definition lot_sizes :: "int \<Rightarrow> int \<Rightarrow> int list" where
  "lot_sizes b r = (if r \<le> 0 then [] else replicate (nat (r div b)) b @ (if r mod b = 0 then [] else [r mod b]))"

fun open_all :: "OrderAccountType \<Rightarrow> double \<Rightarrow> int \<Rightarrow> double \<Rightarrow> trade_done \<Rightarrow> int \<Rightarrow> int list \<Rightarrow> world \<Rightarrow>
    (u32 list \<times> world) res" where
  "open_all cur price sign mpv td i [] w = Inr ([], w)"
| "open_all cur price sign mpv td i (sz # szs) w =
     rbind (open_done cur (dsub price (dmul (dmul (dbl_of_int sign) mpv) (dbl_of_int i))) (word_of_int sz) td w)
       (\<lambda>(oid, w). rbind (open_all cur price sign mpv td (i + 1) szs w)
       (\<lambda>(ids, w). Inr (if oid \<noteq> 0 then oid # ids else ids, w)))"

lemma lot_sizes_step:
  assumes "0 < b" "0 < r"
  shows "lot_sizes b r = (if b < r then b # lot_sizes b (r - b) else [r])"
proof (cases "b < r")
  case True
  have "nat (r div b) = Suc (nat ((r - b) div b))" "(r - b) mod b = r mod b"
    using assms True div_pos_geq [of b r] pos_imp_zdiv_nonneg_iff [of b "r - b"] by (simp_all add: Suc_nat_eq_nat_zadd1)
  then show ?thesis using True assms by (simp add: lot_sizes_def)
next
  case False
  then show ?thesis using assms by (cases "r = b") (simp_all add: lot_sizes_def)
qed

lemma sum_lot_sizes: "0 < b \<Longrightarrow> 0 \<le> r \<Longrightarrow> sum_list (lot_sizes b r) = r"
  by (auto simp: lot_sizes_def sum_list_replicate pos_imp_zdiv_nonneg_iff)

lemma open_lots_faults:
  "b \<le> 0 \<Longrightarrow> 0 < r \<Longrightarrow> \<exists>f. open_lots cur price sign mpv b td r i w = Inl f"
proof (induction cur price sign mpv b td r i w rule: open_lots.induct)
  case (1 cur price sign mpv b td r i w)
  have rest: "\<exists>f. open_lots cur price sign mpv b td (r - b) (i + 1) v = Inl f"
    if "\<not> (INT_MAX < r - b \<or> INT_MAX \<le> i)" for v
    using 1(1) [OF _ refl refl] 1(2,3) that by simp
  show ?case
  proof (cases "open_done cur (dsub price (dmul (dmul (dbl_of_int sign) mpv) (dbl_of_int i))) (word_of_int b) td w")
    case (Inr q)
    then show ?thesis using 1(2,3) rest [of "snd q"]
      by (subst open_lots.simps) (auto simp: Let_def split: prod.splits)
  qed (use 1(2,3) in \<open>subst open_lots.simps; simp add: Let_def\<close>)
qed

lemma open_lots_all:
  "0 < b \<Longrightarrow> 0 \<le> i \<Longrightarrow> i + r \<le> INT_MAX \<Longrightarrow>
    open_lots cur price sign mpv b td r i w = open_all cur price sign mpv td i (lot_sizes b r) w"
proof (induction cur price sign mpv b td r i w rule: open_lots.induct)
  case (1 cur price sign mpv b td r i w)
  show ?case
  proof (cases "0 < r")
    case r: True
    let ?sz = "if b < r then b else r"
    have range: "\<not> (INT_MAX < r - ?sz \<or> INT_MAX \<le> i)" using 1(2-4) r by auto
    have lots: "lot_sizes b r = ?sz # lot_sizes b (r - ?sz)"
      using lot_sizes_step [of b r] 1(2) r by (simp add: lot_sizes_def)
    have rest: "open_lots cur price sign mpv b td (r - ?sz) (i + 1) v =
        open_all cur price sign mpv td (i + 1) (lot_sizes b (r - ?sz)) v"
      for v
      using 1(2-4) r range by (intro 1(1) [OF _ refl refl]) auto
    show ?thesis unfolding lots open_all.simps rest [symmetric]
      by (subst open_lots.simps) (simp only: Let_def if_False range r linorder_not_le [THEN iffD2])
  qed (use 1(2) in \<open>simp add: open_lots.simps [of _ _ _ _ _ _ r] lot_sizes_def\<close>)
qed

text \<open>C18: the requote loop sends the residual as lots of the base quantity and the rest, one step of price
  apart, and ends, when the base quantity is positive; with a base quantity of zero or less it never
  comes to a regular end while there is a residual, whatever the requests return.\<close>

theorem requote_lots:
  assumes "0 \<le> i" "i + r \<le> INT_MAX"
  shows "(0 < b \<or> r \<le> 0 \<longrightarrow>
      open_lots cur price sign mpv b td r i w = open_all cur price sign mpv td i (lot_sizes b r) w) \<and>
    (b \<le> 0 \<and> 0 < r \<longrightarrow> (\<exists>f. open_lots cur price sign mpv b td r i w = Inl f))"
proof (cases "0 < r")
  case True
  then show ?thesis using assms open_lots_all [of b i r] open_lots_faults [of b r] by (meson not_le)
qed (simp add: open_lots.simps [of _ _ _ _ _ _ r] lot_sizes_def)

lemma requote_lots_witness:
  "\<forall>w. open_lots LONG (Fin 7) 1 (Fin 1) 40 TD_none 100 0 w = open_all LONG (Fin 7) 1 (Fin 1) TD_none 0 [40, 40, 20] w \<and>
    (\<exists>f. open_lots LONG (Fin 7) 1 (Fin 1) 0 TD_none 100 0 w = Inl f)"
proof
  fix w
  have "lot_sizes 40 100 = [40, 40, 20]" by (simp add: lot_sizes_def numeral_2_eq_2)
  then show "open_lots LONG (Fin 7) 1 (Fin 1) 40 TD_none 100 0 w = open_all LONG (Fin 7) 1 (Fin 1) TD_none 0 [40, 40, 20] w \<and>
    (\<exists>f. open_lots LONG (Fin 7) 1 (Fin 1) 0 TD_none 100 0 w = Inl f)"
    using requote_lots [of 0 100 40] requote_lots [of 0 100 0] by (simp add: INT_MAX_def)
qed

section \<open>The quantity to open\<close>

text \<open>C19: a quantity to open, multiplied with the divisor like the position of the current account, never
  takes that position beyond the last round.\<close>

theorem quantityToOpen_bound:
  assumes "quantityToOpen w = Inr q" "q \<noteq> 0" "i_current_acc (w_ti w) = Some cur"
    and "d = uint (i_divisor (w_ti w))" "0 \<le> getPosition cur w" "getPosition cur w * d < 2 ^ 64"
  shows "getPosition cur w * d + uint q * d \<le> uint (i_max_round (w_ti w))"
proof -
  let ?ti = "w_ti w" and ?c = "getPosition cur w * d"
  obtain t where t: "t \<le> i_max_round ?ti" "as_u64 ?c < t" "i_divisor ?ti \<noteq> 0"
    "q = ucast ((t - as_u64 ?c) div ucast (i_divisor ?ti))"
  proof -
    obtain opp where opp: "i_opposite_acc ?ti = Some opp"
      using assms(1) by (auto simp: quantityToOpen_def Let_def)
    obtain rd rest where "current_round (max (getPosition opp w * uint (i_divisor ?ti)) (getPosition cur w * uint (i_divisor ?ti)))
        (i_share_rounds ?ti) = rd # rest"
      using assms(1-3) opp by (auto simp: quantityToOpen_def Let_def split: list.splits)
    then show ?thesis using assms(1-4) opp
      by (intro that [OF min.cobounded2]) (auto simp: quantityToOpen_def Let_def split: if_splits)
  qed
  have d: "0 < d" "0 \<le> ?c" using assms(4,5) t(3) by (simp_all add: word_neq_0_conv word_less_def)
  have c: "uint (as_u64 ?c) = ?c" using d assms(6) by (simp only: as_u64_def uint_word_of_int) simp
  have ud: "uint (ucast (i_divisor ?ti) :: u64) = d" using assms(4) by (simp add: uint_up_ucast is_up)
  have "uint ((t - as_u64 ?c) div ucast (i_divisor ?ti)) = (uint t - ?c) div d"
    using t(2) c ud by (simp add: uint_div uint_sub_lem [THEN iffD1] word_le_def word_less_def)
  then have "uint q \<le> (uint t - ?c) div d"
    unfolding t(4) using zmod_le_nonneg_dividend [OF uint_nonnegative, of "(t - as_u64 ?c) div ucast (i_divisor ?ti)" "2 ^ 32"]
    by (simp only: unsigned_ucast_eq take_bit_eq_mod) simp
  then have "uint q * d \<le> (uint t - ?c) div d * d" using d by (simp add: mult_right_mono)
  also have "\<dots> \<le> uint t - ?c" using d pos_mod_sign [of d "uint t - ?c"] by (simp add: minus_mod_eq_div_mult [symmetric])
  finally show ?thesis using t(1) by (simp add: word_le_def)
qed

definition sided_world :: world where
  "sided_world = upd_ti (\<lambda>ti. ti\<lparr>i_current_acc := Some LONG, i_opposite_acc := Some SHORT\<rparr>) (sample_world [])"

lemma quantityToOpen_bound_witness:
  "\<exists>q. quantityToOpen sided_world = Inr q \<and> q = 10 \<and> getPosition LONG sided_world * 10 + uint q * 10 \<le> 200"
proof -
  have ti: "i_divisor (w_ti sided_world) = 10" "i_max_round (w_ti sided_world) = 200"
    "i_current_acc (w_ti sided_world) = Some LONG" "i_opposite_acc (w_ti sided_world) = Some SHORT"
    "i_share_rounds (w_ti sided_world) = cfg_share_rounds sample_settings" "getPosition s sided_world = 0" for s
    by (simp_all add: sided_world_def getPosition_def)
      (simp_all add: sample_world_def start_world_def new_TradeInstance_def sample_settings_def Let_def)
  have q: "quantityToOpen sided_world = Inr 10"
    by (simp add: quantityToOpen_def ti Let_def sample_settings_def current_round_def rounded_to_100_def
        trunc_div_def as_u64_def)
  from quantityToOpen_bound [OF q _ ti(3)] show ?thesis by (simp add: q ti)
qed

end
