(* ===== verification/Text.thy ===== *)
theory Text
  imports Binary64
begin

text \<open>
  Text as the key-value store and its protocol see it: decimal numerals, fields between separators,
  and the parts of Boost (\<open>split\<close>, \<open>lexical_cast\<close>) the program calls, which are parameters with their
  documented behaviour as a predicate.
\<close>

section \<open>Decimal numerals\<close>

definition digit :: "nat \<Rightarrow> char" where
  "digit k = char_of (48 + k)"

definition is_digit :: "char \<Rightarrow> bool" where
  "is_digit c \<longleftrightarrow> 48 \<le> (of_char c :: nat) \<and> (of_char c :: nat) < 58"

fun show_nat :: "nat \<Rightarrow> string" where
  "show_nat n = (if n < 10 then [digit n] else show_nat (n div 10) @ [digit (n mod 10)])"

declare show_nat.simps [simp del]

definition show_int :: "int \<Rightarrow> string" where
  "show_int n = (if n < 0 then CHR ''-'' # show_nat (nat (- n)) else show_nat (nat n))"

definition digits_value :: "string \<Rightarrow> nat" where
  "digits_value s = foldl (\<lambda>n c. 10 * n + (of_char c - 48)) 0 s"

definition parse_nat :: "string \<Rightarrow> nat option" where
  "parse_nat s = (if s \<noteq> [] \<and> list_all is_digit s then Some (digits_value s) else None)"

definition parse_int :: "string \<Rightarrow> int option" where
  "parse_int s = (case s of
     c # ds \<Rightarrow> if c = CHR ''-'' then map_option (\<lambda>n. - int n) (parse_nat ds) else map_option int (parse_nat s)
   | [] \<Rightarrow> None)"

lemma of_char_digit [simp]: "k < 10 \<Longrightarrow> of_char (digit k) = (48 + k :: nat)"
  by (simp add: digit_def)

lemma is_digit_digit [simp]: "k < 10 \<Longrightarrow> is_digit (digit k)"
  by (simp add: is_digit_def)

lemma show_nat_digits: "list_all is_digit (show_nat n)"
proof (induction n rule: show_nat.induct)
  case (1 n)
  then show ?case by (subst show_nat.simps) simp
qed

lemma show_nat_nonempty [simp]: "show_nat n \<noteq> []"
  by (subst show_nat.simps) simp

lemma digits_value_show: "digits_value (show_nat n) = n"
proof (induction n rule: show_nat.induct)
  case (1 n)
  then show ?case by (subst show_nat.simps) (simp add: digits_value_def)
qed

lemma parse_show_nat [simp]: "parse_nat (show_nat n) = Some n"
  by (simp add: parse_nat_def show_nat_digits digits_value_show)

lemma not_digit_chars [simp]:
  "\<not> is_digit CHR ''-''" "\<not> is_digit CHR '',''" "\<not> is_digit CHR 0x0A" "\<not> is_digit CHR 0x0D" "\<not> is_digit CHR ''$''"
  by (simp_all add: is_digit_def)

lemma show_nat_no:
  assumes "\<not> is_digit c"
  shows "c \<notin> set (show_nat n)"
  using show_nat_digits [of n] assms by (auto simp: list_all_iff)

lemma show_int_no:
  assumes "\<not> is_digit c" "c \<noteq> CHR ''-''"
  shows "c \<notin> set (show_int n)"
  using assms by (simp add: show_int_def show_nat_no)

lemma show_int_nonempty [simp]: "show_int n \<noteq> []"
  by (simp add: show_int_def)

lemma show_int_nat: "show_int (int n) = show_nat n"
  by (simp add: show_int_def)

lemma parse_show_int: "parse_int (show_int n) = Some n"
proof (cases "n < 0")
  case False
  then obtain c ds where s: "show_nat (nat n) = c # ds" by (cases "show_nat (nat n)") simp_all
  then have "c \<noteq> CHR ''-''" using show_nat_no [of "CHR ''-''" "nat n"] by auto
  then show ?thesis using False s parse_show_nat [of "nat n"] by (simp add: show_int_def parse_int_def)
qed (simp add: show_int_def parse_int_def)

section \<open>Fields\<close>

fun split_fields :: "char \<Rightarrow> string \<Rightarrow> string list" where
  "split_fields sep [] = [[]]"
| "split_fields sep (c # cs) =
     (if c = sep then [] # split_fields sep cs
      else (case split_fields sep cs of f # fs \<Rightarrow> (c # f) # fs | [] \<Rightarrow> [[c]]))"

fun join :: "char \<Rightarrow> string list \<Rightarrow> string" where
  "join sep [] = []"
| "join sep [f] = f"
| "join sep (f # g # fs) = f @ sep # join sep (g # fs)"

lemma split_nonempty [simp]: "split_fields sep s \<noteq> []"
  by (induction s) (auto split: list.split)

lemma split_append: "sep \<notin> set f \<Longrightarrow> split_fields sep (f @ sep # s) = f # split_fields sep s"
  by (induction f) auto

lemma split_one: "sep \<notin> set f \<Longrightarrow> split_fields sep f = [f]"
  by (induction f) auto

lemma split_join: "fs \<noteq> [] \<Longrightarrow> (\<And>f. f \<in> set fs \<Longrightarrow> sep \<notin> set f) \<Longrightarrow> split_fields sep (join sep fs) = fs"
  by (induction sep fs rule: join.induct) (simp_all add: split_one split_append)

section \<open>Numbers as the standard library prints them\<close>

text \<open>
  \<open>std::to_string(double)\<close> is the format \<open>%f\<close>: six decimals, correctly rounded. A negative number that
  rounds to zero keeps its sign; the model has one zero, which prints without a sign.
\<close>

definition pad6 :: "string \<Rightarrow> string" where
  "pad6 s = replicate (6 - length s) CHR ''0'' @ s"

definition show_double :: "double \<Rightarrow> string" where
  "show_double x = (case x of
     Fin q \<Rightarrow> (let m = rne (\<bar>q\<bar> * 10 ^ 6) in
       (if q < 0 then ''-'' else '''') @ show_int (m div 10 ^ 6) @ ''.'' @ pad6 (show_int (m mod 10 ^ 6)))
   | PInf \<Rightarrow> ''inf'' | NInf \<Rightarrow> ''-inf'' | NaN \<Rightarrow> ''nan'')"

text \<open>
  A floating value in an output stream has the format \<open>%g\<close>: six significant digits, trailing zeros
  removed, and an exponent when it is less than -4 or at least 6.
\<close>

definition ilog10 :: "rat \<Rightarrow> int" where
  "ilog10 q = (if 1 \<le> q then int (length (show_int \<lfloor>q\<rfloor>)) - 1 else - int (length (show_int (\<lceil>1 / q\<rceil> - 1))))"

definition strip_zeros :: "string \<Rightarrow> string" where
  "strip_zeros s = rev (dropWhile (\<lambda>c. c = CHR ''0'') (rev s))"

definition with_point :: "string \<Rightarrow> string \<Rightarrow> string" where
  "with_point a b = (if strip_zeros b = [] then a else a @ ''.'' @ strip_zeros b)"

definition show_exponent :: "int \<Rightarrow> string" where
  "show_exponent e = (if e < 0 then ''e-'' else ''e+'') @ (if \<bar>e\<bar> < 10 then ''0'' else '''') @ show_int \<bar>e\<bar>"

definition show_pos_stream :: "rat \<Rightarrow> string" where
  "show_pos_stream q =
     (let e0 = ilog10 q; m0 = rne (q / 10 powi (e0 - 5));
          (e, m) = (if m0 = 10 ^ 6 then (e0 + 1, 10 ^ 5) else (e0, m0));
          ds = show_int m
      in if - 4 \<le> e \<and> e < 0 then with_point ''0'' (replicate (nat (- e - 1)) CHR ''0'' @ ds)
         else if 0 \<le> e \<and> e < 6 then with_point (take (nat e + 1) ds) (drop (nat e + 1) ds)
         else with_point (take 1 ds) (drop 1 ds) @ show_exponent e)"

definition show_stream :: "double \<Rightarrow> string" where
  "show_stream x = (case x of
     Fin q \<Rightarrow> if q = 0 then ''0'' else if q < 0 then ''-'' @ show_pos_stream (- q) else show_pos_stream q
   | PInf \<Rightarrow> ''inf'' | NInf \<Rightarrow> ''-inf'' | NaN \<Rightarrow> ''nan'')"

definition show_bool :: "bool \<Rightarrow> string" where
  "show_bool b = (if b then ''1'' else ''0'')"

lemma show_double_no_comma: "CHR '','' \<notin> set (show_double x)"
  by (cases x) (auto simp: show_double_def Let_def pad6_def show_int_no)

lemma set_strip_zeros: "set (strip_zeros s) \<subseteq> set s"
  by (auto simp: strip_zeros_def dest: set_dropWhileD)

lemma with_point_no_comma:
  "CHR '','' \<notin> set a \<Longrightarrow> CHR '','' \<notin> set b \<Longrightarrow> CHR '','' \<notin> set (with_point a b)"
  using set_strip_zeros [of b] by (auto simp: with_point_def)

lemma show_stream_no_comma: "CHR '','' \<notin> set (show_stream x)"
proof -
  have digits: "CHR '','' \<notin> set (take k (show_int m))" "CHR '','' \<notin> set (drop k (show_int m))" for k m
    using show_int_no [of "CHR '',''" m] by (auto dest: in_set_takeD in_set_dropD)
  have "CHR '','' \<notin> set (show_pos_stream q)" for q
    unfolding show_pos_stream_def Let_def show_exponent_def
    by (auto simp: show_int_no with_point_no_comma digits split: prod.split)
  then show ?thesis by (cases x) (auto simp: show_stream_def)
qed

section \<open>Boost\<close>

text \<open>
  \<open>boost::split\<close> with one separator and \<open>boost::lexical_cast\<close> to and from integers, the latter throwing
  when the text is not a numeral.
\<close>

record boost =
  bt_split :: "char \<Rightarrow> string \<Rightarrow> string list"
  bt_to_long :: "string \<Rightarrow> int option"
  bt_to_u32 :: "string \<Rightarrow> u32 option"
  bt_to_double :: "string \<Rightarrow> double option"
  bt_of_long :: "int \<Rightarrow> string"

definition is_long :: "int \<Rightarrow> bool" where
  "is_long n \<longleftrightarrow> - (2 ^ 63) \<le> n \<and> n < 2 ^ 63"

text \<open>What the documentation says of numerals written in the usual way, and of separators.\<close>

definition documented_boost :: "boost \<Rightarrow> bool" where
  "documented_boost bt \<longleftrightarrow> bt_split bt = split_fields \<and>
     (\<forall>n. is_long n \<longrightarrow> bt_to_long bt (show_int n) = Some n \<and> bt_of_long bt n = show_int n) \<and>
     (\<forall>n. bt_to_u32 bt (show_int (uint n)) = Some n) \<and> (\<forall>x. bt_to_double bt (show_double x) \<noteq> None)"

definition sample_boost :: boost where
  "sample_boost = \<lparr>bt_split = split_fields,
     bt_to_long = (\<lambda>s. case parse_int s of None \<Rightarrow> None | Some n \<Rightarrow> if is_long n then Some n else None),
     bt_to_u32 = (\<lambda>s. map_option word_of_int (parse_int s)), bt_to_double = (\<lambda>_. Some (Fin 0)),
     bt_of_long = show_int\<rparr>"

lemma sample_boost_documented: "documented_boost sample_boost"
  by (simp add: documented_boost_def sample_boost_def parse_show_int)

end
