(* ===== verification/Config.thy ===== *)
theory Config
  imports TradeInstances Text
begin

text \<open>
  The three configuration files (\<open>src/src/config/AdminConfig.h\<close>, \<open>TradingConfig.h\<close> and
  \<open>SymbolConfig.h\<close>): the constructors that read a property tree into settings, the maps that collect
  them, and the three \<open>parse\<close> functions. Boost's property tree is a parameter; what its documentation
  says of trees built by hand is the predicate \<open>documented_ptree\<close>.
\<close>

section \<open>Property trees\<close>

text \<open>
  \<open>get_child\<close> throws \<open>ptree_bad_path\<close> and \<open>get_value\<close> throws \<open>ptree_bad_data\<close>, which are not
  \<open>ConfigException\<close>s. A conversion of a double to an integer can be undefined.
\<close>

datatype config_stop = Config_exception string | Bad_path | Bad_data | Bad_file | Config_undefined fault

type_synonym 'a cfg = "config_stop + 'a"

text \<open>Sequencing of computations that may stop, for any kind of stop.\<close>

definition cbind :: "'e + 'a \<Rightarrow> ('a \<Rightarrow> 'e + 'b) \<Rightarrow> 'e + 'b" where
  "cbind r next_step = case_sum Inl next_step r"

definition cget :: "'e \<Rightarrow> 'a option \<Rightarrow> 'e + 'a" where
  "cget stop found = case_option (Inl stop) Inr found"

lemma cbind_simps [simp]: "cbind (Inl stop) g = Inl stop" "cbind (Inr v) g = g v"
  by (simp_all add: cbind_def)

lemma cget_simps [simp]: "cget stop None = Inl stop" "cget stop (Some v) = Inr v"
  by (simp_all add: cget_def)

lemma cbind_Inr_cases: "(cbind r g = Inr z) = (\<exists>v. r = Inr v \<and> g v = Inr z)"
  by (cases r) auto

record 't ptree_library =
  pt_read_xml :: "string \<Rightarrow> 't option"
  pt_make :: "string \<Rightarrow> (string \<times> 't) list \<Rightarrow> 't"
  pt_items :: "'t \<Rightarrow> (string \<times> 't) list"
  pt_data :: "'t \<Rightarrow> string"
  pt_child :: "'t \<Rightarrow> string \<Rightarrow> 't option"
  pt_count :: "'t \<Rightarrow> string \<Rightarrow> nat"
  pt_int :: "'t \<Rightarrow> int option"
  pt_u32 :: "'t \<Rightarrow> u32 option"
  pt_bool :: "'t \<Rightarrow> bool option"
  pt_double :: "'t \<Rightarrow> double option"

definition child :: "'t ptree_library \<Rightarrow> 't \<Rightarrow> string \<Rightarrow> 't cfg" where
  "child lib t k = cget Bad_path (pt_child lib t k)"

definition attribute :: "'t ptree_library \<Rightarrow> 't \<Rightarrow> string \<Rightarrow> 't cfg" where
  "attribute lib t k = cbind (child lib t ''<xmlattr>'') (\<lambda>a. child lib a k)"

definition text_at :: "'t ptree_library \<Rightarrow> 't \<Rightarrow> string \<Rightarrow> string cfg" where
  "text_at lib t k = cbind (child lib t k) (\<lambda>v. Inr (pt_data lib v))"

definition int_at :: "'t ptree_library \<Rightarrow> 't \<Rightarrow> string \<Rightarrow> int cfg" where
  "int_at lib t k = cbind (child lib t k) (\<lambda>v. cget Bad_data (pt_int lib v))"

definition u32_at :: "'t ptree_library \<Rightarrow> 't \<Rightarrow> string \<Rightarrow> u32 cfg" where
  "u32_at lib t k = cbind (child lib t k) (\<lambda>v. cget Bad_data (pt_u32 lib v))"

definition bool_at :: "'t ptree_library \<Rightarrow> 't \<Rightarrow> string \<Rightarrow> bool cfg" where
  "bool_at lib t k = cbind (child lib t k) (\<lambda>v. cget Bad_data (pt_bool lib v))"

definition double_at :: "'t ptree_library \<Rightarrow> 't \<Rightarrow> string \<Rightarrow> double cfg" where
  "double_at lib t k = cbind (child lib t k) (\<lambda>v. cget Bad_data (pt_double lib v))"

text \<open>
  The tree of a file must have exactly one section of the given name.
\<close>

definition the_section :: "'t ptree_library \<Rightarrow> string \<Rightarrow> string \<Rightarrow> string \<Rightarrow> string \<Rightarrow> 't cfg" where
  "the_section lib filename section missing twice =
     cbind (cget Bad_file (pt_read_xml lib filename)) (\<lambda>t.
     if pt_count lib t section = 0 then Inl (Config_exception missing)
     else if 1 < pt_count lib t section then Inl (Config_exception twice)
     else child lib t section)"

section \<open>Administration\<close>

record AdminSettings =
  ad_panic_close_time :: string
  ad_soft_close_time :: string
  ad_log_severity :: string
  ad_verbose_severity :: string
  ad_positionfile_time :: string
  ad_redis_port :: int
  ad_redis_ip :: string
  ad_redis_enable :: bool

definition new_AdminSettings :: "'t ptree_library \<Rightarrow> 't \<Rightarrow> AdminSettings cfg" where
  "new_AdminSettings lib t =
     cbind (text_at lib t ''panic_close_time'') (\<lambda>panic.
     cbind (text_at lib t ''soft_close_time'') (\<lambda>soft.
     cbind (child lib t ''log'') (\<lambda>log.
     cbind (attribute lib log ''severity'') (\<lambda>log_severity.
     cbind (child lib t ''verbose'') (\<lambda>verbose.
     cbind (attribute lib verbose ''severity'') (\<lambda>verbose_severity.
     cbind (text_at lib t ''generate_positionfile_time'') (\<lambda>positionfile.
     cbind (child lib t ''redis'') (\<lambda>redis.
     cbind (child lib redis ''<xmlattr>'') (\<lambda>attr.
     cbind (text_at lib attr ''ip'') (\<lambda>ip.
     cbind (int_at lib attr ''port'') (\<lambda>port.
     cbind (bool_at lib attr ''enable'') (\<lambda>enable.
     Inr \<lparr>ad_panic_close_time = panic, ad_soft_close_time = soft,
       ad_log_severity = pt_data lib log_severity, ad_verbose_severity = pt_data lib verbose_severity,
       ad_positionfile_time = positionfile, ad_redis_port = port, ad_redis_ip = ip,
       ad_redis_enable = enable\<rparr>))))))))))))"

text \<open>
  The \<open>parse\<close> functions run once: a later call finds the flag set and changes nothing. The settings
  pointer is null before.
\<close>

definition AdminConfig_parse :: "'t ptree_library \<Rightarrow> string \<Rightarrow> AdminSettings option \<Rightarrow> AdminSettings option cfg" where
  "AdminConfig_parse lib filename settings = (case settings of Some s \<Rightarrow> Inr (Some s)
     | None \<Rightarrow> cbind (the_section lib filename ''admin'' ''Missing <trading> tag'' ''More than one definition of <trading>'')
                 (\<lambda>t. cbind (new_AdminSettings lib t) (\<lambda>s. Inr (Some s))))"

section \<open>Symbols\<close>

text \<open>A configured symbol: the settings, and its market data, which start as \<open>new_Symbol\<close>.\<close>

record SymbolSettings =
  y_name :: string
  y_exchange :: string
  y_multiplier :: double
  y_divisor :: u32
  y_max_pos :: u64
  y_cancel_on_trigger :: bool
  y_mmf :: bool
  y_base_qty :: u32
  y_tranch_value :: u32
  y_mpv_value :: double
  y_mpv_limit :: double
  y_mpv_multiplier :: u32
  y_share_rounds :: "ShareRound list"

text \<open>The conversions \<open>get_value<int>\<close> to the unsigned members reduce a negative number modulo \<open>2 ^ 32\<close> or \<open>2 ^ 64\<close>.\<close>

definition read_mpv :: "'t ptree_library \<Rightarrow> 't \<Rightarrow> SymbolSettings \<Rightarrow> SymbolSettings cfg" where
  "read_mpv lib t y =
     cbind (child lib t ''<xmlattr>'') (\<lambda>attr.
     cbind (double_at lib attr ''value'') (\<lambda>v.
     cbind (double_at lib attr ''limit'') (\<lambda>l.
     cbind (double_at lib attr ''multiplier'') (\<lambda>m.
     case dbl_to_int 0 (2 ^ 32) m of Inl e \<Rightarrow> Inl (Config_undefined e)
     | Inr k \<Rightarrow> Inr (y\<lparr>y_mpv_value := v, y_mpv_limit := l, y_mpv_multiplier := word_of_int k\<rparr>)))))"

definition read_round :: "'t ptree_library \<Rightarrow> 't \<Rightarrow> SymbolSettings \<Rightarrow> SymbolSettings cfg" where
  "read_round lib t y =
     cbind (child lib t ''<xmlattr>'') (\<lambda>attr.
     cbind (int_at lib attr ''value'') (\<lambda>position.
     cbind (int_at lib attr ''increments'') (\<lambda>increments.
     Inr (y\<lparr>y_share_rounds := y_share_rounds y @
       [\<lparr>rd_increments = word_of_int increments, rd_position = word_of_int position\<rparr>]\<rparr>))))"

fun symbol_items :: "'t ptree_library \<Rightarrow> (string \<times> 't) list \<Rightarrow> SymbolSettings \<Rightarrow> SymbolSettings cfg" where
  "symbol_items lib [] y = Inr y"
| "symbol_items lib ((k, t) # rest) y =
     (if k = ''<xmlattr>'' then symbol_items lib rest y
      else if k = ''mpv'' then cbind (read_mpv lib t y) (symbol_items lib rest)
      else if k = ''share_quantity'' then cbind (read_round lib t y) (symbol_items lib rest)
      else symbol_items lib rest y)"

definition configure_symbol :: "'t ptree_library \<Rightarrow> 't \<Rightarrow> SymbolSettings cfg" where
  "configure_symbol lib t =
     cbind (child lib t ''<xmlattr>'') (\<lambda>attr.
     cbind (text_at lib attr ''name'') (\<lambda>name.
     cbind (text_at lib attr ''exchange'') (\<lambda>exchange.
     if name = [] then Inl (Config_exception ''Symbol definition must include name attribute'')
     else cbind (double_at lib attr ''multiplier'') (\<lambda>multiplier.
     cbind (int_at lib attr ''divisor'') (\<lambda>divisor.
     cbind (int_at lib attr ''max'') (\<lambda>max_pos.
     cbind (bool_at lib attr ''cancel_on_trigger'') (\<lambda>cancel_on_trigger.
     cbind (bool_at lib attr ''mmf'') (\<lambda>mmf.
     cbind (int_at lib attr ''base_qty'') (\<lambda>base_qty.
     cbind (int_at lib attr ''tranch_value'') (\<lambda>tranch_value.
     symbol_items lib (pt_items lib t)
       \<lparr>y_name = name, y_exchange = exchange, y_multiplier = multiplier, y_divisor = word_of_int divisor,
        y_max_pos = word_of_int max_pos, y_cancel_on_trigger = cancel_on_trigger, y_mmf = mmf,
        y_base_qty = word_of_int base_qty, y_tranch_value = word_of_int tranch_value,
        y_mpv_value = Fin 0, y_mpv_limit = Fin 0, y_mpv_multiplier = 1, y_share_rounds = []\<rparr>))))))))))"

text \<open>
  \<open>emplace\<close> keeps the element that is already under a key. The list stands for the order in which
  the hash map is visited.
\<close>

definition keep_first :: "'k \<Rightarrow> 'v \<Rightarrow> ('k \<times> 'v) list \<Rightarrow> ('k \<times> 'v) list" where
  "keep_first k v xs = (case map_of xs k of None \<Rightarrow> xs @ [(k, v)] | Some _ \<Rightarrow> xs)"

type_synonym SymbolMap = "(string \<times> SymbolSettings) list"

fun symbol_map_items :: "'t ptree_library \<Rightarrow> (string \<times> 't) list \<Rightarrow> SymbolMap \<Rightarrow> SymbolMap cfg" where
  "symbol_map_items lib [] ys = Inr ys"
| "symbol_map_items lib ((k, t) # rest) ys =
     (if k = ''sym'' then cbind (configure_symbol lib t) (\<lambda>y. symbol_map_items lib rest (keep_first (y_name y) y ys))
      else symbol_map_items lib rest ys)"

definition new_SymbolMap :: "'t ptree_library \<Rightarrow> 't \<Rightarrow> SymbolMap cfg" where
  "new_SymbolMap lib t = symbol_map_items lib (pt_items lib t) []"

text \<open>The map of the users is ordered by the identifier, compared byte by byte.\<close>

fun string_less :: "string \<Rightarrow> string \<Rightarrow> bool" where
  "string_less _ [] = False"
| "string_less [] (_ # _) = True"
| "string_less (a # s) (b # t) = ((of_char a :: nat) < of_char b \<or> a = b \<and> string_less s t)"

fun emplace_ordered :: "string \<Rightarrow> 'v \<Rightarrow> (string \<times> 'v) list \<Rightarrow> (string \<times> 'v) list" where
  "emplace_ordered k v [] = [(k, v)]"
| "emplace_ordered k v ((k', v') # xs) =
     (if string_less k k' then (k, v) # (k', v') # xs
      else if k = k' then (k', v') # xs
      else (k', v') # emplace_ordered k v xs)"

type_synonym UserSymbolsMap = "(string \<times> SymbolMap) list"

fun user_items :: "'t ptree_library \<Rightarrow> (string \<times> 't) list \<Rightarrow> UserSymbolsMap \<Rightarrow> UserSymbolsMap cfg" where
  "user_items lib [] us = Inr us"
| "user_items lib ((k, t) # rest) us =
     (if k = ''user'' then
        cbind (child lib t ''<xmlattr>'') (\<lambda>attr.
        cbind (text_at lib attr ''id'') (\<lambda>i.
        cbind (new_SymbolMap lib t) (\<lambda>ys. user_items lib rest (emplace_ordered i ys us))))
      else user_items lib rest us)"

definition new_UserSymbolsMap :: "'t ptree_library \<Rightarrow> 't \<Rightarrow> UserSymbolsMap cfg" where
  "new_UserSymbolsMap lib t = user_items lib (pt_items lib t) []"

definition SymbolConfig_parse :: "'t ptree_library \<Rightarrow> string \<Rightarrow> UserSymbolsMap option \<Rightarrow> UserSymbolsMap option cfg" where
  "SymbolConfig_parse lib filename m = (case m of Some us \<Rightarrow> Inr (Some us)
     | None \<Rightarrow> cbind (the_section lib filename ''symbols'' ''Missing <symbols> tag'' ''More than one definition of <symbols>'')
                 (\<lambda>t. cbind (new_UserSymbolsMap lib t) (\<lambda>us. Inr (Some us))))"

section \<open>Trade accounts\<close>

datatype account_kind = TA_SINGLE | TA_PAIR

record AvicennaConfiguration =
  vc_dll_timer1 :: int
  vc_dll_ip :: string
  vc_dll_input :: bool
  vc_dll_str1 :: string
  vc_dll_str2 :: string
  vc_dll_str3 :: string
  vc_dll_str4 :: string
  vc_dll_str5 :: string

record AccountConfig =
  ac_id :: string
  ac_type :: account_kind
  ac_username :: string
  ac_long_acc :: string
  ac_short_acc :: string
  ac_legacy_timer :: int
  ac_legacy_trader_timer :: int
  ac_legacy_pit_timer :: int
  ac_maximum_order :: u32
  ac_maximum_live :: u32
  ac_avicenna1 :: AvicennaConfiguration
  ac_avicenna2 :: AvicennaConfiguration
  ac_venues :: "string list"
  ac_attempts :: "8 word"

definition read_avicenna :: "'t ptree_library \<Rightarrow> 't \<Rightarrow> AvicennaConfiguration cfg" where
  "read_avicenna lib t =
     cbind (int_at lib t ''dll_timer1'') (\<lambda>timer1.
     cbind (text_at lib t ''ip'') (\<lambda>ip.
     cbind (text_at lib t ''dll_input'') (\<lambda>dll_input.
     cbind (text_at lib t ''dll_str1'') (\<lambda>str1.
     cbind (text_at lib t ''dll_str2'') (\<lambda>str2.
     cbind (text_at lib t ''dll_str3'') (\<lambda>str3.
     cbind (text_at lib t ''dll_str4'') (\<lambda>str4.
     cbind (text_at lib t ''dll_str5'') (\<lambda>str5.
     Inr \<lparr>vc_dll_timer1 = timer1, vc_dll_ip = ip, vc_dll_input = (dll_input = ''true''), vc_dll_str1 = str1,
       vc_dll_str2 = str2, vc_dll_str3 = str3, vc_dll_str4 = str4, vc_dll_str5 = str5\<rparr>))))))))"

text \<open>The kind of an account decides which user names it has; the others stay empty.\<close>

definition account_users :: "'t ptree_library \<Rightarrow> 't \<Rightarrow> string \<Rightarrow> (account_kind \<times> string \<times> string \<times> string) cfg" where
  "account_users lib t kind =
     (if kind = ''single'' then
        cbind (text_at lib t ''username'') (\<lambda>username.
        if username = [] then Inl (Config_exception ''single account must have username'')
        else Inr (TA_SINGLE, username, [], []))
      else if kind = ''pair'' then
        cbind (text_at lib t ''long_account'') (\<lambda>long.
        cbind (text_at lib t ''short_account'') (\<lambda>short.
        if long = [] \<or> short = []
        then Inl (Config_exception (''pair account must have long and short account ID'' @ [CHR 0x27] @ ''s''))
        else Inr (TA_PAIR, [], long, short)))
      else Inl (Config_exception ''type must be define for account either single or pair''))"

definition timer_at :: "'t ptree_library \<Rightarrow> 't \<Rightarrow> string \<Rightarrow> int cfg" where
  "timer_at lib t k =
     cbind (int_at lib t k) (\<lambda>n. if n = 0 then Inl (Config_exception (k @ '' definition missing'')) else Inr n)"

definition read_venues :: "'t ptree_library \<Rightarrow> 't \<Rightarrow> string list" where
  "read_venues lib t = map (\<lambda>(_, v). pt_data lib v) (filter (\<lambda>(k, _). k = ''venue'') (pt_items lib t))"

definition configure_account :: "'t ptree_library \<Rightarrow> 't \<Rightarrow> AccountConfig cfg" where
  "configure_account lib t =
     cbind (child lib t ''<xmlattr>'') (\<lambda>attr.
     cbind (text_at lib attr ''id'') (\<lambda>i.
     cbind (text_at lib attr ''type'') (\<lambda>kind.
     cbind (account_users lib t kind) (\<lambda>(ty, username, long, short).
     cbind (u32_at lib t ''maximum_order'') (\<lambda>maximum_order.
     cbind (u32_at lib t ''maximum_live'') (\<lambda>maximum_live.
     cbind (timer_at lib t ''legacy_timer'') (\<lambda>legacy_timer.
     cbind (timer_at lib t ''legacy_trader_timer'') (\<lambda>legacy_trader_timer.
     cbind (timer_at lib t ''legacy_pit_timer'') (\<lambda>legacy_pit_timer.
     cbind (child lib t ''avicenna1'') (\<lambda>t1. cbind (read_avicenna lib t1) (\<lambda>avicenna1.
     cbind (child lib t ''avicenna2'') (\<lambda>t2. cbind (read_avicenna lib t2) (\<lambda>avicenna2.
     cbind (child lib t ''venues'') (\<lambda>venues.
     cbind (attribute lib venues ''attempts'') (\<lambda>attempts.
     cbind (cget Bad_data (pt_int lib attempts)) (\<lambda>attempts.
     Inr \<lparr>ac_id = i, ac_type = ty, ac_username = username, ac_long_acc = long, ac_short_acc = short,
       ac_legacy_timer = legacy_timer, ac_legacy_trader_timer = legacy_trader_timer,
       ac_legacy_pit_timer = legacy_pit_timer, ac_maximum_order = maximum_order,
       ac_maximum_live = maximum_live, ac_avicenna1 = avicenna1, ac_avicenna2 = avicenna2,
       ac_venues = read_venues lib venues, ac_attempts = word_of_int attempts\<rparr>))))))))))))))))"

type_synonym TradeAccountMap = "(string \<times> AccountConfig) list"

fun account_items :: "'t ptree_library \<Rightarrow> (string \<times> 't) list \<Rightarrow> TradeAccountMap \<Rightarrow> TradeAccountMap cfg" where
  "account_items lib [] accs = Inr accs"
| "account_items lib ((k, t) # rest) accs =
     (if k = ''account'' then cbind (configure_account lib t) (\<lambda>c. account_items lib rest (keep_first (ac_id c) c accs))
      else account_items lib rest accs)"

definition new_TradeAccountMap :: "'t ptree_library \<Rightarrow> 't \<Rightarrow> TradeAccountMap cfg" where
  "new_TradeAccountMap lib t = account_items lib (pt_items lib t) []"

definition TradingConfig_parse :: "'t ptree_library \<Rightarrow> string \<Rightarrow> TradeAccountMap option \<Rightarrow> TradeAccountMap option cfg" where
  "TradingConfig_parse lib filename m = (case m of Some accs \<Rightarrow> Inr (Some accs)
     | None \<Rightarrow> cbind (the_section lib filename ''trading'' ''Missing <trading> tag'' ''More than one definition of <trading>'')
                 (\<lambda>t. cbind (new_TradeAccountMap lib t) (\<lambda>accs. Inr (Some accs))))"

end
