(* ===== verification/Logging.thy ===== *)
theory Logging
  imports Config
begin

text \<open>
  The logger (\<open>src/src/utils/log.cpp\<close>). The first record that is written builds it: the administrative
  settings are parsed, which nothing else in the program does, and three sinks are registered. The
  formats of times belong to Boost and are parameters.
\<close>

section \<open>Severities\<close>

datatype severity = Trace | Debug | Info | Warning | Error | Fatal

fun rank :: "severity \<Rightarrow> nat" where
  "rank Trace = 0" | "rank Debug = 1" | "rank Info = 2" | "rank Warning = 3" | "rank Error = 4" | "rank Fatal = 5"

instantiation severity :: linorder
begin

definition less_eq_severity :: "severity \<Rightarrow> severity \<Rightarrow> bool" where
  "less_eq_severity a b \<longleftrightarrow> rank a \<le> rank b"

definition less_severity :: "severity \<Rightarrow> severity \<Rightarrow> bool" where
  "less_severity a b \<longleftrightarrow> rank a < rank b"

instance
proof
  fix a b :: severity
  assume "a \<le> b" "b \<le> a"
  then show "a = b" by (cases a; cases b) (simp_all add: less_eq_severity_def)
qed (auto simp: less_eq_severity_def less_severity_def)

end

definition severity_text :: "severity \<Rightarrow> string" where
  "severity_text s = (case s of Trace \<Rightarrow> ''trace'' | Debug \<Rightarrow> ''debug'' | Info \<Rightarrow> ''info'' | Warning \<Rightarrow> ''warning''
     | Error \<Rightarrow> ''error'' | Fatal \<Rightarrow> ''fatal'')"

definition getSeverity :: "string \<Rightarrow> severity" where
  "getSeverity str =
     (if str = ''trace'' then Trace
      else if str = ''debug'' then Debug
      else if str = ''info'' then Info
      else if str = ''warning'' then Warning
      else if str = ''error'' then Error
      else if str = ''fatal'' then Fatal
      else Trace)"

section \<open>The sinks\<close>

record 't log_record =
  lr_severity :: severity
  lr_time :: 't
  lr_message :: string
  lr_trade_info :: string

record 't time_formats =
  tf_default :: "'t \<Rightarrow> string"
  tf_format :: "string \<Rightarrow> 't \<Rightarrow> string"

text \<open>A sink has a filter, none for the one of the trades, and puts the line of a record into a file or the
  standard output.\<close>

datatype log_target = File string | Standard_output

record 't sink =
  sk_filter :: "severity option"
  sk_target :: "'t log_record \<Rightarrow> log_target"
  sk_format :: "'t log_record \<Rightarrow> string"

definition f_sink :: "'t time_formats \<Rightarrow> AdminSettings \<Rightarrow> 't sink" where
  "f_sink tf settings =
     \<lparr>sk_filter = Some (getSeverity (ad_log_severity settings)), sk_target = (\<lambda>_. File ''stem.log''),
      sk_format = (\<lambda>r. ''['' @ tf_default tf (lr_time r) @ '']['' @ severity_text (lr_severity r) @ ''] '' @ lr_message r)\<rparr>"

definition c_sink :: "'t time_formats \<Rightarrow> AdminSettings \<Rightarrow> 't sink" where
  "c_sink tf settings =
     \<lparr>sk_filter = Some (getSeverity (ad_verbose_severity settings)), sk_target = (\<lambda>_. Standard_output),
      sk_format = (\<lambda>r. tf_format tf ''%Y-%m-%d %H:%M:%S'' (lr_time r) @ '' <'' @ severity_text (lr_severity r) @ ''>: '' @ lr_message r)\<rparr>"

definition mf_sink :: "'t sink" where
  "mf_sink =
     \<lparr>sk_filter = None, sk_target = (\<lambda>r. File (''../logs/'' @ lr_trade_info r @ ''.log'')),
      sk_format = (\<lambda>r. ''['' @ lr_trade_info r @ ''] '' @ lr_message r)\<rparr>"

definition admin_config_file :: string where
  "admin_config_file = ''../configs/admin_config.xml''"

definition init_logger :: "'x ptree_library \<Rightarrow> 't time_formats \<Rightarrow> AdminSettings option \<Rightarrow>
    (AdminSettings option \<times> 't sink list) cfg" where
  "init_logger lib tf settings =
     cbind (AdminConfig_parse lib admin_config_file settings) (\<lambda>settings.
     cbind (cget (Config_undefined NullDeref) settings) (\<lambda>ad.
     Inr (settings, [f_sink tf ad, c_sink tf ad, mf_sink])))"

definition accepts :: "'t sink \<Rightarrow> severity \<Rightarrow> bool" where
  "accepts sk s = (case sk_filter sk of None \<Rightarrow> True | Some least \<Rightarrow> least \<le> s)"

definition write_record :: "'t sink list \<Rightarrow> 't log_record \<Rightarrow> (log_target \<times> string) list" where
  "write_record sinks r = map (\<lambda>sk. (sk_target sk r, sk_format sk r)) (filter (\<lambda>sk. accepts sk (lr_severity r)) sinks)"

section \<open>What is written\<close>

text \<open>The name of a severity is read back; any other text is the least severe one.\<close>

lemma getSeverity_text [simp]: "getSeverity (severity_text s) = s"
  by (cases s) (simp_all add: getSeverity_def severity_text_def)

lemma getSeverity_other: "str \<notin> range severity_text \<Longrightarrow> getSeverity str = Trace"
proof -
  assume "str \<notin> range severity_text"
  then have "str \<noteq> severity_text s" for s by blast
  from this [of Trace] this [of Debug] this [of Info] this [of Warning] this [of Error] this [of Fatal]
  show ?thesis by (simp add: getSeverity_def severity_text_def)
qed

text \<open>Every record is written to the file of its trade, and to the system's file and the standard output
  when it is at least as severe as the settings say.\<close>

theorem record_written:
  assumes "init_logger lib tf settings = Inr (Some ad, sinks)"
  shows "(target, line) \<in> set (write_record sinks r) \<longleftrightarrow>
    (target = File ''stem.log'' \<and> getSeverity (ad_log_severity ad) \<le> lr_severity r \<and> line = sk_format (f_sink tf ad) r) \<or>
    (target = Standard_output \<and> getSeverity (ad_verbose_severity ad) \<le> lr_severity r \<and> line = sk_format (c_sink tf ad) r) \<or>
    (target = File (''../logs/'' @ lr_trade_info r @ ''.log'') \<and> line = sk_format mf_sink r)"
proof -
  have "sinks = [f_sink tf ad, c_sink tf ad, mf_sink]" using assms
    by (auto simp: init_logger_def cbind_Inr_cases)
  then show ?thesis by (auto simp: write_record_def accepts_def f_sink_def c_sink_def mf_sink_def)
qed

end
