(* ===== verification/CommandLine.thy ===== *)
theory CommandLine
  imports Logging
begin

text \<open>
  The arguments and options that \<open>src/src/stem1.cpp\<close> declares, and what it makes of their values. Splitting
  the command line is the work of a library; its result is a map from names to texts, in which an
  option that was not given has its default.
\<close>

datatype option_kind = OPTION_NORMAL | OPTION_HELP

record program_argument =
  pa_name :: string
  pa_default :: string
  pa_optional :: bool

record program_option =
  po_name :: string
  po_letter :: string
  po_description :: string
  po_default :: string
  po_kind :: option_kind

definition g_ArgumentList :: "program_argument list" where
  "g_ArgumentList =
     [\<lparr>pa_name = ''LinkAddress'', pa_default = [], pa_optional = False\<rparr>,
      \<lparr>pa_name = ''LinkPort'', pa_default = [], pa_optional = False\<rparr>]"

definition g_OptionList :: "program_option list" where
  "g_OptionList =
     [\<lparr>po_name = ''Verbose'', po_letter = ''v'', po_description = ''Verbose Output Level'',
       po_default = ''TRACE'', po_kind = OPTION_NORMAL\<rparr>,
      \<lparr>po_name = ''Logging'', po_letter = ''l'', po_description = ''Loggin Output Level'',
       po_default = ''TRACE'', po_kind = OPTION_NORMAL\<rparr>,
      \<lparr>po_name = ''SymbolConfig'', po_letter = ''s'', po_description = ''Symbol Configuration '',
       po_default = ''symbol_config.xml'', po_kind = OPTION_NORMAL\<rparr>,
      \<lparr>po_name = ''TradingConfig'', po_letter = ''t'', po_description = ''Tradig Configuration'',
       po_default = ''trading_config.xml'', po_kind = OPTION_NORMAL\<rparr>,
      \<lparr>po_name = ''AdminConfig'', po_letter = ''a'', po_description = ''Admin Configuration'',
       po_default = ''admin_config.xml'', po_kind = OPTION_NORMAL\<rparr>,
      \<lparr>po_name = ''ApplicationName'', po_letter = ''m'', po_description = ''STEM Application for NYSE'',
       po_default = ''STEM'', po_kind = OPTION_NORMAL\<rparr>,
      \<lparr>po_name = ''help'', po_letter = ''?'', po_description = ''Command Line Help'',
       po_default = [], po_kind = OPTION_HELP\<rparr>]"

text \<open>The values the library finds; \<open>GetValue\<close> leaves its variable empty when there is none.\<close>

type_synonym arguments = "string \<rightharpoonup> string"

definition GetValue :: "arguments \<Rightarrow> string \<Rightarrow> string" where
  "GetValue args name = (case args name of None \<Rightarrow> [] | Some s \<Rightarrow> s)"

text \<open>\<open>strcasecmp\<close> of the C locale.\<close>

definition lower :: "char \<Rightarrow> char" where
  "lower c = (if 65 \<le> (of_char c :: nat) \<and> (of_char c :: nat) \<le> 90 then char_of (of_char c + 32 :: nat) else c)"

definition same_ignoring_case :: "string \<Rightarrow> string \<Rightarrow> bool" where
  "same_ignoring_case s t \<longleftrightarrow> map lower s = map lower t"

text \<open>The level that the option asks for, which nothing uses.\<close>

definition severity_option :: "arguments \<Rightarrow> severity" where
  "severity_option args = (case args ''Verbose'' of None \<Rightarrow> Trace | Some verbose \<Rightarrow>
     if same_ignoring_case verbose ''trace'' then Trace
     else if same_ignoring_case verbose ''debug'' then Debug
     else if same_ignoring_case verbose ''info'' then Info
     else if same_ignoring_case verbose ''warning'' then Warning
     else if same_ignoring_case verbose ''error'' then Error
     else if same_ignoring_case verbose ''fatal'' then Fatal
     else Trace)"

text \<open>\<open>atoi\<close> of a number that an \<open>int\<close> cannot hold is undefined.\<close>

definition is_space :: "char \<Rightarrow> bool" where
  "is_space c \<longleftrightarrow> c \<in> set [CHR '' '', CHR 0x09, CHR 0x0A, CHR 0x0B, CHR 0x0C, CHR 0x0D]"

definition atoi :: "string \<Rightarrow> int res" where
  "atoi s =
     (let t = dropWhile is_space s;
          ds = (if t \<noteq> [] \<and> hd t \<in> set ''+-'' then tl t else t);
          n = int (digits_value (takeWhile is_digit ds));
          n = (if t \<noteq> [] \<and> hd t = CHR ''-'' then - n else n)
      in if - (2 ^ 31) \<le> n \<and> n < 2 ^ 31 then Inr n else Inl BadCast)"

lemma severity_option_text: "args ''Verbose'' = Some (severity_text s) \<Longrightarrow> severity_option args = s"
  by (cases s) (simp_all add: severity_option_def severity_text_def same_ignoring_case_def lower_def)

end
