(* ===== verification/RedisClient.thy ===== *)
theory RedisClient
  imports Text
begin

text \<open>
  The client of the key-value store (\<open>src/src/libs/redis/redisclient.h\<close>) as far as the program uses it:
  the encoding of a command, the reading of lines and blocks from the socket, the replies and the
  operations. The network and the server behind the socket are parameters: what a write makes the
  server send back, how many bytes a \<open>recv\<close> finds, and whether the peer closes the connection when
  nothing is left to read. The client is connected to one server, so the choice of a socket by the hash
  of the key does not arise.
\<close>

section \<open>Operations that may throw\<close>

datatype redis_error = Connection_error | Protocol_error | Key_error | Timeout_error | Value_error
  | Runtime_error | Bad_lexical_cast | Length_error | Range_error | Bad_get

text \<open>An operation ends with a value, with an exception, or is stuck for good.\<close>

datatype stop = Throws redis_error | Stuck fault

type_synonym ('c, 'a) io = "'c \<Rightarrow> (stop + 'a) \<times> 'c"

definition io_return :: "'a \<Rightarrow> ('c, 'a) io" where
  "io_return x c = (Inr x, c)"

definition io_stop :: "stop \<Rightarrow> ('c, 'a) io" where
  "io_stop e c = (Inl e, c)"

definition io_bind :: "('c, 'a) io \<Rightarrow> ('a \<Rightarrow> ('c, 'b) io) \<Rightarrow> ('c, 'b) io" where
  "io_bind m f c = (case m c of (Inl e, c') \<Rightarrow> (Inl e, c') | (Inr x, c') \<Rightarrow> f x c')"

definition io_get :: "redis_error \<Rightarrow> 'a option \<Rightarrow> ('c, 'a) io" where
  "io_get e x = (case x of None \<Rightarrow> io_stop (Throws e) | Some y \<Rightarrow> io_return y)"

named_theorems io_simps

lemma io_bind_simps [io_simps]:
  "m c = (Inr x, c') \<Longrightarrow> io_bind m f c = f x c'" "m c = (Inl e, c') \<Longrightarrow> io_bind m f c = (Inl e, c')"
  by (simp_all add: io_bind_def)

lemma io_return_simps [simp]: "io_return x c = (Inr x, c)" "io_bind (io_return x) f = f x"
  by (auto simp: io_return_def io_bind_def fun_eq_iff)

lemma io_stop_simps [simp]: "io_stop e c = (Inl e, c)" "io_bind (io_stop e) f c = (Inl e, c)"
  by (simp_all add: io_stop_def io_bind_def)

lemma io_get_simps [simp]: "io_get e (Some x) = io_return x" "io_get e None = io_stop (Throws e)"
  by (simp_all add: io_get_def)

section \<open>The socket\<close>

record 's network =
  nt_server :: "'s \<Rightarrow> string \<Rightarrow> (string \<times> 's) option"
  nt_peek :: "string \<Rightarrow> nat"
  nt_closed :: bool

record 's connection =
  cn_server :: 's
  cn_input :: string

definition CR :: char where "CR = CHR 0x0D"
definition LF :: char where "LF = CHR 0x0A"

definition at_end :: "'s network \<Rightarrow> stop" where
  "at_end net = (if nt_closed net then Throws Connection_error else Stuck Blocked)"

definition send_msg :: "'s network \<Rightarrow> string \<Rightarrow> ('s connection, unit) io" where
  "send_msg net msg c = (case nt_server net (cn_server c) msg of
     None \<Rightarrow> (Inl (Throws Connection_error), c)
   | Some (reply, s) \<Rightarrow> (Inr (), c\<lparr>cn_server := s, cn_input := cn_input c @ reply\<rparr>))"

definition rtrim :: "string \<Rightarrow> string \<Rightarrow> string" where
  "rtrim ws s = rev (dropWhile (\<lambda>c. c \<in> set ws) (rev s))"

text \<open>A \<open>recv\<close> into a buffer of 64 bytes returns at least one byte of what there is.\<close>

definition peeked :: "'s network \<Rightarrow> string \<Rightarrow> nat" where
  "peeked net inp = max 1 (min 64 (min (nt_peek net inp) (length inp)))"

text \<open>
  The loop of \<open>read_line\<close>. Its bound is the member \<open>max_size\<close> on \<open>total_bytes_read\<close>, which the loop
  never increments, so the loop goes on to the end of the line whatever its length.
\<close>

function line_loop :: "'s network \<Rightarrow> string \<Rightarrow> string \<Rightarrow> (stop + string) \<times> string" where
  "line_loop net oss inp =
     (if inp = [] then (Inl (at_end net), [])
      else
        let buffer = take (peeked net inp) inp
        in if LF \<in> set buffer then
             let line = takeWhile (\<lambda>c. c \<noteq> LF) buffer @ [LF]
             in (Inr (rtrim [CR, LF] (oss @ line)), drop (length line) inp)
           else line_loop net (oss @ buffer) (drop (length buffer) inp))"
  by pat_completeness auto

termination
  by (relation "measure (\<lambda>(net, oss, inp). length inp)") (auto simp: peeked_def)

declare line_loop.simps [simp del]

definition read_line :: "'s network \<Rightarrow> ('s connection, string) io" where
  "read_line net c = (let (r, rest) = line_loop net [] (cn_input c) in (r, c\<lparr>cn_input := rest\<rparr>))"

text \<open>The blocking read of a known number of bytes; a negative number is no size for its buffer.\<close>

definition read_n :: "'s network \<Rightarrow> int \<Rightarrow> ('s connection, string) io" where
  "read_n net n c =
     (if n < 0 then (Inl (Throws Length_error), c)
      else if nat n \<le> length (cn_input c)
      then (Inr (take (nat n) (cn_input c)), c\<lparr>cn_input := drop (nat n) (cn_input c)\<rparr>)
      else (Inl (at_end net), c\<lparr>cn_input := []\<rparr>))"

section \<open>Replies\<close>

definition missing_value :: string where
  "missing_value = ''**nonexistent-key**''"

definition recv_single_line_reply :: "'s network \<Rightarrow> ('s connection, string) io" where
  "recv_single_line_reply net = io_bind (read_line net) (\<lambda>line.
     if line = [] then io_stop (Throws Protocol_error)
     else if take 5 line = ''-ERR '' then io_stop (Throws Protocol_error)
     else if hd line \<noteq> CHR ''+'' then io_stop (Throws Protocol_error)
     else io_return (tl line))"

definition recv_ok_reply :: "'s network \<Rightarrow> ('s connection, unit) io" where
  "recv_ok_reply net = io_bind (recv_single_line_reply net) (\<lambda>status.
     if status \<noteq> ''OK'' then io_stop (Throws Protocol_error) else io_return ())"

definition recv_bulk_length :: "boost \<Rightarrow> 's network \<Rightarrow> char \<Rightarrow> ('s connection, int) io" where
  "recv_bulk_length bt net prefix = io_bind (read_line net) (\<lambda>line.
     if line = [] \<or> hd line \<noteq> prefix then io_stop (Throws Protocol_error)
     else io_get Bad_lexical_cast (bt_to_long bt (tl line)))"

definition recv_bulk_reply :: "boost \<Rightarrow> 's network \<Rightarrow> ('s connection, string) io" where
  "recv_bulk_reply bt net = io_bind (recv_bulk_length bt net (CHR ''$'')) (\<lambda>n.
     if n = - 1 then io_return missing_value
     else io_bind (read_n net (n + 2)) (\<lambda>data.
       if data = [] then io_stop (Throws Protocol_error)
       else if int (length data) \<noteq> n + 2 then io_stop (Throws Protocol_error)
       else io_return (take (length data - 2) data)))"

fun recv_bulks :: "boost \<Rightarrow> 's network \<Rightarrow> nat \<Rightarrow> string list \<Rightarrow> ('s connection, string list) io" where
  "recv_bulks bt net 0 out = io_return out"
| "recv_bulks bt net (Suc n) out = io_bind (recv_bulk_reply bt net) (\<lambda>data. recv_bulks bt net n (out @ [data]))"

definition recv_multi_bulk_reply :: "boost \<Rightarrow> 's network \<Rightarrow> string list \<Rightarrow>
    ('s connection, int \<times> string list) io" where
  "recv_multi_bulk_reply bt net out = io_bind (recv_bulk_length bt net (CHR ''*'')) (\<lambda>n.
     if n = - 1 then io_stop (Throws Key_error)
     else if int (length out) + n < 0 then io_stop (Throws Length_error)
     else io_bind (recv_bulks bt net (nat n) out) (\<lambda>out. io_return (n, out)))"

definition recv_int_reply :: "boost \<Rightarrow> 's network \<Rightarrow> ('s connection, int) io" where
  "recv_int_reply bt net = io_bind (read_line net) (\<lambda>line.
     if line = [] then io_stop (Throws Protocol_error)
     else if hd line \<noteq> CHR '':'' then io_stop (Throws Protocol_error)
     else io_get Bad_lexical_cast (bt_to_long bt (tl line)))"

section \<open>Commands\<close>

definition bulk :: "string \<Rightarrow> string" where
  "bulk param = ''$'' @ show_nat (length param) @ [CR, LF] @ param @ [CR, LF]"

definition makecmd :: "string list \<Rightarrow> string" where
  "makecmd params = ''*'' @ show_nat (length params) @ [CR, LF] @ concat (map bulk params)"

definition client_set :: "'s network \<Rightarrow> string \<Rightarrow> string \<Rightarrow> ('s connection, unit) io" where
  "client_set net k v = io_bind (send_msg net (makecmd [''SET'', k, v])) (\<lambda>_. recv_ok_reply net)"

definition client_get :: "boost \<Rightarrow> 's network \<Rightarrow> string \<Rightarrow> ('s connection, string) io" where
  "client_get bt net k = io_bind (send_msg net (makecmd [''GET'', k])) (\<lambda>_. recv_bulk_reply bt net)"

definition client_del :: "boost \<Rightarrow> 's network \<Rightarrow> string \<Rightarrow> ('s connection, bool) io" where
  "client_del bt net k = io_bind (send_msg net (makecmd [''DEL'', k])) (\<lambda>_.
     io_bind (recv_int_reply bt net) (\<lambda>n. io_return (n \<noteq> 0)))"

definition client_keys :: "boost \<Rightarrow> 's network \<Rightarrow> string \<Rightarrow> string list \<Rightarrow>
    ('s connection, int \<times> string list) io" where
  "client_keys bt net pattern out = io_bind (send_msg net (makecmd [''KEYS'', pattern])) (\<lambda>_.
     recv_multi_bulk_reply bt net out)"

definition client_rpush :: "boost \<Rightarrow> 's network \<Rightarrow> string \<Rightarrow> string \<Rightarrow> ('s connection, int) io" where
  "client_rpush bt net k v = io_bind (send_msg net (makecmd [''RPUSH'', k, v])) (\<lambda>_. recv_int_reply bt net)"

definition client_lpush :: "boost \<Rightarrow> 's network \<Rightarrow> string \<Rightarrow> string \<Rightarrow> ('s connection, int) io" where
  "client_lpush bt net k v = io_bind (send_msg net (makecmd [''LPUSH'', k, v])) (\<lambda>_. recv_int_reply bt net)"

definition client_lrange :: "boost \<Rightarrow> 's network \<Rightarrow> string \<Rightarrow> int \<Rightarrow> int \<Rightarrow> string list \<Rightarrow>
    ('s connection, int \<times> string list) io" where
  "client_lrange bt net k start stop out =
     io_bind (send_msg net (makecmd [''LRANGE'', k, bt_of_long bt start, bt_of_long bt stop])) (\<lambda>_.
     recv_multi_bulk_reply bt net out)"

definition client_ltrim :: "boost \<Rightarrow> 's network \<Rightarrow> string \<Rightarrow> int \<Rightarrow> int \<Rightarrow> ('s connection, unit) io" where
  "client_ltrim bt net k start stop =
     io_bind (send_msg net (makecmd [''LTRIM'', k, bt_of_long bt start, bt_of_long bt stop])) (\<lambda>_.
     recv_ok_reply net)"

end
