(* ===== verification/RedisWriter.thy ===== *)
theory RedisWriter
  imports RedisClient PositionTable
begin

text \<open>
  The writer of the key-value store (\<open>src/src/redis/RedisWriter.cpp\<close> and \<open>.h\<close>): positions, orders, the
  running case and the position tables as text, under a mutex that does not nest. Every operation but
  \<open>readStem1KeyFromRedis\<close> catches all exceptions of the client.
\<close>

section \<open>State\<close>

record Position =
  p_Type :: string
  p_Reserved :: string
  p_Account :: string
  p_Underlier :: string
  p_Root :: string
  p_Expiration :: string
  p_Strike :: string
  p_Quantity :: string
  p_PutorCall :: string
  p_Price :: string
  p_rif :: string
  p_pif :: string
  p_liveSharesBuy :: string
  p_liveSharesSell :: string
  p_TotalExecutedShares :: string

record RedisOrderInfo =
  ro_Symbol :: string
  ro_Size :: string
  ro_Price :: string
  ro_Type :: string
  ro_ExecutionTime :: string
  ro_AckTime :: string
  ro_ChangeTime :: string
  ro_CancelTime :: string

record 's RedisWriter =
  rw_isRedisEnabled :: bool
  rw_locked :: bool
  rw_client :: "'s connection"

text \<open>\<open>en_debug\<close> says whether a sink of the log takes debug records: the arguments of one that no sink takes
  are not evaluated.\<close>

record 's env =
  en_boost :: boost
  en_net :: "'s network"
  en_debug :: bool

type_synonym ('s, 'a) rw = "('s RedisWriter, 'a) io"

definition on_client :: "('s connection, 'a) io \<Rightarrow> ('s, 'a) rw" where
  "on_client m w = (let (r, c) = m (rw_client w) in (r, w\<lparr>rw_client := c\<rparr>))"

text \<open>\<open>std::lock_guard\<close>: a second lock by the thread that holds the mutex never returns.\<close>

definition with_lock :: "('s, 'a) rw \<Rightarrow> ('s, 'a) rw" where
  "with_lock m w =
     (if rw_locked w then (Inl (Stuck Blocked), w)
      else case m (w\<lparr>rw_locked := True\<rparr>) of
          (Inl (Stuck f), w) \<Rightarrow> (Inl (Stuck f), w)
        | (r, w) \<Rightarrow> (r, w\<lparr>rw_locked := False\<rparr>))"

definition catch_all :: "'a \<Rightarrow> ('s, 'a) rw \<Rightarrow> ('s, 'a) rw" where
  "catch_all v m w = (case m w of (Inl (Throws e), w) \<Rightarrow> (Inr v, w) | (r, w) \<Rightarrow> (r, w))"

definition if_enabled :: "'a \<Rightarrow> ('s, 'a) rw \<Rightarrow> ('s, 'a) rw" where
  "if_enabled v m w = (if rw_isRedisEnabled w then m w else (Inr v, w))"

definition io_res :: "'a res \<Rightarrow> ('c, 'a) io" where
  "io_res r = (case r of Inl f \<Rightarrow> io_stop (Stuck f) | Inr x \<Rightarrow> io_return x)"

section \<open>Positions\<close>

text \<open>The decimal rendering of a number.\<close>

type_synonym numeral_text = string

definition position_value :: "string \<Rightarrow> string \<Rightarrow> numeral_text \<Rightarrow> numeral_text \<Rightarrow> numeral_text \<Rightarrow> numeral_text \<Rightarrow> numeral_text \<Rightarrow> numeral_text \<Rightarrow> numeral_text \<Rightarrow> string" where
  "position_value user symbol quantity averagePrice rif pif liveBuy liveSell totalExecuted =
     ''EQUITY,,'' @ user @ '','' @ symbol @ '','' @ symbol @ '',,,'' @ quantity @ '',,'' @ averagePrice @ '','' @
     rif @ '','' @ pif @ '','' @ liveBuy @ '','' @ liveSell @ '','' @ totalExecuted"

definition writeToRedis :: "'s env \<Rightarrow> string \<Rightarrow> string \<Rightarrow> numeral_text \<Rightarrow> numeral_text \<Rightarrow> numeral_text \<Rightarrow> numeral_text \<Rightarrow> numeral_text \<Rightarrow> numeral_text \<Rightarrow> numeral_text \<Rightarrow>
    ('s, bool) rw" where
  "writeToRedis en user symbol quantity averagePrice rif pif liveBuy liveSell totalExecuted =
     catch_all False (if_enabled False (with_lock (io_bind
       (on_client (client_set (en_net en) (user @ '':'' @ symbol)
          (position_value user symbol quantity averagePrice rif pif liveBuy liveSell totalExecuted)))
       (\<lambda>_. io_return True))))"

definition readKeyFromRedis :: "'s env \<Rightarrow> string \<Rightarrow> ('s, string) rw" where
  "readKeyFromRedis en k =
     catch_all missing_value (if_enabled missing_value (with_lock
       (on_client (client_get (en_boost en) (en_net en) k))))"

text \<open>A key goes through \<open>c_str\<close>, which ends at the first zero byte.\<close>

definition c_str :: "string \<Rightarrow> string" where
  "c_str s = takeWhile (\<lambda>c. c \<noteq> CHR 0x00) s"

definition log_key :: "'s env \<Rightarrow> string \<Rightarrow> ('s, unit) rw" where
  "log_key en k = (if en_debug en then io_bind (readKeyFromRedis en k) (\<lambda>_. io_return ()) else io_return ())"

fun read_keys :: "'s env \<Rightarrow> string list \<Rightarrow> ('s, string list) rw" where
  "read_keys en [] = io_return []"
| "read_keys en (k # ks) = io_bind (readKeyFromRedis en (c_str k)) (\<lambda>v.
     io_bind (read_keys en ks) (\<lambda>vs. io_return (v # vs)))"

definition readStem1KeyFromRedis :: "'s env \<Rightarrow> ('s, string list) rw" where
  "readStem1KeyFromRedis en = if_enabled [] (with_lock (io_bind
     (on_client (client_keys (en_boost en) (en_net en) ''stem1*'' []))
     (\<lambda>(_, ks). read_keys en ks)))"

text \<open>
  The number of fields decides what is read; with a number that is none of 10, 12 and at least 15 the
  code reads behind the end of the vector.
\<close>

definition position_of :: "string list \<Rightarrow> Position res" where
  "position_of strs =
     (let p = \<lparr>p_Type = strs ! 0, p_Reserved = strs ! 1, p_Account = strs ! 2, p_Underlier = strs ! 3,
            p_Root = strs ! 4, p_Expiration = strs ! 5, p_Strike = strs ! 6, p_Quantity = strs ! 7,
            p_PutorCall = strs ! 8, p_Price = strs ! 9, p_rif = [], p_pif = [],
            p_liveSharesBuy = ''0'', p_liveSharesSell = ''0'', p_TotalExecutedShares = ''0''\<rparr>
      in if length strs = 10 then Inr p
         else if length strs = 12 then Inr (p\<lparr>p_rif := strs ! 10, p_pif := strs ! 11\<rparr>)
         else if length strs < 15 then Inl OutOfRange
         else Inr (p\<lparr>p_rif := strs ! 10, p_pif := strs ! 11, p_liveSharesBuy := strs ! 12,
                     p_liveSharesSell := strs ! 13, p_TotalExecutedShares := strs ! 14\<rparr>))"

definition parseStem1Value :: "boost \<Rightarrow> string \<Rightarrow> Position res" where
  "parseStem1Value bt value = position_of (bt_split bt (CHR '','') value)"

text \<open>The result of the write is not looked at; the key is read once more for the log.\<close>

definition writeRIFToRedis :: "'s env \<Rightarrow> string \<Rightarrow> string \<Rightarrow> ('s, bool) rw" where
  "writeRIFToRedis en k rif = catch_all False (if_enabled False (io_bind (readKeyFromRedis en k) (\<lambda>result.
     if result = missing_value then io_return False
     else io_bind (io_res (parseStem1Value (en_boost en) result)) (\<lambda>p.
       io_bind (writeToRedis en (p_Account p) (p_Underlier p) (p_Quantity p) (p_Price p) rif (p_pif p)
         (p_liveSharesBuy p) (p_liveSharesSell p) (p_TotalExecutedShares p)) (\<lambda>_.
       io_bind (log_key en k) (\<lambda>_. io_return True))))))"

definition writePIFToRedis :: "'s env \<Rightarrow> string \<Rightarrow> string \<Rightarrow> ('s, bool) rw" where
  "writePIFToRedis en k pif = catch_all False (if_enabled False (io_bind (readKeyFromRedis en k) (\<lambda>result.
     if result = missing_value then io_return False
     else io_bind (io_res (parseStem1Value (en_boost en) result)) (\<lambda>p.
       io_bind (writeToRedis en (p_Account p) (p_Underlier p) (p_Quantity p) (p_Price p) (p_rif p) pif
         (p_liveSharesBuy p) (p_liveSharesSell p) (p_TotalExecutedShares p)) (\<lambda>_.
       io_bind (log_key en k) (\<lambda>_. io_return True))))))"

definition writeLiveSharesInfo :: "'s env \<Rightarrow> string \<Rightarrow> string \<Rightarrow> string \<Rightarrow> string \<Rightarrow> ('s, bool) rw" where
  "writeLiveSharesInfo en k buyLive sellLive total_shares =
     catch_all False (if_enabled False (io_bind (readKeyFromRedis en k) (\<lambda>result.
     if result = missing_value then
       (let strs = bt_split (en_boost en) (CHR '':'') k in
        if length strs < 2 then io_stop (Stuck OutOfRange)
        else writeToRedis en (strs ! 0) (strs ! 1) ''0'' ''0'' ''0'' ''0'' buyLive sellLive total_shares)
     else io_bind (io_res (parseStem1Value (en_boost en) result)) (\<lambda>p.
       io_bind (writeToRedis en (p_Account p) (p_Underlier p) (p_Quantity p) (p_Price p) (p_rif p) (p_pif p)
         buyLive sellLive total_shares) (\<lambda>_.
       io_bind (log_key en k) (\<lambda>_. io_return True))))))"

section \<open>Orders\<close>

definition order_of :: "string list \<Rightarrow> RedisOrderInfo res" where
  "order_of strs =
     (if length strs < 8 then Inl OutOfRange
      else Inr \<lparr>ro_Symbol = strs ! 0, ro_Size = strs ! 1, ro_Price = strs ! 2, ro_Type = strs ! 3,
        ro_ExecutionTime = strs ! 4, ro_AckTime = strs ! 5, ro_ChangeTime = strs ! 6, ro_CancelTime = strs ! 7\<rparr>)"

definition parseRedisOrderInfo :: "boost \<Rightarrow> string \<Rightarrow> RedisOrderInfo res" where
  "parseRedisOrderInfo bt value = order_of (bt_split bt (CHR '','') value)"

definition order_value :: "RedisOrderInfo \<Rightarrow> string" where
  "order_value r = ro_Symbol r @ '','' @ ro_Size r @ '','' @ ro_Price r @ '','' @ ro_Type r @ '','' @
     ro_ExecutionTime r @ '','' @ ro_AckTime r @ '','' @ ro_ChangeTime r @ '','' @ ro_CancelTime r"

definition writeOrderInfoToRedis :: "'s env \<Rightarrow> string \<Rightarrow> string \<Rightarrow> RedisOrderInfo \<Rightarrow> ('s, bool) rw" where
  "writeOrderInfoToRedis en user requestid r =
     catch_all False (if_enabled False (with_lock (io_bind
       (on_client (client_set (en_net en) (user @ '','' @ requestid) (order_value r)))
       (\<lambda>_. io_return True))))"

text \<open>The common part of the three updates; only the first does not read the key again for the log.\<close>

definition update_order :: "'s env \<Rightarrow> string \<Rightarrow> string \<Rightarrow> bool \<Rightarrow> (RedisOrderInfo \<Rightarrow> RedisOrderInfo) \<Rightarrow> ('s, bool) rw" where
  "update_order en user requestId read_back f =
     catch_all False (if_enabled False (io_bind (readKeyFromRedis en (user @ '','' @ requestId)) (\<lambda>result.
     if result = missing_value then io_return False
     else io_bind (io_res (parseRedisOrderInfo (en_boost en) result)) (\<lambda>r.
       io_bind (writeOrderInfoToRedis en user requestId (f r)) (\<lambda>_.
       if read_back then io_bind (log_key en (user @ '','' @ requestId)) (\<lambda>_. io_return True)
       else io_return True)))))"

definition updateOrderCancleTime :: "'s env \<Rightarrow> string \<Rightarrow> string \<Rightarrow> string \<Rightarrow> ('s, bool) rw" where
  "updateOrderCancleTime en user requestId t = update_order en user requestId False (\<lambda>r. r\<lparr>ro_CancelTime := t\<rparr>)"

definition updateOrderExecTime :: "'s env \<Rightarrow> string \<Rightarrow> string \<Rightarrow> string \<Rightarrow> ('s, bool) rw" where
  "updateOrderExecTime en user requestId t = update_order en user requestId True (\<lambda>r. r\<lparr>ro_ExecutionTime := t\<rparr>)"

definition updateOrderChangeTime :: "'s env \<Rightarrow> string \<Rightarrow> string \<Rightarrow> string \<Rightarrow> ('s, bool) rw" where
  "updateOrderChangeTime en user requestId t = update_order en user requestId True (\<lambda>r. r\<lparr>ro_ChangeTime := t\<rparr>)"

section \<open>The running case and the position tables\<close>

definition writeTradeCaseToRedis :: "'s env \<Rightarrow> string \<Rightarrow> string \<Rightarrow> string \<Rightarrow> string \<Rightarrow> string \<Rightarrow> numeral_text \<Rightarrow> numeral_text \<Rightarrow> numeral_text \<Rightarrow>
    numeral_text \<Rightarrow> numeral_text \<Rightarrow> ('s, bool) rw" where
  "writeTradeCaseToRedis en user symbol time state tradeCaseNumber bid_size bid_price ask_size ask_price price_estimate =
     catch_all False (if_enabled False (with_lock (io_bind
       (on_client (client_rpush (en_boost en) (en_net en) (user @ ''#'' @ symbol)
         (time @ '','' @ state @ '','' @ tradeCaseNumber @ '','' @ bid_size @ '','' @ bid_price @ '','' @ ask_size @ '','' @
          ask_price @ '','' @ price_estimate)))
       (\<lambda>_. io_return True))))"

definition show_u32 :: "u32 \<Rightarrow> string" where
  "show_u32 x = show_int (uint x)"

text \<open>The columns of a single row and of a row of the table come in different orders.\<close>

definition record_value :: "PositionRecord \<Rightarrow> string" where
  "record_value r = show_double (r_average_at_close r) @ '','' @ show_u32 (r_close_order_id r) @ '','' @
     show_double (r_close_price r) @ '','' @ show_u32 (r_close_size r) @ '','' @ show_double (r_average_at_open r) @ '','' @
     show_u32 (r_open_order_id r) @ '','' @ show_double (r_open_price r) @ '','' @ show_u32 (r_open_size r) @ '','' @
     show_double (r_pnl r) @ '','' @ show_int (r_sign r) @ '','' @ show_bool (r_is_complete r)"

definition row_value :: "PositionRecord \<Rightarrow> string" where
  "row_value r = show_double (r_average_at_open r) @ '','' @ show_u32 (r_open_order_id r) @ '','' @
     show_double (r_open_price r) @ '','' @ show_u32 (r_open_size r) @ '','' @ show_double (r_average_at_close r) @ '','' @
     show_u32 (r_close_order_id r) @ '','' @ show_double (r_close_price r) @ '','' @ show_u32 (r_close_size r) @ '','' @
     show_double (r_pnl r) @ '','' @ show_int (r_sign r) @ '','' @ show_bool (r_is_complete r)"

definition common_value :: "u32 \<Rightarrow> double \<Rightarrow> double \<Rightarrow> string" where
  "common_value open_size pnl average = show_u32 open_size @ '','' @ show_double pnl @ '','' @ show_double average"

definition writePositionRecordToRedis :: "'s env \<Rightarrow> string \<Rightarrow> string \<Rightarrow> PositionRecord \<Rightarrow> ('s, bool) rw" where
  "writePositionRecordToRedis en user symbol r =
     catch_all False (if_enabled False (with_lock (io_bind
       (on_client (client_rpush (en_boost en) (en_net en) (user @ '';'' @ symbol) (record_value r)))
       (\<lambda>_. io_return True))))"

definition writePositionRecordCommonDataToRedis :: "'s env \<Rightarrow> string \<Rightarrow> string \<Rightarrow> u32 \<Rightarrow> double \<Rightarrow> double \<Rightarrow> ('s, bool) rw" where
  "writePositionRecordCommonDataToRedis en user symbol open_size pnl average =
     (let k = user @ '';'' @ symbol; value = common_value open_size pnl average; bt = en_boost en; net = en_net en in
      catch_all False (if_enabled False (with_lock (io_bind
        (on_client (client_lrange bt net k 0 (- 1) [])) (\<lambda>(tableSize, _).
        if tableSize = 0 then io_bind (on_client (client_rpush bt net k value)) (\<lambda>_. io_return True)
        else io_bind (on_client (client_ltrim bt net k 1 (- 1))) (\<lambda>_.
          io_bind (on_client (client_lpush bt net k value)) (\<lambda>_. io_return True)))))))"

fun push_rows :: "'s env \<Rightarrow> string \<Rightarrow> PositionRecord list \<Rightarrow> ('s, unit) rw" where
  "push_rows en k [] = io_return ()"
| "push_rows en k (r # rs) =
     io_bind (on_client (client_rpush (en_boost en) (en_net en) k (row_value r))) (\<lambda>_. push_rows en k rs)"

definition writePositionRecordTableToRedis :: "'s env \<Rightarrow> string \<Rightarrow> string \<Rightarrow> PositionRecordTable \<Rightarrow> ('s, bool) rw" where
  "writePositionRecordTableToRedis en user symbol t =
     (let k = user @ '';'' @ symbol in
      catch_all False (if_enabled False (with_lock (
        io_bind (on_client (client_del (en_boost en) (en_net en) k)) (\<lambda>_.
        io_bind (on_client (client_rpush (en_boost en) (en_net en) k
          (common_value (t_open_size t) (t_pnl t) (t_average t)))) (\<lambda>_.
        io_bind (push_rows en k (t_rows t)) (\<lambda>_. io_return True)))))))"

end
