(* ===== verification/RedisLaws.thy ===== *)
theory RedisLaws
  imports RedisWriter
begin

text \<open>
  What the key-value store's writer guarantees when the server behaves as documented: commands and
  replies survive their encoding however the bytes arrive, what is written is read back field by field,
  the updates change one field, the tables arrive complete, and the mutex is free again after every
  operation. \<open>readStem1KeyFromRedis\<close> is the exception: it locks the mutex twice.
\<close>

section \<open>Lines\<close>

lemma rtrim_end:
  assumes "set e \<subseteq> set ws" "\<And>c. c \<in> set l \<Longrightarrow> c \<notin> set ws"
  shows "rtrim ws (l @ e) = l"
proof -
  have "dropWhile (\<lambda>c. c \<in> set ws) (rev e @ rev l) = dropWhile (\<lambda>c. c \<in> set ws) (rev l)"
    using assms(1) by (simp add: dropWhile_append subset_iff)
  also have "\<dots> = rev l" using assms(2) [of "last l"] by (cases "l = []") (simp_all add: dropWhile_eq_self_iff hd_rev)
  finally show ?thesis by (simp add: rtrim_def)
qed

lemma rtrim_LF: "rtrim [CR, LF] (l @ [LF]) = rtrim [CR, LF] l"
  by (simp add: rtrim_def)

lemma takeWhile_line: "x \<notin> set l \<Longrightarrow> takeWhile (\<lambda>c. c \<noteq> x) (l @ x # rest) = l"
  by (induction l) auto

lemma dropWhile_line: "x \<notin> set l \<Longrightarrow> dropWhile (\<lambda>c. c \<noteq> x) (l @ x # rest) = x # rest"
  by (induction l) auto

lemma line_loop_line:
  assumes "LF \<notin> set l"
  shows "line_loop net oss (l @ LF # rest) = (Inr (rtrim [CR, LF] (oss @ l)), rest)"
  using assms
proof (induction "length l" arbitrary: oss l rule: less_induct)
  case less
  let ?n = "peeked net (l @ LF # rest)"
  have n: "0 < ?n" by (simp add: peeked_def)
  show ?case
  proof (cases "?n \<le> length l")
    case True
    then have "take ?n (l @ LF # rest) = take ?n l" "length (take ?n l) = ?n" by simp_all
    moreover have "LF \<notin> set (take ?n l)" using less.prems by (auto dest: in_set_takeD)
    moreover have "line_loop net (oss @ take ?n l) (drop ?n l @ LF # rest) =
        (Inr (rtrim [CR, LF] ((oss @ take ?n l) @ drop ?n l)), rest)"
    proof -
      have "LF \<notin> set (drop ?n l)" using less.prems by (auto dest: in_set_dropD)
      then show ?thesis using less.hyps [of "drop ?n l" "oss @ take ?n l"] n True by simp
    qed
    ultimately show ?thesis using True by (subst line_loop.simps) (simp add: Let_def)
  next
    case False
    then have "take ?n (l @ LF # rest) = l @ LF # take (?n - length l - 1) rest"
      by (cases "?n - length l") simp_all
    then show ?thesis using less.prems
      by (subst line_loop.simps) (simp add: Let_def takeWhile_line rtrim_LF [of "oss @ l", simplified] del: take_append)
  qed
qed

lemma line_loop_no_line:
  "LF \<notin> set inp \<Longrightarrow> line_loop net oss inp = (Inl (at_end net), [])"
proof (induction net oss inp rule: line_loop.induct)
  case (1 net oss inp)
  have "LF \<notin> set (take (peeked net inp) inp)" using "1.prems" by (auto dest: in_set_takeD)
  then show ?case using 1 by (subst line_loop.simps) (auto simp: Let_def dest: in_set_dropD)
qed

lemma read_line_exact:
  assumes "CR \<notin> set l" "LF \<notin> set l" "cn_input c = l @ CR # LF # rest"
  shows "read_line net c = (Inr l, c\<lparr>cn_input := rest\<rparr>)"
proof -
  have "line_loop net [] ((l @ [CR]) @ LF # rest) = (Inr (rtrim [CR, LF] ([] @ l @ [CR])), rest)"
    using assms(2) by (intro line_loop_line) (simp add: CR_def LF_def)
  moreover have "rtrim [CR, LF] (l @ [CR]) = l" using assms(1,2) by (intro rtrim_end) auto
  ultimately show ?thesis using assms(3) by (simp add: read_line_def)
qed

text \<open>A line is the bytes before the line feed without the carriage returns and line feeds at their
  end, however the bytes are divided among the calls of \<open>recv\<close>; without a line feed the read does not end
  with a line.\<close>

theorem line_of_any_chunks:
  "read_line net c =
     (if LF \<in> set (cn_input c)
      then (Inr (rtrim [CR, LF] (takeWhile (\<lambda>x. x \<noteq> LF) (cn_input c))),
            c\<lparr>cn_input := tl (dropWhile (\<lambda>x. x \<noteq> LF) (cn_input c))\<rparr>)
      else (Inl (at_end net), c\<lparr>cn_input := []\<rparr>))"
proof (cases "LF \<in> set (cn_input c)")
  case True
  then obtain l rest where l: "cn_input c = l @ LF # rest" "LF \<notin> set l" using split_list_first by fast
  then have "takeWhile (\<lambda>x. x \<noteq> LF) (cn_input c) = l" "dropWhile (\<lambda>x. x \<noteq> LF) (cn_input c) = LF # rest"
    by (simp_all add: takeWhile_line dropWhile_line)
  then show ?thesis using l by (simp add: read_line_def line_loop_line)
qed (simp add: read_line_def line_loop_no_line)

section \<open>Commands\<close>

text \<open>The protocol as a server reads it: a line up to CR LF, a block of announced length, a list of blocks.\<close>

fun take_line :: "string \<Rightarrow> (string \<times> string) option" where
  "take_line (c # d # cs) = (if c = CR \<and> d = LF then Some ([], cs)
     else map_option (\<lambda>(l, r). (c # l, r)) (take_line (d # cs)))"
| "take_line _ = None"

definition decode_size :: "char \<Rightarrow> string \<Rightarrow> (nat \<times> string) option" where
  "decode_size prefix s = (case take_line s of
     Some (c # ds, rest) \<Rightarrow> if c = prefix then map_option (\<lambda>n. (n, rest)) (parse_nat ds) else None
   | _ \<Rightarrow> None)"

definition decode_bulk :: "string \<Rightarrow> (string \<times> string) option" where
  "decode_bulk s = (case decode_size (CHR ''$'') s of
     Some (n, rest) \<Rightarrow> if take 2 (drop n rest) = [CR, LF] then Some (take n rest, drop (n + 2) rest) else None
   | None \<Rightarrow> None)"

fun decode_bulks :: "nat \<Rightarrow> string \<Rightarrow> (string list \<times> string) option" where
  "decode_bulks 0 s = Some ([], s)"
| "decode_bulks (Suc n) s = (case decode_bulk s of
     Some (b, rest) \<Rightarrow> map_option (\<lambda>(bs, rest). (b # bs, rest)) (decode_bulks n rest)
   | None \<Rightarrow> None)"

definition decode_request :: "string \<Rightarrow> (string list \<times> string) option" where
  "decode_request s = (case decode_size (CHR ''*'') s of Some (n, rest) \<Rightarrow> decode_bulks n rest | None \<Rightarrow> None)"

lemma take_line_exact: "CR \<notin> set l \<Longrightarrow> take_line (l @ CR # LF # rest) = Some (l, rest)"
proof (induction l)
  case (Cons c l)
  then show ?case by (cases l) auto
qed (simp add: CR_def LF_def)

lemma CR_LF_chars [simp]:
  "\<not> is_digit CR" "\<not> is_digit LF" "CR \<noteq> CHR ''-''" "LF \<noteq> CHR ''-''" "CR \<noteq> LF"
  "CR \<noteq> CHR ''$''" "LF \<noteq> CHR ''$''" "CR \<noteq> CHR ''*''" "LF \<noteq> CHR ''*''" "CR \<noteq> CHR '':''" "LF \<noteq> CHR '':''"
  "CR \<noteq> CHR ''+''" "LF \<noteq> CHR ''+''"
  by (simp_all add: CR_def LF_def)

lemma no_CR_LF [simp]:
  "CR \<notin> set (show_nat n)" "LF \<notin> set (show_nat n)" "CR \<notin> set (show_int i)" "LF \<notin> set (show_int i)"
  by (simp_all add: show_nat_no show_int_no)

lemma decode_size: "prefix \<noteq> CR \<Longrightarrow> decode_size prefix (prefix # show_nat n @ CR # LF # rest) = Some (n, rest)"
  using take_line_exact [of "prefix # show_nat n" rest] by (simp add: decode_size_def)

lemma decode_bulk: "decode_bulk (bulk b @ rest) = Some (b, rest)"
  by (simp add: decode_bulk_def bulk_def decode_size [OF CR_LF_chars(6) [symmetric]])

lemma decode_bulks: "decode_bulks (length bs) (concat (map bulk bs) @ rest) = Some (bs, rest)"
  by (induction bs) (simp_all add: decode_bulk)

lemma decode_makecmd: "decode_request (makecmd params @ rest) = Some (params, rest)"
  using decode_bulks [of params rest]
  by (simp add: decode_request_def makecmd_def decode_size [OF CR_LF_chars(8) [symmetric]])

text \<open>A command survives its encoding, whatever bytes its arguments contain.\<close>

theorem request_roundtrip: "decode_request (makecmd params @ rest) = Some (params, rest)"
  by (rule decode_makecmd)

section \<open>A documented server\<close>

datatype reply = Status string | Failure string | Integer int | Bulk string | Nil | Bulks "string list"
  | Items "string option list"

fun encode_reply :: "reply \<Rightarrow> string" where
  "encode_reply (Status s) = CHR ''+'' # s @ [CR, LF]"
| "encode_reply (Failure s) = ''-ERR '' @ s @ [CR, LF]"
| "encode_reply (Integer n) = CHR '':'' # show_int n @ [CR, LF]"
| "encode_reply (Bulk s) = bulk s"
| "encode_reply Nil = ''$-1'' @ [CR, LF]"
| "encode_reply (Bulks bs) = makecmd bs"
| "encode_reply (Items vs) = ''*'' @ show_nat (length vs) @ [CR, LF] @
    concat (map (\<lambda>v. case v of None \<Rightarrow> ''$-1'' @ [CR, LF] | Some b \<Rightarrow> bulk b) vs)"

datatype stored = Text string | Texts "string list"

text \<open>
  What the documentation says of \<open>SET\<close>, \<open>GET\<close>, \<open>DEL\<close> and \<open>RPUSH\<close>; the other commands are left open, as
  is what a command does to a key that holds the other kind of value.
\<close>

definition documented :: "string list \<Rightarrow> (string \<rightharpoonup> stored) \<Rightarrow> (reply \<times> (string \<rightharpoonup> stored)) option" where
  "documented params m =
     (if length params = 3 \<and> params ! 0 = ''SET'' then Some (Status ''OK'', m(params ! 1 \<mapsto> Text (params ! 2)))
      else if length params = 3 \<and> params ! 0 = ''RPUSH'' then
        (case m (params ! 1) of
           None \<Rightarrow> Some (Integer 1, m(params ! 1 \<mapsto> Texts [params ! 2]))
         | Some (Texts l) \<Rightarrow> Some (Integer (int (length l) + 1), m(params ! 1 \<mapsto> Texts (l @ [params ! 2])))
         | Some (Text _) \<Rightarrow> None)
      else if length params = 2 \<and> params ! 0 = ''GET'' then
        (case m (params ! 1) of
           None \<Rightarrow> Some (Nil, m) | Some (Text v) \<Rightarrow> Some (Bulk v, m) | Some (Texts _) \<Rightarrow> None)
      else if length params = 2 \<and> params ! 0 = ''DEL'' then
        Some (Integer (if m (params ! 1) = None then 0 else 1), m(params ! 1 := None))
      else None)"

definition documented_server :: "'s network \<Rightarrow> ('s \<Rightarrow> string \<rightharpoonup> stored) \<Rightarrow> bool" where
  "documented_server net content \<longleftrightarrow>
     (\<forall>s params r m. documented params (content s) = Some (r, m) \<longrightarrow>
        (\<exists>s'. nt_server net s (makecmd params) = Some (encode_reply r, s') \<and> content s' = m))"

definition documented_env :: "'s env \<Rightarrow> ('s \<Rightarrow> string \<rightharpoonup> stored) \<Rightarrow> bool" where
  "documented_env en content \<longleftrightarrow> documented_boost (en_boost en) \<and> documented_server (en_net en) content"

lemma documented_simps [simp]:
  "documented [''SET'', k, v] m = Some (Status ''OK'', m(k \<mapsto> Text v))"
  "documented [''GET'', k] m = (case m k of None \<Rightarrow> Some (Nil, m) | Some (Text v) \<Rightarrow> Some (Bulk v, m) | Some (Texts _) \<Rightarrow> None)"
  "documented [''DEL'', k] m = Some (Integer (if m k = None then 0 else 1), m(k := None))"
  "documented [''RPUSH'', k, v] m = (case m k of
     None \<Rightarrow> Some (Integer 1, m(k \<mapsto> Texts [v]))
   | Some (Texts l) \<Rightarrow> Some (Integer (int (length l) + 1), m(k \<mapsto> Texts (l @ [v]))) | Some (Text _) \<Rightarrow> None)"
  by (simp_all add: documented_def split: option.split stored.split)

text \<open>A server for the examples: its state is the content, and it answers what it can decode.\<close>

definition sample_network :: "(string \<rightharpoonup> stored) network" where
  "sample_network = \<lparr>nt_server = (\<lambda>m msg. case decode_request msg of
       Some (params, _) \<Rightarrow> (case documented params m of
           Some (r, m) \<Rightarrow> Some (encode_reply r, m) | None \<Rightarrow> Some (encode_reply (Failure ''unknown''), m))
     | None \<Rightarrow> None), nt_peek = (\<lambda>_. 3), nt_closed = False\<rparr>"

definition sample_env :: "(string \<rightharpoonup> stored) env" where
  "sample_env = \<lparr>en_boost = sample_boost, en_net = sample_network, en_debug = True\<rparr>"

lemma sample_env_documented: "documented_env sample_env (\<lambda>m. m)"
  using decode_makecmd [of _ "[]"] by (simp add: documented_env_def sample_env_def sample_boost_documented documented_server_def
      sample_network_def)

section \<open>The client against a documented server\<close>

definition in_step :: "'s connection \<Rightarrow> bool" where
  "in_step c \<longleftrightarrow> cn_input c = []"

lemma documented_long: "documented_boost bt \<Longrightarrow> is_long n \<Longrightarrow> bt_to_long bt (show_int n) = Some n"
  by (simp add: documented_boost_def)

lemma recv_ok: "cn_input c = encode_reply (Status ''OK'') \<Longrightarrow> recv_ok_reply net c = (Inr (), c\<lparr>cn_input := []\<rparr>)"
  using read_line_exact [of "''+OK''" c "[]" net]
  by (simp add: CR_def LF_def recv_ok_reply_def recv_single_line_reply_def io_bind_def)

lemma recv_int:
  assumes "documented_boost bt" "is_long n" "cn_input c = encode_reply (Integer n)"
  shows "recv_int_reply bt net c = (Inr n, c\<lparr>cn_input := []\<rparr>)"
  using read_line_exact [of "CHR '':'' # show_int n" c "[]" net] assms
  by (simp add: recv_int_reply_def io_bind_def documented_boost_def)

lemma recv_bulk:
  assumes "documented_boost bt" "length v < 2 ^ 63 - 2" "cn_input c = bulk v @ rest"
  shows "recv_bulk_reply bt net c = (Inr v, c\<lparr>cn_input := rest\<rparr>)"
proof -
  have "is_long (int (length v))" using assms(2) by (simp add: is_long_def)
  then have n: "bt_to_long bt (show_nat (length v)) = Some (int (length v))"
    using documented_long [OF assms(1)] by (simp flip: show_int_nat)
  have "nat (int (length v) + 2) = Suc (Suc (length v))" by simp
  then show ?thesis
    using read_line_exact [of "CHR ''$'' # show_nat (length v)" c "v @ CR # LF # rest" net] assms(3) n
    by (simp add: recv_bulk_reply_def recv_bulk_length_def bulk_def io_bind_def read_n_def)
qed

lemma recv_nil:
  assumes "documented_boost bt" "cn_input c = encode_reply Nil"
  shows "recv_bulk_reply bt net c = (Inr missing_value, c\<lparr>cn_input := []\<rparr>)"
proof -
  have "show_int (- 1) = ''-1''" by code_simp
  moreover have "is_long (- 1)" by (simp add: is_long_def)
  ultimately have n: "bt_to_long bt ''-1'' = Some (- 1)" using assms(1) by (metis documented_long)
  show ?thesis using read_line_exact [of "''$-1''" c "[]" net] assms(2) n
    by (simp add: CR_def LF_def recv_bulk_reply_def recv_bulk_length_def io_bind_def)
qed

lemma sent:
  assumes "documented_server net content" "in_step c" "documented params (content (cn_server c)) = Some (r, m)"
  obtains s where "send_msg net (makecmd params) c = (Inr (), c\<lparr>cn_server := s, cn_input := encode_reply r\<rparr>)" "content s = m"
  using assms by (fastforce simp: documented_server_def send_msg_def in_step_def)

lemma client_set_documented:
  assumes "documented_server net content" "in_step c"
  shows "\<exists>c'. client_set net k v c = (Inr (), c') \<and> in_step c' \<and>
    content (cn_server c') = (content (cn_server c))(k \<mapsto> Text v)"
proof -
  obtain s where s: "send_msg net (makecmd [''SET'', k, v]) c =
      (Inr (), c\<lparr>cn_server := s, cn_input := encode_reply (Status ''OK'')\<rparr>)"
    "content s = (content (cn_server c))(k \<mapsto> Text v)"
    using sent [OF assms, where params = "[''SET'', k, v]" and r = "Status ''OK''"] by auto
  then show ?thesis by (simp add: client_set_def io_bind_def recv_ok in_step_def)
qed

lemma client_get_documented:
  assumes "documented_boost bt" "documented_server net content" "in_step c"
    and "case content (cn_server c) k of None \<Rightarrow> v = missing_value | Some t \<Rightarrow> t = Text v \<and> length v < 2 ^ 63 - 2"
  shows "\<exists>c'. client_get bt net k c = (Inr v, c') \<and> in_step c' \<and> content (cn_server c') = content (cn_server c)"
proof (cases "content (cn_server c) k")
  case None
  then obtain s where "send_msg net (makecmd [''GET'', k]) c = (Inr (), c\<lparr>cn_server := s, cn_input := encode_reply Nil\<rparr>)"
    "content s = content (cn_server c)"
    using sent [OF assms(2,3), where params = "[''GET'', k]" and r = Nil] by auto
  then show ?thesis using None assms(4) by (simp add: client_get_def io_bind_def in_step_def recv_nil [OF assms(1)])
next
  case (Some t)
  then obtain s where "send_msg net (makecmd [''GET'', k]) c = (Inr (), c\<lparr>cn_server := s, cn_input := bulk v\<rparr>)"
    "content s = content (cn_server c)"
    using sent [OF assms(2,3), where params = "[''GET'', k]" and r = "Bulk v"] assms(4) by auto
  then show ?thesis using Some assms(4)
    by (simp add: client_get_def io_bind_def in_step_def recv_bulk [OF assms(1), of v _ "[]"])
qed

lemma client_del_documented:
  assumes "documented_boost bt" "documented_server net content" "in_step c"
  shows "\<exists>b c'. client_del bt net k c = (Inr b, c') \<and> in_step c' \<and>
    content (cn_server c') = (content (cn_server c))(k := None)"
proof -
  define n :: int where "n = (if content (cn_server c) k = None then 0 else 1)"
  obtain s where "send_msg net (makecmd [''DEL'', k]) c = (Inr (), c\<lparr>cn_server := s, cn_input := encode_reply (Integer n)\<rparr>)"
    "content s = (content (cn_server c))(k := None)"
    using sent [OF assms(2,3), where params = "[''DEL'', k]" and r = "Integer n"] by (auto simp: n_def)
  moreover have "is_long n" by (simp add: n_def is_long_def)
  ultimately show ?thesis by (simp add: client_del_def io_bind_def in_step_def recv_int [OF assms(1)])
qed

text \<open>The texts of a list; a missing key is the empty list.\<close>

definition texts_of :: "stored option \<Rightarrow> string list option" where
  "texts_of t = (case t of None \<Rightarrow> Some [] | Some (Texts l) \<Rightarrow> Some l | Some (Text _) \<Rightarrow> None)"

lemma client_rpush_documented:
  assumes "documented_boost bt" "documented_server net content" "in_step c"
    and "texts_of (content (cn_server c) k) = Some l" "length l < 2 ^ 63 - 1"
  shows "\<exists>n c'. client_rpush bt net k v c = (Inr n, c') \<and> in_step c' \<and>
    content (cn_server c') = (content (cn_server c))(k \<mapsto> Texts (l @ [v]))"
proof -
  let ?n = "int (length l) + 1"
  obtain s where "send_msg net (makecmd [''RPUSH'', k, v]) c = (Inr (), c\<lparr>cn_server := s, cn_input := encode_reply (Integer ?n)\<rparr>)"
    "content s = (content (cn_server c))(k \<mapsto> Texts (l @ [v]))"
    using sent [OF assms(2,3), where params = "[''RPUSH'', k, v]" and r = "Integer ?n"] assms(4)
    by (auto simp: texts_of_def split: option.splits stored.splits)
  moreover have "is_long ?n" using assms(5) by (simp add: is_long_def)
  ultimately show ?thesis by (simp add: client_rpush_def io_bind_def in_step_def recv_int [OF assms(1)])
qed

section \<open>The writer against a documented server\<close>

definition ready :: "'s RedisWriter \<Rightarrow> bool" where
  "ready w \<longleftrightarrow> rw_isRedisEnabled w \<and> \<not> rw_locked w \<and> in_step (rw_client w)"

definition held :: "('s \<Rightarrow> string \<rightharpoonup> stored) \<Rightarrow> 's RedisWriter \<Rightarrow> string \<rightharpoonup> stored" where
  "held content w = content (cn_server (rw_client w))"

lemma guarded_call:
  assumes "ready w" "m (rw_client w) = (Inr x, c)" "in_step c"
  shows "catch_all v (if_enabled v (with_lock (io_bind (on_client m) (\<lambda>_. io_return y)))) w = (Inr y, w\<lparr>rw_client := c, rw_locked := False\<rparr>)"
    and "catch_all x' (if_enabled x' (with_lock (on_client m))) w = (Inr x, w\<lparr>rw_client := c, rw_locked := False\<rparr>)"
  using assms by (simp_all add: catch_all_def if_enabled_def with_lock_def on_client_def io_bind_def ready_def)

lemma writeToRedis_ready:
  assumes "documented_env en content" "ready w"
  shows "\<exists>w'. writeToRedis en user symbol q avg rif pif lb ls te w = (Inr True, w') \<and> ready w' \<and>
    held content w' = (held content w)(user @ '':'' @ symbol \<mapsto> Text (position_value user symbol q avg rif pif lb ls te))"
proof -
  obtain c where c: "client_set (en_net en) (user @ '':'' @ symbol) (position_value user symbol q avg rif pif lb ls te)
      (rw_client w) = (Inr (), c)" "in_step c"
    "content (cn_server c) = (held content w)(user @ '':'' @ symbol \<mapsto> Text (position_value user symbol q avg rif pif lb ls te))"
    using client_set_documented [of "en_net en" content "rw_client w"] assms
    by (fastforce simp: documented_env_def ready_def held_def)
  have "writeToRedis en user symbol q avg rif pif lb ls te w = (Inr True, w\<lparr>rw_client := c, rw_locked := False\<rparr>)"
    unfolding writeToRedis_def using assms(2) c(1,2) by (rule guarded_call(1))
  then show ?thesis using c assms(2) by (simp add: ready_def held_def)
qed

lemma readKey_ready:
  assumes "documented_env en content" "ready w"
    and "case held content w k of None \<Rightarrow> v = missing_value | Some t \<Rightarrow> t = Text v \<and> length v < 2 ^ 63 - 2"
  shows "\<exists>w'. readKeyFromRedis en k w = (Inr v, w') \<and> ready w' \<and> held content w' = held content w"
proof -
  obtain c where c: "client_get (en_boost en) (en_net en) k (rw_client w) = (Inr v, c)" "in_step c"
    "content (cn_server c) = held content w"
    using client_get_documented [of "en_boost en" "en_net en" content "rw_client w", where k = k and v = v] assms
    by (auto simp: documented_env_def ready_def held_def)
  have "readKeyFromRedis en k w = (Inr v, w\<lparr>rw_client := c, rw_locked := False\<rparr>)"
    unfolding readKeyFromRedis_def using assms(2) c(1,2) by (rule guarded_call(2))
  then show ?thesis using c assms(2) by (simp add: ready_def held_def)
qed

text \<open>A key whose value can be read, whatever it is; reading it for the log changes nothing.\<close>

definition readable :: "stored option \<Rightarrow> bool" where
  "readable t \<longleftrightarrow> (case t of None \<Rightarrow> True | Some (Text v) \<Rightarrow> length v < 2 ^ 63 - 2 | Some (Texts _) \<Rightarrow> False)"

lemma log_key_ready:
  assumes "documented_env en content" "ready w" "readable (held content w k)"
  shows "\<exists>w'. log_key en k w = (Inr (), w') \<and> ready w' \<and> held content w' = held content w"
proof (cases "en_debug en")
  case True
  define v where "v = (case held content w k of Some (Text v) \<Rightarrow> v | _ \<Rightarrow> missing_value)"
  obtain w' where "readKeyFromRedis en k w = (Inr v, w')" "ready w'" "held content w' = held content w"
    using readKey_ready [OF assms(1,2), where k = k and v = v] assms(3) by (auto simp: readable_def v_def split: option.splits stored.splits)
  then show ?thesis using True by (simp add: log_key_def io_bind_def)
qed (simp add: log_key_def assms(2))

section \<open>Positions\<close>

definition position_fields :: "Position \<Rightarrow> string list" where
  "position_fields p = [p_Type p, p_Reserved p, p_Account p, p_Underlier p, p_Root p, p_Expiration p, p_Strike p,
     p_Quantity p, p_PutorCall p, p_Price p, p_rif p, p_pif p, p_liveSharesBuy p, p_liveSharesSell p, p_TotalExecutedShares p]"

abbreviation position_text :: "Position \<Rightarrow> string" where
  "position_text p \<equiv> join (CHR '','') (position_fields p)"

definition plain_position :: "Position \<Rightarrow> bool" where
  "plain_position p \<longleftrightarrow> (\<forall>f \<in> set (position_fields p). CHR '','' \<notin> set f)"

definition written_position :: "string \<Rightarrow> string \<Rightarrow> numeral_text \<Rightarrow> numeral_text \<Rightarrow> numeral_text \<Rightarrow> numeral_text \<Rightarrow> numeral_text \<Rightarrow> numeral_text \<Rightarrow> numeral_text \<Rightarrow> Position" where
  "written_position user symbol q avg rif pif lb ls te = \<lparr>p_Type = ''EQUITY'', p_Reserved = [], p_Account = user,
     p_Underlier = symbol, p_Root = symbol, p_Expiration = [], p_Strike = [], p_Quantity = q, p_PutorCall = [],
     p_Price = avg, p_rif = rif, p_pif = pif, p_liveSharesBuy = lb, p_liveSharesSell = ls, p_TotalExecutedShares = te\<rparr>"

lemma position_value_join:
  "position_value user symbol q avg rif pif lb ls te = join (CHR '','') (position_fields (written_position user symbol q avg rif pif lb ls te))"
  by (simp add: position_value_def position_fields_def written_position_def)

lemma parse_position:
  assumes "documented_boost bt" "plain_position p"
  shows "parseStem1Value bt (join (CHR '','') (position_fields p)) = Inr p"
proof -
  have "split_fields (CHR '','') (join (CHR '','') (position_fields p)) = position_fields p"
    using assms(2) by (intro split_join) (auto simp: plain_position_def position_fields_def)
  then show ?thesis using assms(1)
    by (simp add: parseStem1Value_def documented_boost_def position_of_def position_fields_def Let_def)
qed

lemma comma_not_missing: "CHR '','' \<in> set v \<Longrightarrow> v \<noteq> missing_value"
  by (auto simp: missing_value_def)

text \<open>C21: a position that is written is read back and parsed to the same fields.\<close>

theorem position_roundtrip:
  assumes "documented_env en content" "ready w" "plain_position (written_position user symbol q avg rif pif lb ls te)"
    and "length (position_value user symbol q avg rif pif lb ls te) < 2 ^ 63 - 2"
  shows "\<exists>w1 w2 v. writeToRedis en user symbol q avg rif pif lb ls te w = (Inr True, w1) \<and>
    readKeyFromRedis en (user @ '':'' @ symbol) w1 = (Inr v, w2) \<and> ready w2 \<and>
    parseStem1Value (en_boost en) v = Inr (written_position user symbol q avg rif pif lb ls te)"
proof -
  obtain w1 where w1: "writeToRedis en user symbol q avg rif pif lb ls te w = (Inr True, w1)" "ready w1"
    "held content w1 (user @ '':'' @ symbol) = Some (Text (position_value user symbol q avg rif pif lb ls te))"
    using writeToRedis_ready [OF assms(1,2)] by fastforce
  obtain w2 where "readKeyFromRedis en (user @ '':'' @ symbol) w1 = (Inr (position_value user symbol q avg rif pif lb ls te), w2)"
    "ready w2"
    using readKey_ready [OF assms(1) w1(2), where k = "user @ '':'' @ symbol"] w1(3) assms(4) by auto
  then show ?thesis using w1 parse_position [OF _ assms(3)] assms(1)
    by (simp add: position_value_join documented_env_def)
qed

definition sample_writer :: "(string \<rightharpoonup> stored) RedisWriter" where
  "sample_writer = \<lparr>rw_isRedisEnabled = True, rw_locked = False, rw_client = \<lparr>cn_server = Map.empty, cn_input = []\<rparr>\<rparr>"

lemma sample_writer_ready [simp]: "ready sample_writer" "held (\<lambda>m. m) sample_writer = Map.empty"
  by (simp_all add: sample_writer_def ready_def in_step_def held_def)

lemma position_roundtrip_witness:
  "\<exists>w1 w2 v. writeToRedis sample_env ''acc'' ''IBM'' ''-7'' ''20.5'' ''0'' ''21'' ''0'' ''0'' ''9'' sample_writer = (Inr True, w1) \<and>
    readKeyFromRedis sample_env ''acc:IBM'' w1 = (Inr v, w2) \<and>
    parseStem1Value sample_boost v = Inr (written_position ''acc'' ''IBM'' ''-7'' ''20.5'' ''0'' ''21'' ''0'' ''0'' ''9'')"
  using position_roundtrip [OF sample_env_documented sample_writer_ready(1), of "''acc''" "''IBM''" "''-7''" "''20.5''" "''0''" "''21''" "''0''" "''0''" "''9''"]
  by (auto simp: plain_position_def position_fields_def written_position_def position_value_def sample_env_def)

text \<open>The common part of the three updates of a position: read, parse, write with some fields replaced.\<close>

lemma rewrite_ready:
  assumes "documented_env en content" "ready w" "held content w k = Some (Text (position_text p))"
    and "plain_position p" "length (position_text p) < 2 ^ 63 - 2"
    and v: "v = position_value (p_Account p) (p_Underlier p) (p_Quantity p) (p_Price p) (rif p) (pif p) (lb p) (ls p) (te p)"
      "length v < 2 ^ 63 - 2"
  shows "\<exists>w'. io_bind (readKeyFromRedis en k) (\<lambda>result.
       if result = missing_value then X
       else io_bind (io_res (parseStem1Value (en_boost en) result)) (\<lambda>p.
         io_bind (writeToRedis en (p_Account p) (p_Underlier p) (p_Quantity p) (p_Price p) (rif p) (pif p) (lb p) (ls p) (te p)) (\<lambda>_.
         io_bind (log_key en k) (\<lambda>_. io_return True)))) w = (Inr True, w') \<and> ready w' \<and>
    held content w' = (held content w)(p_Account p @ '':'' @ p_Underlier p \<mapsto> Text v)"
proof -
  obtain w1 where w1: "readKeyFromRedis en k w = (Inr (position_text p), w1)" "ready w1" "held content w1 = held content w"
    using readKey_ready [OF assms(1,2), where k = k] assms(3,5) by auto
  obtain w2 where w2: "writeToRedis en (p_Account p) (p_Underlier p) (p_Quantity p) (p_Price p) (rif p) (pif p) (lb p) (ls p) (te p) w1
      = (Inr True, w2)" "ready w2" "held content w2 = (held content w)(p_Account p @ '':'' @ p_Underlier p \<mapsto> Text v)"
    using writeToRedis_ready [OF assms(1) w1(2)] w1(3) v(1) by metis
  have "readable (held content w2 k)" using assms(3,5) v(2) by (simp add: w2(3) readable_def)
  then obtain w3 where "log_key en k w2 = (Inr (), w3)" "ready w3" "held content w3 = held content w2"
    using log_key_ready [OF assms(1) w2(2)] by blast
  moreover have "position_text p \<noteq> missing_value"
    by (rule comma_not_missing) (simp add: position_fields_def)
  ultimately show ?thesis using w1 w2 assms(1) parse_position [OF _ assms(4)]
    by (simp add: io_bind_def io_res_def documented_env_def)
qed

lemma guarded_ready:
  "ready w \<Longrightarrow> m w = (Inr x, w') \<Longrightarrow> catch_all v (if_enabled v m) w = (Inr x, w')"
  by (simp add: catch_all_def if_enabled_def ready_def)

lemma pif_rewrite:
  assumes "documented_env en content" "ready w" "held content w k = Some (Text (position_text p))"
    and "plain_position p" "length (position_text p) < 2 ^ 63 - 2"
    and "v = position_value (p_Account p) (p_Underlier p) (p_Quantity p) (p_Price p) (p_rif p) pif
       (p_liveSharesBuy p) (p_liveSharesSell p) (p_TotalExecutedShares p)" "length v < 2 ^ 63 - 2"
  shows "\<exists>w'. writePIFToRedis en k pif w = (Inr True, w') \<and> ready w' \<and>
    held content w' = (held content w)(p_Account p @ '':'' @ p_Underlier p \<mapsto> Text v)"
  using rewrite_ready [OF assms(1-5), where rif = p_rif and pif = "\<lambda>_. pif" and lb = p_liveSharesBuy
      and ls = p_liveSharesSell and te = p_TotalExecutedShares and v = v and X = "io_return False", OF assms(6,7)]
  unfolding writePIFToRedis_def by (elim exE conjE) (intro exI conjI, rule guarded_ready [OF assms(2)], assumption+)

lemma rif_rewrite:
  assumes "documented_env en content" "ready w" "held content w k = Some (Text (position_text p))"
    and "plain_position p" "length (position_text p) < 2 ^ 63 - 2"
    and "v = position_value (p_Account p) (p_Underlier p) (p_Quantity p) (p_Price p) rif (p_pif p)
       (p_liveSharesBuy p) (p_liveSharesSell p) (p_TotalExecutedShares p)" "length v < 2 ^ 63 - 2"
  shows "\<exists>w'. writeRIFToRedis en k rif w = (Inr True, w') \<and> ready w' \<and>
    held content w' = (held content w)(p_Account p @ '':'' @ p_Underlier p \<mapsto> Text v)"
  using rewrite_ready [OF assms(1-5), where rif = "\<lambda>_. rif" and pif = p_pif and lb = p_liveSharesBuy
      and ls = p_liveSharesSell and te = p_TotalExecutedShares and v = v and X = "io_return False", OF assms(6,7)]
  unfolding writeRIFToRedis_def by (elim exE conjE) (intro exI conjI, rule guarded_ready [OF assms(2)], assumption+)

lemma live_rewrite:
  assumes "documented_env en content" "ready w" "held content w k = Some (Text (position_text p))"
    and "plain_position p" "length (position_text p) < 2 ^ 63 - 2"
    and "v = position_value (p_Account p) (p_Underlier p) (p_Quantity p) (p_Price p) (p_rif p) (p_pif p) lb ls te"
      "length v < 2 ^ 63 - 2"
  shows "\<exists>w'. writeLiveSharesInfo en k lb ls te w = (Inr True, w') \<and> ready w' \<and>
    held content w' = (held content w)(p_Account p @ '':'' @ p_Underlier p \<mapsto> Text v)"
  using rewrite_ready [OF assms(1-5), where rif = p_rif and pif = p_pif and lb = "\<lambda>_. lb"
      and ls = "\<lambda>_. ls" and te = "\<lambda>_. te" and v = v
      and X = "(let strs = bt_split (en_boost en) (CHR '':'') k in
        if length strs < 2 then io_stop (Stuck OutOfRange)
        else writeToRedis en (strs ! 0) (strs ! 1) ''0'' ''0'' ''0'' ''0'' lb ls te)", OF assms(6,7)]
  unfolding writeLiveSharesInfo_def by (elim exE conjE) (intro exI conjI, rule guarded_ready [OF assms(2)], assumption+)

text \<open>An update of the round in force writes, under the key made of the account and the underlier that
  the value names, the fields that were there with the new round, in the form of an equity position.\<close>

theorem rif_update:
  assumes "documented_env en content" "ready w" "held content w k = Some (Text (position_text p))"
    and "plain_position p" "length (position_text p) < 2 ^ 63 - 2"
    and "v = position_value (p_Account p) (p_Underlier p) (p_Quantity p) (p_Price p) rif (p_pif p)
       (p_liveSharesBuy p) (p_liveSharesSell p) (p_TotalExecutedShares p)" "length v < 2 ^ 63 - 2"
  shows "\<exists>w'. writeRIFToRedis en k rif w = (Inr True, w') \<and> ready w' \<and>
    held content w' = (held content w)(p_Account p @ '':'' @ p_Underlier p \<mapsto> Text v)"
  by (rule rif_rewrite [OF assms])

lemma rif_update_witness:
  "\<exists>w1 w'. writeToRedis sample_env ''acc'' ''IBM'' ''7'' ''20'' ''0'' ''21'' ''0'' ''0'' ''9'' sample_writer = (Inr True, w1) \<and>
    writeRIFToRedis sample_env ''acc:IBM'' ''100'' w1 = (Inr True, w') \<and>
    held (\<lambda>m. m) w' ''acc:IBM'' = Some (Text ''EQUITY,,acc,IBM,IBM,,,7,,20,100,21,0,0,9'')"
proof -
  let ?p = "written_position ''acc'' ''IBM'' ''7'' ''20'' ''0'' ''21'' ''0'' ''0'' ''9''"
  obtain w1 where w1: "writeToRedis sample_env ''acc'' ''IBM'' ''7'' ''20'' ''0'' ''21'' ''0'' ''0'' ''9'' sample_writer = (Inr True, w1)"
    "ready w1" "held (\<lambda>m. m) w1 ''acc:IBM'' = Some (Text (join (CHR '','') (position_fields ?p)))"
    using writeToRedis_ready [OF sample_env_documented sample_writer_ready(1)]
    unfolding position_value_join by fastforce
  have plain: "plain_position ?p" by (simp add: plain_position_def position_fields_def written_position_def)
  have "length (position_text ?p) < 2 ^ 63 - 2" by (simp add: position_fields_def written_position_def)
  from rif_update [OF sample_env_documented w1(2,3) plain this refl, of "''100''"] w1(1)
  show ?thesis by (simp add: written_position_def position_value_def) fastforce
qed

text \<open>A value is parsed when it has 10, 12 or at least 15 fields; with any other number the code reads
  behind the end of the vector of fields.\<close>

theorem parse_faults:
  assumes "documented_boost bt" "n = length (split_fields (CHR '','') value)"
  shows "parseStem1Value bt value = Inl OutOfRange \<longleftrightarrow> n < 15 \<and> n \<noteq> 10 \<and> n \<noteq> 12"
  using assms by (auto simp: parseStem1Value_def documented_boost_def position_of_def Let_def)

lemma parse_faults_witness: "parseStem1Value sample_boost ''EQUITY,,acc'' = Inl OutOfRange"
  using parse_faults [OF sample_boost_documented refl, of "''EQUITY,,acc''"] by simp

section \<open>Orders\<close>

definition order_fields :: "RedisOrderInfo \<Rightarrow> string list" where
  "order_fields r = [ro_Symbol r, ro_Size r, ro_Price r, ro_Type r, ro_ExecutionTime r, ro_AckTime r, ro_ChangeTime r, ro_CancelTime r]"

definition plain_order :: "RedisOrderInfo \<Rightarrow> bool" where
  "plain_order r \<longleftrightarrow> (\<forall>f \<in> set (order_fields r). CHR '','' \<notin> set f)"

lemma order_value_join: "order_value r = join (CHR '','') (order_fields r)"
  by (simp add: order_value_def order_fields_def)

lemma parse_order:
  assumes "documented_boost bt" "plain_order r"
  shows "parseRedisOrderInfo bt (order_value r) = Inr r"
proof -
  have "split_fields (CHR '','') (join (CHR '','') (order_fields r)) = order_fields r"
    using assms(2) by (intro split_join) (auto simp: plain_order_def order_fields_def)
  then show ?thesis using assms(1)
    by (simp add: parseRedisOrderInfo_def documented_boost_def order_of_def order_value_join) (simp add: order_fields_def)
qed

lemma writeOrderInfo_ready:
  assumes "documented_env en content" "ready w"
  shows "\<exists>w'. writeOrderInfoToRedis en user rid r w = (Inr True, w') \<and> ready w' \<and>
    held content w' = (held content w)(user @ '','' @ rid \<mapsto> Text (order_value r))"
proof -
  obtain c where c: "client_set (en_net en) (user @ '','' @ rid) (order_value r) (rw_client w) = (Inr (), c)" "in_step c"
    "content (cn_server c) = (held content w)(user @ '','' @ rid \<mapsto> Text (order_value r))"
    using client_set_documented [of "en_net en" content "rw_client w"] assms
    by (fastforce simp: documented_env_def ready_def held_def)
  have "writeOrderInfoToRedis en user rid r w = (Inr True, w\<lparr>rw_client := c, rw_locked := False\<rparr>)"
    unfolding writeOrderInfoToRedis_def using assms(2) c(1,2) by (rule guarded_call(1))
  then show ?thesis using c assms(2) by (simp add: ready_def held_def)
qed

lemma update_order_ready:
  assumes "documented_env en content" "ready w" "held content w (user @ '','' @ rid) = Some (Text (order_value r))"
    and "plain_order r" "length (order_value r) < 2 ^ 63 - 2" "length (order_value (f r)) < 2 ^ 63 - 2"
  shows "\<exists>w'. update_order en user rid rb f w = (Inr True, w') \<and> ready w' \<and>
    held content w' = (held content w)(user @ '','' @ rid \<mapsto> Text (order_value (f r)))"
proof -
  let ?k = "user @ '','' @ rid"
  obtain w1 where w1: "readKeyFromRedis en ?k w = (Inr (order_value r), w1)" "ready w1" "held content w1 = held content w"
    using readKey_ready [OF assms(1,2), where k = ?k] assms(3,5) by auto
  obtain w2 where w2: "writeOrderInfoToRedis en user rid (f r) w1 = (Inr True, w2)" "ready w2"
    "held content w2 = (held content w)(?k \<mapsto> Text (order_value (f r)))"
    using writeOrderInfo_ready [OF assms(1) w1(2)] w1(3) by metis
  have "readable (held content w2 ?k)" using assms(6) by (simp add: w2(3) readable_def)
  then obtain w3 where "log_key en ?k w2 = (Inr (), w3)" "ready w3" "held content w3 = held content w2"
    using log_key_ready [OF assms(1) w2(2)] by blast
  moreover have "order_value r \<noteq> missing_value" by (rule comma_not_missing) (simp add: order_value_def)
  ultimately show ?thesis using w1 w2 assms(1,2) parse_order [OF _ assms(4)]
    by (simp add: update_order_def catch_all_def if_enabled_def io_bind_def ready_def io_res_def documented_env_def)
qed

text \<open>The life of an order in the store: it is written when it is acknowledged, and the time of its
  change and the time of its execution or cancelation replace exactly their field.\<close>

theorem order_times:
  assumes "documented_env en content" "ready w" "held content w (user @ '','' @ rid) = Some (Text (order_value r))"
    and "plain_order r" "length (order_value r) + length t < 2 ^ 63 - 2"
  shows "\<exists>w1 w2 w3. updateOrderChangeTime en user rid t w = (Inr True, w1) \<and>
      updateOrderExecTime en user rid t w = (Inr True, w2) \<and> updateOrderCancleTime en user rid t w = (Inr True, w3) \<and>
      held content w1 = (held content w)(user @ '','' @ rid \<mapsto> Text (order_value (r\<lparr>ro_ChangeTime := t\<rparr>))) \<and>
      held content w2 = (held content w)(user @ '','' @ rid \<mapsto> Text (order_value (r\<lparr>ro_ExecutionTime := t\<rparr>))) \<and>
      held content w3 = (held content w)(user @ '','' @ rid \<mapsto> Text (order_value (r\<lparr>ro_CancelTime := t\<rparr>)))"
proof -
  have len: "length (order_value r) < 2 ^ 63 - 2" "length (order_value (r\<lparr>ro_ChangeTime := t\<rparr>)) < 2 ^ 63 - 2"
    "length (order_value (r\<lparr>ro_ExecutionTime := t\<rparr>)) < 2 ^ 63 - 2" "length (order_value (r\<lparr>ro_CancelTime := t\<rparr>)) < 2 ^ 63 - 2"
    using assms(5) by (simp_all add: order_value_def)
  note u = update_order_ready [OF assms(1-4) len(1)]
  show ?thesis unfolding updateOrderChangeTime_def updateOrderExecTime_def updateOrderCancleTime_def
    using u [of "\<lambda>r. r\<lparr>ro_ChangeTime := t\<rparr>" True] u [of "\<lambda>r. r\<lparr>ro_ExecutionTime := t\<rparr>" True]
      u [of "\<lambda>r. r\<lparr>ro_CancelTime := t\<rparr>" False] len(2-4) by blast
qed

lemma order_times_witness:
  "\<exists>w1 w2. writeOrderInfoToRedis sample_env ''acc'' ''5'' \<lparr>ro_Symbol = ''IBM'', ro_Size = ''100'', ro_Price = ''20'', ro_Type = ''buy'',
       ro_ExecutionTime = [], ro_AckTime = ''t0'', ro_ChangeTime = [], ro_CancelTime = []\<rparr> sample_writer = (Inr True, w1) \<and>
     updateOrderExecTime sample_env ''acc'' ''5'' ''t1'' w1 = (Inr True, w2) \<and>
     held (\<lambda>m. m) w2 ''acc,5'' = Some (Text ''IBM,100,20,buy,t1,t0,,'')"
proof -
  let ?r = "\<lparr>ro_Symbol = ''IBM'', ro_Size = ''100'', ro_Price = ''20'', ro_Type = ''buy'',
       ro_ExecutionTime = [], ro_AckTime = ''t0'', ro_ChangeTime = [], ro_CancelTime = []\<rparr>"
  obtain w1 where w1: "writeOrderInfoToRedis sample_env ''acc'' ''5'' ?r sample_writer = (Inr True, w1)" "ready w1"
    "held (\<lambda>m. m) w1 (''acc'' @ '','' @ ''5'') = Some (Text (order_value ?r))"
    using writeOrderInfo_ready [OF sample_env_documented sample_writer_ready(1)] by fastforce
  have "plain_order ?r" "length (order_value ?r) + length ''t1'' < 2 ^ 63 - 2"
    by (simp_all add: plain_order_def order_fields_def order_value_def)
  from order_times [OF sample_env_documented w1(2,3) this] w1(1)
  show ?thesis by (auto simp: order_value_def)
qed

section \<open>The position tables\<close>

lemma held_simps [simp]:
  "held content (w\<lparr>rw_client := c\<rparr>) = content (cn_server c)"
  "held content (w\<lparr>rw_locked := b\<rparr>) = held content w"
  "held content (w\<lparr>rw_locked := b, rw_client := c\<rparr>) = content (cn_server c)"
  by (simp_all add: held_def)

lemma push_rows_ready:
  assumes "documented_env en content" "in_step (rw_client w)" "held content w k = Some (Texts l)" "length l + length rs < 2 ^ 63 - 1"
  shows "\<exists>w'. push_rows en k rs w = (Inr (), w') \<and> in_step (rw_client w') \<and>
    rw_locked w' = rw_locked w \<and> rw_isRedisEnabled w' = rw_isRedisEnabled w \<and>
    held content w' = (held content w)(k \<mapsto> Texts (l @ map row_value rs))"
  using assms(2-4)
proof (induction rs arbitrary: w l)
  case (Cons r rs)
  obtain n c where c: "client_rpush (en_boost en) (en_net en) k (row_value r) (rw_client w) = (Inr n, c)" "in_step c"
    "content (cn_server c) = (held content w)(k \<mapsto> Texts (l @ [row_value r]))"
    using client_rpush_documented [of "en_boost en" "en_net en" content "rw_client w" k l "row_value r"] assms(1) Cons.prems
    by (auto simp: documented_env_def held_def texts_of_def)
  let ?w = "w\<lparr>rw_client := c\<rparr>"
  have "\<exists>w'. push_rows en k rs ?w = (Inr (), w') \<and> in_step (rw_client w') \<and>
      rw_locked w' = rw_locked ?w \<and> rw_isRedisEnabled w' = rw_isRedisEnabled ?w \<and>
      held content w' = (held content ?w)(k \<mapsto> Texts ((l @ [row_value r]) @ map row_value rs))"
    using c Cons.prems by (intro Cons.IH) simp_all
  moreover have "(held content ?w)(k \<mapsto> X) = (held content w)(k \<mapsto> X)" for X
    by (simp only: held_simps c(3) fun_upd_upd)
  ultimately show ?case using c(1) by (simp add: io_bind_def on_client_def del: held_simps fun_upd_apply)
qed (simp add: map_upd_triv)

text \<open>C22: the position table in the store is the table of the account: the totals and then every row in the
  order of the table, whatever the key held before.\<close>

theorem table_written:
  assumes "documented_env en content" "ready w" "length (t_rows t) < 2 ^ 63 - 2"
  shows "\<exists>w'. writePositionRecordTableToRedis en user symbol t w = (Inr True, w') \<and> ready w' \<and>
    held content w' = (held content w)(user @ '';'' @ symbol \<mapsto>
      Texts (common_value (t_open_size t) (t_pnl t) (t_average t) # map row_value (t_rows t)))"
proof -
  let ?k = "user @ '';'' @ symbol" and ?v = "common_value (t_open_size t) (t_pnl t) (t_average t)"
  let ?w = "w\<lparr>rw_locked := True\<rparr>"
  obtain b c where c: "client_del (en_boost en) (en_net en) ?k (rw_client w) = (Inr b, c)" "in_step c"
    "content (cn_server c) = (held content w)(?k := None)"
    using client_del_documented [of "en_boost en" "en_net en" content "rw_client w" ?k] assms(1,2)
    by (auto simp: documented_env_def held_def ready_def)
  obtain n d where d: "client_rpush (en_boost en) (en_net en) ?k ?v c = (Inr n, d)" "in_step d"
    "content (cn_server d) = (held content w)(?k \<mapsto> Texts [?v])"
    using client_rpush_documented [of "en_boost en" "en_net en" content c ?k "[]" ?v] assms(1) c
    by (auto simp: documented_env_def texts_of_def)
  have h: "(held content (?w\<lparr>rw_client := d\<rparr>))(?k \<mapsto> X) = (held content w)(?k \<mapsto> X)" for X
    by (simp only: held_simps d(3) fun_upd_upd)
  have "held content (?w\<lparr>rw_client := d\<rparr>) ?k = Some (Texts [?v])" using d(3) by simp
  then obtain w' where w': "push_rows en ?k (t_rows t) (?w\<lparr>rw_client := d\<rparr>) = (Inr (), w')" "in_step (rw_client w')"
    "rw_isRedisEnabled w'" "held content w' = (held content w)(?k \<mapsto> Texts (?v # map row_value (t_rows t)))"
    using push_rows_ready [OF assms(1), of "?w\<lparr>rw_client := d\<rparr>" ?k "[?v]" "t_rows t"] d(2) assms(2,3) h
    by (auto simp: ready_def simp del: held_simps)
  then show ?thesis using c(1) d(1) assms(2)
    by (simp add: writePositionRecordTableToRedis_def Let_def catch_all_def if_enabled_def with_lock_def io_bind_def
        on_client_def ready_def)
qed

lemma table_written_witness:
  "\<exists>w'. writePositionRecordTableToRedis sample_env ''acc'' ''IBM'' (recordOpenPosition 3 50 (Fin 20) (new_table True)) sample_writer = (Inr True, w') \<and>
    held (\<lambda>m. m) w' ''acc;IBM'' = Some (Texts [common_value 50 (Fin 0) (t_average (recordOpenPosition 3 50 (Fin 20) (new_table True))),
      row_value (hd (t_rows (recordOpenPosition 3 50 (Fin 20) (new_table True))))])"
  using table_written [OF sample_env_documented sample_writer_ready(1), of "recordOpenPosition 3 50 (Fin 20) (new_table True)" "''acc''" "''IBM''"]
  by (auto simp: recordOpenPosition_def new_table_def Let_def insert_record_def)

section \<open>The mutex\<close>

text \<open>
  An operation called without the mutex: it returns a value with the mutex free, or ends in one of the
  given faults. \<open>settles\<close> is the part of this that composes, in which it may throw too.
\<close>

definition settles :: "fault set \<Rightarrow> ('s, 'a) rw \<Rightarrow> bool" where
  "settles F m \<longleftrightarrow> (\<forall>w. \<not> rw_locked w \<longrightarrow> (case m w of
     (Inl (Stuck f), w') \<Rightarrow> f \<in> F | (_, w') \<Rightarrow> \<not> rw_locked w'))"

definition returns :: "fault set \<Rightarrow> ('s, 'a) rw \<Rightarrow> bool" where
  "returns F m \<longleftrightarrow> (\<forall>w. \<not> rw_locked w \<longrightarrow> (case m w of
     (Inr v, w') \<Rightarrow> \<not> rw_locked w' | (Inl (Throws e), w') \<Rightarrow> False | (Inl (Stuck f), w') \<Rightarrow> f \<in> F))"

definition lively :: "('c, 'a) io \<Rightarrow> bool" where
  "lively m \<longleftrightarrow> (\<forall>c f. fst (m c) \<noteq> Inl (Stuck f))"

named_theorems lively_intro

lemma lively_basic [lively_intro]: "lively (io_return x)" "lively (io_stop (Throws e))" "lively (io_get e v)"
  by (cases v; simp add: lively_def)+

lemma lively_bind [lively_intro]: "lively m \<Longrightarrow> (\<And>x. lively (f x)) \<Longrightarrow> lively (io_bind m f)"
  unfolding lively_def io_bind_def by (auto split: sum.splits prod.splits) (metis fst_conv)

lemma lively_if [lively_intro]: "lively m \<Longrightarrow> lively m' \<Longrightarrow> lively (if b then m else m')"
  by simp

lemma lively_prod [lively_intro]: "(\<And>x y. lively (f x y)) \<Longrightarrow> lively (case p of (x, y) \<Rightarrow> f x y)"
  by (cases p) simp

lemma lively_client [lively_intro]: "lively m \<Longrightarrow> lively (on_client m)"
  by (auto simp: lively_def on_client_def split: prod.splits) (metis fst_conv)

text \<open>The client is stuck only in a read from a peer that stays silent without closing.\<close>

lemma lively_line: "nt_closed net \<Longrightarrow> fst (line_loop net oss inp) \<noteq> Inl (Stuck f)"
proof (induction net oss inp rule: line_loop.induct)
  case (1 net oss inp)
  then show ?case by (subst line_loop.simps) (simp add: Let_def at_end_def)
qed

lemma lively_socket [lively_intro]:
  "lively (send_msg net msg)" "nt_closed net \<Longrightarrow> lively (read_line net)" "nt_closed net \<Longrightarrow> lively (read_n net n)"
  by (auto simp: lively_def send_msg_def read_line_def read_n_def at_end_def lively_line split: option.splits prod.splits)
    (metis fst_conv lively_line)

lemma lively_replies [lively_intro]:
  assumes "nt_closed net"
  shows "lively (recv_ok_reply net)" "lively (recv_bulk_reply bt net)" "lively (recv_int_reply bt net)"
    "lively (recv_bulk_length bt net p)"
  using assms unfolding recv_ok_reply_def recv_single_line_reply_def recv_bulk_reply_def recv_bulk_length_def recv_int_reply_def
  by (intro lively_intro; assumption)+

lemma lively_bulks [lively_intro]: "nt_closed net \<Longrightarrow> lively (recv_bulks bt net n out)"
  by (induction n arbitrary: out) (auto intro!: lively_intro)

lemma lively_commands [lively_intro]:
  assumes "nt_closed net"
  shows "lively (client_set net k v)" "lively (client_get bt net k)" "lively (client_del bt net k)"
    "lively (client_rpush bt net k v)" "lively (client_lpush bt net k v)" "lively (client_ltrim bt net k a b)"
    "lively (client_lrange bt net k a b out)"
  using assms by (auto simp: client_set_def client_get_def client_del_def client_rpush_def client_lpush_def client_ltrim_def
      client_lrange_def recv_multi_bulk_reply_def intro!: lively_intro)

lemma settles_basic: "settles F (io_return x)" "settles F (io_stop (Throws e))" "f \<in> F \<Longrightarrow> settles F (io_stop (Stuck f))"
  by (simp_all add: settles_def)

lemma settles_lock: "lively m \<Longrightarrow> settles F (with_lock m)"
  unfolding settles_def with_lock_def lively_def
  by (auto split: sum.split stop.split prod.split) (metis fst_conv)

lemma settles_bind:
  assumes "settles F m" "\<And>x. settles F (f x)"
  shows "settles F (io_bind m f)"
  unfolding settles_def
proof (intro allI impI)
  fix w :: "'a RedisWriter" assume w: "\<not> rw_locked w"
  obtain r w' where m: "m w = (r, w')" by (cases "m w")
  show "case io_bind m f w of (Inl (Stuck f), w') \<Rightarrow> f \<in> F | (_, w') \<Rightarrow> \<not> rw_locked w'"
  proof (cases r)
    case (Inl e)
    then show ?thesis using assms(1) w m by (cases e) (auto simp: io_bind_def settles_def dest!: spec [of _ w])
  next
    case (Inr x)
    then have "\<not> rw_locked w'" using assms(1) w m by (auto simp: settles_def dest!: spec [of _ w])
    then show ?thesis using assms(2) [of x] m Inr by (auto simp: io_bind_def settles_def)
  qed
qed

lemma settles_if: "settles F m \<Longrightarrow> settles F m' \<Longrightarrow> settles F (if b then m else m')"
  by simp

lemma returns_guard: "settles F m \<Longrightarrow> returns F (catch_all v (if_enabled v m))"
  by (fastforce simp: returns_def settles_def catch_all_def if_enabled_def split: prod.splits sum.splits stop.splits)

lemma returns_settles: "returns F m \<Longrightarrow> F \<subseteq> G \<Longrightarrow> settles G m"
  by (fastforce simp: returns_def settles_def split: prod.splits sum.splits stop.splits)

lemma returns_valueD: "returns {} m \<Longrightarrow> \<not> rw_locked w \<Longrightarrow> \<exists>v w'. m w = (Inr v, w') \<and> \<not> rw_locked w'"
  unfolding returns_def
  by (drule spec [of _ w], cases "m w", cases "fst (m w)") (auto split: stop.splits sum.splits)

lemma settles_parse:
  "settles {OutOfRange} (io_res (parseStem1Value bt v))" "settles {OutOfRange} (io_res (parseRedisOrderInfo bt v))"
  by (auto simp: parseStem1Value_def position_of_def parseRedisOrderInfo_def order_of_def io_res_def settles_def Let_def)

lemmas settle_rules = settles_basic settles_lock settles_bind settles_if settles_parse returns_guard

lemma returns_plain:
  assumes "nt_closed (en_net en)"
  shows "returns {} (readKeyFromRedis en k)" "returns {} (writeToRedis en user symbol q avg rif pif lb ls te)"
    "returns {} (writeOrderInfoToRedis en user rid r)"
  using assms by (auto simp: readKeyFromRedis_def writeToRedis_def writeOrderInfoToRedis_def intro!: settle_rules lively_intro)

lemma returns_push_rows: "nt_closed (en_net en) \<Longrightarrow> lively (push_rows en k rs)"
  by (induction rs) (auto intro!: lively_intro)

lemma settles_again:
  assumes "nt_closed (en_net en)"
  shows "settles F (readKeyFromRedis en k)" "settles F (writeToRedis en user symbol q avg rif pif lb ls te)"
    "settles F (writeOrderInfoToRedis en user rid r)" "settles F (log_key en k)"
proof -
  note plain = returns_plain [OF assms, THEN returns_settles, OF empty_subsetI]
  show "settles F (readKeyFromRedis en k)" "settles F (writeToRedis en user symbol q avg rif pif lb ls te)"
    "settles F (writeOrderInfoToRedis en user rid r)" by (rule plain)+
  show "settles F (log_key en k)" by (auto simp: log_key_def intro!: settle_rules plain)
qed

lemma returns_update: "nt_closed (en_net en) \<Longrightarrow> returns {OutOfRange} (update_order en user rid rb f)"
  by (auto simp: update_order_def intro!: settle_rules settles_again)

text \<open>C23: when the peer closes a connection it no longer answers on, every operation of the writer but
  \<open>readStem1KeyFromRedis\<close> that finds the mutex free returns a value, whatever the server and the
  network do, and leaves the mutex free; those that parse a stored value may instead end in an access
  out of range.\<close>

theorem writer_returns:
  assumes "nt_closed (en_net en)"
  shows "returns {} (readKeyFromRedis en k) \<and>
    list_all (returns {})
      [writeToRedis en user symbol q avg rif pif lb ls te, writeOrderInfoToRedis en user rid r,
        writeTradeCaseToRedis en user symbol t st cs bs bp as ap pe, writePositionRecordToRedis en user symbol pr,
        writePositionRecordCommonDataToRedis en user symbol os pnl av, writePositionRecordTableToRedis en user symbol tab] \<and>
    list_all (returns {OutOfRange})
      [writeRIFToRedis en k rif, writePIFToRedis en k pif, writeLiveSharesInfo en k lb ls te,
        updateOrderCancleTime en user rid t, updateOrderExecTime en user rid t, updateOrderChangeTime en user rid t]"
  using assms returns_plain [OF assms] returns_update [OF assms]
  by (auto simp: writeRIFToRedis_def writePIFToRedis_def writeLiveSharesInfo_def writeTradeCaseToRedis_def
      writePositionRecordToRedis_def writePositionRecordCommonDataToRedis_def writePositionRecordTableToRedis_def
      updateOrderCancleTime_def updateOrderExecTime_def updateOrderChangeTime_def Let_def
      intro!: settle_rules settles_again lively_intro returns_push_rows)

text \<open>A server that answers nothing and closes: the write of an order gives false.\<close>

definition closed_env :: "unit env" where
  "closed_env = \<lparr>en_boost = sample_boost, en_net = \<lparr>nt_server = (\<lambda>_ _. Some ([], ())), nt_peek = (\<lambda>_. 64), nt_closed = True\<rparr>,
     en_debug = True\<rparr>"

definition closed_writer :: "unit RedisWriter" where
  "closed_writer = \<lparr>rw_isRedisEnabled = True, rw_locked = False, rw_client = \<lparr>cn_server = (), cn_input = []\<rparr>\<rparr>"

lemma writer_returns_witness:
  "\<forall>r. \<exists>v w'. writeOrderInfoToRedis closed_env ''acc'' ''5'' r closed_writer = (Inr v, w') \<and> \<not> rw_locked w'"
proof
  fix r
  have "nt_closed (en_net closed_env)" by (simp add: closed_env_def)
  from writer_returns [OF this] have "returns {} (writeOrderInfoToRedis closed_env ''acc'' ''5'' r)" by simp
  then show "\<exists>v w'. writeOrderInfoToRedis closed_env ''acc'' ''5'' r closed_writer = (Inr v, w') \<and> \<not> rw_locked w'"
    by (rule returns_valueD) (simp add: closed_writer_def)
qed

text \<open>C24: reading the positions of the other program never returns when there is one: every key is read
  through an operation that locks the mutex again.\<close>

theorem stem1_read_blocks:
  assumes "rw_isRedisEnabled w" "\<not> rw_locked w"
    and "client_keys (en_boost en) (en_net en) ''stem1*'' [] (rw_client w) = (Inr (n, k # ks), c)"
  shows "fst (readStem1KeyFromRedis en w) = Inl (Stuck Blocked)"
  using assms by (simp add: readStem1KeyFromRedis_def if_enabled_def with_lock_def io_bind_def on_client_def
      readKeyFromRedis_def catch_all_def)

definition stem1_env :: "unit env" where
  "stem1_env = \<lparr>en_boost = sample_boost, en_net = \<lparr>nt_server = (\<lambda>_ _. Some (encode_reply (Bulks [''stem1a'']), ())),
     nt_peek = (\<lambda>_. 64), nt_closed = False\<rparr>, en_debug = False\<rparr>"

definition stem1_writer :: "unit RedisWriter" where
  "stem1_writer = \<lparr>rw_isRedisEnabled = True, rw_locked = False, rw_client = \<lparr>cn_server = (), cn_input = []\<rparr>\<rparr>"

lemma stem1_read_blocks_witness: "fst (readStem1KeyFromRedis stem1_env stem1_writer) = Inl (Stuck Blocked)"
proof -
  let ?c = "\<lparr>cn_server = (), cn_input = makecmd [''stem1a'']\<rparr>"
  have one: "bt_to_long sample_boost (show_nat (Suc 0)) = Some 1"
    using documented_long [OF sample_boost_documented, of 1] show_int_nat [of 1] by (simp add: is_long_def)
  have "read_line (en_net stem1_env) ?c = (Inr (CHR ''*'' # show_nat 1), \<lparr>cn_server = (), cn_input = bulk ''stem1a''\<rparr>)"
    using read_line_exact [of "CHR ''*'' # show_nat 1" ?c "bulk ''stem1a''" "en_net stem1_env"] by (simp add: makecmd_def)
  moreover have "recv_bulk_reply sample_boost (en_net stem1_env) \<lparr>cn_server = (), cn_input = bulk ''stem1a''\<rparr>
      = (Inr ''stem1a'', \<lparr>cn_server = (), cn_input = []\<rparr>)"
    using recv_bulk [OF sample_boost_documented, of "''stem1a''" "\<lparr>cn_server = (), cn_input = bulk ''stem1a''\<rparr>" "[]"] by simp
  ultimately have "client_keys (en_boost stem1_env) (en_net stem1_env) ''stem1*'' [] (rw_client stem1_writer) =
      (Inr (1, [''stem1a'']), \<lparr>cn_server = (), cn_input = []\<rparr>)"
    using one by (simp add: client_keys_def send_msg_def recv_multi_bulk_reply_def recv_bulk_length_def io_bind_def
        stem1_env_def stem1_writer_def)
  from stem1_read_blocks [OF _ _ this] show ?thesis by (simp add: stem1_writer_def)
qed

end
