(* ===== verification/RedisReport.thy ===== *)
theory RedisReport
  imports RedisLaws Samples
begin

text \<open>
  What the trading thread writes to the key-value store and reads back (\<open>src/src/trade/TradeInstance.cpp\<close>):
  the report at the end of a round, the positions the constructor loads, and the single writes the
  accounts issue. The current time is an argument.
\<close>

record names =
  nm_long :: string
  nm_short :: string
  nm_symbol :: string
  nm_id :: string

definition account_name :: "names \<Rightarrow> OrderAccountType \<Rightarrow> string" where
  "account_name nm s = (if s = LONG then nm_long nm else nm_short nm)"

section \<open>The report\<close>

text \<open>The short position is written as a negative quantity, with its live totals exchanged.\<close>

definition report_account :: "'s env \<Rightarrow> names \<Rightarrow> OrderAccountType \<Rightarrow> world \<Rightarrow> ('s, bool) rw" where
  "report_account en nm s w =
     (let a = w_ta w s in
      writeToRedis en (account_name nm s) (nm_symbol nm)
        (show_int (if s = LONG then a_total a else - 1 * a_total a)) (show_double (getAverage s w))
        (show_u32 (a_rif a)) (show_double (a_pif a))
        (show_int (if s = LONG then a_totalopen a else a_totalclose a))
        (show_int (if s = LONG then a_totalclose a else a_totalopen a)) (show_int (a_totalExecuted a)))"

definition getTrigerState :: "TriggerState \<Rightarrow> string" where
  "getTrigerState v = (case v of
     TRIGGER_STATE_INIT \<Rightarrow> ''TRIGGER_STATE_INIT''
   | TRIGGER_STATE_POSITIVE \<Rightarrow> ''TRIGGER_STATE_POSITIVE''
   | TRIGGER_STATE_NEGATIVE \<Rightarrow> ''TRIGGER_STATE_NEGATIVE'')"

text \<open>The enumerators are numbered in their order.\<close>

definition case_number :: "CaseType \<Rightarrow> int" where
  "case_number ty = (case ty of
     CASE_NONE \<Rightarrow> 0 | CASE_1 \<Rightarrow> 1 | CASE_2 \<Rightarrow> 2 | CASE_3 \<Rightarrow> 3 | CASE_4 \<Rightarrow> 4 | CASE_5 \<Rightarrow> 5
   | CASE_CLOSEOPPOSITE \<Rightarrow> 6 | CASE_HEDGECURRENT \<Rightarrow> 7 | CASE_6C \<Rightarrow> 8 | CASE_7 \<Rightarrow> 9 | CASE_9 \<Rightarrow> 10
   | CASE_10 \<Rightarrow> 11 | CASE_MAXTLV \<Rightarrow> 12 | CASE_CLOSEOPPOSITEWITH_ANTICIPATED_PNL \<Rightarrow> 13
   | CASE_HEDGEDMODE \<Rightarrow> 14 | CASE_ONEQUALITY \<Rightarrow> 15 | CASE_CLOSE_TRIGGER \<Rightarrow> 16 | PANIC_CLOSE \<Rightarrow> 17
   | SOFT_CLOSE \<Rightarrow> 18)"

definition report_case :: "'s env \<Rightarrow> names \<Rightarrow> string \<Rightarrow> world \<Rightarrow> ('s, bool) rw" where
  "report_case en nm time w =
     (case i_trade_case (w_ti w) of
        None \<Rightarrow> io_return True
      | Some n \<Rightarrow>
          io_bind (io_res (rget NullDeref (i_current_acc (w_ti w)))) (\<lambda>_.
          io_bind (io_res (this_case n w)) (\<lambda>c.
          let ti = w_ti w in
          writeTradeCaseToRedis en (nm_id nm) (nm_symbol nm) time (getTrigerState (i_trigger_state ti))
            (''CASE'' @ show_int (case_number (c_type c))) (show_u32 (i_bid_size ti)) (show_double (i_bid_price ti))
            (show_u32 (i_ask_size ti)) (show_double (i_ask_price ti)) (show_double (i_price_estimate ti)))))"

definition report_to_redis :: "'s env \<Rightarrow> names \<Rightarrow> string \<Rightarrow> world \<Rightarrow> ('s, bool) rw" where
  "report_to_redis en nm time w =
     io_bind (report_account en nm LONG w) (\<lambda>_.
     io_bind (report_account en nm SHORT w) (\<lambda>_.
     io_bind (report_case en nm time w) (\<lambda>_.
     io_bind (writePositionRecordTableToRedis en (nm_long nm) (nm_symbol nm) (a_position_table (w_ta w LONG))) (\<lambda>_.
     writePositionRecordTableToRedis en (nm_short nm) (nm_symbol nm) (a_position_table (w_ta w SHORT))))))"

section \<open>Loading at the start\<close>

text \<open>
  The block of the constructor for one account; \<open>lexical_cast\<close> throws out of the constructor. Setting the
  price and the round in force writes them back.
\<close>

definition load_account :: "'s env \<Rightarrow> names \<Rightarrow> OrderAccountType \<Rightarrow> ('s, stored_position option) rw" where
  "load_account en nm s =
     (let bt = en_boost en; k = account_name nm s @ '':'' @ nm_symbol nm in
      io_bind (readKeyFromRedis en k) (\<lambda>result.
      if result = missing_value then io_return None
      else io_bind (io_res (parseStem1Value bt result)) (\<lambda>p.
        io_bind (io_get Bad_lexical_cast (bt_to_double bt (p_Price p))) (\<lambda>price.
        io_bind (if p_pif p = [] then io_return None
                 else io_bind (io_get Bad_lexical_cast (bt_to_double bt (p_pif p))) (\<lambda>v.
                      io_bind (writePIFToRedis en k (show_stream v)) (\<lambda>_. io_return (Some v)))) (\<lambda>pif.
        io_bind (if p_rif p = [] then io_return None
                 else io_bind (io_get Bad_lexical_cast (bt_to_u32 bt (p_rif p))) (\<lambda>v.
                      io_bind (writeRIFToRedis en k (show_u32 v)) (\<lambda>_. io_return (Some v)))) (\<lambda>rif.
        io_bind (io_get Bad_lexical_cast (bt_to_long bt (c_str (p_Quantity p)))) (\<lambda>quantity.
        io_bind (io_get Bad_lexical_cast (bt_to_long bt (c_str (p_TotalExecutedShares p)))) (\<lambda>executed.
        io_bind (writeLiveSharesInfo en k ''0'' ''0'' (p_TotalExecutedShares p)) (\<lambda>_.
        io_return (Some \<lparr>pos_price = price, pos_pif = pif, pos_rif = rif, pos_quantity = quantity,
          pos_total_executed = executed\<rparr>))))))))))"

definition load_positions :: "'s env \<Rightarrow> names \<Rightarrow> ('s, stored_position option \<times> stored_position option) rw" where
  "load_positions en nm =
     io_bind (load_account en nm LONG) (\<lambda>l. io_bind (load_account en nm SHORT) (\<lambda>s. io_return (l, s)))"

section \<open>The single writes\<close>

text \<open>The text of an order's side; an order that neither buys nor sells has none.\<close>

definition side_text :: "BuySell \<Rightarrow> string" where
  "side_text t = (case t of BS_BUY \<Rightarrow> ''buy'' | BS_SELL \<Rightarrow> ''sell'' | BS_SELL_SHORT \<Rightarrow> ''sell'' | BS_NONE \<Rightarrow> [])"

definition run_redis_cmd :: "'s env \<Rightarrow> names \<Rightarrow> string \<Rightarrow> redis_cmd \<Rightarrow> ('s, bool) rw" where
  "run_redis_cmd en nm time c = (case c of
     RedisPIF s pif \<Rightarrow> writePIFToRedis en (account_name nm s @ '':'' @ nm_symbol nm) (show_stream pif)
   | RedisRIF s rif \<Rightarrow> writeRIFToRedis en (account_name nm s @ '':'' @ nm_symbol nm) (show_u32 rif)
   | RedisOrderInfo s k sz price ty \<Rightarrow> writeOrderInfoToRedis en (account_name nm s) (show_u32 k)
       \<lparr>ro_Symbol = nm_symbol nm, ro_Size = show_u32 sz, ro_Price = show_double price, ro_Type = side_text ty,
        ro_ExecutionTime = [], ro_AckTime = time, ro_ChangeTime = [], ro_CancelTime = []\<rparr>
   | RedisOrderExecTime s k \<Rightarrow> updateOrderExecTime en (account_name nm s) (show_u32 k) time
   | RedisOrderChangeTime s k \<Rightarrow> updateOrderChangeTime en (account_name nm s) (show_u32 k) time
   | RedisOrderCancelTime s k \<Rightarrow> updateOrderCancleTime en (account_name nm s) (show_u32 k) time)"

section \<open>A restart\<close>

lemma c_str_show_int [simp]: "c_str (show_int n) = show_int n"
proof -
  have "CHR 0x00 \<notin> set (show_int n)" by (rule show_int_no) (simp_all add: is_digit_def)
  then show ?thesis by (simp add: c_str_def takeWhile_eq_all_conv) metis
qed

lemma show_double_nonempty [simp]: "show_double x \<noteq> []"
  by (cases x) (simp_all add: show_double_def Let_def)

definition account_position :: "names \<Rightarrow> OrderAccountType \<Rightarrow> world \<Rightarrow> Position" where
  "account_position nm s w =
     (let a = w_ta w s in
      written_position (account_name nm s) (nm_symbol nm) (show_int (if s = LONG then a_total a else - 1 * a_total a))
        (show_double (getAverage s w)) (show_u32 (a_rif a)) (show_double (a_pif a))
        (show_int (if s = LONG then a_totalopen a else a_totalclose a))
        (show_int (if s = LONG then a_totalclose a else a_totalopen a)) (show_int (a_totalExecuted a)))"

lemma account_position_simps [simp]:
  "p_Account (account_position nm s w) = account_name nm s" "p_Underlier (account_position nm s w) = nm_symbol nm"
  "p_Quantity (account_position nm s w) = show_int (if s = LONG then a_total (w_ta w s) else - 1 * a_total (w_ta w s))"
  "p_Price (account_position nm s w) = show_double (getAverage s w)"
  "p_rif (account_position nm s w) = show_u32 (a_rif (w_ta w s))"
  "p_pif (account_position nm s w) = show_double (a_pif (w_ta w s))"
  "p_TotalExecutedShares (account_position nm s w) = show_int (a_totalExecuted (w_ta w s))"
  by (simp_all add: account_position_def written_position_def Let_def)

lemma account_position_plain:
  "CHR '','' \<notin> set (account_name nm s) \<Longrightarrow> CHR '','' \<notin> set (nm_symbol nm) \<Longrightarrow> plain_position (account_position nm s w)"
  by (auto simp: plain_position_def position_fields_def account_position_def written_position_def Let_def show_int_no
      show_double_no_comma show_u32_def)

lemma length_pif: "length (position_text (p\<lparr>p_pif := t\<rparr>)) \<le> length (position_text p) + length t"
  by (simp add: position_fields_def)

lemma length_live:
  "length (position_text (p\<lparr>p_liveSharesBuy := ''0'', p_liveSharesSell := ''0''\<rparr>)) \<le> length (position_text p) + 2"
  by (simp add: position_fields_def)

lemma load_account_reported:
  fixes nm s w
  defines "p \<equiv> account_position nm s w"
  assumes en: "documented_env en content" and r: "ready r"
    and held: "held content r (account_name nm s @ '':'' @ nm_symbol nm) = Some (Text (position_text p))"
    and plain: "plain_position p"
    and pif: "bt_to_double (en_boost en) (show_double (a_pif (w_ta w s))) = Some v"
    and len: "length (position_text p) + length (show_stream v) < 2 ^ 62"
    and long: "is_long (a_total (w_ta w s))" "is_long (- a_total (w_ta w s))" "is_long (a_totalExecuted (w_ta w s))"
  shows "\<exists>r' price. load_account en nm s r = (Inr (Some \<lparr>pos_price = price, pos_pif = Some v,
      pos_rif = Some (a_rif (w_ta w s)), pos_quantity = (if s = LONG then a_total (w_ta w s) else - a_total (w_ta w s)),
      pos_total_executed = a_totalExecuted (w_ta w s)\<rparr>), r') \<and> ready r' \<and>
    bt_to_double (en_boost en) (show_double (getAverage s w)) = Some price"
proof -
  let ?k = "account_name nm s @ '':'' @ nm_symbol nm"
  define p1 where "p1 = p\<lparr>p_pif := show_stream v\<rparr>"
  define p2 where "p2 = p1\<lparr>p_liveSharesBuy := ''0'', p_liveSharesSell := ''0''\<rparr>"
  have bt: "documented_boost (en_boost en)" using en by (simp add: documented_env_def)
  have key: "p_Account q @ '':'' @ p_Underlier q = ?k" if "q \<in> {p, p1}" for q
    using that by (auto simp: p1_def p_def)
  have plain1: "plain_position p1"
    unfolding p1_def using plain show_stream_no_comma by (simp add: plain_position_def position_fields_def)
  have len0: "length (position_text p) < 2 ^ 63 - 2" and len1: "length (position_text p1) < 2 ^ 63 - 2"
    and len2: "length (position_text p2) < 2 ^ 63 - 2"
    using len length_pif [of "show_stream v" p] length_live [of p1] by (simp_all add: p1_def p2_def)
  obtain r1 where r1: "readKeyFromRedis en ?k r = (Inr (position_text p), r1)" "ready r1" "held content r1 = held content r"
    using readKey_ready [OF en r, where k = ?k] held len0 by auto
  have v1: "position_text p1 = position_value (p_Account p) (p_Underlier p) (p_Quantity p) (p_Price p) (p_rif p) (show_stream v)
      (p_liveSharesBuy p) (p_liveSharesSell p) (p_TotalExecutedShares p)"
    by (simp add: position_value_join p1_def p_def account_position_def written_position_def Let_def)
  obtain r2 where r2: "writePIFToRedis en ?k (show_stream v) r1 = (Inr True, r2)" "ready r2"
    "held content r2 ?k = Some (Text (position_text p1))"
    using pif_rewrite [OF en r1(2), where k = ?k and p = p, OF _ plain len0 v1 len1] r1(3) held key [of p] by auto
  have v1': "position_text p1 = position_value (p_Account p1) (p_Underlier p1) (p_Quantity p1) (p_Price p1)
      (show_u32 (a_rif (w_ta w s))) (p_pif p1) (p_liveSharesBuy p1) (p_liveSharesSell p1) (p_TotalExecutedShares p1)"
    by (simp add: position_value_join p1_def p_def account_position_def written_position_def Let_def)
  obtain r3 where r3: "writeRIFToRedis en ?k (show_u32 (a_rif (w_ta w s))) r2 = (Inr True, r3)" "ready r3"
    "held content r3 ?k = Some (Text (position_text p1))"
    using rif_rewrite [OF en r2(2,3) plain1 len1 v1' len1] key [of p1] by auto
  have v2: "position_text p2 = position_value (p_Account p1) (p_Underlier p1) (p_Quantity p1) (p_Price p1)
      (p_rif p1) (p_pif p1) ''0'' ''0'' (p_TotalExecutedShares p)"
    by (simp add: position_value_join p2_def p1_def p_def account_position_def written_position_def Let_def)
  obtain r4 where r4: "writeLiveSharesInfo en ?k ''0'' ''0'' (p_TotalExecutedShares p) r3 = (Inr True, r4)" "ready r4"
    using live_rewrite [OF en r3(2,3) plain1 len1 v2 len2] by auto
  obtain price where price: "bt_to_double (en_boost en) (show_double (getAverage s w)) = Some price"
    using bt by (fastforce simp: documented_boost_def)
  have rif: "bt_to_u32 (en_boost en) (show_u32 (a_rif (w_ta w s))) = Some (a_rif (w_ta w s))" "show_u32 x \<noteq> []" for x
    using bt by (simp_all add: documented_boost_def show_u32_def)
  have "position_text p \<noteq> missing_value" by (rule comma_not_missing) (simp add: position_fields_def)
  then have "load_account en nm s r = (Inr (Some \<lparr>pos_price = price, pos_pif = Some v,
      pos_rif = Some (a_rif (w_ta w s)), pos_quantity = (if s = LONG then a_total (w_ta w s) else - a_total (w_ta w s)),
      pos_total_executed = a_totalExecuted (w_ta w s)\<rparr>), r4)"
    using r1(1) r2(1) r3(1) r4(1) parse_position [OF bt plain] price pif rif documented_long [OF bt] long
    by (cases s) (simp_all add: load_account_def Let_def io_bind_def io_res_def p_def)
  then show ?thesis using r4(2) price by blast
qed

text \<open>C20: a restart: what the report of an account leaves in the store is loaded by the constructor as the
  same position, the short one with its sign turned twice, with the same executed shares and round in
  force; the price that is loaded is not the average the accounts report, which stays that of the table.\<close>

theorem restart_position:
  assumes "documented_env en content" "ready r"
    and "CHR '','' \<notin> set (account_name nm s)" "CHR '','' \<notin> set (nm_symbol nm)"
    and "bt_to_double (en_boost en) (show_double (a_pif (w_ta w s))) = Some v"
    and "length (position_text (account_position nm s w)) + length (show_stream v) < 2 ^ 62"
    and "is_long (a_total (w_ta w s))" "is_long (- a_total (w_ta w s))" "is_long (a_totalExecuted (w_ta w s))"
  shows "\<exists>r1 r2 stored. report_account en nm s w r = (Inr True, r1) \<and> load_account en nm s r1 = (Inr (Some stored), r2) \<and>
    a_total (w_ta (load_position s stored w0) s) = a_total (w_ta w s) \<and>
    a_totalExecuted (w_ta (load_position s stored w0) s) = a_totalExecuted (w_ta w s) \<and>
    a_rif (w_ta (load_position s stored w0) s) = a_rif (w_ta w s) \<and>
    bt_to_double (en_boost en) (show_double (getAverage s w)) = Some (pos_price stored) \<and>
    getAverage s (load_position s stored w0) = getAverage s w0"
proof -
  obtain r1 where r1: "report_account en nm s w r = (Inr True, r1)" "ready r1"
    "held content r1 (account_name nm s @ '':'' @ nm_symbol nm) = Some (Text (position_text (account_position nm s w)))"
    using writeToRedis_ready [OF assms(1,2)]
    unfolding report_account_def Let_def account_position_def position_value_join by fastforce
  obtain r2 price where "load_account en nm s r1 = (Inr (Some \<lparr>pos_price = price, pos_pif = Some v,
      pos_rif = Some (a_rif (w_ta w s)), pos_quantity = (if s = LONG then a_total (w_ta w s) else - a_total (w_ta w s)),
      pos_total_executed = a_totalExecuted (w_ta w s)\<rparr>), r2)"
    "bt_to_double (en_boost en) (show_double (getAverage s w)) = Some price"
    using load_account_reported [OF assms(1) r1(2,3) account_position_plain [OF assms(3,4)] assms(5-9)] by blast
  then show ?thesis using r1(1)
    by (intro exI conjI) (assumption, assumption, simp_all add: getAverage_def load_position_def Let_def setAverage_def setPriceInForce_def setRoundInForce_def
        setPosition_def)
qed

definition sample_names :: names where
  "sample_names = \<lparr>nm_long = ''accL'', nm_short = ''accS'', nm_symbol = ''IBM'', nm_id = ''T1''\<rparr>"

text \<open>The sample world after a sale of 40 shares on the short account.\<close>

definition sold_world :: world where
  "sold_world = upd_ta SHORT (\<lambda>a. a\<lparr>a_total := - 40, a_totalExecuted := 40, a_rif := 100\<rparr>) (sample_world [])"

lemma restart_position_witness:
  "\<exists>r1 r2 stored. report_account sample_env sample_names SHORT sold_world sample_writer = (Inr True, r1) \<and>
    load_account sample_env sample_names SHORT r1 = (Inr (Some stored), r2) \<and>
    a_total (w_ta (load_position SHORT stored (sample_world [])) SHORT) = - 40 \<and>
    a_rif (w_ta (load_position SHORT stored (sample_world [])) SHORT) = 100"
proof -
  have ta: "a_total (w_ta sold_world SHORT) = - 40" "a_totalExecuted (w_ta sold_world SHORT) = 40" "a_rif (w_ta sold_world SHORT) = 100"
    "a_totalopen (w_ta sold_world SHORT) = 0" "a_totalclose (w_ta sold_world SHORT) = 0"
    by (simp_all add: sold_world_def)
  have pif: "bt_to_double (en_boost sample_env) (show_double (a_pif (w_ta sold_world SHORT))) = Some (Fin 0)"
    by (simp add: sample_env_def sample_boost_def)
  have fits: "length (position_text (account_position sample_names SHORT sold_world)) + length (show_stream (Fin 0)) < 2 ^ 62"
  proof -
    have "getAverage SHORT sold_world = Fin 0" "a_pif (w_ta sold_world SHORT) = Fin 0"
      by (simp_all add: getAverage_def sold_world_def)
        (simp_all add: sample_world_def start_world_def new_TradeAccount_def new_table_def)
    moreover have "length (show_double (Fin 0)) = 8" "length (show_int 40) = 2"
      "length (show_int 0) = 1" "length (show_int 100) = 3" "length (show_stream (Fin 0)) = 1"
      by code_simp+
    ultimately show ?thesis
      by (simp add: account_position_def written_position_def position_fields_def account_name_def sample_names_def ta show_u32_def)
  qed
  from restart_position [OF sample_env_documented sample_writer_ready(1) _ _ pif fits, of "sample_world []"]
  show ?thesis by (auto simp: ta is_long_def account_name_def sample_names_def)
qed

end
