(* ===== verification/Commands.thy ===== *)
theory Commands
  imports Invariants Text
begin

text \<open>
  The operator's commands: the dispatch of a line (\<open>src/src/cli/CLI.cpp\<close>), the commands of
  \<open>src/src/manager/TradeAccountManager.cpp\<close>, and what they do to the instances of a trade account
  (\<open>src/src/config/TradingConfig.h\<close>). A trade account holds its instances by symbol; the accounts are
  visited in the order of their list, which stands for the order of the hash map. The
  \<open>CancelAllOrders\<close> with which \<open>TradeAccount::stop\<close> ends is a call of the gateway's library: its effect arrives as
  messages, which are transitions of their own. The flag \<open>TradeAccount::all_enable\<close>, which \<open>st -a\<close> and
  \<open>rt -a\<close> set, is never read and has no place in the state.
\<close>

section \<open>The instances of a trade account\<close>

datatype instance_action = Act_stop | Act_start | Act_panic | Act_no_panic | Act_soft | Act_no_soft | Act_toggle

definition act :: "instance_action \<Rightarrow> world \<Rightarrow> world res" where
  "act a w = (case a of
     Act_stop \<Rightarrow> stopAction w
   | Act_start \<Rightarrow> Inr (startAction w)
   | Act_panic \<Rightarrow> Inr (enablePanicClose w)
   | Act_no_panic \<Rightarrow> Inr (disablePanicClose w)
   | Act_soft \<Rightarrow> Inr (enableSoftClose w)
   | Act_no_soft \<Rightarrow> Inr (disableSoftClose w)
   | Act_toggle \<Rightarrow> Inr (avicennaToggle w))"

type_synonym instances = "(string \<times> world) list"
type_synonym accounts = "(string \<times> instances) list"

text \<open>An action on the instances whose symbol is selected.\<close>

fun on_instances :: "(string \<Rightarrow> bool) \<Rightarrow> instance_action \<Rightarrow> instances \<Rightarrow> instances res" where
  "on_instances sel a [] = Inr []"
| "on_instances sel a ((symbol, w) # rest) =
     rbind (if sel symbol then act a w else Inr w) (\<lambda>w.
     rbind (on_instances sel a rest) (\<lambda>rest. Inr ((symbol, w) # rest)))"

text \<open>\<open>start\<close>, \<open>stop\<close> and the toggle act on one symbol or on all; the closes take an empty symbol for all.\<close>

definition account_all :: "instance_action \<Rightarrow> instances \<Rightarrow> instances res" where
  "account_all a = on_instances (\<lambda>_. True) a"

definition account_one :: "instance_action \<Rightarrow> string \<Rightarrow> instances \<Rightarrow> instances res" where
  "account_one a symbol = on_instances (\<lambda>s. s = symbol) a"

definition account_close :: "instance_action \<Rightarrow> string \<Rightarrow> instances \<Rightarrow> instances res" where
  "account_close a symbol = on_instances (\<lambda>s. symbol = [] \<or> symbol = s) a"

section \<open>The accounts\<close>

fun on_accounts :: "(string \<Rightarrow> bool) \<Rightarrow> (instances \<Rightarrow> instances res) \<Rightarrow> accounts \<Rightarrow> accounts res" where
  "on_accounts sel f [] = Inr []"
| "on_accounts sel f ((k, acc) # rest) =
     rbind (if sel k then f acc else Inr acc) (\<lambda>acc.
     rbind (on_accounts sel f rest) (\<lambda>rest. Inr ((k, acc) # rest)))"

definition manager_stop :: "accounts \<Rightarrow> accounts res" where
  "manager_stop = on_accounts (\<lambda>_. True) (account_all Act_stop)"

definition manager_start :: "accounts \<Rightarrow> accounts res" where
  "manager_start = on_accounts (\<lambda>_. True) (account_all Act_start)"

definition manager_stop_account :: "string \<Rightarrow> accounts \<Rightarrow> accounts res" where
  "manager_stop_account k = on_accounts (\<lambda>k'. k' = k) (account_all Act_stop)"

definition manager_start_account :: "string \<Rightarrow> accounts \<Rightarrow> accounts res" where
  "manager_start_account k = on_accounts (\<lambda>k'. k' = k) (account_all Act_start)"

definition manager_stop_symbol :: "string \<Rightarrow> string \<Rightarrow> accounts \<Rightarrow> accounts res" where
  "manager_stop_symbol k symbol = on_accounts (\<lambda>k'. k' = k) (account_one Act_stop symbol)"

definition manager_start_symbol :: "string \<Rightarrow> string \<Rightarrow> accounts \<Rightarrow> accounts res" where
  "manager_start_symbol k symbol = on_accounts (\<lambda>k'. k' = k) (account_one Act_start symbol)"

definition panicClose :: "string \<Rightarrow> string \<Rightarrow> bool \<Rightarrow> accounts \<Rightarrow> accounts res" where
  "panicClose k symbol enable = on_accounts (\<lambda>k'. k = [] \<or> k = k')
     (account_close (if enable then Act_panic else Act_no_panic) symbol)"

definition softClose :: "string \<Rightarrow> string \<Rightarrow> bool \<Rightarrow> accounts \<Rightarrow> accounts res" where
  "softClose k symbol enable = on_accounts (\<lambda>k'. k = [] \<or> k = k')
     (account_close (if enable then Act_soft else Act_no_soft) symbol)"

definition manager_toggle :: "string \<Rightarrow> accounts \<Rightarrow> accounts res" where
  "manager_toggle k = on_accounts (\<lambda>k'. k = [] \<or> k' = k) (account_all Act_toggle)"

section \<open>Commands\<close>

text \<open>Reading an argument behind the end of the vector is undefined.\<close>

definition arg :: "string list \<Rightarrow> nat \<Rightarrow> string res" where
  "arg args i = (if i < length args then Inr (args ! i) else Inl OutOfRange)"

text \<open>The branch of a closing command, shared by \<open>pc\<close> and \<open>sc\<close>.\<close>

definition close_command :: "(string \<Rightarrow> string \<Rightarrow> bool \<Rightarrow> accounts \<Rightarrow> accounts res) \<Rightarrow> string list \<Rightarrow> accounts \<Rightarrow> accounts res" where
  "close_command close args accs =
     (if args ! 1 = [] then Inr accs
      else if args ! 1 = ''-d'' then
        rbind (arg args 2) (\<lambda>k.
        if k = ''-a'' then close [] [] False accs
        else if length args = 4 then close k (args ! 3) False accs
        else close k [] False accs)
      else if args ! 1 = ''-a'' then close [] [] True accs
      else if length args = 3 then close (args ! 1) (args ! 2) True accs
      else close (args ! 1) [] True accs)"

definition run_command :: "string list \<Rightarrow> accounts \<Rightarrow> accounts res" where
  "run_command args accs =
     (if length args < 2 then Inr accs
      else if args ! 0 = ''st'' then
        (if args ! 1 = [] then Inr accs
         else if args ! 1 = ''-a'' then manager_stop accs
         else if length args = 3 then manager_stop_symbol (args ! 1) (args ! 2) accs
         else manager_stop_account (args ! 1) accs)
      else if args ! 0 = ''rt'' then
        (if args ! 1 = [] then Inr accs
         else if args ! 1 = ''-a'' then manager_start accs
         else if length args = 3 then manager_start_symbol (args ! 1) (args ! 2) accs
         else manager_start_account (args ! 1) accs)
      else if args ! 0 = ''pc'' then close_command panicClose args accs
      else if args ! 0 = ''sc'' then close_command softClose args accs
      else if args ! 0 = ''av'' then
        (if args ! 1 = ''-a'' then manager_toggle [] accs else manager_toggle (args ! 1) accs)
      else Inr accs)"

definition account_commands :: "string list" where
  "account_commands = [''st'', ''rt'', ''pc'', ''dpc'', ''sc'', ''dsc'', ''av'']"

text \<open>The dispatch of a trimmed line that is not empty, as far as the trade accounts are concerned.\<close>

definition dispatch :: "boost \<Rightarrow> string \<Rightarrow> accounts \<Rightarrow> accounts res" where
  "dispatch bt command accs =
     (if command = [] then Inr accs
      else let split_vector = bt_split bt (CHR '' '') command
           in if split_vector ! 0 \<in> set account_commands then run_command split_vector accs else Inr accs)"

section \<open>What the commands select\<close>

text \<open>A total action on the selected instances of the selected accounts, everything else as it was.\<close>

definition acted :: "(string \<Rightarrow> string \<Rightarrow> bool) \<Rightarrow> (world \<Rightarrow> world) \<Rightarrow> accounts \<Rightarrow> accounts" where
  "acted sel f = map (\<lambda>(k, is). (k, map (\<lambda>(s, w). (s, if sel k s then f w else w)) is))"

lemma on_instances_total:
  "(\<And>w. act a w = Inr (f w)) \<Longrightarrow> on_instances sel a is = Inr (map (\<lambda>(s, w). (s, if sel s then f w else w)) is)"
  by (induction "is") auto

lemma acted_none: "map (\<lambda>(s, w). (s, w)) xs = xs"
  by (induction xs) auto

lemma on_accounts_total:
  assumes "\<And>is. g is = Inr (map (\<lambda>(s, w). (s, if sel' s then f w else w)) is)"
  shows "on_accounts sel g accs = Inr (acted (\<lambda>k s. sel k \<and> sel' s) f accs)"
  using assms by (induction accs) (auto simp: acted_def acted_none)

lemma close_total:
  "panicClose k symbol enable accs = Inr (acted (\<lambda>k' s. (k = [] \<or> k = k') \<and> (symbol = [] \<or> symbol = s))
     (if enable then enablePanicClose else disablePanicClose) accs)"
  "softClose k symbol enable accs = Inr (acted (\<lambda>k' s. (k = [] \<or> k = k') \<and> (symbol = [] \<or> symbol = s))
     (if enable then enableSoftClose else disableSoftClose) accs)"
  unfolding panicClose_def softClose_def account_close_def
  by (auto intro!: on_accounts_total on_instances_total simp: act_def)

text \<open>
  A command takes every instance through transitions of the system only, and leaves the market data of
  its symbol alone.
\<close>

definition moved_by_command :: "world \<Rightarrow> world \<Rightarrow> bool" where
  "moved_by_command w w' \<longleftrightarrow> reachable w w' \<and> sans_stack (w_sym w') = sans_stack (w_sym w)"

lemma moved_same: "moved_by_command w w"
  by (simp add: moved_by_command_def reachable_start)

lemma act_step: "act a w = Inr w' \<Longrightarrow> moved_by_command w w'"
proof -
  assume a: "act a w = Inr w'"
  have "reachable w w'" using a by (cases a) (auto simp: act_def intro: reachable_step [OF reachable_start] step.intros)
  moreover have "sans_stack (w_sym w') = sans_stack (w_sym w)"
    using a res_allD [OF market_world.P_stopAction [OF refl], of w w']
    by (cases a) (auto simp: act_def market_world.P_switches)
  ultimately show ?thesis by (simp add: moved_by_command_def)
qed

definition advanced :: "accounts \<Rightarrow> accounts \<Rightarrow> bool" where
  "advanced = list_all2 (\<lambda>(k, is) (k', is'). k' = k \<and> list_all2 (\<lambda>(s, w) (s', w'). s' = s \<and> moved_by_command w w') is is')"

lemma on_instances_steps:
  "on_instances sel a is = Inr is' \<Longrightarrow> list_all2 (\<lambda>(s, w) (s', w'). s' = s \<and> moved_by_command w w') is is'"
  by (induction "is" arbitrary: is')
    (auto split: if_splits intro: act_step moved_same)

lemma on_accounts_steps:
  assumes "\<And>is is'. g is = Inr is' \<Longrightarrow> list_all2 (\<lambda>(s, w) (s', w'). s' = s \<and> moved_by_command w w') is is'"
  shows "on_accounts sel g accs = Inr accs' \<Longrightarrow> advanced accs accs'"
  unfolding advanced_def
  by (induction accs arbitrary: accs')
    (auto split: if_splits simp: moved_same intro!: list.rel_refl dest: assms)

lemma advanced_same: "advanced accs accs"
  unfolding advanced_def by (auto intro!: list.rel_refl simp: moved_same)

lemma run_command_steps: "run_command args accs = Inr accs' \<Longrightarrow> advanced accs accs'"
  by (auto simp: run_command_def close_command_def panicClose_def softClose_def account_close_def manager_toggle_def
      manager_stop_def manager_start_def manager_stop_account_def manager_start_account_def manager_stop_symbol_def
      manager_start_symbol_def account_all_def account_one_def advanced_same
      intro: on_accounts_steps [OF on_instances_steps] split: if_splits)

text \<open>The scope of a closing command: the accounts and symbols its arguments name.\<close>

definition scope :: "string list \<Rightarrow> string \<Rightarrow> string \<Rightarrow> bool" where
  "scope args k s \<longleftrightarrow> (case args of
     [] \<Rightarrow> False
   | [a] \<Rightarrow> a = ''-a'' \<or> a = k
   | [a, b] \<Rightarrow> a = ''-a'' \<or> a = k \<and> (b = [] \<or> b = s)
   | a # _ \<Rightarrow> a = ''-a'' \<or> a = k)"

text \<open>\<open>pc\<close> and \<open>sc\<close> switch the close on, and with \<open>-d\<close> off, for exactly the instances their
  arguments name, all of them with \<open>-a\<close>; they change nothing else.\<close>

theorem close_commands:
  assumes "a \<noteq> []" "a \<noteq> ''-d''"
  shows "run_command (''pc'' # a # rest) accs = Inr (acted (scope (a # rest)) enablePanicClose accs) \<and>
    run_command (''sc'' # a # rest) accs = Inr (acted (scope (a # rest)) enableSoftClose accs) \<and>
    run_command (''pc'' # ''-d'' # a # rest) accs = Inr (acted (scope (a # rest)) disablePanicClose accs) \<and>
    run_command (''sc'' # ''-d'' # a # rest) accs = Inr (acted (scope (a # rest)) disableSoftClose accs)"
  using assms
  by (cases rest; cases "tl rest")
    (auto simp: run_command_def close_command_def close_total arg_def scope_def acted_def)

lemma close_commands_witness:
  "\<forall>w v u. run_command [''pc'', ''A'', ''IBM''] [(''A'', [(''IBM'', w), (''MS'', v)]), (''B'', [(''IBM'', u)])] =
     Inr [(''A'', [(''IBM'', enablePanicClose w), (''MS'', v)]), (''B'', [(''IBM'', u)])]"
  using close_commands [of "''A''" "[''IBM'']"]
  by (simp add: acted_def scope_def)

text \<open>The commands \<open>dpc\<close> and \<open>dsc\<close> are registered and do nothing, and \<open>pc -d\<close> without an account reads
  an argument that is not there.\<close>

theorem registered_but_unhandled:
  "run_command (''dpc'' # args) accs = Inr accs \<and> run_command (''dsc'' # args) accs = Inr accs \<and>
   run_command [''pc'', ''-d''] accs = Inl OutOfRange \<and> run_command [''sc'', ''-d''] accs = Inl OutOfRange"
  by (simp add: run_command_def close_command_def arg_def)

end
