(* ===== verification/SymbolManagers.thy ===== *)
theory SymbolManagers
  imports SymbolFeed Text
begin

text \<open>
  The distribution of the market's prices and quotes to the symbols of all accounts
  (\<open>src/src/manager/SymbolManager.cpp\<close> and \<open>.h\<close>). The symbols are objects the accounts share with the
  trading threads, so the manager holds references into a store of symbols.
\<close>

type_synonym symbol_ref = nat
type_synonym symbol_store = "symbol_ref \<Rightarrow> Symbol"

record SymbolInfo =
  si_symbols :: "symbol_ref list"
  si_this_enable :: bool

record SymbolManager =
  sm_all_enable :: bool
  sm_symbol_hash :: "string \<rightharpoonup> SymbolInfo"
  sm_subscribed :: "string list"

section \<open>Construction\<close>

text \<open>A configured symbol: its name, its exchange and its object.\<close>

type_synonym configured = "string \<times> string \<times> symbol_ref"

definition registerSymbol :: "symbol_ref \<Rightarrow> SymbolInfo \<Rightarrow> SymbolInfo" where
  "registerSymbol r i = i\<lparr>si_symbols := si_symbols i @ [r]\<rparr>"

definition add_symbol :: "configured \<Rightarrow> SymbolManager \<Rightarrow> SymbolManager" where
  "add_symbol c m =
     (case c of (name, exchange, r) \<Rightarrow>
       let m = (case sm_symbol_hash m name of
           Some _ \<Rightarrow> m
         | None \<Rightarrow> m\<lparr>sm_symbol_hash := (sm_symbol_hash m)(name \<mapsto> \<lparr>si_symbols = [], si_this_enable = True\<rparr>),
                     sm_subscribed := sm_subscribed m @ [name @ ''.'' @ exchange]\<rparr>)
       in m\<lparr>sm_symbol_hash := (sm_symbol_hash m)(name := map_option (registerSymbol r) (sm_symbol_hash m name))\<rparr>)"

definition new_SymbolManager :: "configured list list \<Rightarrow> SymbolManager" where
  "new_SymbolManager users = fold (fold add_symbol) users
     \<lparr>sm_all_enable = True, sm_symbol_hash = Map.empty, sm_subscribed = []\<rparr>"

section \<open>Prices and quotes\<close>

text \<open>\<open>symbol_hash[symbol]\<close> of an unknown symbol makes a null pointer, which is dereferenced.\<close>

definition sm_updatePrice :: "string \<Rightarrow> double \<Rightarrow> SymbolManager \<Rightarrow> symbol_store \<Rightarrow> symbol_store res" where
  "sm_updatePrice symbol price m st =
     rbind (rget NullDeref (sm_symbol_hash m symbol)) (\<lambda>i.
     if \<not> sm_all_enable m \<or> \<not> si_this_enable i then Inr st
     else Inr (fold (\<lambda>r st. st(r := updatePrice price (st r))) (si_symbols i) st))"

fun update_quotes :: "u32 \<Rightarrow> double \<Rightarrow> u32 \<Rightarrow> double \<Rightarrow> symbol_ref list \<Rightarrow> symbol_store \<Rightarrow> symbol_store res" where
  "update_quotes bid_size bid ask_size ask [] st = Inr st"
| "update_quotes bid_size bid ask_size ask (r # rs) st =
     rbind (updateQuoteData (dbl_of_u32 bid_size) bid (dbl_of_u32 ask_size) ask (st r)) (\<lambda>s.
     update_quotes bid_size bid ask_size ask rs (st(r := s)))"

definition sm_updateQuote :: "string \<Rightarrow> u32 \<Rightarrow> double \<Rightarrow> u32 \<Rightarrow> double \<Rightarrow> SymbolManager \<Rightarrow> symbol_store \<Rightarrow> symbol_store res" where
  "sm_updateQuote symbol bid_size bid ask_size ask m st =
     rbind (rget NullDeref (sm_symbol_hash m symbol)) (\<lambda>i.
     if \<not> sm_all_enable m \<or> \<not> si_this_enable i then Inr st
     else update_quotes bid_size bid ask_size ask (si_symbols i) st)"

section \<open>Commands\<close>

definition set_symbol_enable :: "string \<Rightarrow> bool \<Rightarrow> SymbolManager \<Rightarrow> SymbolManager" where
  "set_symbol_enable name b m = m\<lparr>sm_symbol_hash := (sm_symbol_hash m)(name :=
     map_option (\<lambda>i. i\<lparr>si_this_enable := b\<rparr>) (sm_symbol_hash m name))\<rparr>"

definition sm_command :: "string list \<Rightarrow> SymbolManager \<Rightarrow> SymbolManager res" where
  "sm_command args m =
     (if length args < 1 then Inl OutOfRange
      else if args ! 0 = ''ss'' \<or> args ! 0 = ''rs'' then
        if length args < 2 then Inl OutOfRange
        else if args ! 1 = ''-a'' then Inr (m\<lparr>sm_all_enable := (args ! 0 = ''rs'')\<rparr>)
        else Inr (set_symbol_enable (args ! 1) (args ! 0 = ''rs'') m)
      else Inr m)"

section \<open>Who is updated\<close>

definition refs_named :: "string \<Rightarrow> configured list \<Rightarrow> symbol_ref list" where
  "refs_named name cs = map (\<lambda>(_, _, r). r) (filter (\<lambda>(n, _, _). n = name) cs)"

text \<open>
  What the manager knows of a name: nothing before it is configured, then its objects in order. The
  flags are the one for all names and the one of each name.
\<close>

definition knows :: "configured list \<Rightarrow> bool \<Rightarrow> (string \<Rightarrow> bool) \<Rightarrow> SymbolManager \<Rightarrow> bool" where
  "knows cs a b m \<longleftrightarrow> sm_all_enable m = a \<and> (\<forall>name. sm_symbol_hash m name =
     (if refs_named name cs = [] then None else Some \<lparr>si_symbols = refs_named name cs, si_this_enable = b name\<rparr>))"

abbreviation knows_new :: "configured list \<Rightarrow> SymbolManager \<Rightarrow> bool" where
  "knows_new cs \<equiv> knows cs True (\<lambda>_. True)"

lemma knows_add: "knows_new cs m \<Longrightarrow> knows_new (cs @ [c]) (add_symbol c m)"
  by (cases c) (auto simp: knows_def add_symbol_def registerSymbol_def refs_named_def Let_def split: option.split)

lemma knows_fold: "knows_new cs m \<Longrightarrow> knows_new (cs @ ds) (fold add_symbol ds m)"
proof (induction ds arbitrary: cs m)
  case (Cons d ds)
  then show ?case using Cons.IH [OF knows_add [OF Cons.prems]] by simp
qed simp

lemma knows_users: "knows_new cs m \<Longrightarrow> knows_new (cs @ concat users) (fold (fold add_symbol) users m)"
proof (induction users arbitrary: cs m)
  case (Cons u us)
  then show ?case using Cons.IH [OF knows_fold [OF Cons.prems]] by simp
qed simp

lemma knows_new_SymbolManager: "knows_new (concat users) (new_SymbolManager users)"
  using knows_users [of "[]" "\<lparr>sm_all_enable = True, sm_symbol_hash = Map.empty, sm_subscribed = []\<rparr>" users]
  by (simp add: new_SymbolManager_def knows_def refs_named_def)

section \<open>What an update does\<close>

lemma mem_refs_named: "r \<in> set (refs_named name cs) \<longleftrightarrow> (\<exists>e. (name, e, r) \<in> set cs)"
  by (force simp: refs_named_def)

lemma distinct_refs_named: "distinct (map (\<lambda>(_, _, r). r) cs) \<Longrightarrow> distinct (refs_named name cs)"
  using distinct_map_filter [of "\<lambda>(_, _, r). r" cs "\<lambda>(n, _, _). n = name"] by (simp add: refs_named_def)

lemma one_name:
  "distinct (map (\<lambda>(_, _, r). r) cs) \<Longrightarrow> (n, e, r) \<in> set cs \<Longrightarrow> r \<in> set (refs_named name cs) \<longleftrightarrow> name = n"
  by (auto simp: mem_refs_named distinct_map inj_on_def)

lemma fold_distinct:
  "distinct rs \<Longrightarrow> fold (\<lambda>r st. st(r := f (st r))) rs st = (\<lambda>r. if r \<in> set rs then f (st r) else st r)"
  by (induction rs arbitrary: st) (auto simp: fun_eq_iff)

text \<open>The sizes of a quote are unsigned 32-bit numbers, which the symbol can always store.\<close>

lemma quote_stored: "\<exists>s'. updateQuoteData (dbl_of_u32 bs) bid (dbl_of_u32 as) ask s = Inr s'"
proof -
  have "\<exists>n. dbl_to_u64 (dbl_of_u32 x) = Inr n" for x :: u32
  proof -
    have "of_int (uint x) < (of_int (2 ^ 32) :: rat)" "(of_int 0 :: rat) \<le> of_int (uint x)"
      using uint_bounded [of x] uint_nonnegative [of x] by (simp_all only: of_int_less_iff of_int_le_iff) simp
    then show ?thesis by (auto simp: dbl_of_u32_eq dbl_to_u64_def dbl_to_int_def rat_trunc_def)
  qed
  then obtain n n' where "dbl_to_u64 (dbl_of_u32 bs) = Inr n" "dbl_to_u64 (dbl_of_u32 as) = Inr n'" by blast
  then show ?thesis by (simp add: updateQuoteData_def store_quote_def)
qed

definition quoted :: "u32 \<Rightarrow> double \<Rightarrow> u32 \<Rightarrow> double \<Rightarrow> Symbol \<Rightarrow> Symbol" where
  "quoted bs bid as ask s =
     (case updateQuoteData (dbl_of_u32 bs) bid (dbl_of_u32 as) ask s of Inl _ \<Rightarrow> s | Inr s' \<Rightarrow> s')"

lemma updateQuoteData_quoted: "updateQuoteData (dbl_of_u32 bs) bid (dbl_of_u32 as) ask s = Inr (quoted bs bid as ask s)"
  using quote_stored [of bs bid as ask s] by (auto simp: quoted_def)

lemma update_quotes_fold:
  "update_quotes bs bid as ask rs st = Inr (fold (\<lambda>r st. st(r := quoted bs bid as ask (st r))) rs st)"
  by (induction rs arbitrary: st) (simp_all add: updateQuoteData_quoted)

lemma sm_updatePrice_knows:
  assumes "knows cs a b m" "refs_named n cs \<noteq> []" "distinct (map (\<lambda>(_, _, r). r) cs)"
  shows "sm_updatePrice n p m st =
    Inr (\<lambda>r. if a \<and> b n \<and> r \<in> set (refs_named n cs) then updatePrice p (st r) else st r)"
  using assms by (auto simp: sm_updatePrice_def knows_def rget_def fold_distinct [of _ "updatePrice p"] distinct_refs_named)

lemma sm_updateQuote_knows:
  assumes "knows cs a b m" "refs_named n cs \<noteq> []" "distinct (map (\<lambda>(_, _, r). r) cs)"
  shows "sm_updateQuote n bs bid as ask m st =
    Inr (\<lambda>r. if a \<and> b n \<and> r \<in> set (refs_named n cs) then quoted bs bid as ask (st r) else st r)"
  using assms
  by (auto simp: sm_updateQuote_def knows_def rget_def update_quotes_fold fold_distinct [of _ "quoted bs bid as ask"] distinct_refs_named)

lemma unknown_name_faults: "knows cs a b m \<Longrightarrow> refs_named n cs = [] \<Longrightarrow> sm_updatePrice n p m st = Inl NullDeref"
  by (simp add: sm_updatePrice_def knows_def rget_def)

text \<open>The console switches all names or one; without its argument the command reads behind the end.\<close>

lemma sm_command_knows:
  assumes "knows cs a b m" "args \<noteq> []" "args ! 0 \<in> {''ss'', ''rs''} \<Longrightarrow> 2 \<le> length args"
  shows "\<exists>m'. sm_command args m = Inr m' \<and>
    (if args ! 0 \<notin> {''ss'', ''rs''} then knows cs a b m'
     else if args ! 1 = ''-a'' then knows cs (args ! 0 = ''rs'') b m'
     else knows cs a (b(args ! 1 := (args ! 0 = ''rs''))) m')"
  using assms by (auto simp: sm_command_def set_symbol_enable_def knows_def Suc_le_eq)

end
