(* ===== verification/Console.thy ===== *)
theory Console
  imports Commands SymbolManagers RedisWriter "HOL-Library.Sublist"
begin

text \<open>
  The two ways to give a command: the prompt of the program (\<open>src/src/cli/CLI.cpp\<close>) and the separate
  console (\<open>src/src/STEMConsole.cpp\<close>), which sends its lines through a message queue. Reading a line is a
  library call that gives a C string or, at the end of the input, a null pointer; removing the blanks of a
  line is Boost's \<open>trim\<close>, a parameter. The queue is found by its name, and the two threads of the program
  and the console run in any order: \<open>session_step\<close> has one transition for each of them. A command is one
  step, although the code has no lock around the two threads that run them.
\<close>

section \<open>Registered commands\<close>

datatype callback = Symbol_manager | Account_manager

type_synonym callbacks = "string \<rightharpoonup> callback"

text \<open>A later registration of a command replaces the earlier one; a null callback is refused.\<close>

definition registerCommand :: "string \<Rightarrow> callback option \<Rightarrow> callbacks \<Rightarrow> bool \<times> callbacks" where
  "registerCommand command cb m = (case cb of None \<Rightarrow> (False, m) | Some c \<Rightarrow> (True, m(command \<mapsto> c)))"

definition register_all :: "string list \<Rightarrow> callback \<Rightarrow> callbacks \<Rightarrow> callbacks" where
  "register_all commands c m = fold (\<lambda>k m. snd (registerCommand k (Some c) m)) commands m"

definition registered :: callbacks where
  "registered = register_all account_commands Account_manager (register_all [''ss'', ''rs''] Symbol_manager Map.empty)"

record managers =
  mg_symbols :: SymbolManager
  mg_accounts :: accounts

definition call_back :: "callback \<Rightarrow> string list \<Rightarrow> managers \<Rightarrow> managers res" where
  "call_back c args g = (case c of
     Symbol_manager \<Rightarrow> rbind (sm_command args (mg_symbols g)) (\<lambda>m. Inr (g\<lparr>mg_symbols := m\<rparr>))
   | Account_manager \<Rightarrow> rbind (run_command args (mg_accounts g)) (\<lambda>a. Inr (g\<lparr>mg_accounts := a\<rparr>)))"

text \<open>What both loops do with a trimmed line.\<close>

definition dispatch_line :: "boost \<Rightarrow> string \<Rightarrow> managers \<Rightarrow> managers res" where
  "dispatch_line bt command g =
     (if command = [] then Inr g
      else let split_vector = bt_split bt (CHR '' '') command
           in case registered (split_vector ! 0) of
                None \<Rightarrow> Inr g
              | Some c \<Rightarrow> call_back c split_vector g)"

section \<open>The prompt\<close>

definition readCommand :: "(string \<Rightarrow> string) \<Rightarrow> string option \<Rightarrow> string" where
  "readCommand trim line = (case line of None \<Rightarrow> [] | Some l \<Rightarrow> trim (c_str l))"

fun readCommandAndDispatch :: "boost \<Rightarrow> (string \<Rightarrow> string) \<Rightarrow> string option list \<Rightarrow> managers \<Rightarrow> managers res" where
  "readCommandAndDispatch bt trim [] g = Inr g"
| "readCommandAndDispatch bt trim (l # ls) g =
     rbind (dispatch_line bt (readCommand trim l) g) (readCommandAndDispatch bt trim ls)"

section \<open>The console\<close>

definition CLI_READLINE_BUFFER_SIZE :: nat where
  "CLI_READLINE_BUFFER_SIZE = 500"

text \<open>
  The console ends with a status, waits for the next line, or has made a string of a null pointer. A message
  longer than the queue admits is an exception, for which the console returns 1.
\<close>

datatype console_end = Console_exit int | Console_reading | Console_undefined fault

definition console_line :: "(string \<Rightarrow> string) \<Rightarrow> string option \<Rightarrow> console_end + string" where
  "console_line trim l = (case l of
     None \<Rightarrow> Inl (Console_undefined NullDeref)
   | Some l \<Rightarrow>
       let buffer = trim (c_str l) in
       if buffer = ''exit'' then Inl (Console_exit 0)
       else if CLI_READLINE_BUFFER_SIZE < length buffer then Inl (Console_exit 1)
       else Inr buffer)"

fun console :: "(string \<Rightarrow> string) \<Rightarrow> string option list \<Rightarrow> console_end \<times> string list" where
  "console trim [] = (Console_reading, [])"
| "console trim (l # ls) = (case console_line trim l of
     Inl e \<Rightarrow> (e, [])
   | Inr buffer \<Rightarrow> let (e, sent) = console trim ls in (e, buffer # sent))"

text \<open>The other end: the message up to its first zero byte, trimmed again.\<close>

fun readCommandAndDispatchFromCLIClient :: "boost \<Rightarrow> (string \<Rightarrow> string) \<Rightarrow> string list \<Rightarrow> managers \<Rightarrow> managers res" where
  "readCommandAndDispatchFromCLIClient bt trim [] g = Inr g"
| "readCommandAndDispatchFromCLIClient bt trim (m # ms) g =
     rbind (dispatch_line bt (trim (c_str m)) g) (readCommandAndDispatchFromCLIClient bt trim ms)"

section \<open>Both ways give the same commands\<close>

text \<open>What the documentation says of \<open>trim\<close>: it removes the blanks of the locale at both ends.\<close>

definition trimmed :: "(char \<Rightarrow> bool) \<Rightarrow> string \<Rightarrow> string" where
  "trimmed blank s = rev (dropWhile blank (rev (dropWhile blank s)))"

definition documented_trim :: "(string \<Rightarrow> string) \<Rightarrow> bool" where
  "documented_trim trim \<longleftrightarrow> (\<exists>blank. trim = trimmed blank)"

lemma dropWhile_rev_dropWhile:
  assumes "dropWhile P xs = xs"
  shows "dropWhile P (rev (dropWhile Q (rev xs))) = rev (dropWhile Q (rev xs))"
proof (cases "rev (dropWhile Q (rev xs))")
  case (Cons y ys)
  have "rev (takeWhile Q (rev xs) @ dropWhile Q (rev xs)) = xs" by simp
  then have "xs = (y # ys) @ rev (takeWhile Q (rev xs))" using Cons by (simp only: rev_append)
  then obtain zs where "xs = y # zs" by simp
  then have "\<not> P y" using assms by (metis dropWhile_eq_self_iff list.distinct(1) list.sel(1))
  then show ?thesis using Cons by simp
next
  case Nil
  then show ?thesis by (simp only: dropWhile.simps)
qed

lemma trimmed_idem: "trimmed P (trimmed P s) = trimmed P s"
proof -
  have "dropWhile P (trimmed P s) = trimmed P s"
    unfolding trimmed_def by (rule dropWhile_rev_dropWhile) simp
  then show ?thesis by (simp add: trimmed_def)
qed

lemma c_str_trimmed: "c_str (trimmed P (c_str s)) = trimmed P (c_str s)"
proof -
  have "set (trimmed P (c_str s)) \<subseteq> set (c_str s)"
    unfolding trimmed_def by (intro subsetI) (metis set_dropWhileD set_rev)
  moreover have "CHR 0x00 \<notin> set (c_str s)" by (auto simp: c_str_def dest: set_takeWhileD)
  ultimately show ?thesis unfolding c_str_def [of "trimmed P (c_str s)"] by (auto simp: takeWhile_eq_all_conv)
qed

lemma trim_message:
  assumes "documented_trim trim" and "console_line trim l = Inr m"
  shows "m = readCommand trim l" and "trim (c_str m) = readCommand trim l"
proof -
  obtain blank where trim: "trim = trimmed blank" using assms(1) by (auto simp: documented_trim_def)
  show m: "m = readCommand trim l"
    using assms(2) by (auto simp: console_line_def readCommand_def Let_def split: option.splits if_splits)
  show "trim (c_str m) = readCommand trim l"
    using assms(2) unfolding m
    by (auto simp: console_line_def readCommand_def trim c_str_trimmed trimmed_idem split: option.splits)
qed

section \<open>The message queue\<close>

text \<open>
  Queues are found by their names; a process that has opened one keeps it when its name is removed or given
  to another.
\<close>

record shared =
  sh_names :: "string \<rightharpoonup> nat"
  sh_queues :: "nat \<Rightarrow> string list"
  sh_next :: nat

definition CLI_MESSAGE_QUEUE_IDENTIFIER :: string where
  "CLI_MESSAGE_QUEUE_IDENTIFIER = ''stem-message-queue''"

definition CLI_MESSAGE_QUEUE_SIZE :: nat where
  "CLI_MESSAGE_QUEUE_SIZE = 100"

definition queue_remove :: "string \<Rightarrow> shared \<Rightarrow> shared" where
  "queue_remove name sh = sh\<lparr>sh_names := (sh_names sh)(name := None)\<rparr>"

text \<open>\<open>create_only\<close> fails when the name is taken, or when the system has no shared memory.\<close>

definition queue_create :: "string \<Rightarrow> bool \<Rightarrow> shared \<Rightarrow> nat option \<times> shared" where
  "queue_create name available sh =
     (if \<not> available \<or> sh_names sh name \<noteq> None then (None, sh)
      else (Some (sh_next sh), sh\<lparr>sh_names := (sh_names sh)(name \<mapsto> sh_next sh),
             sh_queues := (sh_queues sh)(sh_next sh := []), sh_next := Suc (sh_next sh)\<rparr>))"

section \<open>The interface of the program\<close>

record CLI =
  cli_mq :: "nat option"

definition new_CLI :: "bool \<Rightarrow> shared \<Rightarrow> CLI \<times> shared" where
  "new_CLI available sh =
     (let sh = queue_remove CLI_MESSAGE_QUEUE_IDENTIFIER sh
      in case queue_create CLI_MESSAGE_QUEUE_IDENTIFIER available sh of
           (Some q, sh) \<Rightarrow> (\<lparr>cli_mq = Some q\<rparr>, sh)
         | (None, sh) \<Rightarrow> (\<lparr>cli_mq = None\<rparr>, queue_remove CLI_MESSAGE_QUEUE_IDENTIFIER sh))"

definition destroy_CLI :: "CLI \<Rightarrow> shared \<Rightarrow> shared" where
  "destroy_CLI c sh = (if cli_mq c \<noteq> None then queue_remove CLI_MESSAGE_QUEUE_IDENTIFIER sh else sh)"

text \<open>The interface is made once.\<close>

definition CLI_init :: "bool \<Rightarrow> CLI option \<Rightarrow> shared \<Rightarrow> CLI option \<times> shared" where
  "CLI_init available single sh = (case single of
     None \<Rightarrow> (let (c, sh) = new_CLI available sh in (Some c, sh))
   | Some c \<Rightarrow> (Some c, sh))"

section \<open>A console beside the program\<close>

record session =
  se_shared :: shared
  se_cli :: CLI
  se_managers :: "managers res"
  se_typed :: "string option list"
  se_console :: "nat option"
  se_lines :: "string option list"
  se_end :: console_end

definition pending_messages :: "session \<Rightarrow> string list" where
  "pending_messages s = (case cli_mq (se_cli s) of None \<Rightarrow> [] | Some q \<Rightarrow> sh_queues (se_shared s) q)"

definition set_queue :: "nat \<Rightarrow> string list \<Rightarrow> session \<Rightarrow> session" where
  "set_queue q ms s = s\<lparr>se_shared := (se_shared s)\<lparr>sh_queues := (sh_queues (se_shared s))(q := ms)\<rparr>\<rparr>"

text \<open>The handler of the console removes a queue of another name.\<close>

definition console_ends :: "console_end \<Rightarrow> session \<Rightarrow> session" where
  "console_ends e s = s\<lparr>se_end := e, se_shared :=
     (if e = Console_exit 1 then queue_remove ''message_queue'' (se_shared s) else se_shared s)\<rparr>"

definition open_console :: "session \<Rightarrow> session" where
  "open_console s = (case sh_names (se_shared s) CLI_MESSAGE_QUEUE_IDENTIFIER of
     None \<Rightarrow> console_ends (Console_exit 1) s
   | Some q \<Rightarrow> s\<lparr>se_console := Some q\<rparr>)"

definition new_session :: "CLI \<Rightarrow> shared \<Rightarrow> managers \<Rightarrow> string option list \<Rightarrow> string option list \<Rightarrow> session" where
  "new_session c sh g typed lines =
     open_console \<lparr>se_shared = sh, se_cli = c, se_managers = Inr g, se_typed = typed, se_console = None,
       se_lines = lines, se_end = Console_reading\<rparr>"

text \<open>
  A line at the prompt; a line at the console, which waits while the queue is full; the end of the console;
  a message that arrives; and the thread that receives from no queue.
\<close>

inductive session_step :: "boost \<Rightarrow> (string \<Rightarrow> string) \<Rightarrow> session \<Rightarrow> session \<Rightarrow> bool" for bt trim where
  session_typed: "se_managers s = Inr g \<Longrightarrow> se_typed s = l # ls \<Longrightarrow>
    session_step bt trim s (s\<lparr>se_typed := ls, se_managers := dispatch_line bt (readCommand trim l) g\<rparr>)"
| session_sent: "se_end s = Console_reading \<Longrightarrow> se_console s = Some q \<Longrightarrow> se_lines s = l # ls \<Longrightarrow>
    console_line trim l = Inr m \<Longrightarrow> length (sh_queues (se_shared s) q) < CLI_MESSAGE_QUEUE_SIZE \<Longrightarrow>
    session_step bt trim s (set_queue q (sh_queues (se_shared s) q @ [m]) (s\<lparr>se_lines := ls\<rparr>))"
| session_ended: "se_end s = Console_reading \<Longrightarrow> se_console s = Some q \<Longrightarrow> se_lines s = l # ls \<Longrightarrow>
    console_line trim l = Inl e \<Longrightarrow>
    session_step bt trim s (console_ends e (s\<lparr>se_lines := ls\<rparr>))"
| session_received: "se_managers s = Inr g \<Longrightarrow> cli_mq (se_cli s) = Some q \<Longrightarrow> sh_queues (se_shared s) q = m # ms \<Longrightarrow>
    session_step bt trim s (set_queue q ms (s\<lparr>se_managers := dispatch_line bt (trim (c_str m)) g\<rparr>))"
| session_no_queue: "se_managers s = Inr g \<Longrightarrow> cli_mq (se_cli s) = None \<Longrightarrow>
    session_step bt trim s (s\<lparr>se_managers := Inl NullDeref\<rparr>)"

inductive session_reachable :: "boost \<Rightarrow> (string \<Rightarrow> string) \<Rightarrow> session \<Rightarrow> session \<Rightarrow> bool" for bt trim s0 where
  session_start: "session_reachable bt trim s0 s0"
| session_next: "session_reachable bt trim s0 s \<Longrightarrow> session_step bt trim s s' \<Longrightarrow> session_reachable bt trim s0 s'"

section \<open>Both ways give the same commands\<close>

lemma readCommandAndDispatch_snoc:
  "readCommandAndDispatch bt trim (ls @ [l]) g =
     rbind (readCommandAndDispatch bt trim ls g) (dispatch_line bt (readCommand trim l))"
  by (induction ls arbitrary: g) (auto simp: rbind_def split: sum.splits)

lemma snoc_shuffles: "ys @ [x] \<in> shuffles [x] ys" "xs @ [x] \<in> shuffles xs [x]"
  by (induction ys) (auto intro: Cons_in_shuffles_rightI, induction xs, auto intro: Cons_in_shuffles_leftI)

lemma shuffles_snocI:
  "zs \<in> shuffles xs ys \<Longrightarrow> zs @ [x] \<in> shuffles (xs @ [x]) ys"
  "zs \<in> shuffles xs ys \<Longrightarrow> zs @ [x] \<in> shuffles xs (ys @ [x])"
  by (induction xs ys arbitrary: zs rule: shuffles.induct) (auto simp: snoc_shuffles)

definition sendable :: "(string \<Rightarrow> string) \<Rightarrow> string option \<Rightarrow> bool" where
  "sendable trim l \<longleftrightarrow> (\<exists>m. console_line trim l = Inr m)"

text \<open>A console that runs alone sends the lines before the first one that ends it.\<close>

lemma console_messages: "documented_trim trim \<Longrightarrow> snd (console trim ls) = map (readCommand trim) (takeWhile (sendable trim) ls)"
  by (induction ls) (auto simp: sendable_def trim_message(1) split: sum.splits prod.splits)

lemma client_of_console:
  assumes "documented_trim trim"
  shows "readCommandAndDispatchFromCLIClient bt trim (snd (console trim ls)) g =
    readCommandAndDispatch bt trim (takeWhile (sendable trim) ls) g"
proof -
  have "list_all (sendable trim) rs \<Longrightarrow> readCommandAndDispatchFromCLIClient bt trim (map (readCommand trim) rs) g =
      readCommandAndDispatch bt trim rs g" for rs
  proof (induction rs arbitrary: g)
    case (Cons r rs)
    then obtain m where m: "console_line trim r = Inr m" by (auto simp: sendable_def)
    show ?case using Cons trim_message [OF assms m] by (simp add: rbind_def split: sum.split)
  qed simp
  moreover have "list_all (sendable trim) (takeWhile (sendable trim) ls)" by (auto simp: list_all_iff dest: set_takeWhileD)
  ultimately show ?thesis by (simp add: console_messages assms)
qed

text \<open>
  The lines the prompt has read, those of the console the program has taken and those that are in the queue.
\<close>

definition session_inv ::
    "boost \<Rightarrow> (string \<Rightarrow> string) \<Rightarrow> managers \<Rightarrow> string option list \<Rightarrow> string option list \<Rightarrow> nat \<Rightarrow> session \<Rightarrow>
     string option list \<Rightarrow> string option list \<Rightarrow> string option list \<Rightarrow> string option list \<Rightarrow> bool" where
  "session_inv bt trim g typed lines q s tys taken pend zs \<longleftrightarrow>
     se_console s = Some q \<and> cli_mq (se_cli s) = Some q \<and>
     typed = tys @ se_typed s \<and> prefix (taken @ pend) lines \<and>
     (se_end s = Console_reading \<longrightarrow> lines = taken @ pend @ se_lines s) \<and>
     list_all (sendable trim) (taken @ pend) \<and>
     zs \<in> shuffles tys taken \<and> se_managers s = readCommandAndDispatch bt trim zs g \<and>
     sh_queues (se_shared s) q = map (readCommand trim) pend \<and> length pend \<le> CLI_MESSAGE_QUEUE_SIZE"

lemma session_step_inv:
  assumes "session_step bt trim s s'" and trim: "documented_trim trim"
    and inv: "session_inv bt trim g typed lines q s tys taken pend zs"
  shows "\<exists>tys taken pend zs. session_inv bt trim g typed lines q s' tys taken pend zs"
  using assms(1)
proof cases
  case (session_typed h l ls)
  have "readCommandAndDispatch bt trim zs g = Inr h" using inv session_typed by (simp add: session_inv_def)
  with session_typed have "session_inv bt trim g typed lines q s' (tys @ [l]) taken pend (zs @ [l])"
    using inv by (auto simp: session_inv_def readCommandAndDispatch_snoc shuffles_snocI)
  then show ?thesis by blast
next
  case (session_sent q' l ls m)
  then have "session_inv bt trim g typed lines q s' tys taken (pend @ [l]) zs"
    using inv trim_message(1) [OF trim] by (auto simp: session_inv_def set_queue_def sendable_def prefix_def)
  then show ?thesis by blast
next
  case (session_ended q' l ls e)
  then have "session_inv bt trim g typed lines q s' tys taken pend zs"
    using inv by (auto simp: session_inv_def console_ends_def queue_remove_def console_line_def Let_def
        split: option.splits if_splits)
  then show ?thesis by blast
next
  case (session_received h q' m ms)
  then obtain l pend' where pend: "pend = l # pend'" and ms: "ms = map (readCommand trim) pend'"
      and m: "m = readCommand trim l"
    using inv by (auto simp: session_inv_def)
  have run: "readCommandAndDispatch bt trim zs g = Inr h" using inv session_received by (simp add: session_inv_def)
  have "sendable trim l" using inv pend by (simp add: session_inv_def)
  then have "trim (c_str m) = readCommand trim l"
    using trim_message [OF trim] m by (auto simp: sendable_def)
  then have "session_inv bt trim g typed lines q s' tys (taken @ [l]) pend' (zs @ [l])"
    using inv session_received pend ms run
    by (auto simp: session_inv_def set_queue_def readCommandAndDispatch_snoc shuffles_snocI)
  then show ?thesis by blast
next
  case (session_no_queue h)
  then show ?thesis using inv by (simp add: session_inv_def)
qed

lemma new_CLI_opened:
  "CLI_init True None sh0 = (Some c, sh) \<Longrightarrow>
     sh_names sh CLI_MESSAGE_QUEUE_IDENTIFIER = cli_mq c \<and> cli_mq c = Some (sh_next sh0) \<and> sh_queues sh (sh_next sh0) = []"
  by (auto simp: CLI_init_def new_CLI_def queue_create_def queue_remove_def)

lemma session_reachable_inv:
  assumes trim: "documented_trim trim" and cli: "CLI_init True None sh0 = (Some c, sh)"
    and "session_reachable bt trim (new_session c sh g typed lines) s"
  shows "\<exists>tys taken pend zs. session_inv bt trim g typed lines (sh_next sh0) s tys taken pend zs"
  using assms(3)
proof (induction rule: session_reachable.induct)
  case session_start
  have "session_inv bt trim g typed lines (sh_next sh0) (new_session c sh g typed lines) [] [] [] []"
    using new_CLI_opened [OF cli] by (simp add: session_inv_def new_session_def open_console_def)
  then show ?case by blast
next
  case (session_next s s')
  then show ?case using session_step_inv [OF _ trim] by blast
qed

text \<open>C32: whatever the interleaving of the prompt, the console and the thread that receives, the commands have
  the effect of typing at the prompt the lines typed there merged with a prefix of the lines of the console,
  each in its order; the queue holds the next ones, never more than it admits, and none is lost.\<close>

theorem session_is_prompt:
  assumes "documented_trim trim" and "CLI_init True None sh0 = (Some c, sh)"
    and "session_reachable bt trim (new_session c sh g typed lines) s"
  shows "\<exists>tys taken pend zs. typed = tys @ se_typed s \<and> prefix (taken @ pend) lines \<and>
    zs \<in> shuffles tys taken \<and> se_managers s = readCommandAndDispatch bt trim zs g \<and>
    pending_messages s = map (readCommand trim) pend \<and> length pend \<le> CLI_MESSAGE_QUEUE_SIZE \<and>
    (se_end s = Console_reading \<longrightarrow> lines = taken @ pend @ se_lines s)"
proof -
  obtain tys taken pend zs where "session_inv bt trim g typed lines (sh_next sh0) s tys taken pend zs"
    using session_reachable_inv [OF assms] by blast
  then show ?thesis by (intro exI [of _ tys] exI [of _ taken] exI [of _ pend] exI [of _ zs])
    (simp add: session_inv_def pending_messages_def)
qed

text \<open>Closing an account from the console, after an empty line at the prompt.\<close>

definition sample_shared :: shared where
  "sample_shared = \<lparr>sh_names = Map.empty, sh_queues = (\<lambda>_. []), sh_next = 0\<rparr>"

lemma session_is_prompt_witness:
  "\<forall>w m. \<exists>s tys taken pend zs. pending_messages s = [] \<and> se_typed s = [] \<and> se_lines s = [] \<and>
     se_managers s = Inr \<lparr>mg_symbols = m, mg_accounts = [(''A'', [(''IBM'', enablePanicClose w)])]\<rparr> \<and>
     [Some '' ''] = tys @ se_typed s \<and> prefix (taken @ pend) [Some ''pc A''] \<and> zs \<in> shuffles tys taken \<and>
     se_managers s = readCommandAndDispatch sample_boost (trimmed (\<lambda>c. c = CHR '' '')) zs
       \<lparr>mg_symbols = m, mg_accounts = [(''A'', [(''IBM'', w)])]\<rparr>"
proof (intro allI)
  fix w m
  let ?trim = "trimmed (\<lambda>c. c = CHR '' '')" and ?step = "session_step sample_boost (trimmed (\<lambda>c. c = CHR '' ''))"
  let ?g = "\<lparr>mg_symbols = m, mg_accounts = [(''A'', [(''IBM'', w)])]\<rparr>"
  let ?done = "\<lparr>mg_symbols = m, mg_accounts = [(''A'', [(''IBM'', enablePanicClose w)])]\<rparr>"
  obtain c sh where cli: "CLI_init True None sample_shared = (Some c, sh)"
    by (simp add: CLI_init_def new_CLI_def queue_create_def queue_remove_def sample_shared_def)
  note opened = new_CLI_opened [OF cli]
  let ?s = "new_session c sh ?g [Some '' ''] [Some ''pc A'']"
  have trim: "?trim (c_str '' '') = []" "?trim (c_str ''pc A'') = ''pc A''" by (simp_all add: trimmed_def c_str_def)
  have s: "?s = \<lparr>se_shared = sh, se_cli = c, se_managers = Inr ?g, se_typed = [Some '' ''], se_console = Some 0,
      se_lines = [Some ''pc A''], se_end = Console_reading\<rparr>"
    using opened by (simp add: new_session_def open_console_def sample_shared_def)
  have q: "cli_mq c = Some 0" "sh_queues sh 0 = []" using opened by (simp_all add: sample_shared_def)
  let ?s1 = "set_queue 0 [''pc A''] (?s\<lparr>se_lines := []\<rparr>)"
  let ?s2 = "?s1\<lparr>se_typed := [], se_managers := Inr ?g\<rparr>"
  let ?s3 = "set_queue 0 [] (?s2\<lparr>se_managers := Inr ?done\<rparr>)"
  have "?step ?s ?s1"
    using session_sent [of ?s 0 "Some ''pc A''" "[]" ?trim "''pc A''" sample_boost]
    by (simp add: s q console_line_def trim CLI_READLINE_BUFFER_SIZE_def CLI_MESSAGE_QUEUE_SIZE_def)
  moreover have "?step ?s1 ?s2"
    using session_typed [of ?s1 ?g "Some '' ''" "[]" sample_boost ?trim]
    by (simp add: s set_queue_def readCommand_def trim dispatch_line_def)
  moreover have "?step ?s2 ?s3"
    using session_received [of ?s2 ?g 0 "''pc A''" "[]" sample_boost ?trim]
    by (simp add: s q set_queue_def trim dispatch_line_def sample_boost_def registered_def register_all_def
        registerCommand_def account_commands_def call_back_def run_command_def close_command_def close_total acted_def)
  ultimately have reached: "session_reachable sample_boost ?trim ?s ?s3"
    by (meson session_next session_start)
  have "documented_trim ?trim" by (auto simp: documented_trim_def)
  from session_is_prompt [OF this cli reached] obtain tys taken pend zs where
    "[Some '' ''] = tys @ se_typed ?s3" "prefix (taken @ pend) [Some ''pc A'']" "zs \<in> shuffles tys taken"
    "se_managers ?s3 = readCommandAndDispatch sample_boost ?trim zs ?g" by blast
  moreover have "pending_messages ?s3 = [] \<and> se_typed ?s3 = [] \<and> se_lines ?s3 = [] \<and> se_managers ?s3 = Inr ?done"
    by (simp add: s q set_queue_def pending_messages_def)
  ultimately show "\<exists>s tys taken pend zs. pending_messages s = [] \<and> se_typed s = [] \<and> se_lines s = [] \<and>
     se_managers s = Inr ?done \<and> [Some '' ''] = tys @ se_typed s \<and> prefix (taken @ pend) [Some ''pc A''] \<and>
     zs \<in> shuffles tys taken \<and> se_managers s = readCommandAndDispatch sample_boost ?trim zs ?g"
    by blast
qed

section \<open>Names of queues\<close>

text \<open>A second program on the machine gives the name to its own queue: a console that is started afterwards
  talks to it, and no console reaches the first program any more.\<close>

lemma second_program_takes_console:
  assumes "CLI_init True None sh = (Some c1, sh1)" and "CLI_init True None sh1 = (Some c2, sh2)"
  shows "se_console (new_session c1 sh2 g typed lines) = cli_mq c2 \<and> cli_mq c2 \<noteq> cli_mq c1"
  using assms by (auto simp: CLI_init_def new_CLI_def queue_create_def queue_remove_def new_session_def open_console_def
      split: if_splits)

text \<open>A program whose queue could not be made receives from a null pointer.\<close>

lemma no_queue_faults:
  assumes "CLI_init False None sh = (Some c, sh')"
  shows "\<exists>s'. session_step bt trim (new_session c sh' g typed lines) s' \<and> se_managers s' = Inl NullDeref"
    and "se_end (new_session c sh' g typed lines) = Console_exit 1"
proof -
  have c: "cli_mq c = None" "sh_names sh' CLI_MESSAGE_QUEUE_IDENTIFIER = None"
    using assms by (auto simp: CLI_init_def new_CLI_def queue_create_def queue_remove_def)
  let ?s = "new_session c sh' g typed lines"
  have s: "se_managers ?s = Inr g" "se_cli ?s = c" "se_end ?s = Console_exit 1"
    using c by (simp_all add: new_session_def open_console_def console_ends_def)
  then show "se_end ?s = Console_exit 1" by simp
  show "\<exists>s'. session_step bt trim ?s s' \<and> se_managers s' = Inl NullDeref"
    by (intro exI [of _ "?s\<lparr>se_managers := Inl NullDeref\<rparr>"] conjI)
      (use s c session_no_queue [of ?s g bt trim] in auto)
qed

end
