(* ===== verification/Avicenna.thy ===== *)
theory Avicenna
  imports SymbolFeed Utils
begin

text \<open>
  The estimates (\<open>src/src/avicenna/AvicennaInterface.cpp\<close>): a connection feeds prices to the estimation
  library and truncates its answer; at the start it perturbs the price until the estimate is positive.
  The library is not part of the program: it is a state, a transition on a price and an exported value.
\<close>

record 'd estimator =
  est_calculate :: "double \<Rightarrow> 'd \<Rightarrow> 'd"
  est_export :: "'d \<Rightarrow> double"

record 'd AvicennaConnection =
  av_library :: 'd
  av_price_estimate :: double
  av_startup :: bool

definition new_AvicennaConnection :: "'d \<Rightarrow> 'd AvicennaConnection" where
  "new_AvicennaConnection d = \<lparr>av_library = d, av_price_estimate = Fin (- 1), av_startup = True\<rparr>"

definition calculate :: "'d estimator \<Rightarrow> double \<Rightarrow> 'd AvicennaConnection \<Rightarrow> 'd AvicennaConnection res" where
  "calculate est price c =
     (let d = est_calculate est price (av_library c) in
      rbind (Utils.truncate (est_export est d) 4) (\<lambda>current_estimate.
      Inr (c\<lparr>av_library := d, av_price_estimate := current_estimate\<rparr>)))"

definition cent :: double where
  "cent = round64 (1 / 100)"

text \<open>The loop at the start; a loop that never sees a positive estimate has no result.\<close>

partial_function (option) startup_loop ::
    "'d estimator \<Rightarrow> bool \<Rightarrow> double \<Rightarrow> 'd AvicennaConnection \<Rightarrow> 'd AvicennaConnection res option" where
  "startup_loop est invert val c =
     (if dle (av_price_estimate c) (Fin 0) \<and> av_startup c then
        let val = (if invert then dadd val cent else dsub val cent) in
        (case calculate est val c of
           Inl f \<Rightarrow> Some (Inl f)
         | Inr c \<Rightarrow> startup_loop est (\<not> invert) val c)
      else Some (Inr c))"

declare startup_loop.simps [code]

definition newEstimate :: "'d estimator \<Rightarrow> double \<Rightarrow> 'd AvicennaConnection \<Rightarrow> (double \<times> 'd AvicennaConnection) res option" where
  "newEstimate est lat c =
     (if dlt (Fin 0) lat then
        (case startup_loop est True lat c of
           None \<Rightarrow> None
         | Some r \<Rightarrow> Some (rbind r (\<lambda>c. rbind (calculate est lat c) (\<lambda>c.
             let c = c\<lparr>av_startup := False\<rparr> in Inr (av_price_estimate c, c)))))
      else Some (Inr (Fin 0, c)))"

text \<open>The body of the timer thread for one symbol.\<close>

definition timeout_step :: "'d estimator \<Rightarrow> int \<Rightarrow> 'd AvicennaConnection \<Rightarrow> Symbol \<Rightarrow>
    ('d AvicennaConnection \<times> Symbol) res option" where
  "timeout_step est index c s =
     (case newEstimate est (s_close_price s) c of
        None \<Rightarrow> None
      | Some r \<Rightarrow> Some (rbind r (\<lambda>(x, c). Inr (c, resetIntervalCallback (\<lambda>_ _ _ _. x) index s))))"

section \<open>The first estimate\<close>

text \<open>The prices the loop at the start tries, and the estimate of the library after a list of prices.\<close>

definition tried :: "double \<Rightarrow> nat \<Rightarrow> double list" where
  "tried p n = map (\<lambda>i. if even i then dadd p cent else dsub (dadd p cent) cent) [0..<n]"

definition fed :: "'d estimator \<Rightarrow> double list \<Rightarrow> 'd \<Rightarrow> 'd" where
  "fed est ps d = fold (est_calculate est) ps d"

definition estimate_after :: "'d estimator \<Rightarrow> 'd \<Rightarrow> double list \<Rightarrow> double res" where
  "estimate_after est d ps = Utils.truncate (est_export est (fed est ps d)) 4"

definition not_positive :: "double res \<Rightarrow> bool" where
  "not_positive r \<longleftrightarrow> (\<exists>y. r = Inr y \<and> dle y (Fin 0))"

text \<open>The variables of the loop after a number of prices.\<close>

definition probed :: "'d estimator \<Rightarrow> double \<Rightarrow> 'd AvicennaConnection \<Rightarrow> nat \<Rightarrow> double \<Rightarrow> 'd AvicennaConnection \<Rightarrow> bool" where
  "probed est p c n val c' \<longleftrightarrow> val = (if n = 0 then p else last (tried p n)) \<and> av_startup c' \<and>
     dle (av_price_estimate c') (Fin 0) \<and> av_library c' = fed est (tried p n) (av_library c)"

lemma tried_Suc: "tried p (Suc n) = tried p n @ [if even n then dadd p cent else dsub (dadd p cent) cent]"
  by (simp add: tried_def)

lemma fed_append [simp]: "fed est (ps @ [x]) d = est_calculate est x (fed est ps d)"
  by (simp add: fed_def)

lemma next_price:
  assumes "dadd (dsub (dadd p cent) cent) cent = dadd p cent" "probed est p c n val c'"
  shows "(if even n then dadd val cent else dsub val cent) = last (tried p (Suc n))"
  using assms by (cases n) (auto simp: probed_def tried_Suc)

definition probed_on :: "'d estimator \<Rightarrow> double \<Rightarrow> 'd AvicennaConnection \<Rightarrow> nat \<Rightarrow> double \<Rightarrow> 'd AvicennaConnection \<Rightarrow> 'd AvicennaConnection" where
  "probed_on est p c n y c' = c'\<lparr>av_library := fed est (tried p (Suc n)) (av_library c), av_price_estimate := y\<rparr>"

lemma probed_Suc:
  "probed est p c n val c' \<Longrightarrow> dle y (Fin 0) \<Longrightarrow> probed est p c (Suc n) (last (tried p (Suc n))) (probed_on est p c n y c')"
  by (simp add: probed_def probed_on_def)

lemma calculate_probed:
  "probed est p c n val c' \<Longrightarrow> calculate est (last (tried p (Suc n))) c' =
     rbind (estimate_after est (av_library c) (tried p (Suc n))) (\<lambda>y. Inr (probed_on est p c n y c'))"
  by (simp add: calculate_def estimate_after_def probed_def tried_Suc probed_on_def Let_def)

lemma startup_loop_step:
  assumes "dadd (dsub (dadd p cent) cent) cent = dadd p cent" "probed est p c n val c'"
    and "estimate_after est (av_library c) (tried p (Suc n)) = Inr y"
  shows "startup_loop est (even n) val c' = startup_loop est (odd n) (last (tried p (Suc n))) (probed_on est p c n y c')"
proof -
  have "dle (av_price_estimate c') (Fin 0)" "av_startup c'" using assms(2) by (simp_all add: probed_def)
  then show ?thesis
    by (subst startup_loop.simps, unfold next_price [OF assms(1,2)] Let_def) (simp add: calculate_probed [OF assms(2)] assms(3))
qed

lemma startup_loop_hangs:
  assumes cycle: "dadd (dsub (dadd p cent) cent) cent = dadd p cent"
    and never: "\<forall>n. not_positive (estimate_after est (av_library c) (tried p (Suc n)))"
  shows "startup_loop est' invert val c' = Some r \<Longrightarrow> est' = est \<and> invert = even n \<and> probed est p c n val c' \<Longrightarrow> False"
proof (induction arbitrary: n rule: startup_loop.raw_induct [rotated 1, consumes 1])
  case (1 loop est' invert val c' r)
  then have here: "probed est p c n val c'" "est' = est" "invert = even n" by simp_all
  obtain y where y: "estimate_after est (av_library c) (tried p (Suc n)) = Inr y" "dle y (Fin 0)"
    using never by (auto simp: not_positive_def)
  have "dle (av_price_estimate c') (Fin 0)" "av_startup c'" using here(1) by (simp_all add: probed_def)
  with 1(2) have "loop est (odd n) (last (tried p (Suc n))) (probed_on est p c n y c') = Some r"
    unfolding here(2,3) Let_def next_price [OF cycle here(1)] calculate_probed [OF here(1)] y(1) by simp
  from 1(1) [OF this, of "Suc n"] show False using probed_Suc [OF here(1) y(2)] by simp
qed

lemma startup_loop_ends:
  assumes cycle: "dadd (dsub (dadd p cent) cent) cent = dadd p cent"
    and first: "\<forall>m < n. not_positive (estimate_after est (av_library c) (tried p (Suc m)))"
      "estimate_after est (av_library c) (tried p (Suc n)) = Inr y" "\<not> dle y (Fin 0)"
  shows "k \<le> n \<Longrightarrow> probed est p c k val c' \<Longrightarrow> startup_loop est (even k) val c' = Some (Inr (probed_on est p c n y c'))"
proof (induction "n - k" arbitrary: k val c')
  case 0
  then have "k = n" by simp
  then show ?case using startup_loop_step [OF cycle 0(3)] first(2,3)
    by (simp add: startup_loop.simps [of est "odd n"] probed_on_def)
next
  case (Suc j)
  then have "k < n" by simp
  then obtain z where z: "estimate_after est (av_library c) (tried p (Suc k)) = Inr z" "dle z (Fin 0)"
    using first(1) unfolding not_positive_def by blast
  have "startup_loop est (even (Suc k)) (last (tried p (Suc k))) (probed_on est p c k z c') =
      Some (Inr (probed_on est p c n y (probed_on est p c k z c')))"
    using Suc(2) Suc(4) z(2) by (intro Suc(1) probed_Suc) auto
  then show ?case using startup_loop_step [OF cycle Suc(4) z(1)] by (simp add: probed_on_def)
qed

text \<open>C40: at the first estimate the library is given only two prices, a hundredth above the last price and
  that less a hundredth, in turn. The first of them that gives a positive estimate ends the loop, and the
  estimate of the last price follows; when none ever does, the thread stays in the loop for ever, with
  the mutex of the symbol held.\<close>

theorem first_estimate:
  assumes "dlt (Fin 0) p" "av_startup c" "dle (av_price_estimate c) (Fin 0)"
    and "dadd (dsub (dadd p cent) cent) cent = dadd p cent"
  shows "((\<forall>n. not_positive (estimate_after est (av_library c) (tried p (Suc n)))) \<longrightarrow> newEstimate est p c = None) \<and>
    (\<forall>n y z. (\<forall>m < n. not_positive (estimate_after est (av_library c) (tried p (Suc m)))) \<and>
        estimate_after est (av_library c) (tried p (Suc n)) = Inr y \<and> \<not> dle y (Fin 0) \<and>
        estimate_after est (av_library c) (tried p (Suc n) @ [p]) = Inr z \<longrightarrow>
      newEstimate est p c = Some (Inr (z, \<lparr>av_library = fed est (tried p (Suc n) @ [p]) (av_library c),
        av_price_estimate = z, av_startup = False\<rparr>)))"
proof -
  have start: "probed est p c 0 p c" using assms(2,3) by (simp add: probed_def tried_def fed_def)
  have "newEstimate est p c = None"
    if "\<forall>n. not_positive (estimate_after est (av_library c) (tried p (Suc n)))"
  proof -
    have "startup_loop est True p c \<noteq> Some r" for r using startup_loop_hangs [OF assms(4) that, of est True p c r 0] start by auto
    then show ?thesis using assms(1) by (cases "startup_loop est True p c") (auto simp: newEstimate_def)
  qed
  moreover have "newEstimate est p c = Some (Inr (z, \<lparr>av_library = fed est (tried p (Suc n) @ [p]) (av_library c),
        av_price_estimate = z, av_startup = False\<rparr>))"
    if first: "\<forall>m < n. not_positive (estimate_after est (av_library c) (tried p (Suc m)))"
      "estimate_after est (av_library c) (tried p (Suc n)) = Inr y" "\<not> dle y (Fin 0)"
      and last: "estimate_after est (av_library c) (tried p (Suc n) @ [p]) = Inr z" for n y z
    using startup_loop_ends [OF assms(4) first le0 start] last assms(1)
    by (simp add: newEstimate_def calculate_def estimate_after_def probed_on_def Let_def)
  ultimately show ?thesis by blast
qed

text \<open>A last price of five, with an estimator that always answers zero and one that counts its prices.\<close>

lemma five_cycles: "dadd (dsub (dadd (Fin 5) cent) cent) cent = dadd (Fin 5) cent"
proof -
  let ?c = "of_int 5764607523034235 * 2 powi (- 59) :: rat" and ?x = "of_int 5640758533281546 * 2 powi (- 50) :: rat"
  have "round64 (1 / 100) = Fin ?c"
    using round64_near [of "- 7" "1 / 100" 5764607523034235] by (simp add: power_int_def power_one_over)
  then have cent: "cent = Fin ?c" by (simp add: cent_def)
  have up: "dadd (Fin 5) cent = Fin ?x"
    using round64_near [of 2 "5 + ?c" 5640758533281546] by (simp add: cent power_int_def power_one_over)
  have "dsub (Fin ?x) cent = Fin 5"
    using round64_near [of 2 "?x - ?c" 5629499534213120] by (simp add: cent dsub_def power_int_def power_one_over)
  then show ?thesis using up by simp
qed

definition silent_estimator :: "unit estimator" where
  "silent_estimator = \<lparr>est_calculate = (\<lambda>_ d. d), est_export = (\<lambda>_. Fin 0)\<rparr>"

definition counting_estimator :: "nat estimator" where
  "counting_estimator = \<lparr>est_calculate = (\<lambda>_ d. Suc d), est_export = (\<lambda>d. if d < 3 then Fin 0 else Fin 1)\<rparr>"

lemma truncate_bits: "Utils.truncate (Fin 0) 4 = Inr (Fin 0)" "Utils.truncate (Fin 1) 4 = Inr (Fin 1)"
  by (simp_all add: Utils.truncate_def pow10_def dbl_to_i32_def dbl_to_int_def rat_trunc_def dbl_of_int_def)

lemma first_estimate_witness:
  "newEstimate silent_estimator (Fin 5) (new_AvicennaConnection ()) = None \<and>
   newEstimate counting_estimator (Fin 5) (new_AvicennaConnection 0) =
     Some (Inr (Fin 1, \<lparr>av_library = 4, av_price_estimate = Fin 1, av_startup = False\<rparr>))"
proof -
  have "newEstimate silent_estimator (Fin 5) (new_AvicennaConnection ()) = None"
    using first_estimate [of "Fin 5" "new_AvicennaConnection ()" silent_estimator] five_cycles
    by (simp add: new_AvicennaConnection_def not_positive_def estimate_after_def silent_estimator_def truncate_bits dle_def deq_def)
  moreover have "fed counting_estimator ps d = d + length ps" for ps d
    by (induction ps arbitrary: d) (simp_all add: fed_def counting_estimator_def)
  then have "estimate_after counting_estimator 0 ps = Inr (if length ps < 3 then Fin 0 else Fin 1)" for ps
    by (simp add: estimate_after_def counting_estimator_def truncate_bits)
  ultimately show ?thesis
    using first_estimate [of "Fin 5" "new_AvicennaConnection 0" counting_estimator] five_cycles
      \<open>\<And>ps d. fed counting_estimator ps d = d + length ps\<close>
    by (auto simp: new_AvicennaConnection_def not_positive_def dle_def deq_def tried_def dest!: conjunct2 spec [of _ 2])
qed

end
