(* ===== verification/Startup.thy ===== *)
theory Startup
  imports CommandLine RedisReport Console Avicenna
begin

text \<open>
  The start of the program (\<open>src/src/stem1.cpp\<close>): reading the configuration, connecting, and building the
  symbol manager, the accounts with their chains of gateways (\<open>src/src/akela/OrderAccount.cpp\<close>), their
  estimates and one trading instance per symbol (\<open>src/src/manager/TradeAccountManager.cpp\<close>).
\<close>

section \<open>What the start depends on\<close>

text \<open>
  \<open>Exits\<close> is a return of \<open>main\<close>; an exception that no handler catches ends the program.
\<close>

datatype start_stop = Exits int | Uncaught_config config_stop | Uncaught_connection | Uncaught_gateway
  | Uncaught_redis redis_error | Uncaught_time | Start_undefined fault

text \<open>An object of the estimation library after \<open>SetIP\<close> and \<open>SetVariableConfig\<close>.\<close>

type_synonym 'd estimator_setup = "string \<Rightarrow> string \<Rightarrow> string \<Rightarrow> string \<Rightarrow> string \<Rightarrow> 'd"

text \<open>The gateway library's calls, by the name of the gateway and of the user.\<close>

record gateway_calls =
  gc_Connect :: "string \<Rightarrow> string \<Rightarrow> bool"
  gc_Login :: "string \<Rightarrow> string \<Rightarrow> bool"
  gc_ListenOrders :: "string \<Rightarrow> string \<Rightarrow> bool"
  gc_ListenFills :: "string \<Rightarrow> string \<Rightarrow> bool"

record ('t, 's, 'd) start_env =
  su_files :: "'t ptree_library"
  su_times :: "unit time_formats"
  su_default_port :: int
  su_link :: "string \<Rightarrow> int \<Rightarrow> bool"
  su_gateways :: gateway_calls
  su_orders :: gateway
  su_estimator :: "'d estimator_setup"
  su_store :: "string \<Rightarrow> 16 word \<Rightarrow> 's connection option"
  su_redis :: "'s env"
  su_duration :: "string \<Rightarrow> nat option"
  su_previous_bar :: Bar
  su_uninitialised :: uninitialised
  su_queue_available :: bool
  su_shared :: shared

section \<open>Order accounts\<close>

record order_connection =
  cn_username :: string
  cn_gateway :: string
  cn_account_type :: OrderAccountType

definition initOrderAccount :: "gateway_calls \<Rightarrow> string \<Rightarrow> string \<Rightarrow> bool" where
  "initOrderAccount gc gateway username =
     (if \<not> gc_Connect gc gateway username then False
      else if \<not> gc_Login gc gateway username then False
      else if \<not> gc_ListenOrders gc gateway username then False
      else if \<not> gc_ListenFills gc gateway username then False
      else True)"

text \<open>
  An order account connects to the first gateway of its list and owns an account for the rest; the list
  of connections is the chain of the \<open>next\<close> pointers. The first element of an empty list is undefined.
\<close>

fun new_OrderAccount :: "gateway_calls \<Rightarrow> string \<Rightarrow> OrderAccountType \<Rightarrow> string list \<Rightarrow> start_stop + order_connection list" where
  "new_OrderAccount gc username ty [] = Inl (Start_undefined OutOfRange)"
| "new_OrderAccount gc username ty (g # gateway_names) =
     (if \<not> initOrderAccount gc g username then Inl Uncaught_gateway
      else cbind (if gateway_names = [] then Inr [] else new_OrderAccount gc username ty gateway_names)
        (\<lambda>rest. Inr (\<lparr>cn_username = username, cn_gateway = g, cn_account_type = ty\<rparr> # rest)))"

section \<open>Estimates\<close>

type_synonym 'd estimates = "(string \<times> 'd AvicennaConnection \<times> 'd AvicennaConnection) list"

text \<open>The second string of a configuration is read from the file and not passed on.\<close>

definition configured_library :: "'d estimator_setup \<Rightarrow> AvicennaConfiguration \<Rightarrow> 'd" where
  "configured_library est config =
     est (vc_dll_ip config) (vc_dll_str1 config) (vc_dll_str3 config) (vc_dll_str4 config) (vc_dll_str5 config)"

text \<open>The constructor from strings, which nothing calls.\<close>

definition new_AvicennaConnection_strings ::
    "'d estimator_setup \<Rightarrow> string \<Rightarrow> string \<Rightarrow> string \<Rightarrow> string \<Rightarrow> string \<Rightarrow> string \<Rightarrow> 'd AvicennaConnection" where
  "new_AvicennaConnection_strings est ip str1 str2 str3 str4 str5 =
     new_AvicennaConnection (est ip str1 str3 str4 str5)"

text \<open>Two connections for every symbol of the account, none for an account without symbols.\<close>

definition new_AvicennaInterface :: "'d estimator_setup \<Rightarrow> UserSymbolsMap \<Rightarrow> AccountConfig \<Rightarrow> 'd estimates" where
  "new_AvicennaInterface est us c = (case map_of us (ac_id c) of
     None \<Rightarrow> []
   | Some ys \<Rightarrow> fold (\<lambda>(symbol, _). emplace_ordered symbol
       (new_AvicennaConnection (configured_library est (ac_avicenna1 c)),
        new_AvicennaConnection (configured_library est (ac_avicenna2 c)))) ys [])"

section \<open>Trading instances\<close>

definition settings_of :: "AccountConfig \<Rightarrow> SymbolSettings \<Rightarrow> settings" where
  "settings_of c y = \<lparr>cfg_share_rounds = y_share_rounds y, cfg_tranch_value = y_tranch_value y,
     cfg_divisor = y_divisor y, cfg_multiplier = y_multiplier y, cfg_mpv_value = y_mpv_value y,
     cfg_mpv_multiplier = y_mpv_multiplier y, cfg_base_qty = y_base_qty y,
     cfg_cancel_on_trigger = y_cancel_on_trigger y, cfg_maximum_live = ac_maximum_live c,
     cfg_maximum_order = ac_maximum_order c\<rparr>"

definition names_of :: "AccountConfig \<Rightarrow> SymbolSettings \<Rightarrow> names" where
  "names_of c y = \<lparr>nm_long = ac_long_acc c, nm_short = ac_short_acc c, nm_symbol = y_name y, nm_id = ac_id c\<rparr>"

definition new_feed :: "Bar \<Rightarrow> Symbol" where
  "new_feed b = new_Symbol (bar_open b) (bar_minimum b) (bar_maximum b) (bar_close b)"

text \<open>
  The constructor reads the last round, then the address of the store from the administrative settings,
  connects to the store whether it is enabled or not, and loads the positions.
\<close>

definition load_result :: "stop + 'a \<Rightarrow> start_stop + 'a" where
  "load_result r = (case r of Inl (Throws e) \<Rightarrow> Inl (Uncaught_redis e)
     | Inl (Stuck f) \<Rightarrow> Inl (Start_undefined f) | Inr x \<Rightarrow> Inr x)"

definition new_instance :: "('t, 's, 'd) start_env \<Rightarrow> AdminSettings option \<Rightarrow> AccountConfig \<Rightarrow> SymbolSettings \<Rightarrow> start_stop + world" where
  "new_instance env admin c y =
     (if y_share_rounds y = [] then Inl (Start_undefined EmptyDeref)
      else cbind (cget (Start_undefined NullDeref) admin) (\<lambda>ad.
        cbind (cget Uncaught_connection (su_store env (ad_redis_ip ad) (word_of_int (ad_redis_port ad)))) (\<lambda>client.
        cbind (load_result (fst (load_positions (su_redis env) (names_of c y)
            \<lparr>rw_isRedisEnabled = ad_redis_enable ad, rw_locked = False, rw_client = client\<rparr>))) (\<lambda>(long, short).
        map_sum Start_undefined (\<lambda>w. w)
          (start_instance (settings_of c y) (new_feed (su_previous_bar env)) (su_orders env)
            (su_uninitialised env) long short)))))"

text \<open>The instances of an account are kept in the order of their symbols.\<close>

fun new_instances :: "('t, 's, 'd) start_env \<Rightarrow> AdminSettings option \<Rightarrow> AccountConfig \<Rightarrow> SymbolMap \<Rightarrow> instances \<Rightarrow> start_stop + instances" where
  "new_instances env admin c [] is = Inr is"
| "new_instances env admin c ((name, y) # ys) is =
     cbind (new_instance env admin c y) (\<lambda>w. new_instances env admin c ys (emplace_ordered name w is))"

section \<open>Accounts\<close>

record 'd account_objects =
  ao_config :: AccountConfig
  ao_avicenna_interface :: "'d estimates"
  ao_short_account :: "order_connection list"
  ao_long_account :: "order_connection list"
  ao_trade_instances :: instances

text \<open>\<open>user_symbols_map[id]\<close> of an account without symbols makes a null pointer, which is dereferenced.\<close>

definition new_account :: "('t, 's, 'd) start_env \<Rightarrow> UserSymbolsMap \<Rightarrow> AdminSettings option \<Rightarrow> AccountConfig \<Rightarrow> start_stop + 'd account_objects" where
  "new_account env us admin c =
     cbind (new_OrderAccount (su_gateways env) (ac_short_acc c) SHORT (ac_venues c)) (\<lambda>short.
     cbind (new_OrderAccount (su_gateways env) (ac_long_acc c) LONG (ac_venues c)) (\<lambda>long.
     cbind (cget (Start_undefined NullDeref) (map_of us (ac_id c))) (\<lambda>ys.
     cbind (new_instances env admin c ys []) (\<lambda>is.
     Inr \<lparr>ao_config = c, ao_avicenna_interface = new_AvicennaInterface (su_estimator env) us c,
          ao_short_account = short, ao_long_account = long, ao_trade_instances = is\<rparr>))))"

fun new_accounts :: "('t, 's, 'd) start_env \<Rightarrow> UserSymbolsMap \<Rightarrow> AdminSettings option \<Rightarrow> TradeAccountMap \<Rightarrow>
    start_stop + (string \<times> 'd account_objects) list" where
  "new_accounts env us admin [] = Inr []"
| "new_accounts env us admin ((i, c) # accs) =
     cbind (new_account env us admin c) (\<lambda>a. cbind (new_accounts env us admin accs) (\<lambda>as. Inr ((i, a) # as)))"

section \<open>The main program\<close>

text \<open>The configured symbols are numbered in the order in which the manager visits them.\<close>

fun number_symbols :: "nat \<Rightarrow> UserSymbolsMap \<Rightarrow> configured list list" where
  "number_symbols n [] = []"
| "number_symbols n ((i, ys) # us) =
     map (\<lambda>(j, name, y). (name, y_exchange y, n + j)) (enumerate 0 ys) # number_symbols (n + length ys) us"

record 'd program =
  pr_cli :: "CLI option"
  pr_symbol_manager :: SymbolManager
  pr_accounts :: "(string \<times> 'd account_objects) list"
  pr_commands :: "string list"
  pr_panic_time :: nat
  pr_soft_time :: nat
  pr_position_time :: nat

definition time_of :: "('t, 's, 'd) start_env \<Rightarrow> string \<Rightarrow> start_stop + nat" where
  "time_of env s = cget Uncaught_time (su_duration env s)"

text \<open>Everything after the connection, up to the event loop; the command line interface is made first.\<close>

definition build_program :: "('t, 's, 'd) start_env \<Rightarrow> UserSymbolsMap \<Rightarrow> TradeAccountMap \<Rightarrow> AdminSettings option \<Rightarrow> start_stop + 'd program" where
  "build_program env us accs admin =
     cbind (cget (Start_undefined NullDeref) admin) (\<lambda>ad.
     cbind (new_accounts env us admin accs) (\<lambda>as.
     cbind (time_of env (ad_panic_close_time ad)) (\<lambda>panic_time.
     cbind (time_of env (ad_soft_close_time ad)) (\<lambda>soft_time.
     cbind (time_of env (ad_positionfile_time ad)) (\<lambda>position_time.
     Inr \<lparr>pr_cli = fst (CLI_init (su_queue_available env) None (su_shared env)),
          pr_symbol_manager = new_SymbolManager (number_symbols 0 us), pr_accounts = as,
          pr_commands = [''ss'', ''rs''] @ account_commands, pr_panic_time = panic_time,
          pr_soft_time = soft_time, pr_position_time = position_time\<rparr>)))))"

text \<open>The handler around the parsers catches a \<open>ConfigException\<close> only.\<close>

definition handle_config :: "'a cfg \<Rightarrow> start_stop + 'a" where
  "handle_config r = (case r of
     Inl (Config_exception _) \<Rightarrow> Inl (Exits 1)
   | Inl (Config_undefined f) \<Rightarrow> Inl (Start_undefined f)
   | Inl e \<Rightarrow> Inl (Uncaught_config e)
   | Inr v \<Rightarrow> Inr v)"

definition router_port :: "('t, 's, 'd) start_env \<Rightarrow> string \<Rightarrow> start_stop + int" where
  "router_port env s = cbind (map_sum Start_undefined (\<lambda>n. n) (atoi s))
     (\<lambda>n. Inr (if n = 0 then su_default_port env else n))"

text \<open>
  Options are read before the \<open>try\<close> block of the configuration. The record that announces the start is
  the first one that is written, so it builds the logger and with it the administrative settings;
  what this throws is not caught. The call that would parse the file of the option is commented out.
\<close>

definition start_logger :: "('t, 's, 'd) start_env \<Rightarrow> start_stop + AdminSettings option" where
  "start_logger env = (case init_logger (su_files env) (su_times env) None of
     Inl (Config_undefined f) \<Rightarrow> Inl (Start_undefined f)
   | Inl e \<Rightarrow> Inl (Uncaught_config e)
   | Inr (settings, _) \<Rightarrow> Inr settings)"

definition start_main :: "('t, 's, 'd) start_env \<Rightarrow> arguments \<Rightarrow> start_stop + 'd program" where
  "start_main env args =
     (let address = GetValue args ''LinkAddress''; data = GetValue args ''LinkPort'' in
      if address = [] then Inl (Exits 1)
      else if data = [] then Inl (Exits 1)
      else cbind (router_port env data) (\<lambda>port.
        cbind (start_logger env) (\<lambda>settings.
        cbind (handle_config (SymbolConfig_parse (su_files env) (GetValue args ''SymbolConfig'') None)) (\<lambda>symbols.
        cbind (handle_config (TradingConfig_parse (su_files env) (GetValue args ''TradingConfig'') None)) (\<lambda>accounts.
        if \<not> su_link env address port then Inl (Exits 1)
        else cbind (cget (Start_undefined NullDeref) symbols) (\<lambda>us.
          cbind (cget (Start_undefined NullDeref) accounts) (\<lambda>accs.
          build_program env us accs settings)))))))"

text \<open>
  The two closing timers call \<open>dayEnd\<close>, which only logs, and the third one runs a script. The signal
  handler stops every account.
\<close>

definition instances_of :: "'d program \<Rightarrow> accounts" where
  "instances_of p = map (\<lambda>(i, a). (i, ao_trade_instances a)) (pr_accounts p)"

definition dayEnd :: "accounts \<Rightarrow> accounts" where
  "dayEnd accs = accs"

definition signal_handler :: "accounts \<Rightarrow> accounts res" where
  "signal_handler accs = manager_stop accs"

end
