(* ===== verification/MarketConnections.thy ===== *)
theory MarketConnections
  imports SymbolManagers
begin

text \<open>
  The two connections to the market data feed (\<open>src/src/akela/STEMDirectConnection.cpp\<close> and
  \<open>STEMMaddogConnection.cpp\<close>): what they subscribe, what each callback prints, and which signals it
  raises. The feed library and the decoding of its messages are parameters; a message is given by the
  members the callbacks read. The program is built for a 64-bit Unix.
\<close>

section \<open>The feed library\<close>

record header =
  h_flags :: int
  h_sequence :: int
  h_timeStamp :: double

text \<open>
  The connection's own state of the library is of type \<open>'l\<close>, its tickers are of type \<open>'k\<close>. A call that
  answers with a status gives whether the status is \<open>ECERR_SUCCESS\<close>.
\<close>

record ('k, 'l) feed_library =
  fl_Open :: "string \<Rightarrow> string \<Rightarrow> 'l \<Rightarrow> 'l"
  fl_IsOpen :: "'l \<Rightarrow> bool"
  fl_SetCallback :: "'l \<Rightarrow> 'l"
  fl_Connect :: "string \<Rightarrow> 'l \<Rightarrow> bool \<times> 'l"
  fl_Parse :: "string \<Rightarrow> 'k option"
  fl_ToString :: "'k \<Rightarrow> string"
  fl_Subscribe :: "'k \<Rightarrow> 'l \<Rightarrow> bool \<times> 'l"
  fl_Unsubscribe :: "'k \<Rightarrow> 'l \<Rightarrow> 'l"
  fl_AsDouble :: "int \<Rightarrow> int \<Rightarrow> double"
  fl_GetTimeString :: "header \<Rightarrow> string"
  fl_EOL :: string

section \<open>What a callback does\<close>

text \<open>A call of \<open>fprintf\<close> is kept as its format and its arguments.\<close>

datatype arg = A_int int | A_real double | A_text string

datatype effect = Cout string | Fprintf string "arg list" | Hex_dump
  | Trade_signal string double | Quote_signal string u32 double u32 double

section \<open>Messages\<close>

text \<open>The data of a field of a refresh, by the type of the field.\<close>

datatype field_data = FIELD_TYPE_INT32 int | FIELD_TYPE_UINT32 int | FIELD_TYPE_UINT16 int
  | FIELD_TYPE_UINT8 int | FIELD_TYPE_STRING string | FIELD_TYPE_FLOAT double
  | FIELD_TYPE_DOUBLE double | FIELD_TYPE_INT64 int | FIELD_TYPE_UINT64 int | FIELD_TYPE_BLOB
  | FIELD_TYPE_SMALL_BLOB | FIELD_TYPE_PRICE int int string int
  | FIELD_TYPE_FULLPRICE int string int int | FIELD_TYPE_PRICE_RANGE int int int int
  | FIELD_TYPE_DATETIME | FIELD_TYPE_PRICE_DATE | FIELD_TYPE_CONDITIONS | FIELD_TYPE_DOUBLE_RANGE
  | FIELD_TYPE_TICKER | FIELD_TYPE_UNKNOWN

record refresh_field =
  rf_fieldType :: int
  rf_fieldId :: int
  rf_length :: nat
  rf_data :: field_data

datatype alert_extension = TYPE_NONE | TYPE_WORKUP string string int int int | TYPE_TEXT string
  | TYPE_IMBALANCE int int int int int int int
  | TYPE_SWEEP int int int int int int int int

text \<open>
  \<open>GetField\<close> gives the field at an offset and the offset to go on from. The trades of a list are its
  array \<open>data\<close>, as pairs of a price and its type.
\<close>

datatype 'k message =
    M_Trade header 'k int int int int int
  | M_TradeList 'k "(int \<times> int) list"
  | M_Quote 'k u32 int u32 int int
  | M_Refresh header 'k int int int "nat \<Rightarrow> (refresh_field \<times> nat) option"
  | M_Alert header 'k int int alert_extension
  | M_Admin header
  | M_Heartbeat header
  | M_BBOQuote | M_Depth | M_DepthList | M_Order | M_OrderList | M_Cancel | M_Execution
  | M_Settlement | M_DataTransfer

section \<open>The direct connection\<close>

record ('k, 'l) STEMDirectConnection =
  dc_tickerList :: "'k list"
  dc_m_bEnable :: bool
  dc_m_bTrades :: bool
  dc_m_bRefresh :: bool
  dc_m_bQuotes :: bool
  dc_library :: 'l

text \<open>The constructor sets two of the flags; the values of the two others that are read are arguments.\<close>

definition new_STEMDirectConnection ::
    "('k, 'l) feed_library \<Rightarrow> bool \<times> bool \<Rightarrow> 'l \<Rightarrow> effect list \<times> ('k, 'l) STEMDirectConnection" where
  "new_STEMDirectConnection lib garbage l =
     (let l = fl_Open lib ''Direct.Bats'' ''../configs/Direct.Bats.ini'' l;
          c = \<lparr>dc_tickerList = [], dc_m_bEnable = fst garbage, dc_m_bTrades = True,
               dc_m_bRefresh = snd garbage, dc_m_bQuotes = True, dc_library = l\<rparr>
      in if fl_IsOpen lib l
         then ([Cout ''STEMDirectConnection is open''], c\<lparr>dc_library := fl_SetCallback lib l\<rparr>)
         else ([Cout ''STEMDirectConnection isn't open''], c))"

definition dc_Subscribe :: "('k, 'l) feed_library \<Rightarrow> string \<Rightarrow> ('k, 'l) STEMDirectConnection \<Rightarrow>
    effect list \<times> ('k, 'l) STEMDirectConnection" where
  "dc_Subscribe lib symbol c =
     (case fl_Parse lib symbol of
       None \<Rightarrow> ([], c)
     | Some ticker \<Rightarrow>
         (case fl_Subscribe lib ticker (dc_library c) of
           (False, l) \<Rightarrow> ([Cout (''can't subscribe to symbol ('' @ symbol @ '')'')], c\<lparr>dc_library := l\<rparr>)
         | (True, l) \<Rightarrow> ([Cout (''Subscribing to symbol ('' @ symbol @ '')'')],
             c\<lparr>dc_library := l, dc_tickerList := dc_tickerList c @ [ticker]\<rparr>)))"

fun dc_Subscribe_list :: "('k, 'l) feed_library \<Rightarrow> string list \<Rightarrow> ('k, 'l) STEMDirectConnection \<Rightarrow>
    effect list \<times> ('k, 'l) STEMDirectConnection" where
  "dc_Subscribe_list lib [] c = ([], c)"
| "dc_Subscribe_list lib (str # symList) c =
     (let (es, c) = dc_Subscribe lib str c; (es', c) = dc_Subscribe_list lib symList c in (es @ es', c))"

text \<open>Unsubscribing one symbol visits the tickers and does nothing with them.\<close>

definition dc_Unsubscribe_symbol :: "string \<Rightarrow> ('k, 'l) STEMDirectConnection \<Rightarrow> ('k, 'l) STEMDirectConnection" where
  "dc_Unsubscribe_symbol symbol c = fold (\<lambda>ticker c. c) (dc_tickerList c) c"

definition dc_Unsubscribe :: "('k, 'l) feed_library \<Rightarrow> ('k, 'l) STEMDirectConnection \<Rightarrow> ('k, 'l) STEMDirectConnection" where
  "dc_Unsubscribe lib c =
     c\<lparr>dc_library := fold (fl_Unsubscribe lib) (dc_tickerList c) (dc_library c)\<rparr>"

text \<open>The arguments with which the printed lines begin.\<close>

definition header_args :: "('k, 'l) feed_library \<Rightarrow> header \<Rightarrow> arg list" where
  "header_args lib h = [A_text (fl_EOL lib), A_text (fl_GetTimeString lib h), A_int (h_flags h),
     A_int (h_sequence h), A_real (h_timeStamp h)]"

text \<open>The symbol is the ticker up to its first dot.\<close>

definition feed_symbol :: "string \<Rightarrow> string" where
  "feed_symbol ticker = takeWhile (\<lambda>c. c \<noteq> CHR ''.'') ticker"

definition OnTradeList :: "('k, 'l) feed_library \<Rightarrow> 'k \<Rightarrow> (int \<times> int) list \<Rightarrow> ('k, 'l) STEMDirectConnection \<Rightarrow> effect list res" where
  "OnTradeList lib ticker trades c =
     (if dc_m_bTrades c then
        (case trades of
          [] \<Rightarrow> Inl OutOfRange
        | (price, priceType) # _ \<Rightarrow>
            Inr [Trade_signal (feed_symbol (fl_ToString lib ticker)) (fl_AsDouble lib price priceType)])
      else Inr [])"

definition OnQuote :: "('k, 'l) feed_library \<Rightarrow> 'k \<Rightarrow> u32 \<Rightarrow> int \<Rightarrow> u32 \<Rightarrow> int \<Rightarrow> int \<Rightarrow> ('k, 'l) STEMDirectConnection \<Rightarrow> effect list" where
  "OnQuote lib ticker bidSize bid askSize ask priceType c =
     (if dc_m_bQuotes c then
        [Quote_signal (feed_symbol (fl_ToString lib ticker)) bidSize (fl_AsDouble lib bid priceType)
           askSize (fl_AsDouble lib ask priceType)]
      else [])"

definition OnTrade :: "('k, 'l) feed_library \<Rightarrow> header \<Rightarrow> 'k \<Rightarrow> int \<Rightarrow> int \<Rightarrow> int \<Rightarrow> int \<Rightarrow> int \<Rightarrow> ('k, 'l) STEMDirectConnection \<Rightarrow> effect list" where
  "OnTrade lib h ticker flags priceType price sz volume c =
     (if dc_m_bEnable c \<and> dc_m_bTrades c then
        [Fprintf ''%s%s,%02X,Trade,%d,%lf,%s,%08X,%d,%d,%d,%d%s'' (header_args lib h @
          [A_text (fl_ToString lib ticker), A_int flags, A_int priceType, A_int price, A_int sz,
           A_int volume, A_text (fl_EOL lib)])]
      else [])"

text \<open>
  A text is copied into a zeroed buffer of 32 bytes, one byte of which is kept for the end, and printed
  up to its first zero.
\<close>

definition buffer_text :: "nat \<Rightarrow> string \<Rightarrow> string" where
  "buffer_text n bytes = takeWhile (\<lambda>c. c \<noteq> CHR 0x00) (take (min n (32 - 1)) bytes)"

definition field_format :: "field_data \<Rightarrow> string" where
  "field_format d = (case d of
     FIELD_TYPE_INT32 _ \<Rightarrow> ''Field,%2d,%3d,%d,%d%s''
   | FIELD_TYPE_UINT32 _ \<Rightarrow> ''Field,%2d,%3d,%d,%u%s''
   | FIELD_TYPE_UINT16 _ \<Rightarrow> ''Field,%2d,%3d,%d,%u%s''
   | FIELD_TYPE_UINT8 _ \<Rightarrow> ''Field,%2d,%3d,%d,%u%s''
   | FIELD_TYPE_STRING _ \<Rightarrow> ''Field,%2d,%3d,%d,%s%s''
   | FIELD_TYPE_FLOAT _ \<Rightarrow> ''Field,%2d,%3d,%d,%f%s''
   | FIELD_TYPE_DOUBLE _ \<Rightarrow> ''Field,%2d,%3d,%d,%lf%s''
   | FIELD_TYPE_INT64 _ \<Rightarrow> ''Field,%2d,%3d,%d,%ld%s''
   | FIELD_TYPE_UINT64 _ \<Rightarrow> ''Field,%2d,%3d,%d,%lu%s''
   | FIELD_TYPE_BLOB \<Rightarrow> ''Field,%2d,%3d,%d,BLOB%s''
   | FIELD_TYPE_SMALL_BLOB \<Rightarrow> ''Field,%2d,%3d,%d,SMALL BLOB%s''
   | FIELD_TYPE_PRICE _ _ _ _ \<Rightarrow> ''Field,%2d,%3d,%d,%02X %d, %-2.2s %d%s''
   | FIELD_TYPE_FULLPRICE _ _ _ _ \<Rightarrow> ''Field,%2d,%3d,%d,%02X %-2.2s %d %d%s''
   | FIELD_TYPE_PRICE_RANGE _ _ _ _ \<Rightarrow> ''Field,%2d,%3d,%d,%02X %d %d %d%s''
   | _ \<Rightarrow> ''Field,%2d,%3d,%d%s'')"

definition field_args :: "nat \<Rightarrow> field_data \<Rightarrow> arg list" where
  "field_args n d = (case d of
     FIELD_TYPE_INT32 v \<Rightarrow> [A_int v]
   | FIELD_TYPE_UINT32 v \<Rightarrow> [A_int v]
   | FIELD_TYPE_UINT16 v \<Rightarrow> [A_int v]
   | FIELD_TYPE_UINT8 v \<Rightarrow> [A_int v]
   | FIELD_TYPE_STRING bytes \<Rightarrow> [A_text (buffer_text n bytes)]
   | FIELD_TYPE_FLOAT v \<Rightarrow> [A_real v]
   | FIELD_TYPE_DOUBLE v \<Rightarrow> [A_real v]
   | FIELD_TYPE_INT64 v \<Rightarrow> [A_int v]
   | FIELD_TYPE_UINT64 v \<Rightarrow> [A_int v]
   | FIELD_TYPE_PRICE flags priceType exchange price \<Rightarrow> [A_int flags, A_int priceType, A_text exchange, A_int price]
   | FIELD_TYPE_FULLPRICE flags exchange price sz \<Rightarrow> [A_int flags, A_text exchange, A_int price, A_int sz]
   | FIELD_TYPE_PRICE_RANGE flags price1 price2 time \<Rightarrow> [A_int flags, A_int price1, A_int price2, A_int time]
   | _ \<Rightarrow> [])"

definition field_line :: "string \<Rightarrow> refresh_field \<Rightarrow> effect" where
  "field_line eol f = Fprintf (field_format (rf_data f))
     ([A_int (rf_fieldType f), A_int (rf_fieldId f), A_int (int (rf_length f))] @
      field_args (rf_length f) (rf_data f) @ [A_text eol])"

text \<open>The loop asks for the next field until there is none; \<open>None\<close> is a loop that does not end.\<close>

partial_function (option) refresh_loop ::
    "string \<Rightarrow> (nat \<Rightarrow> (refresh_field \<times> nat) option) \<Rightarrow> nat \<Rightarrow> effect list option" where
  "refresh_loop eol GetField offset =
     (case GetField offset of
       None \<Rightarrow> Some []
     | Some (f, offset') \<Rightarrow>
         Option.bind (refresh_loop eol GetField offset') (\<lambda>es. Some (field_line eol f # es)))"

definition OnRefresh :: "('k, 'l) feed_library \<Rightarrow> header \<Rightarrow> 'k \<Rightarrow> int \<Rightarrow> int \<Rightarrow> int \<Rightarrow>
    (nat \<Rightarrow> (refresh_field \<times> nat) option) \<Rightarrow> ('k, 'l) STEMDirectConnection \<Rightarrow> effect list res" where
  "OnRefresh lib h ticker flags priceType fieldCount GetField c =
     (if \<not> dc_m_bEnable c then Inr []
      else if \<not> dc_m_bRefresh c then Inr []
      else rbind (rget Diverges (refresh_loop (fl_EOL lib) GetField 0)) (\<lambda>es.
        Inr (Fprintf ''%s%s,%02X,Refresh,%d,%lf,%s,%08X,%d,%d%s'' (header_args lib h @
          [A_text (fl_ToString lib ticker), A_int flags, A_int priceType, A_int fieldCount,
           A_text (fl_EOL lib)]) # es)))"

definition alert_format :: "alert_extension \<Rightarrow> string" where
  "alert_format x = (case x of
     TYPE_WORKUP _ _ _ _ _ \<Rightarrow> ''%s%s,%02X,Alert,%d,%lf,%s,%08X,%d,Workup,%s,%s,%d,%d,%d%s''
   | TYPE_TEXT _ \<Rightarrow> ''%s%s,%02X,Alert,%d,%lf,%s,%08X,%d,Text,%s%s''
   | TYPE_IMBALANCE _ _ _ _ _ _ _ \<Rightarrow> ''%s%s,%02X,Alert,%d,%lf,%s,%08X,%d,Imbalance,%d,%d,%d,%c,%d,%d,%d%s''
   | TYPE_SWEEP _ _ _ _ _ _ _ _ \<Rightarrow> ''%s%s,%02X,Alert,%d,%lf,%s,%08X,%d,Sweep,%d,%d,%d,%d,%d,%08X,%d,%d%s''
   | TYPE_NONE \<Rightarrow> ''%s%s,%02X,Alert,%d,%lf,%s,%08X,%d%s'')"

definition alert_args :: "alert_extension \<Rightarrow> arg list" where
  "alert_args x = (case x of
     TYPE_WORKUP aggressiveReference passiveReference aggressiveBuySell passiveBuySell price \<Rightarrow>
       [A_text aggressiveReference, A_text passiveReference, A_int aggressiveBuySell, A_int passiveBuySell, A_int price]
   | TYPE_TEXT text \<Rightarrow> [A_text text]
   | TYPE_IMBALANCE sz totalImbalance marketImbalance exchange quoteCondition price shortSaleRestrictionPrice \<Rightarrow>
       map A_int [sz, totalImbalance, marketImbalance, exchange, quoteCondition, price, shortSaleRestrictionPrice]
   | TYPE_SWEEP side levelCount startPrice endPrice volume flags startSequenceNumber endSequenceNumber \<Rightarrow>
       map A_int [side, levelCount, startPrice, endPrice, volume, flags, startSequenceNumber, endSequenceNumber]
   | TYPE_NONE \<Rightarrow> [])"

text \<open>An alert is printed whether the connection is enabled or not; its state is looked at and not used.\<close>

definition OnAlert :: "('k, 'l) feed_library \<Rightarrow> header \<Rightarrow> 'k \<Rightarrow> int \<Rightarrow> int \<Rightarrow> alert_extension \<Rightarrow> effect list" where
  "OnAlert lib h ticker flags state x =
     [Fprintf (alert_format x) (header_args lib h @
       [A_text (fl_ToString lib ticker), A_int flags, A_int state] @ alert_args x @ [A_text (fl_EOL lib)])]"

definition OnAdmin :: "('k, 'l) feed_library \<Rightarrow> header \<Rightarrow> ('k, 'l) STEMDirectConnection \<Rightarrow> effect list" where
  "OnAdmin lib h c = (if \<not> dc_m_bEnable c then []
     else [Fprintf ''%s%s,%02X,Admin,%d,%lf%s'' (header_args lib h @ [A_text (fl_EOL lib)])])"

definition OnHeartbeat :: "('k, 'l) feed_library \<Rightarrow> header \<Rightarrow> ('k, 'l) STEMDirectConnection \<Rightarrow> effect list" where
  "OnHeartbeat lib h c = (if \<not> dc_m_bEnable c then []
     else [Fprintf ''%s%s,%02X,Heartbeat,%d,%lf%s'' (header_args lib h @ [A_text (fl_EOL lib)])])"

text \<open>The bodies of the other callbacks are empty or commented out.\<close>

fun dc_callback :: "('k, 'l) feed_library \<Rightarrow> 'k message \<Rightarrow> ('k, 'l) STEMDirectConnection \<Rightarrow> effect list res" where
  "dc_callback lib (M_Trade h ticker flags priceType price sz volume) c =
     Inr (OnTrade lib h ticker flags priceType price sz volume c)"
| "dc_callback lib (M_TradeList ticker trades) c = OnTradeList lib ticker trades c"
| "dc_callback lib (M_Quote ticker bidSize bid askSize ask priceType) c =
     Inr (OnQuote lib ticker bidSize bid askSize ask priceType c)"
| "dc_callback lib (M_Refresh h ticker flags priceType fieldCount GetField) c =
     OnRefresh lib h ticker flags priceType fieldCount GetField c"
| "dc_callback lib (M_Alert h ticker flags state x) c = Inr (OnAlert lib h ticker flags state x)"
| "dc_callback lib (M_Admin h) c = Inr (OnAdmin lib h c)"
| "dc_callback lib (M_Heartbeat h) c = Inr (OnHeartbeat lib h c)"
| "dc_callback lib _ c = Inr []"

section \<open>The Maddog connection\<close>

record ('k, 'l) STEMMaddogConnection =
  md_m_bDump :: bool
  md_m_bTrades :: bool
  md_m_bQuotes :: bool
  md_m_bDepth :: bool
  md_m_bOrderBook :: bool
  md_tickerList :: "'k list"
  md_library :: 'l

definition new_STEMMaddogConnection :: "('k, 'l) feed_library \<Rightarrow> 'l \<Rightarrow> ('k, 'l) STEMMaddogConnection" where
  "new_STEMMaddogConnection lib l =
     \<lparr>md_m_bDump = False, md_m_bTrades = True, md_m_bQuotes = True, md_m_bDepth = True,
      md_m_bOrderBook = True, md_tickerList = [], md_library = snd (fl_Connect lib ''Maddog'' l)\<rparr>"

definition md_Subscribe :: "('k, 'l) feed_library \<Rightarrow> string \<Rightarrow> ('k, 'l) STEMMaddogConnection \<Rightarrow> ('k, 'l) STEMMaddogConnection" where
  "md_Subscribe lib symbol c =
     (case fl_Parse lib symbol of
       None \<Rightarrow> c
     | Some ticker \<Rightarrow>
         (case fl_Subscribe lib ticker (md_library c) of
           (False, l) \<Rightarrow> c\<lparr>md_library := l\<rparr>
         | (True, l) \<Rightarrow> c\<lparr>md_library := l, md_tickerList := md_tickerList c @ [ticker]\<rparr>))"

definition md_Subscribe_list :: "('k, 'l) feed_library \<Rightarrow> string list \<Rightarrow> ('k, 'l) STEMMaddogConnection \<Rightarrow> ('k, 'l) STEMMaddogConnection" where
  "md_Subscribe_list lib symList c = fold (md_Subscribe lib) symList c"

definition md_Unsubscribe_symbol :: "string \<Rightarrow> ('k, 'l) STEMMaddogConnection \<Rightarrow> ('k, 'l) STEMMaddogConnection" where
  "md_Unsubscribe_symbol symbol c = fold (\<lambda>ticker c. c) (md_tickerList c) c"

definition md_Unsubscribe :: "('k, 'l) feed_library \<Rightarrow> ('k, 'l) STEMMaddogConnection \<Rightarrow> ('k, 'l) STEMMaddogConnection" where
  "md_Unsubscribe lib c =
     c\<lparr>md_library := fold (fl_Unsubscribe lib) (md_tickerList c) (md_library c)\<rparr>"

definition md_Process :: "('k, 'l) STEMMaddogConnection \<Rightarrow> effect list" where
  "md_Process c = (if md_m_bDump c then [Hex_dump] else [])"

definition md_OnTrade :: "('k, 'l) feed_library \<Rightarrow> header \<Rightarrow> 'k \<Rightarrow> int \<Rightarrow> int \<Rightarrow> int \<Rightarrow> int \<Rightarrow> int \<Rightarrow> ('k, 'l) STEMMaddogConnection \<Rightarrow> effect list" where
  "md_OnTrade lib h ticker flags priceType price sz volume c =
     (if md_m_bTrades c then
        Fprintf (''Trade,%d,%lf,%s,%08X,%d,%d,%d,%d'' @ [CHR 0x0A])
          [A_int (h_sequence h), A_real (h_timeStamp h), A_text (fl_ToString lib ticker), A_int flags,
           A_int priceType, A_int price, A_int sz, A_int volume] # md_Process c
      else [])"

text \<open>Unlike the direct connection this one passes the whole ticker on.\<close>

definition md_OnTradeList :: "('k, 'l) feed_library \<Rightarrow> 'k \<Rightarrow> (int \<times> int) list \<Rightarrow> ('k, 'l) STEMMaddogConnection \<Rightarrow> effect list res" where
  "md_OnTradeList lib ticker trades c =
     (if md_m_bTrades c then
        (case trades of
          [] \<Rightarrow> Inl OutOfRange
        | (price, priceType) # _ \<Rightarrow>
            Inr [Trade_signal (fl_ToString lib ticker) (fl_AsDouble lib price priceType)])
      else Inr [])"

definition md_OnQuote :: "('k, 'l) feed_library \<Rightarrow> 'k \<Rightarrow> u32 \<Rightarrow> int \<Rightarrow> u32 \<Rightarrow> int \<Rightarrow> int \<Rightarrow> ('k, 'l) STEMMaddogConnection \<Rightarrow> effect list" where
  "md_OnQuote lib ticker bidSize bid askSize ask priceType c =
     (if md_m_bQuotes c then
        [Quote_signal (fl_ToString lib ticker) bidSize (fl_AsDouble lib bid priceType)
           askSize (fl_AsDouble lib ask priceType)]
      else [])"

definition md_OnAlert :: "('k, 'l) feed_library \<Rightarrow> header \<Rightarrow> 'k \<Rightarrow> int \<Rightarrow> int \<Rightarrow> effect list" where
  "md_OnAlert lib h ticker flags state =
     [Fprintf (''Alert,%d,%lf,%s,%08X,%d'' @ [CHR 0x0A])
       [A_int (h_sequence h), A_real (h_timeStamp h), A_text (fl_ToString lib ticker), A_int flags, A_int state]]"

fun md_callback :: "('k, 'l) feed_library \<Rightarrow> 'k message \<Rightarrow> ('k, 'l) STEMMaddogConnection \<Rightarrow> effect list res" where
  "md_callback lib (M_Trade h ticker flags priceType price sz volume) c =
     Inr (md_OnTrade lib h ticker flags priceType price sz volume c)"
| "md_callback lib (M_TradeList ticker trades) c = md_OnTradeList lib ticker trades c"
| "md_callback lib (M_Quote ticker bidSize bid askSize ask priceType) c =
     Inr (md_OnQuote lib ticker bidSize bid askSize ask priceType c)"
| "md_callback lib (M_Alert h ticker flags state x) c = Inr (md_OnAlert lib h ticker flags state)"
| "md_callback lib _ c = Inr []"

section \<open>The slots of the symbol manager\<close>

text \<open>
  The constructor of the symbol manager connects its two updates to the signals of its direct
  connection and then subscribes the configured symbols.
\<close>

fun run_slot :: "effect \<Rightarrow> SymbolManager \<Rightarrow> symbol_store \<Rightarrow> symbol_store res" where
  "run_slot (Trade_signal symbol price) m st = sm_updatePrice symbol price m st"
| "run_slot (Quote_signal symbol bidSize bid askSize ask) m st = sm_updateQuote symbol bidSize bid askSize ask m st"
| "run_slot _ m st = Inr st"

fun run_slots :: "effect list \<Rightarrow> SymbolManager \<Rightarrow> symbol_store \<Rightarrow> symbol_store res" where
  "run_slots [] m st = Inr st"
| "run_slots (e # es) m st = rbind (run_slot e m st) (run_slots es m)"

definition market_of :: "('k, 'l) feed_library \<Rightarrow> bool \<times> bool \<Rightarrow> 'l \<Rightarrow> SymbolManager \<Rightarrow> ('k, 'l) STEMDirectConnection" where
  "market_of lib garbage l m =
     fold (\<lambda>name c. snd (dc_Subscribe lib name c)) (sm_subscribed m) (snd (new_STEMDirectConnection lib garbage l))"

end
