(* ===== verification/FeedLaws.thy ===== *)
theory FeedLaws
  imports Startup MarketConnections
begin

text \<open>
  Properties of the market side as a whole: messages of the feed, commands of the console and the ends
  of the estimates' intervals, in any order, act on every configured symbol as if it were alone and
  heard exactly what its name is told while it is enabled. Also the loop over the fields of a refresh.
\<close>

section \<open>One symbol alone\<close>

datatype symbol_event = Price double | Quote u32 double u32 double
  | Interval_end "double \<Rightarrow> double \<Rightarrow> double \<Rightarrow> double \<Rightarrow> double" int

fun symbol_step :: "symbol_event \<Rightarrow> Symbol \<Rightarrow> Symbol res" where
  "symbol_step (Price p) s = Inr (updatePrice p s)"
| "symbol_step (Quote bs bid as ask) s = updateQuoteData (dbl_of_u32 bs) bid (dbl_of_u32 as) ask s"
| "symbol_step (Interval_end estimate index) s = Inr (resetIntervalCallback estimate index s)"

fun symbol_run :: "symbol_event list \<Rightarrow> Symbol \<Rightarrow> Symbol res" where
  "symbol_run [] s = Inr s"
| "symbol_run (e # es) s = rbind (symbol_step e s) (symbol_run es)"

section \<open>The market side of the program\<close>

datatype 'k item = Feed "'k message" | Console_command "string list"
  | Interval symbol_ref "double \<Rightarrow> double \<Rightarrow> double \<Rightarrow> double \<Rightarrow> double" int

fun market_step :: "('k, 'l) feed_library \<Rightarrow> ('k, 'l) STEMDirectConnection \<Rightarrow> 'k item \<Rightarrow>
    SymbolManager \<times> symbol_store \<Rightarrow> (SymbolManager \<times> symbol_store) res" where
  "market_step lib c (Feed msg) (m, st) =
     rbind (dc_callback lib msg c) (\<lambda>es. rbind (run_slots es m st) (\<lambda>st. Inr (m, st)))"
| "market_step lib c (Console_command args) (m, st) = rbind (sm_command args m) (\<lambda>m. Inr (m, st))"
| "market_step lib c (Interval r estimate index) (m, st) =
     Inr (m, st(r := resetIntervalCallback estimate index (st r)))"

fun market_run :: "('k, 'l) feed_library \<Rightarrow> ('k, 'l) STEMDirectConnection \<Rightarrow> 'k item list \<Rightarrow>
    SymbolManager \<times> symbol_store \<Rightarrow> (SymbolManager \<times> symbol_store) res" where
  "market_run lib c [] s = Inr s"
| "market_run lib c (i # is) s = rbind (market_step lib c i s) (market_run lib c is)"

section \<open>What a symbol hears\<close>

text \<open>What a message tells a name: the first trade of a list, or a quote.\<close>

fun told :: "('k, 'l) feed_library \<Rightarrow> string \<Rightarrow> 'k message \<Rightarrow> symbol_event list" where
  "told lib n (M_TradeList k ((price, ty) # _)) =
     (if feed_symbol (fl_ToString lib k) = n then [Price (fl_AsDouble lib price ty)] else [])"
| "told lib n (M_Quote k bs bid as ask ty) =
     (if feed_symbol (fl_ToString lib k) = n
      then [Quote bs (fl_AsDouble lib bid ty) as (fl_AsDouble lib ask ty)] else [])"
| "told lib n _ = []"

definition switches :: "string list \<Rightarrow> bool" where
  "switches args \<longleftrightarrow> args ! 0 \<in> {''ss'', ''rs''}"

fun all_enabled :: "'k item \<Rightarrow> bool \<Rightarrow> bool" where
  "all_enabled (Console_command args) a = (if switches args \<and> args ! 1 = ''-a'' then args ! 0 = ''rs'' else a)"
| "all_enabled _ a = a"

fun name_enabled :: "string \<Rightarrow> 'k item \<Rightarrow> bool \<Rightarrow> bool" where
  "name_enabled n (Console_command args) b =
     (if switches args \<and> args ! 1 \<noteq> ''-a'' \<and> args ! 1 = n then args ! 0 = ''rs'' else b)"
| "name_enabled n _ b = b"

fun item_heard :: "('k, 'l) feed_library \<Rightarrow> string \<Rightarrow> symbol_ref \<Rightarrow> bool \<Rightarrow> 'k item \<Rightarrow> symbol_event list" where
  "item_heard lib n r enabled (Feed msg) = (if enabled then told lib n msg else [])"
| "item_heard lib n r enabled (Console_command args) = []"
| "item_heard lib n r enabled (Interval r' estimate index) = (if r' = r then [Interval_end estimate index] else [])"

fun heard :: "('k, 'l) feed_library \<Rightarrow> string \<Rightarrow> symbol_ref \<Rightarrow> bool \<Rightarrow> bool \<Rightarrow> 'k item list \<Rightarrow> symbol_event list" where
  "heard lib n r a b [] = []"
| "heard lib n r a b (i # is) =
     item_heard lib n r (a \<and> b) i @ heard lib n r (all_enabled i a) (name_enabled n i b) is"

text \<open>Inputs the code survives: trades and quotes of configured names, lists with a trade, refreshes
  whose fields end, commands with their argument.\<close>

fun safe_message :: "('k, 'l) feed_library \<Rightarrow> configured list \<Rightarrow> 'k message \<Rightarrow> bool" where
  "safe_message lib cs (M_TradeList k trades) \<longleftrightarrow> trades \<noteq> [] \<and> refs_named (feed_symbol (fl_ToString lib k)) cs \<noteq> []"
| "safe_message lib cs (M_Quote k bs bid as ask ty) \<longleftrightarrow> refs_named (feed_symbol (fl_ToString lib k)) cs \<noteq> []"
| "safe_message lib cs (M_Refresh h k flags ty n GetField) \<longleftrightarrow> refresh_loop (fl_EOL lib) GetField 0 \<noteq> None"
| "safe_message lib cs _ \<longleftrightarrow> True"

fun safe_item :: "('k, 'l) feed_library \<Rightarrow> configured list \<Rightarrow> 'k item \<Rightarrow> bool" where
  "safe_item lib cs (Feed msg) \<longleftrightarrow> safe_message lib cs msg"
| "safe_item lib cs (Console_command args) \<longleftrightarrow> args \<noteq> [] \<and> (switches args \<longrightarrow> 2 \<le> length args)"
| "safe_item lib cs (Interval r estimate index) \<longleftrightarrow> True"

section \<open>The connection\<close>

definition listening :: "('k, 'l) STEMDirectConnection \<Rightarrow> bool" where
  "listening c \<longleftrightarrow> dc_m_bTrades c \<and> dc_m_bQuotes c"

lemma listening_Subscribe: "listening c \<Longrightarrow> listening (snd (dc_Subscribe lib s c))"
  by (auto simp: listening_def dc_Subscribe_def split: option.split prod.split bool.split)

lemma listening_fold: "listening c \<Longrightarrow> listening (fold (\<lambda>s c. snd (dc_Subscribe lib s c)) ss c)"
  by (induction ss arbitrary: c) (simp_all add: listening_Subscribe)

lemma listening_market_of: "listening (market_of lib garbage l m)"
  unfolding market_of_def
  by (rule listening_fold) (simp add: listening_def new_STEMDirectConnection_def Let_def)

text \<open>Messages that are only printed do not reach the slots.\<close>

lemma run_slots_printed: "list_all (\<lambda>e. case e of Trade_signal _ _ \<Rightarrow> False | Quote_signal _ _ _ _ _ \<Rightarrow> False | _ \<Rightarrow> True) es \<Longrightarrow>
    run_slots es m st = Inr st"
proof (induction es)
  case (Cons e es)
  then show ?case by (cases e) simp_all
qed simp

lemma refresh_loop_printed:
  assumes "refresh_loop eol g offset = Some es"
  shows "run_slots es m st = Inr st"
proof (rule refresh_loop.raw_induct [OF _ assms])
  fix loop eol g offset es
  assume "\<And>eol g offset es. loop eol g offset = Some es \<Longrightarrow> run_slots es m st = Inr st"
    "(case g offset of None \<Rightarrow> Some []
      | Some (f, offset') \<Rightarrow> Option.bind (loop eol g offset') (\<lambda>es. Some (field_line eol f # es))) = Some es"
  then show "run_slots es m st = Inr st"
    by (auto simp: field_line_def bind_eq_Some_conv split: option.splits prod.splits)
qed

lemma callback_silent:
  assumes "safe_message lib cs msg" "\<And>n. told lib n msg = []"
  shows "\<exists>es. dc_callback lib msg c = Inr es \<and> run_slots es m st = Inr st"
proof (cases msg)
  case (M_TradeList k trades)
  then show ?thesis using assms(1) assms(2) [of "feed_symbol (fl_ToString lib k)"] by (cases trades) auto
next
  case (M_Quote k bs bid as ask ty)
  then show ?thesis using assms(2) [of "feed_symbol (fl_ToString lib k)"] by simp
next
  case (M_Refresh h k flags ty n g)
  then obtain es where "refresh_loop (fl_EOL lib) g 0 = Some es" using assms(1) by auto
  then show ?thesis using M_Refresh by (auto simp: OnRefresh_def rget_def dest: refresh_loop_printed)
qed (simp_all add: OnTrade_def OnAlert_def OnAdmin_def OnHeartbeat_def)


section \<open>One message for one symbol\<close>

lemma told_message:
  assumes "knows cs a b m" "distinct (map (\<lambda>(_, _, r). r) cs)" "safe_message lib cs msg" "listening c"
  shows "\<exists>es st'. dc_callback lib msg c = Inr es \<and> run_slots es m st = Inr st' \<and>
    (\<forall>n e r. (n, e, r) \<in> set cs \<longrightarrow> symbol_run (if a \<and> b n then told lib n msg else []) (st r) = Inr (st' r))"
proof (cases "\<exists>n. told lib n msg \<noteq> []")
  case False
  then show ?thesis using callback_silent [OF assms(3)] by force
next
  case True
  show ?thesis
  proof (cases msg)
    case (M_TradeList k trades)
    then show ?thesis using assms True
      by (cases trades) (auto simp: OnTradeList_def listening_def sm_updatePrice_knows one_name)
  next
    case (M_Quote k bs bid as ask ty)
    then show ?thesis using assms
      by (auto simp: OnQuote_def listening_def sm_updateQuote_knows one_name updateQuoteData_quoted)
  qed (use True in auto)
qed

section \<open>Every input for one symbol\<close>

lemma heard_item:
  assumes "knows cs a b m" "distinct (map (\<lambda>(_, _, r). r) cs)" "safe_item lib cs i" "listening c"
  shows "\<exists>m' st'. market_step lib c i (m, st) = Inr (m', st') \<and>
    knows cs (all_enabled i a) (\<lambda>n. name_enabled n i (b n)) m' \<and>
    (\<forall>n e r. (n, e, r) \<in> set cs \<longrightarrow> symbol_run (item_heard lib n r (a \<and> b n) i) (st r) = Inr (st' r))"
proof (cases i)
  case (Feed msg)
  then obtain es st' where "dc_callback lib msg c = Inr es" "run_slots es m st = Inr st'"
    "\<forall>n e r. (n, e, r) \<in> set cs \<longrightarrow> symbol_run (if a \<and> b n then told lib n msg else []) (st r) = Inr (st' r)"
    using told_message [of cs a b m lib msg c st] assms by auto
  then show ?thesis using Feed assms(1) by (intro exI [of _ m] exI [of _ st']) simp
next
  case (Console_command args)
  then obtain m' where m': "sm_command args m = Inr m'" and
    "if args ! 0 \<notin> {''ss'', ''rs''} then knows cs a b m'
     else if args ! 1 = ''-a'' then knows cs (args ! 0 = ''rs'') b m'
     else knows cs a (b(args ! 1 := (args ! 0 = ''rs''))) m'"
    using sm_command_knows [OF assms(1), of args] assms(3) by (auto simp: switches_def)
  moreover have "(\<lambda>n. name_enabled n i (b n)) =
      (if switches args \<and> args ! 1 \<noteq> ''-a'' then b(args ! 1 := (args ! 0 = ''rs'')) else b)"
    using Console_command by (auto simp: fun_eq_iff)
  ultimately have "knows cs (all_enabled i a) (\<lambda>n. name_enabled n i (b n)) m'"
    using Console_command by (auto simp: switches_def split: if_splits)
  then show ?thesis using Console_command m' by (intro exI [of _ m'] exI [of _ st]) simp
next
  case (Interval r estimate index)
  then show ?thesis using assms(1) by auto
qed

lemma symbol_run_append: "symbol_run (xs @ ys) s = rbind (symbol_run xs s) (symbol_run ys)"
proof (induction xs arbitrary: s)
  case (Cons x xs)
  then have "symbol_run (xs @ ys) = (\<lambda>s. rbind (symbol_run xs s) (symbol_run ys))" by blast
  then show ?case by (simp add: rbind_assoc)
qed simp

lemma heard_run:
  assumes "knows cs a b m" "distinct (map (\<lambda>(_, _, r). r) cs)" "list_all (safe_item lib cs) items" "listening c"
  shows "\<exists>m' st'. market_run lib c items (m, st) = Inr (m', st') \<and>
    (\<forall>n e r. (n, e, r) \<in> set cs \<longrightarrow> symbol_run (heard lib n r a (b n) items) (st r) = Inr (st' r))"
  using assms(1,3)
proof (induction items arbitrary: a b m st)
  case (Cons i items)
  obtain m1 st1 where s: "market_step lib c i (m, st) = Inr (m1, st1)"
    "knows cs (all_enabled i a) (\<lambda>n. name_enabled n i (b n)) m1"
    "\<And>n e r. (n, e, r) \<in> set cs \<Longrightarrow> symbol_run (item_heard lib n r (a \<and> b n) i) (st r) = Inr (st1 r)"
    using heard_item [OF Cons.prems(1) assms(2) _ assms(4), of lib i st] Cons.prems(2) by auto
  obtain m' st' where "market_run lib c items (m1, st1) = Inr (m', st')"
    "\<And>n e r. (n, e, r) \<in> set cs \<Longrightarrow>
      symbol_run (heard lib n r (all_enabled i a) (name_enabled n i (b n)) items) (st1 r) = Inr (st' r)"
    using Cons.IH [OF s(2), of st1] Cons.prems(2) by auto
  then show ?case using s by (auto simp: symbol_run_append)
qed simp


section \<open>The symbols of the program\<close>

lemma map_add_const_upt: "map ((+) n) [0..<k] = [n..<n + k]"
  by (rule nth_equalityI) simp_all

lemma refs_number_symbols:
  "map (\<lambda>(_, _, r). r) (concat (number_symbols n us)) = [n..<n + sum_list (map (length \<circ> snd) us)]"
proof (induction n us rule: number_symbols.induct)
  case (2 n i ys us)
  have "map (\<lambda>(_, _, r). r) (map (\<lambda>(j, name, y). (name, y_exchange y, n + j)) (enumerate 0 ys)) =
      map (\<lambda>p. n + fst p) (enumerate 0 ys)"
    by (simp add: case_prod_unfold comp_def)
  also have "\<dots> = map ((+) n) (map fst (enumerate 0 ys))" by (simp only: map_map comp_def)
  also have "\<dots> = [n..<n + length ys]" by (simp add: map_add_const_upt)
  finally show ?case using 2 upt_add_eq_append [of n "n + length ys"] by (simp add: add.assoc del: map_map)
qed simp

text \<open>C36: whatever mixture of messages of the feed, commands that stop and resume symbols and ends of
  intervals arrives, the symbol manager of the configured program handles it without a fault, and every
  configured symbol ends as if it had been alone and heard the quotes and first trades of its own name
  that came while it was enabled, and the ends of its own intervals.\<close>

theorem symbols_hear_their_name:
  assumes "cs = concat (number_symbols 0 us)" "m = new_SymbolManager (number_symbols 0 us)"
    and "c = market_of lib garbage l m" "list_all (safe_item lib cs) items"
  shows "\<exists>m' st'. market_run lib c items (m, st) = Inr (m', st') \<and>
    (\<forall>n e r. (n, e, r) \<in> set cs \<longrightarrow> symbol_run (heard lib n r True True items) (st r) = Inr (st' r))"
proof (rule heard_run)
  show "knows cs True (\<lambda>_. True) m" using assms(1,2) knows_new_SymbolManager by simp
  show "distinct (map (\<lambda>(_, _, r). r) cs)" using assms(1) by (simp add: refs_number_symbols)
  show "listening c" using assms(3) listening_market_of by simp
qed (rule assms(4))

definition sample_feed_library :: "(string, unit) feed_library" where
  "sample_feed_library = \<lparr>fl_Open = \<lambda>_ _ l. l, fl_IsOpen = \<lambda>_. True, fl_SetCallback = \<lambda>l. l,
     fl_Connect = \<lambda>_ l. (True, l), fl_Parse = Some, fl_ToString = \<lambda>k. k, fl_Subscribe = \<lambda>_ l. (True, l),
     fl_Unsubscribe = \<lambda>_ l. l, fl_AsDouble = \<lambda>price _. Fin (of_int price), fl_GetTimeString = \<lambda>_. [],
     fl_EOL = [CHR 0x0A]\<rparr>"

definition sample_items :: "string item list" where
  "sample_items = [Feed (M_TradeList ''IBM.N'' [(5, 0), (9, 0)]), Console_command [''ss'', ''IBM''],
     Feed (M_TradeList ''IBM.N'' [(6, 0)]), Feed (M_TradeList ''MS.N'' [(8, 0)]),
     Console_command [''rs'', ''IBM''], Feed (M_TradeList ''IBM.N'' [(7, 0)])]"

definition sample_manager :: "SymbolSettings \<Rightarrow> SymbolManager" where
  "sample_manager y = new_SymbolManager (number_symbols 0 [(''A'', [(''IBM'', y), (''MS'', y)])])"

lemma symbols_hear_their_name_witness:
  "\<forall>y st. \<exists>m' st'. market_run sample_feed_library (market_of sample_feed_library (False, False) () (sample_manager y))
     sample_items (sample_manager y, st) = Inr (m', st') \<and>
     st' 0 = updatePrice (Fin 7) (updatePrice (Fin 5) (st 0)) \<and> st' 1 = updatePrice (Fin 8) (st 1)"
proof (intro allI)
  fix y st
  have safe: "list_all (safe_item sample_feed_library (concat (number_symbols 0 [(''A'', [(''IBM'', y), (''MS'', y)])]))) sample_items"
    by (simp add: sample_items_def sample_feed_library_def switches_def feed_symbol_def refs_named_def)
  show "\<exists>m' st'. market_run sample_feed_library (market_of sample_feed_library (False, False) () (sample_manager y))
     sample_items (sample_manager y, st) = Inr (m', st') \<and>
     st' 0 = updatePrice (Fin 7) (updatePrice (Fin 5) (st 0)) \<and> st' 1 = updatePrice (Fin 8) (st 1)"
    using symbols_hear_their_name [OF refl refl refl safe, of "(False, False)" "()" st]
    by (fastforce simp: sample_manager_def sample_items_def sample_feed_library_def switches_def feed_symbol_def)
qed

section \<open>The fields of a refresh\<close>

text \<open>The loop ends when every field moves the offset on inside the message, and never when a field
  gives back its own offset.\<close>

lemma refresh_returns:
  assumes "\<And>i f j. g i = Some (f, j) \<Longrightarrow> i < j \<and> j \<le> (n :: nat)"
  shows "\<exists>es. refresh_loop eol g i = Some es"
proof (induction "n - i" arbitrary: i rule: less_induct)
  case less
  show ?case
  proof (cases "g i")
    case None
    then show ?thesis by (subst refresh_loop.simps) simp
  next
    case (Some p)
    obtain f j where p: "p = (f, j)" by (cases p)
    then obtain es where "refresh_loop eol g j = Some es"
      using assms [of i f j] less [of j] diff_less_mono2 [of i j n] Some by auto
    then show ?thesis using Some p by (subst refresh_loop.simps) simp
  qed
qed

lemma refresh_never_returns:
  assumes "g i = Some (f, i)"
  shows "refresh_loop eol g i = None"
proof (rule ccontr)
  assume "refresh_loop eol g i \<noteq> None"
  then obtain es where es: "refresh_loop eol g i = Some es" by blast
  have "Some es = Option.bind (Some es) (\<lambda>es. Some (field_line eol f # es))"
    using trans [OF es [symmetric] refresh_loop.simps [of eol g i]] by (simp only: assms es option.case prod.case)
  then show False by simp
qed

lemma buffer_text_fits: "length (buffer_text n bytes) < 32"
  using length_takeWhile_le [of "\<lambda>c. c \<noteq> CHR 0x00" "take (min n (32 - 1)) bytes"]
  by (simp add: buffer_text_def)

section \<open>What the connections leave undone\<close>

lemma fold_same: "fold (\<lambda>x c. c) xs c = c"
  by (induction xs) simp_all

lemma Unsubscribe_symbol_keeps: "dc_Unsubscribe_symbol s c = c" "md_Unsubscribe_symbol s d = d"
  by (simp_all add: dc_Unsubscribe_symbol_def md_Unsubscribe_symbol_def fold_same)

text \<open>With the other connection the manager would look a ticker up with its exchange, and no name that
  is configured without a dot is found.\<close>

lemma whole_ticker_faults:
  assumes "knows cs a b m" "\<And>n e r. (n, e, r) \<in> set cs \<Longrightarrow> CHR ''.'' \<notin> set n"
    and "CHR ''.'' \<in> set (fl_ToString lib k)" "md_OnTradeList lib k trades d = Inr es" "es \<noteq> []"
  shows "run_slots es m st = Inl NullDeref"
proof -
  have "refs_named (fl_ToString lib k) cs = []"
    using assms(2,3) by (auto simp: refs_named_def filter_empty_conv)
  then show ?thesis using assms(4,5) unknown_name_faults [OF assms(1)]
    by (auto simp: md_OnTradeList_def split: if_splits list.splits)
qed

end
