(* ===== verification/ConfigLaws.thy ===== *)
theory ConfigLaws
  imports Config
begin

text \<open>
  What the readers of the configuration do: a symbol written as a tree is read back, whatever else the
  tree holds; of several definitions under one key the first one counts.
\<close>

section \<open>The documented property tree\<close>

definition fits_int :: "int \<Rightarrow> bool" where
  "fits_int n \<longleftrightarrow> - (2 ^ 31) \<le> n \<and> n < 2 ^ 31"

definition documented_ptree :: "'t ptree_library \<Rightarrow> bool" where
  "documented_ptree lib \<longleftrightarrow>
     (\<forall>d cs. pt_items lib (pt_make lib d cs) = cs \<and> pt_data lib (pt_make lib d cs) = d) \<and>
     (\<forall>t k. CHR ''.'' \<notin> set k \<longrightarrow> pt_child lib t k = map_of (pt_items lib t) k \<and>
        pt_count lib t k = length (filter (\<lambda>(k', _). k' = k) (pt_items lib t))) \<and>
     (\<forall>n cs. fits_int n \<longrightarrow> pt_int lib (pt_make lib (show_int n) cs) = Some n) \<and>
     (\<forall>n cs. pt_u32 lib (pt_make lib (show_int (uint n)) cs) = Some n) \<and>
     (\<forall>cs. pt_bool lib (pt_make lib ''true'' cs) = Some True \<and> pt_bool lib (pt_make lib ''false'' cs) = Some False)"

datatype sample_tree = Node string "(string \<times> sample_tree) list"

fun node_data :: "sample_tree \<Rightarrow> string" where "node_data (Node d cs) = d"
fun node_items :: "sample_tree \<Rightarrow> (string \<times> sample_tree) list" where "node_items (Node d cs) = cs"

definition sample_ptree :: "(string \<Rightarrow> sample_tree option) \<Rightarrow> (string \<Rightarrow> double option) \<Rightarrow> sample_tree ptree_library" where
  "sample_ptree files dbl = \<lparr>pt_read_xml = files, pt_make = Node, pt_items = node_items, pt_data = node_data,
     pt_child = (\<lambda>t k. map_of (node_items t) k),
     pt_count = (\<lambda>t k. length (filter (\<lambda>(k', _). k' = k) (node_items t))),
     pt_int = (\<lambda>t. parse_int (node_data t)), pt_u32 = (\<lambda>t. map_option word_of_int (parse_int (node_data t))),
     pt_bool = (\<lambda>t. if node_data t = ''true'' then Some True else if node_data t = ''false'' then Some False else None),
     pt_double = (\<lambda>t. dbl (node_data t))\<rparr>"

lemma sample_ptree_documented: "documented_ptree (sample_ptree files dbl)"
  by (auto simp: documented_ptree_def sample_ptree_def parse_show_int)

section \<open>Writing a symbol\<close>

definition leaf :: "'t ptree_library \<Rightarrow> string \<Rightarrow> 't" where
  "leaf lib d = pt_make lib d []"

definition int_leaf :: "'t ptree_library \<Rightarrow> int \<Rightarrow> 't" where
  "int_leaf lib n = leaf lib (show_int n)"

definition bool_leaf :: "'t ptree_library \<Rightarrow> bool \<Rightarrow> 't" where
  "bool_leaf lib b = leaf lib (if b then ''true'' else ''false'')"

definition with_attributes :: "'t ptree_library \<Rightarrow> (string \<times> 't) list \<Rightarrow> (string \<times> 't) list \<Rightarrow> 't" where
  "with_attributes lib attrs rest = pt_make lib [] ((''<xmlattr>'', pt_make lib [] attrs) # rest)"

definition round_item :: "'t ptree_library \<Rightarrow> ShareRound \<Rightarrow> string \<times> 't" where
  "round_item lib rd = (''share_quantity'', with_attributes lib
     [(''value'', int_leaf lib (sint (rd_position rd))), (''increments'', int_leaf lib (sint (rd_increments rd)))] [])"

text \<open>The decimals are given by their texts.\<close>

record decimals =
  dc_multiplier :: string
  dc_mpv_value :: string
  dc_mpv_limit :: string
  dc_mpv_multiplier :: string

definition symbol_tree :: "'t ptree_library \<Rightarrow> decimals \<Rightarrow> SymbolSettings \<Rightarrow> (string \<times> 't) list \<Rightarrow> 't" where
  "symbol_tree lib dc y others = with_attributes lib
     [(''name'', leaf lib (y_name y)), (''exchange'', leaf lib (y_exchange y)),
      (''multiplier'', leaf lib (dc_multiplier dc)), (''divisor'', int_leaf lib (sint (y_divisor y))),
      (''max'', int_leaf lib (sint (y_max_pos y))), (''cancel_on_trigger'', bool_leaf lib (y_cancel_on_trigger y)),
      (''mmf'', bool_leaf lib (y_mmf y)), (''base_qty'', int_leaf lib (sint (y_base_qty y))),
      (''tranch_value'', int_leaf lib (sint (y_tranch_value y)))]
     ((''mpv'', with_attributes lib
         [(''value'', leaf lib (dc_mpv_value dc)), (''limit'', leaf lib (dc_mpv_limit dc)),
          (''multiplier'', leaf lib (dc_mpv_multiplier dc))] []) #
      map (round_item lib) (y_share_rounds y) @ others)"

definition decimals_of :: "'t ptree_library \<Rightarrow> decimals \<Rightarrow> SymbolSettings \<Rightarrow> bool" where
  "decimals_of lib dc y \<longleftrightarrow>
     pt_double lib (leaf lib (dc_multiplier dc)) = Some (y_multiplier y) \<and>
     pt_double lib (leaf lib (dc_mpv_value dc)) = Some (y_mpv_value y) \<and>
     pt_double lib (leaf lib (dc_mpv_limit dc)) = Some (y_mpv_limit y) \<and>
     (\<exists>m. pt_double lib (leaf lib (dc_mpv_multiplier dc)) = Some m \<and>
          dbl_to_int 0 (2 ^ 32) m = Inr (uint (y_mpv_multiplier y)))"

definition ignored_items :: "(string \<times> 't) list \<Rightarrow> bool" where
  "ignored_items xs \<longleftrightarrow> list_all (\<lambda>(k, _). k \<noteq> ''mpv'' \<and> k \<noteq> ''share_quantity'') xs"

definition symbol_fits :: "SymbolSettings \<Rightarrow> bool" where
  "symbol_fits y \<longleftrightarrow> fits_int (sint (y_max_pos y)) \<and>
     list_all (\<lambda>rd. fits_int (sint (rd_position rd)) \<and> fits_int (sint (rd_increments rd))) (y_share_rounds y)"

section \<open>Reading it back\<close>

lemma fits_sint32 [simp]: "fits_int (sint (n :: 32 word))"
  using sint_ge [of n] sint_less [of n] by (simp add: fits_int_def)

lemma doc_make:
  assumes "documented_ptree lib"
  shows "pt_items lib (pt_make lib d cs) = cs" "pt_data lib (pt_make lib d cs) = d"
  using assms by (auto simp: documented_ptree_def)

lemma child_make:
  assumes "documented_ptree lib" "CHR ''.'' \<notin> set k"
  shows "child lib (pt_make lib d cs) k = cget Bad_path (map_of cs k)"
  using assms by (auto simp: child_def documented_ptree_def)

lemma doc_leaf:
  assumes "documented_ptree lib"
  shows "pt_data lib (leaf lib d) = d" "fits_int n \<Longrightarrow> pt_int lib (int_leaf lib n) = Some n"
    "pt_bool lib (bool_leaf lib b) = Some b"
  using assms by (auto simp: documented_ptree_def leaf_def int_leaf_def bool_leaf_def)

lemmas reading = child_make doc_make doc_leaf text_at_def int_at_def bool_at_def double_at_def attribute_def

lemma read_round_item:
  assumes "documented_ptree lib" "fits_int (sint (rd_position rd))" "fits_int (sint (rd_increments rd))"
  shows "read_round lib (snd (round_item lib rd)) y = Inr (y\<lparr>y_share_rounds := y_share_rounds y @ [rd]\<rparr>)"
  using assms by (simp add: read_round_def round_item_def with_attributes_def reading)

lemma symbol_items_rounds:
  assumes "documented_ptree lib" "list_all (\<lambda>rd. fits_int (sint (rd_position rd)) \<and> fits_int (sint (rd_increments rd))) rds"
  shows "symbol_items lib (map (round_item lib) rds @ xs) y =
    symbol_items lib xs (y\<lparr>y_share_rounds := y_share_rounds y @ rds\<rparr>)"
  using assms(2)
proof (induction rds arbitrary: y)
  case (Cons rd rds)
  obtain t where t: "round_item lib rd = (''share_quantity'', t)" by (simp add: round_item_def)
  then show ?case using Cons read_round_item [OF assms(1), of rd] by simp
qed simp

lemma symbol_items_ignored: "ignored_items xs \<Longrightarrow> symbol_items lib xs y = Inr y"
  by (induction xs) (auto simp: ignored_items_def)

lemma read_mpv_tree:
  assumes "documented_ptree lib" "decimals_of lib dc z"
  shows "read_mpv lib (with_attributes lib [(''value'', leaf lib (dc_mpv_value dc)),
      (''limit'', leaf lib (dc_mpv_limit dc)), (''multiplier'', leaf lib (dc_mpv_multiplier dc))] []) y =
    Inr (y\<lparr>y_mpv_value := y_mpv_value z, y_mpv_limit := y_mpv_limit z, y_mpv_multiplier := y_mpv_multiplier z\<rparr>)"
  using assms by (auto simp: read_mpv_def with_attributes_def reading decimals_of_def)

lemma configured_back:
  assumes "documented_ptree lib" "y_name y \<noteq> []" "symbol_fits y" "decimals_of lib dc y" "ignored_items others"
  shows "configure_symbol lib (symbol_tree lib dc y others) = Inr y"
  using assms read_mpv_tree [OF assms(1,4)]
  by (auto simp: configure_symbol_def symbol_tree_def with_attributes_def reading decimals_of_def symbol_fits_def
      symbol_items_rounds symbol_items_ignored)

text \<open>C30: a symbol written into a tree, with any other elements the reader does not know, is read back
  with every setting and its rounds in order.\<close>

theorem symbol_configured:
  assumes "documented_ptree lib" "y_name y \<noteq> []" "symbol_fits y" "decimals_of lib dc y" "ignored_items others"
  shows "configure_symbol lib (symbol_tree lib dc y others) = Inr y"
  using assms by (rule configured_back)

text \<open>A symbol with two rounds, an unknown element, and a negative limit that wraps around.\<close>

definition sample_symbol_settings :: SymbolSettings where
  "sample_symbol_settings = \<lparr>y_name = ''IBM'', y_exchange = ''N'', y_multiplier = Fin 1, y_divisor = 10, y_max_pos = 2600,
     y_cancel_on_trigger = True, y_mmf = False, y_base_qty = - 1, y_tranch_value = 3, y_mpv_value = Fin 1,
     y_mpv_limit = Fin 1, y_mpv_multiplier = 1,
     y_share_rounds = [\<lparr>rd_increments = 100, rd_position = 400\<rparr>, \<lparr>rd_increments = 200, rd_position = 1000\<rparr>]\<rparr>"

lemma symbol_configured_witness:
  "configure_symbol (sample_ptree (\<lambda>_. None) (\<lambda>_. Some (Fin 1))) (symbol_tree (sample_ptree (\<lambda>_. None) (\<lambda>_. Some (Fin 1)))
     \<lparr>dc_multiplier = ''1.0'', dc_mpv_value = ''1'', dc_mpv_limit = ''1'', dc_mpv_multiplier = ''1''\<rparr>
     sample_symbol_settings [(''note'', Node ''x'' [])]) = Inr sample_symbol_settings"
  by (rule symbol_configured [OF sample_ptree_documented])
    (auto simp: sample_symbol_settings_def symbol_fits_def fits_int_def decimals_of_def ignored_items_def sample_ptree_def
       dbl_to_int_def rat_trunc_def)

section \<open>The first definition counts\<close>

lemma map_of_keep_first:
  "map_of (keep_first k v xs) k' = (case map_of xs k' of Some w \<Rightarrow> Some w | None \<Rightarrow> if k' = k then Some v else None)"
  by (auto simp: keep_first_def map_add_def split: option.split)

lemma distinct_keep_first: "distinct (map fst xs) \<Longrightarrow> distinct (map fst (keep_first k v xs))"
  by (auto simp: keep_first_def map_of_eq_None_iff split: option.split)

definition defined_symbols :: "'t ptree_library \<Rightarrow> (string \<times> 't) list \<Rightarrow> SymbolSettings list \<Rightarrow> bool" where
  "defined_symbols lib xs cs \<longleftrightarrow>
     map (\<lambda>(_, t). configure_symbol lib t) (filter (\<lambda>(k, _). k = ''sym'') xs) = map Inr cs"

lemma symbol_map_items_first:
  assumes "symbol_map_items lib xs ys = Inr zs" "distinct (map fst ys)"
  shows "\<exists>cs. defined_symbols lib xs cs \<and> distinct (map fst zs) \<and>
    (\<forall>name. map_of zs name = (case map_of ys name of Some y \<Rightarrow> Some y
       | None \<Rightarrow> map_of (map (\<lambda>c. (y_name c, c)) cs) name))"
  using assms
proof (induction xs arbitrary: ys)
  case Nil
  then show ?case by (auto simp: defined_symbols_def split: option.split)
next
  case (Cons x xs)
  obtain k t where x: "x = (k, t)" by (cases x)
  show ?case
  proof (cases "k = ''sym''")
    case True
    then obtain c where c: "configure_symbol lib t = Inr c"
      and rest: "symbol_map_items lib xs (keep_first (y_name c) c ys) = Inr zs"
      using Cons.prems(1) x by (auto simp: cbind_Inr_cases)
    obtain cs where "defined_symbols lib xs cs" "distinct (map fst zs)"
      "\<forall>name. map_of zs name = (case map_of (keep_first (y_name c) c ys) name of Some y \<Rightarrow> Some y
         | None \<Rightarrow> map_of (map (\<lambda>c. (y_name c, c)) cs) name)"
      using Cons.IH [OF rest distinct_keep_first [OF Cons.prems(2)]] by blast
    then show ?thesis using c x True
      by (intro exI [of _ "c # cs"]) (auto simp: defined_symbols_def map_of_keep_first split: option.split)
  next
    case False
    then show ?thesis using Cons x by (simp add: defined_symbols_def)
  qed
qed

text \<open>C28: when every symbol of a user can be read, the map holds for each name the first symbol that was
  defined with it, and later definitions of the name are dropped.\<close>

theorem first_definition_counts:
  assumes "new_SymbolMap lib t = Inr ys"
  shows "\<exists>cs. defined_symbols lib (pt_items lib t) cs \<and> distinct (map fst ys) \<and>
    (\<forall>name. map_of ys name = find (\<lambda>c. y_name c = name) cs)"
proof -
  have lookup: "map_of (map (\<lambda>c. (y_name c, c)) cs) name = find (\<lambda>c. y_name c = name) cs" for cs name
    by (induction cs) auto
  then show ?thesis
    using symbol_map_items_first [of lib "pt_items lib t" "[]" ys] assms by (simp add: new_SymbolMap_def lookup)
qed

text \<open>A name defined twice: the second exchange is ignored.\<close>

lemma first_definition_counts_witness:
  "map_of [(''IBM'', sample_symbol_settings)] ''IBM'' =
     find (\<lambda>c. y_name c = ''IBM'') [sample_symbol_settings, sample_symbol_settings\<lparr>y_exchange := ''Q''\<rparr>]"
proof -
  let ?lib = "sample_ptree (\<lambda>_. None) (\<lambda>_. Some (Fin 1))"
  let ?dc = "\<lparr>dc_multiplier = ''1.0'', dc_mpv_value = ''1'', dc_mpv_limit = ''1'', dc_mpv_multiplier = ''1''\<rparr>"
  let ?other = "sample_symbol_settings\<lparr>y_exchange := ''Q''\<rparr>"
  have read: "configure_symbol ?lib (symbol_tree ?lib ?dc sample_symbol_settings []) = Inr sample_symbol_settings"
    "configure_symbol ?lib (symbol_tree ?lib ?dc ?other []) = Inr ?other"
    by (rule configured_back [OF sample_ptree_documented];
        auto simp: sample_symbol_settings_def symbol_fits_def fits_int_def decimals_of_def ignored_items_def
          sample_ptree_def dbl_to_int_def rat_trunc_def)+
  let ?t = "Node [] [(''sym'', symbol_tree ?lib ?dc sample_symbol_settings []), (''sym'', symbol_tree ?lib ?dc ?other [])]"
  have items: "pt_items ?lib ?t = [(''sym'', symbol_tree ?lib ?dc sample_symbol_settings []), (''sym'', symbol_tree ?lib ?dc ?other [])]"
    by (simp add: sample_ptree_def)
  have name: "y_name sample_symbol_settings = ''IBM''" by (simp add: sample_symbol_settings_def)
  have "new_SymbolMap ?lib ?t = Inr [(''IBM'', sample_symbol_settings)]"
    by (simp add: new_SymbolMap_def items read keep_first_def name)
  from first_definition_counts [OF this] show ?thesis
    by (auto simp: defined_symbols_def items read name)
qed

end
