(* ===== verification/StartupLaws.thy ===== *)
theory StartupLaws
  imports Startup ConfigLaws SystemLaws
begin

text \<open>
  What the start builds from the configuration, and when it completes: the chain of gateways, the accounts
  and instances, settings that make every order fault, and a start from three sample files.
\<close>

section \<open>Gateways\<close>

lemma gateway_chain_eq:
  "new_OrderAccount gc username ty venues =
     (if venues = [] then Inl (Start_undefined OutOfRange)
      else if list_all (\<lambda>g. initOrderAccount gc g username) venues
      then Inr (map (\<lambda>g. \<lparr>cn_username = username, cn_gateway = g, cn_account_type = ty\<rparr>) venues)
      else Inl Uncaught_gateway)"
  by (induction venues) auto

text \<open>An order account connects to the gateways of its list one after another and owns one connection
  for each, in order; a gateway that cannot be used ends the construction, and an empty list is an
  access out of range.\<close>

theorem gateway_chain:
  "new_OrderAccount gc username ty venues =
     (if venues = [] then Inl (Start_undefined OutOfRange)
      else if list_all (\<lambda>g. initOrderAccount gc g username) venues
      then Inr (map (\<lambda>g. \<lparr>cn_username = username, cn_gateway = g, cn_account_type = ty\<rparr>) venues)
      else Inl Uncaught_gateway)"
  by (rule gateway_chain_eq)

section \<open>Accounts and instances\<close>

lemma fst_emplace_ordered: "fst ` set (emplace_ordered k v xs) = insert k (fst ` set xs)"
  by (induction k v xs rule: emplace_ordered.induct) auto

lemma set_emplace_ordered: "set (emplace_ordered k v xs) \<subseteq> insert (k, v) (set xs)"
  by (induction k v xs rule: emplace_ordered.induct) auto

lemma new_instances_built:
  assumes "new_instances env admin c ys is = Inr is'"
  shows "fst ` set is' = fst ` set is \<union> fst ` set ys \<and>
    (\<forall>(name, w) \<in> set is'. (name, w) \<in> set is \<or> (\<exists>y. (name, y) \<in> set ys \<and> new_instance env admin c y = Inr w))"
  using assms
proof (induction ys arbitrary: "is")
  case (Cons p ys)
  obtain name y where p: "p = (name, y)" by (cases p)
  then obtain w where w: "new_instance env admin c y = Inr w"
    and rest: "new_instances env admin c ys (emplace_ordered name w is) = Inr is'"
    using Cons.prems by (auto simp: cbind_Inr_cases)
  show ?case
  proof
    show "fst ` set is' = fst ` set is \<union> fst ` set (p # ys)"
      using Cons.IH [OF rest] p by (simp add: fst_emplace_ordered)
    have "(n, v) \<in> set is \<or> (\<exists>y. (n, y) \<in> set (p # ys) \<and> new_instance env admin c y = Inr v)"
      if "(n, v) \<in> set is'" for n v
    proof -
      have "(n, v) \<in> set (emplace_ordered name w is) \<or> (\<exists>y. (n, y) \<in> set ys \<and> new_instance env admin c y = Inr v)"
        using Cons.IH [OF rest] that by blast
      then show ?thesis using set_emplace_ordered [of name w "is"] w p by auto
    qed
    then show "\<forall>(n, v) \<in> set is'. (n, v) \<in> set is \<or> (\<exists>y. (n, y) \<in> set (p # ys) \<and> new_instance env admin c y = Inr v)"
      by blast
  qed
qed auto

lemma chain_gateways: "new_OrderAccount gc username ty venues = Inr chain \<Longrightarrow> map cn_gateway chain = venues"
  by (auto simp: gateway_chain_eq comp_def split: if_splits)

definition built_from :: "('t, 's, 'd) start_env \<Rightarrow> UserSymbolsMap \<Rightarrow> AdminSettings \<Rightarrow> AccountConfig \<Rightarrow> 'd account_objects \<Rightarrow> bool" where
  "built_from env us ad c a \<longleftrightarrow>
     map cn_gateway (ao_long_account a) = ac_venues c \<and> map cn_gateway (ao_short_account a) = ac_venues c \<and>
     (\<exists>ys. map_of us (ac_id c) = Some ys \<and> fst ` set (ao_trade_instances a) = fst ` set ys \<and>
       (\<forall>(name, w) \<in> set (ao_trade_instances a). \<exists>y. (name, y) \<in> set ys \<and> new_instance env (Some ad) c y = Inr w))"

lemma new_account_built:
  assumes "new_account env us (Some ad) c = Inr a"
  shows "built_from env us ad c a"
proof -
  obtain short long ys "is" where
    "new_OrderAccount (su_gateways env) (ac_short_acc c) SHORT (ac_venues c) = Inr short"
    "new_OrderAccount (su_gateways env) (ac_long_acc c) LONG (ac_venues c) = Inr long"
    "map_of us (ac_id c) = Some ys" "new_instances env (Some ad) c ys [] = Inr is"
    "ao_long_account a = long" "ao_short_account a = short" "ao_trade_instances a = is"
    using assms by (cases "map_of us (ac_id c)") (auto simp: new_account_def cbind_Inr_cases)
  then show ?thesis using new_instances_built [of env "Some ad" c ys "[]" "is"] chain_gateways
    by (auto simp: built_from_def)
qed


lemma new_accounts_built:
  "new_accounts env us (Some ad) accs = Inr as \<Longrightarrow>
     list_all2 (\<lambda>(i, c) (i', a). i' = i \<and> built_from env us ad c a) accs as"
  by (induction accs arbitrary: as) (auto simp: cbind_Inr_cases intro: new_account_built)

text \<open>C29: a program that is built has exactly the configured accounts; each is connected to its venues in
  order for both sides, and has one instance for each name among its symbols, constructed from a symbol
  configured under this name.\<close>

theorem program_as_configured:
  assumes "build_program env us accs (Some ad) = Inr p"
  shows "list_all2 (\<lambda>(i, c) (i', a). i' = i \<and> built_from env us ad c a) accs (pr_accounts p)"
  using assms by (auto simp: build_program_def cbind_Inr_cases intro: new_accounts_built)

text \<open>An account of one venue and one symbol, with the store switched off.\<close>

definition sample_avicenna :: AvicennaConfiguration where
  "sample_avicenna = \<lparr>vc_dll_timer1 = 5, vc_dll_ip = ''ip'', vc_dll_input = True, vc_dll_str1 = ''1'', vc_dll_str2 = ''2'',
     vc_dll_str3 = ''3'', vc_dll_str4 = ''4'', vc_dll_str5 = ''5''\<rparr>"

definition sample_account :: AccountConfig where
  "sample_account = \<lparr>ac_id = ''pair1'', ac_type = TA_PAIR, ac_username = [], ac_long_acc = ''user1'',
     ac_short_acc = ''user2'', ac_legacy_timer = 1, ac_legacy_trader_timer = 1, ac_legacy_pit_timer = 1,
     ac_maximum_order = 40, ac_maximum_live = 80, ac_avicenna1 = sample_avicenna, ac_avicenna2 = sample_avicenna,
     ac_venues = [''sim'', ''bats''], ac_attempts = 4\<rparr>"

definition sample_admin :: AdminSettings where
  "sample_admin = \<lparr>ad_panic_close_time = ''20'', ad_soft_close_time = ''20'', ad_log_severity = ''trace'',
     ad_verbose_severity = ''trace'', ad_positionfile_time = ''20'', ad_redis_port = 6379,
     ad_redis_ip = ''127.0.0.1'', ad_redis_enable = False\<rparr>"

definition sample_environment :: "(sample_tree, string \<rightharpoonup> stored, unit) start_env" where
  "sample_environment = \<lparr>su_files = sample_ptree (\<lambda>_. None) (\<lambda>_. None),
     su_times = \<lparr>tf_default = (\<lambda>_. []), tf_format = (\<lambda>_ _. [])\<rparr>, su_default_port = 9000, su_link = (\<lambda>_ _. True),
     su_gateways = \<lparr>gc_Connect = (\<lambda>_ _. True), gc_Login = (\<lambda>_ _. True), gc_ListenOrders = (\<lambda>_ _. True),
       gc_ListenFills = (\<lambda>_ _. True)\<rparr>, su_orders = sample_gateway, su_estimator = (\<lambda>_ _ _ _ _. ()),
     su_store = (\<lambda>_ _. Some (rw_client sample_writer)), su_redis = sample_env, su_duration = parse_nat,
     su_previous_bar = u_bar sample_rest, su_uninitialised = sample_rest, su_queue_available = True,
     su_shared = sample_shared\<rparr>"

lemma disabled_load: "load_positions en nm \<lparr>rw_isRedisEnabled = False, rw_locked = False, rw_client = c\<rparr> =
    (Inr (None, None), \<lparr>rw_isRedisEnabled = False, rw_locked = False, rw_client = c\<rparr>)"
  by (simp add: load_positions_def load_account_def readKeyFromRedis_def catch_all_def if_enabled_def io_bind_def
      io_return_def Let_def)

lemma sample_instance:
  assumes "y_share_rounds y \<noteq> []"
  shows "new_instance sample_environment (Some sample_admin) sample_account y =
    Inr (start_world (settings_of sample_account y) (new_feed (u_bar sample_rest)) sample_gateway sample_rest None None)"
  using assms by (simp add: new_instance_def sample_environment_def sample_admin_def disabled_load start_instance_def
      settings_of_def load_result_def)

lemma entry_of_key: "k \<in> fst ` set xs \<Longrightarrow> \<exists>v. (k, v) \<in> set xs"
  by auto

abbreviation sample_users :: UserSymbolsMap where
  "sample_users \<equiv> [(''pair1'', [(''IBM'', sample_symbol_settings)])]"

abbreviation sample_accounts :: TradeAccountMap where
  "sample_accounts \<equiv> [(''pair1'', sample_account)]"

lemma sample_program_built:
  "\<exists>p. build_program sample_environment sample_users sample_accounts (Some sample_admin) = Inr p"
proof -
  have rounds: "y_share_rounds sample_symbol_settings \<noteq> []" by (simp add: sample_symbol_settings_def)
  have ready: "initOrderAccount (su_gateways sample_environment) g u" for g u
    by (simp add: initOrderAccount_def sample_environment_def)
  have "\<exists>a. new_account sample_environment sample_users (Some sample_admin) sample_account = Inr a"
    using sample_instance [OF rounds] ready
    by (simp add: new_account_def gateway_chain_eq) (simp add: sample_account_def list.pred_True)
  then obtain a where "new_account sample_environment sample_users (Some sample_admin) sample_account = Inr a" ..
  then have accounts: "new_accounts sample_environment sample_users (Some sample_admin) sample_accounts = Inr [(''pair1'', a)]"
    by simp
  have "parse_nat ''20'' = Some 20" by (simp add: parse_nat_def is_digit_def digits_value_def)
  then have times: "time_of sample_environment (ad_panic_close_time sample_admin) = Inr 20"
    "time_of sample_environment (ad_soft_close_time sample_admin) = Inr 20"
    "time_of sample_environment (ad_positionfile_time sample_admin) = Inr 20"
    by (simp_all add: time_of_def sample_admin_def sample_environment_def)
  show ?thesis by (simp add: build_program_def accounts times del: new_accounts.simps)
qed

lemma program_as_configured_witness:
  "\<exists>p a w. build_program sample_environment sample_users sample_accounts (Some sample_admin) = Inr p \<and>
     pr_accounts p = [(''pair1'', a)] \<and>
     map cn_gateway (ao_long_account a) = [''sim'', ''bats''] \<and> (''IBM'', w) \<in> set (ao_trade_instances a)"
proof -
  obtain p where p: "build_program sample_environment sample_users sample_accounts (Some sample_admin) = Inr p"
    using sample_program_built ..
  from program_as_configured [OF this] obtain a where a: "pr_accounts p = [(''pair1'', a)]"
    and built: "built_from sample_environment sample_users sample_admin sample_account a"
    by (auto simp: list_all2_Cons1)
  have i: "ac_id sample_account = ''pair1''" and v: "ac_venues sample_account = [''sim'', ''bats'']"
    by (simp_all add: sample_account_def)
  obtain ys where "map_of sample_users ''pair1'' = Some ys" "fst ` set (ao_trade_instances a) = fst ` set ys"
    using built unfolding built_from_def i by blast
  then have ibm: "''IBM'' \<in> fst ` set (ao_trade_instances a)" by auto
  obtain w where w: "(''IBM'', w) \<in> set (ao_trade_instances a)" using entry_of_key [OF ibm] ..
  have "map cn_gateway (ao_long_account a) = [''sim'', ''bats'']" using built unfolding built_from_def v by blast
  with p a w show ?thesis by (intro exI conjI)
qed


section \<open>A divisor of zero\<close>

lemma new_instance_start:
  assumes "new_instance env admin c y = Inr w"
  shows "\<exists>u gw pl ps. start_instance (settings_of c y) (new_feed (su_previous_bar env)) gw u pl ps = Inr w"
proof -
  obtain long short where "map_sum Start_undefined (\<lambda>w. w) (start_instance (settings_of c y)
      (new_feed (su_previous_bar env)) (su_orders env) (su_uninitialised env) long short) = Inr w"
    using assms by (auto simp: new_instance_def cbind_Inr_cases split: if_splits)
  then show ?thesis
    by (cases "start_instance (settings_of c y) (new_feed (su_previous_bar env)) (su_orders env)
        (su_uninitialised env) long short") auto
qed

text \<open>C31: the configuration accepts a divisor of zero, and an instance built from it divides by zero in
  every order it sends, at its start and in every state it reaches.\<close>

theorem zero_divisor_faults:
  assumes "y_divisor y = 0" "new_instance env admin c y = Inr w0" "reachable w0 w"
  shows "open_mmf s price sz mmf w = Inl DivByZero \<and> open_done s price sz td w = Inl DivByZero \<and>
    close_fco s price sz fco w = Inl DivByZero"
proof -
  obtain u gw pl ps where "start_instance (settings_of c y) (new_feed (su_previous_bar env)) gw u pl ps = Inr w0"
    using new_instance_start [OF assms(2)] by blast
  then have w0: "w0 = start_world (settings_of c y) (new_feed (su_previous_bar env)) gw u pl ps"
    using start_instanceD by blast
  have "same_constants w0 w" by (rule constant_world.P_reachable [OF assms(3)]) (simp add: same_constants_def)
  then have "a_divisor (w_ta w s) = 0" using assms(1) by (simp add: same_constants_def w0 settings_of_def)
  then show ?thesis by (simp add: open_mmf_def open_done_def close_fco_def with_divisor_def)
qed

lemma zero_divisor_faults_witness:
  "\<exists>w. new_instance sample_environment (Some sample_admin) sample_account (sample_symbol_settings\<lparr>y_divisor := 0\<rparr>) = Inr w \<and>
     open_mmf LONG (Fin 5) 120 False w = Inl DivByZero"
proof -
  let ?y = "sample_symbol_settings\<lparr>y_divisor := 0\<rparr>"
  have rounds: "y_share_rounds ?y \<noteq> []" by (simp add: sample_symbol_settings_def)
  show ?thesis using zero_divisor_faults [OF _ sample_instance [OF rounds] reachable_start] sample_instance [OF rounds]
    by simp
qed

section \<open>When the start completes\<close>

lemma handle_config_Inr: "handle_config r = Inr v \<longleftrightarrow> r = Inr v"
  by (cases r) (auto simp: handle_config_def split: config_stop.split)

lemma start_logger_Inr: "start_logger env = Inr s \<longleftrightarrow>
    (\<exists>ad. s = Some ad \<and> AdminConfig_parse (su_files env) admin_config_file None = Inr (Some ad))"
  by (auto simp: start_logger_def init_logger_def cbind_def cget_def split: sum.splits option.splits config_stop.splits)

lemma cget_Inr: "cget e x = Inr v \<longleftrightarrow> x = Some v"
  by (cases x) auto

text \<open>
  A start gets to the event loop exactly when the address and the port of the router are given, the three
  files can be read, the router accepts and everything can be built; the administrative settings come
  from a fixed file whatever the options say.
\<close>

lemma start_completes:
  "start_main env args = Inr p \<longleftrightarrow>
     (\<exists>port ad us accs. GetValue args ''LinkAddress'' \<noteq> [] \<and> GetValue args ''LinkPort'' \<noteq> [] \<and>
       router_port env (GetValue args ''LinkPort'') = Inr port \<and>
       AdminConfig_parse (su_files env) ''../configs/admin_config.xml'' None = Inr (Some ad) \<and>
       SymbolConfig_parse (su_files env) (GetValue args ''SymbolConfig'') None = Inr (Some us) \<and>
       TradingConfig_parse (su_files env) (GetValue args ''TradingConfig'') None = Inr (Some accs) \<and>
       su_link env (GetValue args ''LinkAddress'') port \<and> build_program env us accs (Some ad) = Inr p)"
  by (auto simp: start_main_def Let_def cbind_Inr_cases start_logger_Inr handle_config_Inr cget_Inr admin_config_file_def
      split: if_splits)

section \<open>A start that completes\<close>

text \<open>The three files of the samples.\<close>

abbreviation text_node :: "string \<Rightarrow> sample_tree" where
  "text_node d \<equiv> Node d []"

definition avicenna_tree :: sample_tree where
  "avicenna_tree = Node [] [(''dll_timer1'', text_node ''5''), (''ip'', text_node ''ip''), (''dll_input'', text_node ''true''),
     (''dll_str1'', text_node ''1''), (''dll_str2'', text_node ''2''), (''dll_str3'', text_node ''3''),
     (''dll_str4'', text_node ''4''), (''dll_str5'', text_node ''5'')]"

definition account_tree :: sample_tree where
  "account_tree = Node [] [(''<xmlattr>'', Node [] [(''id'', text_node ''pair1''), (''type'', text_node ''pair'')]),
     (''long_account'', text_node ''user1''), (''short_account'', text_node ''user2''),
     (''maximum_order'', text_node ''40''), (''maximum_live'', text_node ''80''), (''legacy_timer'', text_node ''1''),
     (''legacy_trader_timer'', text_node ''1''), (''legacy_pit_timer'', text_node ''1''),
     (''avicenna1'', avicenna_tree), (''avicenna2'', avicenna_tree),
     (''venues'', Node [] [(''<xmlattr>'', Node [] [(''attempts'', text_node ''4'')]),
        (''venue'', text_node ''sim''), (''venue'', text_node ''bats'')])]"

definition admin_tree :: sample_tree where
  "admin_tree = Node [] [(''soft_close_time'', text_node ''20''), (''panic_close_time'', text_node ''20''),
     (''generate_positionfile_time'', text_node ''20''),
     (''log'', Node [] [(''<xmlattr>'', Node [] [(''severity'', text_node ''trace'')])]),
     (''verbose'', Node [] [(''<xmlattr>'', Node [] [(''severity'', text_node ''trace'')])]),
     (''redis'', Node [] [(''<xmlattr>'', Node [] [(''enable'', text_node ''false''), (''ip'', text_node ''127.0.0.1''),
        (''port'', text_node ''6379'')])])]"

abbreviation sample_library :: "(string \<Rightarrow> sample_tree option) \<Rightarrow> sample_tree ptree_library" where
  "sample_library files \<equiv> sample_ptree files (\<lambda>_. Some (Fin 1))"

definition sample_symbol_tree :: sample_tree where
  "sample_symbol_tree = symbol_tree (sample_library (\<lambda>_. None))
     \<lparr>dc_multiplier = ''1.0'', dc_mpv_value = ''1'', dc_mpv_limit = ''1'', dc_mpv_multiplier = ''1''\<rparr> sample_symbol_settings []"

definition sample_files :: "string \<Rightarrow> sample_tree option" where
  "sample_files = [''../configs/admin_config.xml'' \<mapsto> Node [] [(''admin'', admin_tree)],
     ''s.xml'' \<mapsto> Node [] [(''symbols'', Node [] [(''user'', Node [] [(''<xmlattr>'', Node [] [(''id'', text_node ''pair1'')]),
        (''sym'', sample_symbol_tree)])])],
     ''t.xml'' \<mapsto> Node [] [(''trading'', Node [] [(''account'', account_tree)])]]"

lemma sample_admin_read:
  "AdminConfig_parse (sample_library sample_files) ''../configs/admin_config.xml'' None = Inr (Some sample_admin)"
  by (simp add: AdminConfig_parse_def the_section_def sample_files_def sample_ptree_def child_def new_AdminSettings_def
      admin_tree_def text_at_def attribute_def int_at_def bool_at_def sample_admin_def
      parse_int_def parse_nat_def is_digit_def digits_value_def)

lemma sample_account_read:
  "TradingConfig_parse (sample_library sample_files) ''t.xml'' None = Inr (Some sample_accounts)"
  by (simp add: TradingConfig_parse_def the_section_def sample_files_def sample_ptree_def child_def new_TradeAccountMap_def
      configure_account_def account_tree_def avicenna_tree_def read_avicenna_def account_users_def timer_at_def read_venues_def
      text_at_def attribute_def int_at_def u32_at_def sample_account_def sample_avicenna_def keep_first_def
      parse_int_def parse_nat_def is_digit_def digits_value_def)

lemma configure_symbol_library:
  "configure_symbol (sample_library files) sample_symbol_tree = Inr sample_symbol_settings"
proof -
  let ?dc = "\<lparr>dc_multiplier = ''1.0'', dc_mpv_value = ''1'', dc_mpv_limit = ''1'', dc_mpv_multiplier = ''1''\<rparr>"
  have tree: "sample_symbol_tree = symbol_tree (sample_library files) ?dc sample_symbol_settings []"
    by (simp add: sample_symbol_tree_def symbol_tree_def with_attributes_def leaf_def int_leaf_def bool_leaf_def
        round_item_def sample_ptree_def)
  show ?thesis unfolding tree
    by (rule configured_back [OF sample_ptree_documented];
        auto simp: sample_symbol_settings_def symbol_fits_def fits_int_def decimals_of_def ignored_items_def
          sample_ptree_def dbl_to_int_def rat_trunc_def)
qed

lemma sample_symbols_read:
  "SymbolConfig_parse (sample_library sample_files) ''s.xml'' None = Inr (Some sample_users)"
  using configure_symbol_library [of sample_files]
  by (simp add: SymbolConfig_parse_def the_section_def sample_files_def sample_ptree_def child_def new_UserSymbolsMap_def
      text_at_def new_SymbolMap_def keep_first_def) (simp add: sample_symbol_settings_def)

lemma new_instances_files: "new_instances (env\<lparr>su_files := f\<rparr>) ad c ys is = new_instances env ad c ys is"
  by (induction env ad c ys "is" rule: new_instances.induct) (simp_all add: new_instance_def)

lemma new_accounts_files: "new_accounts (env\<lparr>su_files := f\<rparr>) us ad accs = new_accounts env us ad accs"
  by (induction accs) (auto simp: new_account_def new_instances_files)

lemma build_program_files: "build_program (env\<lparr>su_files := f\<rparr>) us accs ad = build_program env us accs ad"
  by (simp add: build_program_def new_accounts_files time_of_def)

definition sample_arguments :: arguments where
  "sample_arguments = [''LinkAddress'' \<mapsto> ''127.0.0.1'', ''LinkPort'' \<mapsto> ''0'', ''SymbolConfig'' \<mapsto> ''s.xml'', ''TradingConfig'' \<mapsto> ''t.xml'']"

definition started_environment :: "(sample_tree, string \<rightharpoonup> stored, unit) start_env" where
  "started_environment = sample_environment\<lparr>su_files := sample_library sample_files\<rparr>"

text \<open>With the files of the samples the program starts.\<close>

theorem a_start_completes: "\<exists>p. start_main started_environment sample_arguments = Inr p"
proof -
  obtain p where p: "build_program sample_environment sample_users sample_accounts (Some sample_admin) = Inr p"
    using sample_program_built ..
  have "atoi ''0'' = Inr 0" by (simp add: atoi_def is_space_def is_digit_def digits_value_def)
  then have "router_port started_environment ''0'' = Inr 9000"
    by (simp add: router_port_def started_environment_def sample_environment_def)
  moreover have "build_program started_environment sample_users sample_accounts (Some sample_admin) = Inr p"
    using p by (simp add: started_environment_def build_program_files)
  moreover have "su_files started_environment = sample_library sample_files" "su_link started_environment a q" for a q
    by (simp_all add: started_environment_def sample_environment_def)
  ultimately have "start_main started_environment sample_arguments = Inr p"
    using sample_admin_read sample_symbols_read sample_account_read
    unfolding start_completes by (auto simp: sample_arguments_def GetValue_def)
  then show ?thesis ..
qed

end
