(* ===== verification/ProgramSystem.thy ===== *)
theory ProgramSystem
  imports FeedLaws StartupLaws
begin

text \<open>
  The running program: the objects \<open>main\<close> has built (\<open>src/src/stem1.cpp\<close>), with one store of symbols
  that the symbol manager writes and the trading instances read. Messages of the feed, ends of
  intervals, commands, rounds of the trading threads and messages of the gateways interleave in any
  order. Every instance moves by transitions of its own system only, and sees the market of its name.
\<close>

section \<open>State\<close>

text \<open>
  An instance holds a reference to its symbol, which is the member \<open>w_sym\<close> of its world; the symbols of
  users without an account are kept apart.
\<close>

record program_state =
  ps_manager :: SymbolManager
  ps_accounts :: accounts
  ps_idle :: symbol_store

definition symbol_keys :: "UserSymbolsMap \<Rightarrow> (string \<times> string) list" where
  "symbol_keys us = concat (map (\<lambda>(i, ys). map (\<lambda>(n, _). (i, n)) ys) us)"

definition ref_of :: "UserSymbolsMap \<Rightarrow> string \<times> string \<Rightarrow> symbol_ref option" where
  "ref_of us key = map_of (zip (symbol_keys us) [0..<length (symbol_keys us)]) key"

definition instance_at :: "accounts \<Rightarrow> string \<times> string \<Rightarrow> world option" where
  "instance_at accs key = (case map_of accs (fst key) of None \<Rightarrow> None | Some is \<Rightarrow> map_of is (snd key))"

text \<open>The store of symbols as the manager's pointers see it.\<close>

definition store_of :: "UserSymbolsMap \<Rightarrow> program_state \<Rightarrow> symbol_store" where
  "store_of us s r =
     (if r < length (symbol_keys us) then
        (case instance_at (ps_accounts s) (symbol_keys us ! r) of Some w \<Rightarrow> w_sym w | None \<Rightarrow> ps_idle s r)
      else ps_idle s r)"

definition map_instances :: "(string \<times> string \<Rightarrow> world \<Rightarrow> world) \<Rightarrow> accounts \<Rightarrow> accounts" where
  "map_instances f = map (\<lambda>(k, is). (k, map (\<lambda>(n, w). (n, f (k, n) w)) is))"

definition see_symbol :: "UserSymbolsMap \<Rightarrow> symbol_store \<Rightarrow> string \<times> string \<Rightarrow> world \<Rightarrow> world" where
  "see_symbol us st key w = (case ref_of us key of None \<Rightarrow> w | Some r \<Rightarrow> w\<lparr>w_sym := st r\<rparr>)"

definition with_store :: "UserSymbolsMap \<Rightarrow> symbol_store \<Rightarrow> program_state \<Rightarrow> program_state" where
  "with_store us st s = s\<lparr>ps_accounts := map_instances (see_symbol us st) (ps_accounts s), ps_idle := st\<rparr>"

definition start_state :: "('t, 's, 'd) start_env \<Rightarrow> 'd program \<Rightarrow> program_state" where
  "start_state env p = \<lparr>ps_manager = pr_symbol_manager p, ps_accounts = instances_of p,
     ps_idle = (\<lambda>_. new_feed (su_previous_bar env))\<rparr>"

section \<open>Transitions\<close>

text \<open>What happens to one instance alone: a round of its thread, a message of its gateway.\<close>

inductive own_step :: "world \<Rightarrow> world \<Rightarrow> bool" where
  own_round: "processing_round w = Inr (b, w') \<Longrightarrow> own_step w w'"
| own_message: "deliver e w = Inr w' \<Longrightarrow> own_step w w'"
| own_queue: "own_step w (w\<lparr>w_inbox := w_inbox w @ [e]\<rparr>)"

datatype 'k event = Market "'k item" | Account_command "string list" | Own "string \<times> string"

inductive program_step :: "UserSymbolsMap \<Rightarrow> ('k, 'l) feed_library \<Rightarrow> ('k, 'l) STEMDirectConnection \<Rightarrow>
    program_state \<Rightarrow> 'k event \<Rightarrow> program_state \<Rightarrow> bool" for us lib c where
  program_market: "market_step lib c i (ps_manager s, store_of us s) = Inr (m, st) \<Longrightarrow>
    program_step us lib c s (Market i) ((with_store us st s)\<lparr>ps_manager := m\<rparr>)"
| program_command: "run_command args (ps_accounts s) = Inr accs \<Longrightarrow>
    program_step us lib c s (Account_command args) (s\<lparr>ps_accounts := accs\<rparr>)"
| program_own: "instance_at (ps_accounts s) key = Some w \<Longrightarrow> own_step w w' \<Longrightarrow>
    program_step us lib c s (Own key)
      (s\<lparr>ps_accounts := map_instances (\<lambda>key' v. if key' = key then w' else v) (ps_accounts s)\<rparr>)"

inductive program_run :: "UserSymbolsMap \<Rightarrow> ('k, 'l) feed_library \<Rightarrow> ('k, 'l) STEMDirectConnection \<Rightarrow>
    program_state \<Rightarrow> 'k event list \<Rightarrow> program_state \<Rightarrow> bool" for us lib c where
  program_idle: "program_run us lib c s [] s"
| program_go: "program_step us lib c s e s1 \<Longrightarrow> program_run us lib c s1 es s' \<Longrightarrow> program_run us lib c s (e # es) s'"

definition market_items :: "'k event list \<Rightarrow> 'k item list" where
  "market_items es = concat (map (\<lambda>e. case e of Market i \<Rightarrow> [i] | _ \<Rightarrow> []) es)"

lemma market_items_simps [simp]:
  "market_items [] = []" "market_items (Market i # es) = i # market_items es"
  "market_items (Account_command args # es) = market_items es" "market_items (Own key # es) = market_items es"
  by (simp_all add: market_items_def)

section \<open>References\<close>

lemma ref_of_key: "ref_of us key = Some r \<Longrightarrow> r < length (symbol_keys us) \<and> symbol_keys us ! r = key"
  by (auto simp: ref_of_def set_zip dest!: map_of_SomeD)

lemma key_configured:
  "j < length (symbol_keys us) \<Longrightarrow> symbol_keys us ! j = (k, n) \<Longrightarrow> \<exists>e. (n, e, m + j) \<in> set (concat (number_symbols m us))"
proof (induction us arbitrary: j m)
  case (Cons p us)
  obtain i ys where p: "p = (i, ys)" by (cases p)
  show ?case
  proof (cases "j < length ys")
    case True
    then have "(case ys ! j of (n, y) \<Rightarrow> (i, n)) = (k, n)" using Cons.prems(2) p
      by (simp add: symbol_keys_def nth_append)
    then obtain y where "ys ! j = (n, y)" by (cases "ys ! j") auto
    then have "(j, n, y) \<in> set (enumerate 0 ys)" using True by (force simp: in_set_enumerate_eq)
    then show ?thesis using p by force
  next
    case False
    then have "symbol_keys us ! (j - length ys) = (k, n)" "j - length ys < length (symbol_keys us)"
      using Cons.prems p by (auto simp: symbol_keys_def nth_append)
    from Cons.IH [OF this(2,1), of "m + length ys"] show ?thesis using False p by auto
  qed
qed (simp add: symbol_keys_def)

lemma ref_configured: "ref_of us (k, n) = Some r \<Longrightarrow> \<exists>e. (n, e, r) \<in> set (concat (number_symbols 0 us))"
  using key_configured [of r us k n 0] ref_of_key by fastforce

lemma store_of_ref:
  "ref_of us key = Some r \<Longrightarrow> instance_at (ps_accounts s) key = Some w \<Longrightarrow> store_of us s r = w_sym w"
  using ref_of_key [of us key r] by (simp add: store_of_def)

lemma ref_of_exists: "map_of us i = Some ys \<Longrightarrow> n \<in> fst ` set ys \<Longrightarrow> \<exists>r. ref_of us (i, n) = Some r"
proof -
  assume "map_of us i = Some ys" "n \<in> fst ` set ys"
  then have "(i, n) \<in> set (symbol_keys us)" by (force simp: symbol_keys_def dest: map_of_SomeD)
  then show ?thesis by (simp add: ref_of_def map_of_zip_is_Some [symmetric])
qed

lemma map_of_mapped: "map_of (map (\<lambda>(k, v). (k, f k v)) xs) k = map_option (f k) (map_of xs k)"
  by (induction xs) auto

lemma instance_at_mapped: "instance_at (map_instances f accs) key = map_option (f key) (instance_at accs key)"
  by (cases key) (simp add: instance_at_def map_instances_def map_of_mapped split: option.split)

end
