(* ===== verification/ProgramLaws.thy ===== *)
theory ProgramLaws
  imports ProgramSystem
begin

text \<open>
  The properties of the running program that come from its composition: whatever interleaving, every
  instance is in a state its own system can reach from its constructor, and its symbol is in the state
  of a symbol that heard the market of its name alone.
\<close>

section \<open>A market step that ends without a fault\<close>

lemma unsafe_message:
  assumes "knows cs a b m" "\<not> safe_message lib cs msg" "listening c" "dc_callback lib msg c = Inr es"
    "run_slots es m st = Inr st'"
  shows "st' = st \<and> (\<forall>n. told lib n msg = [])"
proof (cases msg)
  case (M_TradeList k trades)
  then show ?thesis using assms unknown_name_faults [OF assms(1)]
    by (cases trades) (auto simp: OnTradeList_def listening_def)
next
  case (M_Quote k bs bid as ask ty)
  then show ?thesis using assms by (auto simp: OnQuote_def listening_def sm_updateQuote_def knows_def rget_def)
next
  case (M_Refresh h k flags ty n g)
  then show ?thesis using assms by (auto simp: OnRefresh_def rget_def split: if_splits)
qed (use assms in auto)

lemma heard_outcome:
  assumes "knows cs a b m" "distinct (map (\<lambda>(_, _, r). r) cs)" "listening c"
    "market_step lib c i (m, st) = Inr (m', st')"
  shows "knows cs (all_enabled i a) (\<lambda>n. name_enabled n i (b n)) m' \<and>
    (\<forall>n e r. (n, e, r) \<in> set cs \<longrightarrow> symbol_run (item_heard lib n r (a \<and> b n) i) (st r) = Inr (st' r))"
proof (cases "safe_item lib cs i")
  case True
  then show ?thesis using heard_item [OF assms(1,2) True assms(3), of st] assms(4) by auto
next
  case False
  then show ?thesis
  proof (cases i)
    case (Feed msg)
    then obtain es where "dc_callback lib msg c = Inr es" "run_slots es m st = Inr st'" "m' = m"
      using assms(4) by (auto simp: rbind_eq_Inr)
    then show ?thesis using unsafe_message [OF assms(1) _ assms(3), of lib msg es st st'] Feed False assms(1) by simp
  qed (use False assms(4) in \<open>auto simp: sm_command_def switches_def rbind_eq_Inr split: if_splits\<close>)
qed

section \<open>One symbol inside an instance\<close>

lemma symbol_step_reachable:
  assumes "symbol_step e (w_sym w) = Inr y"
  shows "reachable w (w\<lparr>w_sym := y\<rparr>)"
proof (rule reachable_step [OF reachable_start])
  show "step w (w\<lparr>w_sym := y\<rparr>)"
  proof (cases e)
    case (Price p)
    then show ?thesis using assms step_price [of w p] by simp
  next
    case (Quote bs bid as ask)
    then show ?thesis using assms step_quote [of "dbl_of_u32 bs" bid "dbl_of_u32 as" ask w y] by simp
  next
    case (Interval_end estimate index)
    then show ?thesis using assms step_interval [of w estimate index] by simp
  qed
qed

lemma reachable_trans: "reachable w v \<Longrightarrow> reachable u w \<Longrightarrow> reachable u v"
  by (induction rule: reachable.induct) (auto intro: reachable_step)

lemma symbol_run_reachable: "symbol_run es (w_sym w) = Inr y \<Longrightarrow> reachable w (w\<lparr>w_sym := y\<rparr>)"
proof (induction es arbitrary: w)
  case (Cons e es)
  then obtain x where x: "symbol_step e (w_sym w) = Inr x" "symbol_run es x = Inr y" by (auto simp: rbind_eq_Inr)
  have "reachable (w\<lparr>w_sym := x\<rparr>) (w\<lparr>w_sym := y\<rparr>)" using Cons.IH [of "w\<lparr>w_sym := x\<rparr>"] x(2) by simp
  then show ?case using symbol_step_reachable [OF x(1)] reachable_trans by blast
next
  case Nil
  then have "w\<lparr>w_sym := y\<rparr> = w" by auto
  then show ?case by (simp add: reachable_start)
qed

text \<open>The stack of stamps does not matter for what a symbol makes of the market.\<close>

lemma sans_stack_eq: "sans_stack y = sans_stack z \<longleftrightarrow> (\<exists>ys. z = y\<lparr>s_symbol_stack := ys\<rparr>)"
  by (cases y; cases z) (auto simp: sans_stack_def)

lemma store_quote_stack:
  "store_quote skew bs bp asz ap y = Inr y' \<Longrightarrow>
     \<exists>zs. store_quote skew bs bp asz ap (y\<lparr>s_symbol_stack := ys\<rparr>) = Inr (y'\<lparr>s_symbol_stack := zs\<rparr>)"
  by (cases y) (auto simp: store_quote_def push_def rbind_eq_Inr)

lemma symbol_step_stack:
  assumes "symbol_step e y = Inr y'"
  shows "\<exists>zs. symbol_step e (y\<lparr>s_symbol_stack := ys\<rparr>) = Inr (y'\<lparr>s_symbol_stack := zs\<rparr>)"
proof (cases e)
  case (Price p)
  then show ?thesis using assms by (cases y) (auto simp: updatePrice_def)
next
  case (Quote bs bid as ask)
  have "quote_changed a b c d (y\<lparr>s_symbol_stack := ys\<rparr>) = quote_changed a b c d y" for a b c d
    by (simp add: quote_changed_def)
  note same = this
  show ?thesis
  proof (cases "quote_changed (dbl_of_u32 bs) bid (dbl_of_u32 as) ask y")
    case True
    then show ?thesis using assms Quote same store_quote_stack [of _ _ _ _ _ y y'] by (simp add: updateQuoteData_def)
  next
    case False
    then show ?thesis using assms Quote same by (intro exI [of _ ys]) (simp add: updateQuoteData_def)
  qed
next
  case (Interval_end estimate index)
  have "resetIntervalCallback estimate index (y\<lparr>s_symbol_stack := ys\<rparr>) =
      (resetIntervalCallback estimate index y)\<lparr>s_symbol_stack :=
        s_symbol_stack (resetIntervalCallback estimate index (y\<lparr>s_symbol_stack := ys\<rparr>))\<rparr>"
    by (rule Symbol.equality) (simp_all add: resetIntervalCallback_def push_def Let_def)
  then show ?thesis using assms Interval_end by (metis symbol_step.simps(3) sum.inject(2))
qed

lemma symbol_run_stack:
  "symbol_run es y = Inr y' \<Longrightarrow> sans_stack z = sans_stack y \<Longrightarrow>
     \<exists>z'. symbol_run es z = Inr z' \<and> sans_stack z' = sans_stack y'"
proof (induction es arbitrary: y z)
  case (Cons e es)
  then obtain x where x: "symbol_step e y = Inr x" "symbol_run es x = Inr y'" by (auto simp: rbind_eq_Inr)
  obtain ys where z: "z = y\<lparr>s_symbol_stack := ys\<rparr>" using Cons.prems(2) by (metis sans_stack_eq)
  obtain zs where "symbol_step e z = Inr (x\<lparr>s_symbol_stack := zs\<rparr>)" using symbol_step_stack [OF x(1)] z by blast
  then show ?case using Cons.IH [OF x(2), of "x\<lparr>s_symbol_stack := zs\<rparr>"] by (simp add: sans_stack_def)
qed simp

section \<open>One transition of the program for one instance\<close>

fun event_heard :: "('k, 'l) feed_library \<Rightarrow> string \<Rightarrow> symbol_ref \<Rightarrow> bool \<Rightarrow> 'k event \<Rightarrow> symbol_event list" where
  "event_heard lib n r enabled (Market i) = item_heard lib n r enabled i"
| "event_heard lib n r enabled _ = []"

fun event_flags :: "'k event \<Rightarrow> bool \<times> (string \<Rightarrow> bool) \<Rightarrow> bool \<times> (string \<Rightarrow> bool)" where
  "event_flags (Market i) (a, b) = (all_enabled i a, \<lambda>n. name_enabled n i (b n))"
| "event_flags _ (a, b) = (a, b)"

definition moved :: "symbol_event list \<Rightarrow> world \<Rightarrow> world \<Rightarrow> bool" where
  "moved es w w' \<longleftrightarrow> reachable w w' \<and>
     (\<exists>y. symbol_run es (w_sym w) = Inr y \<and> sans_stack y = sans_stack (w_sym w'))"

lemma own_step_moved: "own_step w w' \<Longrightarrow> moved [] w w'"
proof (induction rule: own_step.induct)
  case (own_round w b w')
  have "sans_stack (w_sym w') = sans_stack (w_sym w)"
    using res_allD [OF market_world.P_processing_round [OF refl] own_round] by simp
  then show ?case using reachable_step [OF reachable_start step_round [OF own_round]] by (simp add: moved_def)
next
  case (own_message e w w')
  have "sans_stack (w_sym w') = sans_stack (w_sym w)"
    by (rule res_allD [OF market_world.P_deliver [OF refl] own_message])
  then show ?case using reachable_step [OF reachable_start step_message [OF own_message]] by (simp add: moved_def)
next
  case (own_queue w e)
  show ?case using reachable_step [OF reachable_start step_queue] by (simp add: moved_def)
qed

lemma advanced_instance:
  assumes "advanced accs accs'" "instance_at accs key = Some w"
  shows "\<exists>w'. instance_at accs' key = Some w' \<and> moved_by_command w w'"
proof -
  obtain "is" where i: "map_of accs (fst key) = Some is" "map_of is (snd key) = Some w"
    using assms(2) by (auto simp: instance_at_def split: option.splits)
  have "\<exists>is'. map_of accs' k = Some is' \<and> list_all2 (\<lambda>(s, w) (s', w'). s' = s \<and> moved_by_command w w') is is'"
    if "map_of accs k = Some is" for k using assms(1) that unfolding advanced_def
    by (induction rule: list_all2_induct) (auto split: if_splits)
  then obtain is' where is': "map_of accs' (fst key) = Some is'"
    "list_all2 (\<lambda>(s, w) (s', w'). s' = s \<and> moved_by_command w w') is is'" using i by blast
  have "\<exists>w'. map_of is' n = Some w' \<and> moved_by_command w w'" if "map_of is n = Some w" for n
    using is'(2) that by (induction rule: list_all2_induct) (auto split: if_splits)
  then show ?thesis using i is' by (auto simp: instance_at_def)
qed

lemma step_moved:
  assumes "program_step us lib c s e s'" "knows (concat (number_symbols 0 us)) a b (ps_manager s)" "listening c"
  shows "(case event_flags e (a, b) of (a', b') \<Rightarrow> knows (concat (number_symbols 0 us)) a' b' (ps_manager s')) \<and>
    (\<forall>k n w r. instance_at (ps_accounts s) (k, n) = Some w \<longrightarrow> ref_of us (k, n) = Some r \<longrightarrow>
      (\<exists>w'. instance_at (ps_accounts s') (k, n) = Some w' \<and> moved (event_heard lib n r (a \<and> b n) e) w w'))"
  using assms
proof (induction rule: program_step.induct)
  case (program_market i s m st)
  have refs: "distinct (map (\<lambda>(_, _, r). r) (concat (number_symbols 0 us)))" by (simp add: refs_number_symbols)
  note out = heard_outcome [OF program_market(2) refs program_market(3,1)]
  have "moved (item_heard lib n r (a \<and> b n) i) w (w\<lparr>w_sym := st r\<rparr>)"
    if w: "instance_at (ps_accounts s) (k, n) = Some w" and r: "ref_of us (k, n) = Some r" for k n w r
  proof -
    have "symbol_run (item_heard lib n r (a \<and> b n) i) (w_sym w) = Inr (st r)"
      using out ref_configured [OF r] store_of_ref [OF r w] by fastforce
    then show ?thesis using symbol_run_reachable by (simp add: moved_def)
  qed
  then show ?case using out
    by (auto simp: with_store_def instance_at_mapped see_symbol_def)
next
  case (program_command args s accs)
  then show ?case using advanced_instance [OF run_command_steps [OF program_command(1)]]
    by (fastforce simp: moved_def moved_by_command_def)
next
  case (program_own s key w w')
  then show ?case using own_step_moved [OF program_own(2)]
    by (auto simp: instance_at_mapped moved_def reachable_start)
qed

section \<open>Runs\<close>

lemma moved_trans:
  assumes "moved xs w v" "moved ys v u"
  shows "moved (xs @ ys) w u"
proof -
  obtain y z where y: "symbol_run xs (w_sym w) = Inr y" "sans_stack y = sans_stack (w_sym v)"
    and z: "symbol_run ys (w_sym v) = Inr z" "sans_stack z = sans_stack (w_sym u)"
    using assms by (auto simp: moved_def)
  obtain z' where "symbol_run ys y = Inr z'" "sans_stack z' = sans_stack z"
    using symbol_run_stack [OF z(1) y(2)] by blast
  then show ?thesis using assms y(1) z(2) reachable_trans by (auto simp: moved_def symbol_run_append)
qed

lemma run_moved:
  assumes "program_run us lib c s es s'" "listening c" "knows (concat (number_symbols 0 us)) a b (ps_manager s)"
    "instance_at (ps_accounts s) (k, n) = Some w" "ref_of us (k, n) = Some r"
  shows "\<exists>w'. instance_at (ps_accounts s') (k, n) = Some w' \<and> moved (heard lib n r a (b n) (market_items es)) w w'"
  using assms(1,3,4)
proof (induction arbitrary: a b w rule: program_run.induct)
  case (program_idle s)
  then show ?case by (simp add: moved_def reachable_start)
next
  case (program_go s e s1 es s')
  obtain a1 b1 where f: "event_flags e (a, b) = (a1, b1)" by (cases "event_flags e (a, b)")
  note st = step_moved [OF program_go(1,4) assms(2)]
  have k1: "knows (concat (number_symbols 0 us)) a1 b1 (ps_manager s1)" using st f by simp
  obtain w1 where w1: "instance_at (ps_accounts s1) (k, n) = Some w1" "moved (event_heard lib n r (a \<and> b n) e) w w1"
    using st program_go(5) assms(5) by blast
  obtain w' where w': "instance_at (ps_accounts s') (k, n) = Some w'" "moved (heard lib n r a1 (b1 n) (market_items es)) w1 w'"
    using program_go.IH [OF k1 w1(1)] by blast
  have "heard lib n r a (b n) (market_items (e # es)) =
      event_heard lib n r (a \<and> b n) e @ heard lib n r a1 (b1 n) (market_items es)"
    using f by (cases e) auto
  then show ?case using w'(1) moved_trans [OF w1(2) w'(2)] by simp
qed

section \<open>The program from its configuration\<close>

lemma start_symbol [simp]: "w_sym (start_world cfg symb gw u pl ps) = symb"
  by (simp add: start_world_def load_position_def setAverage_def setPriceInForce_def setRoundInForce_def setPosition_def
      Let_def split: option.split)

lemma instance_built:
  assumes "build_program env us accs (Some ad) = Inr p" "map_of accs k = Some cfg" "ac_id cfg = k"
    "map_of us k = Some ys" "n \<in> fst ` set ys"
  shows "\<exists>y w0. (n, y) \<in> set ys \<and> new_instance env (Some ad) cfg y = Inr w0 \<and>
    instance_at (ps_accounts (start_state env p)) (k, n) = Some w0"
proof -
  have "list_all2 (\<lambda>(i, c) (i', a). i' = i \<and> built_from env us ad c a) accs (pr_accounts p)"
    using assms(1) by (auto simp: build_program_def cbind_Inr_cases intro: new_accounts_built)
  then obtain a where a: "map_of (pr_accounts p) k = Some a" "built_from env us ad cfg a"
    using assms(2) by (induction rule: list_all2_induct) (auto split: if_splits)
  then have "n \<in> fst ` set (ao_trade_instances a)" using assms(3-5) by (simp add: built_from_def)
  then obtain w0 where w0: "map_of (ao_trade_instances a) n = Some w0"
    by (metis map_of_eq_None_iff not_None_eq)
  then obtain y where "(n, y) \<in> set ys" "new_instance env (Some ad) cfg y = Inr w0"
    using a(2) assms(3,4) by (fastforce simp: built_from_def dest: map_of_SomeD)
  moreover have "map_of (instances_of p) k = Some (ao_trade_instances a)"
    using a(1) by (simp add: instances_of_def map_of_mapped)
  ultimately show ?thesis using w0 by (auto simp: start_state_def instance_at_def)
qed



end
