(* ===== verification/Timers.thy ===== *)
theory Timers
  imports ProgramLaws
begin

text \<open>
  The timer threads of the estimates (\<open>AvicennaInterface::timeoutThread\<close>): two for every account, each
  of which goes over the symbols of the account, ends the interval of each with the estimate of its own
  connection, and sleeps. They interleave with everything else the program does, symbol by symbol: the
  mutex of a symbol is held from the reading of its price to the end of its interval. The threads run
  from the end of the construction of the program on.
\<close>

section \<open>One thread\<close>

text \<open>Where a thread is: at the test of the flag, before an element of the map, asleep, or at its end.\<close>

datatype timer_thread = Checking | At nat | Sleeping | Returned

record 'd AvicennaInterface =
  ai_stop_timeout_thread :: bool
  ai_avicenna_list :: "'d estimates"
  ai_thread :: "int \<Rightarrow> timer_thread"

definition start_threads :: "'d estimates \<Rightarrow> 'd AvicennaInterface" where
  "start_threads list = \<lparr>ai_stop_timeout_thread = False, ai_avicenna_list = list, ai_thread = (\<lambda>_. Checking)\<rparr>"

definition goto :: "int \<Rightarrow> timer_thread \<Rightarrow> 'd AvicennaInterface \<Rightarrow> 'd AvicennaInterface" where
  "goto index p i = i\<lparr>ai_thread := (ai_thread i)(index := p)\<rparr>"

definition connection_of :: "int \<Rightarrow> 'c \<times> 'c \<Rightarrow> 'c" where
  "connection_of index p = (if index = 0 then fst p else snd p)"

definition set_connection :: "int \<Rightarrow> 'c \<Rightarrow> 'c \<times> 'c \<Rightarrow> 'c \<times> 'c" where
  "set_connection index c p = (if index = 0 then (c, snd p) else (fst p, c))"

text \<open>The body of the loop for one symbol: the estimate, and the list with the connection after it. A name
  that is not in the list is a null pointer.\<close>

definition tick :: "'d estimator \<Rightarrow> int \<Rightarrow> string \<Rightarrow> Symbol \<Rightarrow> 'd estimates \<Rightarrow> (double \<times> 'd estimates) res option" where
  "tick est index name y list =
     (case map_of list name of
        None \<Rightarrow> Some (Inl NullDeref)
      | Some p \<Rightarrow> (case newEstimate est (s_close_price y) (connection_of index p) of
          None \<Rightarrow> None
        | Some r \<Rightarrow> Some (rbind r (\<lambda>(x, c).
            Inr (x, map (\<lambda>(n, q). (n, if n = name then set_connection index c q else q)) list)))))"

text \<open>A transition of a thread, with the symbol whose interval it ends and the estimate. A thread whose
  estimate is never found has no transition, as it stays in the loop at the start.\<close>

inductive timer_move :: "'d estimator \<Rightarrow> string list \<Rightarrow> (string \<Rightarrow> Symbol option) \<Rightarrow> int \<Rightarrow>
    'd AvicennaInterface \<Rightarrow> (string \<times> double) option \<Rightarrow> 'd AvicennaInterface \<Rightarrow> bool" for est names see index where
  timer_check: "ai_thread i index = Checking \<Longrightarrow>
    timer_move est names see index i None (goto index (if ai_stop_timeout_thread i then Returned else At 0) i)"
| timer_tick: "ai_thread i index = At j \<Longrightarrow> j < length names \<Longrightarrow> see (names ! j) = Some y \<Longrightarrow>
    tick est index (names ! j) y (ai_avicenna_list i) = Some (Inr (x, list)) \<Longrightarrow>
    timer_move est names see index i (Some (names ! j, x)) (goto index (At (Suc j)) (i\<lparr>ai_avicenna_list := list\<rparr>))"
| timer_pass: "ai_thread i index = At (length names) \<Longrightarrow> timer_move est names see index i None (goto index Sleeping i)"
| timer_wake: "ai_thread i index = Sleeping \<Longrightarrow> timer_move est names see index i None (goto index Checking i)"

section \<open>The program with its timers\<close>

datatype 'k timed_event = Program "'k event" | Timer string int "(string \<times> double) option"

type_synonym 'd timed_state = "program_state \<times> (string \<Rightarrow> 'd AvicennaInterface)"

fun ends_interval :: "'k event \<Rightarrow> bool" where
  "ends_interval (Market (Interval r estimate index)) = True"
| "ends_interval _ = False"

definition symbol_at :: "UserSymbolsMap \<Rightarrow> program_state \<Rightarrow> string \<Rightarrow> string \<Rightarrow> Symbol option" where
  "symbol_at us s k n = map_option (store_of us s) (ref_of us (k, n))"

definition account_names :: "UserSymbolsMap \<Rightarrow> string \<Rightarrow> string list" where
  "account_names us k = (case map_of us k of None \<Rightarrow> [] | Some ys \<Rightarrow> map fst ys)"

definition end_interval :: "UserSymbolsMap \<Rightarrow> string \<Rightarrow> int \<Rightarrow> string \<times> double \<Rightarrow> program_state \<Rightarrow> program_state" where
  "end_interval us k index = (\<lambda>(n, x) s.
     case ref_of us (k, n) of None \<Rightarrow> s
     | Some r \<Rightarrow> with_store us ((store_of us s)(r := resetIntervalCallback (\<lambda>_ _ _ _. x) index (store_of us s r))) s)"

inductive timed_step :: "UserSymbolsMap \<Rightarrow> ('k, 'l) feed_library \<Rightarrow> ('k, 'l) STEMDirectConnection \<Rightarrow> 'd estimator \<Rightarrow>
    'd timed_state \<Rightarrow> 'k timed_event \<Rightarrow> 'd timed_state \<Rightarrow> bool" for us lib c est where
  timed_program: "program_step us lib c s e s' \<Longrightarrow> \<not> ends_interval e \<Longrightarrow>
    timed_step us lib c est (s, t) (Program e) (s', t)"
| timed_timer: "index \<in> {0, 1} \<Longrightarrow> timer_move est (account_names us k) (symbol_at us s k) index (t k) out i \<Longrightarrow>
    timed_step us lib c est (s, t) (Timer k index out)
      (case out of None \<Rightarrow> s | Some nx \<Rightarrow> end_interval us k index nx s, t(k := i))"

inductive timed_run :: "UserSymbolsMap \<Rightarrow> ('k, 'l) feed_library \<Rightarrow> ('k, 'l) STEMDirectConnection \<Rightarrow> 'd estimator \<Rightarrow>
    'd timed_state \<Rightarrow> 'k timed_event list \<Rightarrow> 'd timed_state \<Rightarrow> bool" for us lib c est where
  timed_idle: "timed_run us lib c est st [] st"
| timed_go: "timed_step us lib c est st e st1 \<Longrightarrow> timed_run us lib c est st1 es st' \<Longrightarrow>
    timed_run us lib c est st (e # es) st'"

definition start_timers :: "'d program \<Rightarrow> string \<Rightarrow> 'd AvicennaInterface" where
  "start_timers p k = start_threads (case map_of (pr_accounts p) k of None \<Rightarrow> [] | Some a \<Rightarrow> ao_avicenna_interface a)"

section \<open>The timers are part of the market\<close>

text \<open>The same event for the program without timers.\<close>

fun untimed :: "UserSymbolsMap \<Rightarrow> 'k timed_event \<Rightarrow> 'k event list" where
  "untimed us (Program e) = [e]"
| "untimed us (Timer k index None) = []"
| "untimed us (Timer k index (Some (n, x))) =
     (case ref_of us (k, n) of None \<Rightarrow> [] | Some r \<Rightarrow> [Market (Interval r (\<lambda>_ _ _ _. x) index)])"

lemma with_store_manager [simp]: "ps_manager (with_store us st s) = ps_manager s"
    "(with_store us st s)\<lparr>ps_manager := ps_manager s\<rparr> = with_store us st s"
  by (simp_all add: with_store_def)

inductive_cases timer_moveE: "timer_move est names see index i out i'"

lemma timer_ticked:
  assumes "timer_move est names see index i (Some (n, x)) i'"
  obtains j y list where "ai_thread i index = At j" "j < length names" "n = names ! j" "see n = Some y"
    "tick est index n y (ai_avicenna_list i) = Some (Inr (x, list))"
    "i' = goto index (At (Suc j)) (i\<lparr>ai_avicenna_list := list\<rparr>)"
  using assms by (cases rule: timer_move.cases) auto

lemma end_interval_step:
  assumes "ref_of us (k, n) = Some r"
  shows "program_step us lib c s (Market (Interval r (\<lambda>_ _ _ _. x) index)) (end_interval us k index (n, x) s)"
  using assms program_market [of lib c "Interval r (\<lambda>_ _ _ _. x) index" s us "ps_manager s"]
  by (simp add: end_interval_def)

lemma ticked_ref:
  assumes "timer_move est names (symbol_at us s k) index i (Some (n, x)) i'"
  obtains r where "ref_of us (k, n) = Some r"
  using assms by (auto simp: symbol_at_def elim!: timer_ticked)

text \<open>A step of the program with timers is one of the program, in which an interval ends with the estimate.\<close>

lemma timed_step_program:
  assumes "timed_step us lib c est (s, t) e (s', t')"
  shows "program_run us lib c s (untimed us e) s'"
  using assms
proof (cases rule: timed_step.cases)
  case (timed_program e)
  then show ?thesis by (simp add: program_go program_idle)
next
  case (timed_timer index k out i)
  show ?thesis
  proof (cases out)
    case None
    then show ?thesis using timed_timer by (simp add: program_idle)
  next
    case (Some nx)
    obtain n x where nx: "nx = (n, x)" by (cases nx)
    then obtain r where r: "ref_of us (k, n) = Some r" using timed_timer Some ticked_ref by metis
    have "program_run us lib c s [Market (Interval r (\<lambda>_ _ _ _. x) index)] s'"
      by (rule program_go [OF _ program_idle]) (use timed_timer Some nx end_interval_step [OF r] in simp)
    then show ?thesis using timed_timer Some nx r by simp
  qed
qed

lemma program_run_append: "program_run us lib c s es s1 \<Longrightarrow> program_run us lib c s1 es' s' \<Longrightarrow> program_run us lib c s (es @ es') s'"
  by (induction rule: program_run.induct) (auto intro: program_go)

text \<open>The program with its timers is the program, whose intervals end with what the estimates give.\<close>

theorem timed_run_is_run:
  "timed_run us lib c est (s, t) es (s', t') \<Longrightarrow> program_run us lib c s (concat (map (untimed us) es)) s'"
proof (induction "(s, t)" es "(s', t')" arbitrary: s t rule: timed_run.induct)
  case (timed_go e st1 es)
  then show ?case by (cases st1) (auto intro: program_run_append timed_step_program)
qed (simp add: program_idle)

end
