(* ===== verification/TimerLaws.thy ===== *)
theory TimerLaws
  imports Timers
begin

text \<open>
  What the timers do: their threads go round the symbols in turn and never end, and every symbol with
  its two connections is in the state of one that is alone with the library.
\<close>

section \<open>In turn\<close>

definition ticks :: "string \<Rightarrow> int \<Rightarrow> 'k timed_event list \<Rightarrow> string list" where
  "ticks k index es = concat (map (\<lambda>e. case e of
     Timer k' index' (Some (n, x)) \<Rightarrow> (if k' = k \<and> index' = index then [n] else []) | _ \<Rightarrow> []) es)"

text \<open>Some rounds and a part of one.\<close>

definition rounds :: "'a list \<Rightarrow> nat \<Rightarrow> nat \<Rightarrow> 'a list" where
  "rounds xs q j = concat (replicate q xs) @ take j xs"

lemma rounds_next: "j < length xs \<Longrightarrow> rounds xs q j @ [xs ! j] = rounds xs q (Suc j)"
  by (simp add: rounds_def take_Suc_conv_app_nth)

lemma rounds_full: "rounds xs q (length xs) = rounds xs (Suc q) 0"
proof -
  have "concat (replicate q xs) @ xs = xs @ concat (replicate q xs)" by (induction q) auto
  then show ?thesis by (simp add: rounds_def)
qed

definition in_turn :: "string list \<Rightarrow> string list \<Rightarrow> timer_thread \<Rightarrow> bool" where
  "in_turn names ts p \<longleftrightarrow> (case p of
     At j \<Rightarrow> j \<le> length names \<and> (\<exists>q. ts = rounds names q j) | Returned \<Rightarrow> False | _ \<Rightarrow> \<exists>q. ts = rounds names q 0)"

lemma goto_simps [simp]:
  "ai_thread (goto index p i) = (ai_thread i)(index := p)" "ai_stop_timeout_thread (goto index p i) = ai_stop_timeout_thread i"
  "ai_avicenna_list (goto index p i) = ai_avicenna_list i"
  by (simp_all add: goto_def)

lemma move_in_turn:
  assumes "timer_move est names see index i out i'" "\<not> ai_stop_timeout_thread i" "in_turn names ts (ai_thread i index)"
  shows "\<not> ai_stop_timeout_thread i' \<and>
    in_turn names (ts @ (case out of None \<Rightarrow> [] | Some (n, x) \<Rightarrow> [n])) (ai_thread i' index)"
  using assms
proof (induction rule: timer_move.induct)
  case (timer_tick i j y x list)
  then show ?case using rounds_next [of j names] by (auto simp: in_turn_def)
next
  case (timer_pass i)
  then show ?case using rounds_full [of names] by (auto simp: in_turn_def)
qed (auto simp: in_turn_def)

lemma timer_move_keeps:
  assumes "timer_move est names see index i out i'"
  shows "ai_stop_timeout_thread i' = ai_stop_timeout_thread i \<and>
    (\<forall>index'. index' \<noteq> index \<longrightarrow> ai_thread i' index' = ai_thread i index')"
  using assms by (induction rule: timer_move.induct) auto

lemma ticks_simps [simp]:
  "ticks k index [] = []" "ticks k index (Program e # es) = ticks k index es"
  "ticks k index (Timer k' index' out # es) =
     (if k' = k \<and> index' = index then case out of None \<Rightarrow> [] | Some (n, x) \<Rightarrow> [n] else []) @ ticks k index es"
  by (auto simp: ticks_def split: option.split)

definition turning :: "UserSymbolsMap \<Rightarrow> string \<Rightarrow> int \<Rightarrow> string list \<Rightarrow> (string \<Rightarrow> 'd AvicennaInterface) \<Rightarrow> bool" where
  "turning us k index ts t \<longleftrightarrow> \<not> ai_stop_timeout_thread (t k) \<and> in_turn (account_names us k) ts (ai_thread (t k) index)"

lemma step_turning:
  assumes "timed_step us lib c est (s, t) e (s', t')" "turning us k index ts t"
  shows "turning us k index (ts @ ticks k index [e]) t'"
  using assms
proof (cases rule: timed_step.cases)
  case (timed_timer index' k' out i)
  have t': "t' = t(k' := i)" and e: "e = Timer k' index' out" using timed_timer by simp_all
  show ?thesis
  proof (cases "k' = k")
    case True
    note m = timed_timer(5) [unfolded True]
    show ?thesis
    proof (cases "index' = index")
      case same: True
      show ?thesis using move_in_turn [OF m [unfolded same], of ts] assms(2) t' e True same
        by (simp add: turning_def)
    next
      case False
      have "\<not> ai_stop_timeout_thread i \<and> ai_thread i index = ai_thread (t k) index"
        using timer_move_keeps [OF m] False assms(2) by (simp add: turning_def)
      then show ?thesis using assms(2) t' e True False by (simp add: turning_def)
    qed
  qed (use assms(2) t' e in \<open>simp add: turning_def\<close>)
qed simp

lemma run_turning:
  "timed_run us lib c est (s, t) es (s', t') \<Longrightarrow> turning us k index ts t \<Longrightarrow> turning us k index (ts @ ticks k index es) t'"
proof (induction "(s, t)" es "(s', t')" arbitrary: s t ts rule: timed_run.induct)
  case (timed_go e st1 es)
  obtain s1 t1 where st1: "st1 = (s1, t1)" by (cases st1)
  have "turning us k index (ts @ ticks k index [e]) t1" using step_turning timed_go st1 by blast
  then have "turning us k index ((ts @ ticks k index [e]) @ ticks k index es) t'" using timed_go(3) st1 by blast
  then show ?case by (cases e) simp_all
qed simp

text \<open>C39: in every run of the program, each of the two timer threads of an account ends the intervals of the
  symbols of the account in turn, in the order of the map, each once a round, and it never returns, as
  nothing sets its flag.\<close>

theorem symbols_ticked_in_turn:
  assumes "timed_run us lib c est (s, start_timers p) es (s', t)"
  shows "(\<exists>q j. ticks k index es = rounds (account_names us k) q j) \<and> ai_thread (t k) index \<noteq> Returned"
proof -
  have "turning us k index [] (start_timers p)"
    by (simp add: turning_def start_timers_def start_threads_def in_turn_def rounds_def exI [of _ 0])
  then have "turning us k index (ticks k index es) t" using run_turning [OF assms] by fastforce
  then show ?thesis by (auto simp: turning_def in_turn_def split: timer_thread.splits)
qed

section \<open>One symbol with its two connections\<close>

datatype lone_event = Hears symbol_event | Tick int

type_synonym 'd lone = "Symbol \<times> 'd AvicennaConnection \<times> 'd AvicennaConnection"

fun lone_step :: "'d estimator \<Rightarrow> lone_event \<Rightarrow> 'd lone \<Rightarrow> 'd lone res option" where
  "lone_step est (Hears e) (y, p) = Some (rbind (symbol_step e y) (\<lambda>y. Inr (y, p)))"
| "lone_step est (Tick index) (y, p) =
     map_option (\<lambda>r. rbind r (\<lambda>(c, y). Inr (y, set_connection index c p))) (timeout_step est index (connection_of index p) y)"

fun lone_run :: "'d estimator \<Rightarrow> lone_event list \<Rightarrow> 'd lone \<Rightarrow> 'd lone res option" where
  "lone_run est [] s = Some (Inr s)"
| "lone_run est (e # es) s =
     (case lone_step est e s of None \<Rightarrow> None | Some (Inl f) \<Rightarrow> Some (Inl f) | Some (Inr s) \<Rightarrow> lone_run est es s)"

lemma lone_run_append:
  "lone_run est xs s = Some (Inr s1) \<Longrightarrow> lone_run est (xs @ ys) s = lone_run est ys s1"
  by (induction xs arbitrary: s) (auto split: option.splits sum.splits)

lemma lone_run_hears: "symbol_run es y = Inr y' \<Longrightarrow> lone_run est (map Hears es) (y, p) = Some (Inr (y', p))"
  by (induction es arbitrary: y) (auto simp: rbind_eq_Inr)

lemma tick_interval:
  "timeout_step est index c y = Some (Inr (c', y')) \<longleftrightarrow>
     (\<exists>x. newEstimate est (s_close_price y) c = Some (Inr (x, c')) \<and> symbol_step (Interval_end (\<lambda>_ _ _ _. x) index) y = Inr y')"
  by (auto simp: timeout_step_def rbind_eq_Inr split: option.splits)

text \<open>The stack of stamps does not matter.\<close>

lemma lone_step_stack:
  assumes "lone_step est e (y, p) = Some (Inr (y', p'))" "sans_stack z = sans_stack y"
  shows "\<exists>z'. lone_step est e (z, p) = Some (Inr (z', p')) \<and> sans_stack z' = sans_stack y'"
proof -
  obtain ys where z: "z = y\<lparr>s_symbol_stack := ys\<rparr>" using assms(2) by (metis sans_stack_eq)
  have stack: "\<exists>zs. symbol_step ev z = Inr (x\<lparr>s_symbol_stack := zs\<rparr>)" if "symbol_step ev y = Inr x" for ev x
    using symbol_step_stack [OF that] z by simp
  show ?thesis
  proof (cases e)
    case (Hears ev)
    then have "symbol_step ev y = Inr y'" "p' = p" using assms(1) by (auto simp: rbind_eq_Inr)
    then show ?thesis using stack [of ev y'] Hears by (auto simp: sans_stack_def)
  next
    case (Tick index)
    then obtain c where c: "timeout_step est index (connection_of index p) y = Some (Inr (c, y'))" "p' = set_connection index c p"
      using assms(1) by (auto simp: rbind_eq_Inr)
    then obtain x where x: "newEstimate est (s_close_price y) (connection_of index p) = Some (Inr (x, c))"
      "symbol_step (Interval_end (\<lambda>_ _ _ _. x) index) y = Inr y'" using tick_interval by metis
    obtain zs where zs: "symbol_step (Interval_end (\<lambda>_ _ _ _. x) index) z = Inr (y'\<lparr>s_symbol_stack := zs\<rparr>)"
      using stack [OF x(2)] ..
    have "s_close_price z = s_close_price y" using z by simp
    then have "timeout_step est index (connection_of index p) z = Some (Inr (c, y'\<lparr>s_symbol_stack := zs\<rparr>))"
      using tick_interval x(1) zs by metis
    then show ?thesis using Tick c(2) by (auto simp: sans_stack_def)
  qed
qed

section \<open>Every symbol alone\<close>

fun lone_heard :: "('k, 'l) feed_library \<Rightarrow> string \<Rightarrow> string \<Rightarrow> symbol_ref \<Rightarrow> bool \<Rightarrow> (string \<Rightarrow> bool) \<Rightarrow> 'k timed_event list \<Rightarrow> lone_event list" where
  "lone_heard lib k n r a b [] = []"
| "lone_heard lib k n r a b (Program e # es) = map Hears (event_heard lib n r (a \<and> b n) e) @
     (case event_flags e (a, b) of (a, b) \<Rightarrow> lone_heard lib k n r a b es)"
| "lone_heard lib k n r a b (Timer k' index out # es) =
     (if k' = k \<and> map_option fst out = Some n then [Tick index] else []) @ lone_heard lib k n r a b es"

definition mirrors :: "program_state \<Rightarrow> (string \<Rightarrow> 'd AvicennaInterface) \<Rightarrow> string \<Rightarrow> string \<Rightarrow> 'd lone \<Rightarrow> bool" where
  "mirrors s t k n = (\<lambda>(y, p). \<exists>w. instance_at (ps_accounts s) (k, n) = Some w \<and> sans_stack y = sans_stack (w_sym w) \<and>
     map_of (ai_avicenna_list (t k)) n = Some p)"

lemma symbol_alone:
  assumes "program_step us lib c s e s'" "knows (concat (number_symbols 0 us)) a b (ps_manager s)" "listening c"
    "ref_of us (k, n) = Some r" "mirrors s t k n (y, p)"
  shows "\<exists>y'. symbol_run (event_heard lib n r (a \<and> b n) e) y = Inr y' \<and> mirrors s' t k n (y', p)"
proof -
  obtain w where w: "instance_at (ps_accounts s) (k, n) = Some w" "sans_stack y = sans_stack (w_sym w)"
    "map_of (ai_avicenna_list (t k)) n = Some p" using assms(5) by (auto simp: mirrors_def)
  then obtain w' where w': "instance_at (ps_accounts s') (k, n) = Some w'" "moved (event_heard lib n r (a \<and> b n) e) w w'"
    using step_moved [OF assms(1-3)] assms(4) by blast
  then obtain x where x: "symbol_run (event_heard lib n r (a \<and> b n) e) (w_sym w) = Inr x" "sans_stack x = sans_stack (w_sym w')"
    by (auto simp: moved_def)
  then obtain y' where "symbol_run (event_heard lib n r (a \<and> b n) e) y = Inr y'" "sans_stack y' = sans_stack x"
    using symbol_run_stack [OF x(1) w(2)] by blast
  then show ?thesis using w' x(2) w(3) by (auto simp: mirrors_def)
qed

lemma tick_list:
  assumes "tick est index n y list = Some (Inr (x, list'))"
  obtains p c where "map_of list n = Some p" "newEstimate est (s_close_price y) (connection_of index p) = Some (Inr (x, c))"
    "\<And>n'. map_of list' n' = map_option (\<lambda>q. if n' = n then set_connection index c q else q) (map_of list n')"
  using assms by (auto simp: tick_def rbind_eq_Inr map_of_mapped split: option.splits)

lemma close_price_stack: "sans_stack y = sans_stack z \<Longrightarrow> s_close_price y = s_close_price z"
proof -
  have "s_close_price (sans_stack x) = s_close_price x" for x by (simp add: sans_stack_def)
  then show "sans_stack y = sans_stack z \<Longrightarrow> s_close_price y = s_close_price z" by metis
qed

lemma mirrors_list:
  "mirrors s t k n (y, p) \<Longrightarrow> map_of (ai_avicenna_list i) n = Some p' \<Longrightarrow> mirrors s (t(k := i)) k n (y, p')"
  by (auto simp: mirrors_def)

lemma timer_alone:
  assumes "timed_step us lib c est (s, t) (Timer k' index out) (s', t')"
    "knows (concat (number_symbols 0 us)) a b (ps_manager s)" "listening c"
    "ref_of us (k, n) = Some r" "mirrors s t k n (y, p)"
  shows "\<exists>y' p'. lone_run est (if k' = k \<and> map_option fst out = Some n then [Tick index] else []) (y, p) = Some (Inr (y', p')) \<and>
    mirrors s' t' k n (y', p')"
proof -
  obtain i where m: "timer_move est (account_names us k') (symbol_at us s k') index (t k') out i" and t': "t' = t(k' := i)"
    and s': "s' = (case out of None \<Rightarrow> s | Some nx \<Rightarrow> end_interval us k' index nx s)"
    using assms(1) by (cases rule: timed_step.cases) auto
  show ?thesis
  proof (cases out)
    case None
    then have "ai_avicenna_list i = ai_avicenna_list (t k')" using m by (auto elim: timer_moveE)
    then show ?thesis using None assms(5) t' s' by (auto simp: mirrors_def)
  next
    case (Some nx)
    obtain n' x where nx: "nx = (n', x)" by (cases nx)
    obtain r' where r': "ref_of us (k', n') = Some r'" using m Some nx ticked_ref by metis
    have step: "program_step us lib c s (Market (Interval r' (\<lambda>_ _ _ _. x) index)) s'"
      using end_interval_step [OF r'] Some nx s' by simp
    obtain y1 where y1: "symbol_run (item_heard lib n r (a \<and> b n) (Interval r' (\<lambda>_ _ _ _. x) index)) y = Inr y1"
      "mirrors s' t k n (y1, p)" using symbol_alone [OF step assms(2-5)] by auto
    obtain z list where z: "symbol_at us s k' n' = Some z" and l: "tick est index n' z (ai_avicenna_list (t k')) = Some (Inr (x, list))"
      and i: "ai_avicenna_list i = list"
      using m Some nx by (auto elim!: timer_ticked)
    obtain p1 c1 where p1: "map_of (ai_avicenna_list (t k')) n' = Some p1"
      "newEstimate est (s_close_price z) (connection_of index p1) = Some (Inr (x, c1))"
      "\<And>m. map_of list m = map_option (\<lambda>q. if m = n' then set_connection index c1 q else q) (map_of (ai_avicenna_list (t k')) m)"
      using tick_list [OF l] by blast
    have old: "map_of (ai_avicenna_list (t k)) n = Some p" using assms(5) by (auto simp: mirrors_def)
    show ?thesis
    proof (cases "k' = k \<and> n' = n")
      case True
      then have rr: "r' = r" using r' assms(4) by simp
      have p: "p1 = p" using True p1(1) old by simp
      obtain w where w: "instance_at (ps_accounts s) (k, n) = Some w" "sans_stack y = sans_stack (w_sym w)"
        using assms(5) by (auto simp: mirrors_def)
      have "z = w_sym w" using z True assms(4) store_of_ref [OF assms(4) w(1)] by (simp add: symbol_at_def)
      then have "newEstimate est (s_close_price y) (connection_of index p) = Some (Inr (x, c1))"
        using p1(2) p close_price_stack [OF w(2)] by simp
      moreover have "symbol_step (Interval_end (\<lambda>_ _ _ _. x) index) y = Inr y1" using y1(1) rr by simp
      ultimately have "timeout_step est index (connection_of index p) y = Some (Inr (c1, y1))" using tick_interval by metis
      then have "lone_run est [Tick index] (y, p) = Some (Inr (y1, set_connection index c1 p))" by simp
      moreover have "mirrors s' t' k n (y1, set_connection index c1 p)"
        using mirrors_list [OF y1(2), of i "set_connection index c1 p"] t' True i p1(3) old by simp
      ultimately show ?thesis using True Some nx by auto
    next
      case False
      then have "r' \<noteq> r" using r' assms(4) ref_of_key by (metis prod.inject)
      then have "y1 = y" using y1(1) by simp
      moreover have "map_of (ai_avicenna_list (t' k)) n = Some p"
        using t' i p1(3) old False by (cases p) auto
      ultimately show ?thesis using False Some nx y1(2) by (auto simp: mirrors_def)
    qed
  qed
qed

section \<open>Runs\<close>

lemma step_alone:
  assumes "timed_step us lib c est (s, t) e (s', t')" "knows (concat (number_symbols 0 us)) a b (ps_manager s)" "listening c"
    "ref_of us (k, n) = Some r" "mirrors s t k n l"
  shows "\<exists>l' a' b' xs. lone_run est xs l = Some (Inr l') \<and> mirrors s' t' k n l' \<and>
    knows (concat (number_symbols 0 us)) a' b' (ps_manager s') \<and>
    (\<forall>es. lone_heard lib k n r a b (e # es) = xs @ lone_heard lib k n r a' b' es)"
proof -
  obtain y p where l: "l = (y, p)" by (cases l) auto
  show ?thesis
  proof (cases e)
    case (Program ev)
    then have step: "program_step us lib c s ev s'" and t': "t' = t" using assms(1) by (auto elim: timed_step.cases)
    obtain y' where y': "symbol_run (event_heard lib n r (a \<and> b n) ev) y = Inr y'" "mirrors s' t k n (y', p)"
      using symbol_alone [OF step assms(2-4)] assms(5) l by blast
    obtain a' b' where f: "event_flags ev (a, b) = (a', b')" by (cases "event_flags ev (a, b)")
    then have "knows (concat (number_symbols 0 us)) a' b' (ps_manager s')" using step_moved [OF step assms(2,3)] by simp
    moreover have "\<forall>es. lone_heard lib k n r a b (e # es) =
        map Hears (event_heard lib n r (a \<and> b n) ev) @ lone_heard lib k n r a' b' es" using Program f by simp
    ultimately show ?thesis using lone_run_hears [OF y'(1), of est p] y'(2) l t' by blast
  next
    case (Timer k' index out)
    then have "ps_manager s' = ps_manager s" using assms(1)
      by (auto simp: end_interval_def elim!: timed_step.cases split: option.splits)
    then have knows: "knows (concat (number_symbols 0 us)) a b (ps_manager s')" using assms(2) by simp
    define xs where "xs = (if k' = k \<and> map_option fst out = Some n then [Tick index] else [])"
    have "lone_heard lib k n r a b (e # es) = xs @ lone_heard lib k n r a b es" for es using Timer by (simp add: xs_def)
    moreover obtain y' p' where "lone_run est xs (y, p) = Some (Inr (y', p'))" "mirrors s' t' k n (y', p')"
      using timer_alone [OF assms(1) [unfolded Timer] assms(2-4) assms(5) [unfolded l]] unfolding xs_def by (elim exE conjE)
    ultimately show ?thesis using knows l by blast
  qed
qed

lemma run_alone:
  assumes "timed_run us lib c est (s, t) es (s', t')" "knows (concat (number_symbols 0 us)) a b (ps_manager s)" "listening c"
    "ref_of us (k, n) = Some r" "mirrors s t k n l"
  shows "\<exists>l'. lone_run est (lone_heard lib k n r a b es) l = Some (Inr l') \<and> mirrors s' t' k n l'"
  using assms(1,2,5)
proof (induction "(s, t)" es "(s', t')" arbitrary: s t a b l rule: timed_run.induct)
  case (timed_go e st1 es)
  obtain s1 t1 where st1: "st1 = (s1, t1)" by (cases st1)
  obtain l1 a1 b1 xs where l1: "lone_run est xs l = Some (Inr l1)" "mirrors s1 t1 k n l1"
    "knows (concat (number_symbols 0 us)) a1 b1 (ps_manager s1)"
    "\<And>es. lone_heard lib k n r a b (e # es) = xs @ lone_heard lib k n r a1 b1 es"
    using step_alone [OF timed_go(1) [unfolded st1] timed_go(4) assms(3,4) timed_go(5)] by blast
  then obtain l' where "lone_run est (lone_heard lib k n r a1 b1 es) l1 = Some (Inr l')" "mirrors s' t' k n l'"
    using timed_go(3) [OF st1 l1(3,2)] by blast
  then show ?case by (simp add: l1(4) lone_run_append [OF l1(1)])
qed simp

lemma fst_fold_emplace: "fst ` set (fold (\<lambda>(m, _). emplace_ordered m v) ys acc) = fst ` set ys \<union> fst ` set acc"
proof (induction ys arbitrary: acc)
  case (Cons y ys)
  obtain m z where "y = (m, z)" by (cases y)
  then show ?case using Cons.IH [of "emplace_ordered m v acc"] by (simp add: fst_emplace_ordered)
qed simp

lemma snd_fold_emplace: "snd ` set acc \<subseteq> {v} \<Longrightarrow> snd ` set (fold (\<lambda>(m, _). emplace_ordered m v) ys acc) \<subseteq> {v}"
proof (induction ys arbitrary: acc)
  case (Cons y ys)
  obtain m z where y: "y = (m, z)" by (cases y)
  have "snd ` set (emplace_ordered m v acc) \<subseteq> {v}"
    using image_mono [OF set_emplace_ordered [of m v acc], of snd] Cons.prems by auto
  then show ?case using Cons.IH y by simp
qed simp

lemma map_of_constant:
  assumes "n \<in> fst ` set xs" "snd ` set xs \<subseteq> {v}"
  shows "map_of xs n = Some v"
proof -
  obtain u where u: "map_of xs n = Some u" using assms(1) by (metis map_of_eq_None_iff not_None_eq)
  then show ?thesis using assms(2) map_of_SomeD [OF u] by force
qed

lemma new_interface_connections:
  assumes "map_of us (ac_id c) = Some ys" "n \<in> fst ` set ys"
  shows "map_of (new_AvicennaInterface est us c) n =
    Some (new_AvicennaConnection (configured_library est (ac_avicenna1 c)), new_AvicennaConnection (configured_library est (ac_avicenna2 c)))"
  unfolding new_AvicennaInterface_def assms(1) option.case
  by (rule map_of_constant) (simp_all only: fst_fold_emplace snd_fold_emplace assms(2) list.set image_empty UnI1 empty_subsetI)

lemma interface_built:
  assumes "new_accounts env us admin accs = Inr as" "map_of accs k = Some cfg"
  shows "\<exists>a. map_of as k = Some a \<and> ao_avicenna_interface a = new_AvicennaInterface (su_estimator env) us cfg"
  using assms
proof (induction accs arbitrary: as)
  case (Cons x accs)
  then show ?case by (cases x) (auto simp: cbind_Inr_cases new_account_def split: if_splits)
qed simp

lemma estimates_alone:
  assumes "build_program env us accs (Some ad) = Inr p" "map_of accs k = Some cfg" "ac_id cfg = k"
    and "map_of us k = Some ys" "n \<in> fst ` set ys"
    and "timed_run us lib (market_of lib garbage l (pr_symbol_manager p)) est (start_state env p, start_timers p) es (s, t)"
  shows "\<exists>w r y c1 c2. instance_at (ps_accounts s) (k, n) = Some w \<and> ref_of us (k, n) = Some r \<and>
    lone_run est (lone_heard lib k n r True (\<lambda>_. True) es)
      (new_feed (su_previous_bar env), new_AvicennaConnection (configured_library (su_estimator env) (ac_avicenna1 cfg)),
       new_AvicennaConnection (configured_library (su_estimator env) (ac_avicenna2 cfg))) = Some (Inr (y, c1, c2)) \<and>
    sans_stack (w_sym w) = sans_stack y \<and> map_of (ai_avicenna_list (t k)) n = Some (c1, c2)"
proof -
  obtain r where r: "ref_of us (k, n) = Some r" using ref_of_exists [OF assms(4,5)] by blast
  obtain y w0 where w0: "new_instance env (Some ad) cfg y = Inr w0" "instance_at (ps_accounts (start_state env p)) (k, n) = Some w0"
    using instance_built [OF assms(1-5)] by blast
  have new: "new_accounts env us (Some ad) accs = Inr (pr_accounts p)" "pr_symbol_manager p = new_SymbolManager (number_symbols 0 us)"
    using assms(1) by (auto simp: build_program_def cbind_Inr_cases)
  let ?l = "(new_feed (su_previous_bar env), new_AvicennaConnection (configured_library (su_estimator env) (ac_avicenna1 cfg)),
    new_AvicennaConnection (configured_library (su_estimator env) (ac_avicenna2 cfg)))"
  have "w_sym w0 = new_feed (su_previous_bar env)" using new_instance_start [OF w0(1)] start_instanceD by fastforce
  moreover have "map_of (ai_avicenna_list (start_timers p k)) n = Some (snd ?l)"
    using interface_built [OF new(1) assms(2)] new_interface_connections [of us cfg ys n "su_estimator env"] assms(3-5)
    by (auto simp: start_timers_def start_threads_def)
  ultimately have "mirrors (start_state env p) (start_timers p) k n ?l" using w0(2) by (simp add: mirrors_def)
  moreover have "knows (concat (number_symbols 0 us)) True (\<lambda>_. True) (ps_manager (start_state env p))"
    using knows_new_SymbolManager new(2) by (simp add: start_state_def)
  ultimately obtain l' where "lone_run est (lone_heard lib k n r True (\<lambda>_. True) es) ?l = Some (Inr l')" "mirrors s t k n l'"
    using run_alone [OF assms(6) _ listening_market_of r] by blast
  then show ?thesis using r by (cases l') (auto simp: mirrors_def)
qed

text \<open>C38: in every run of the program with its timers, every configured symbol is, but for the stack of stamps,
  in the state of one that is alone with the two connections of its account and its name: it hears the
  market of its name while it is enabled, and whenever one of the two threads comes to it, the library
  gives that connection's estimate of its own close price. The two connections are those of that symbol.\<close>

theorem estimates_run_alone:
  assumes "build_program env us accs (Some ad) = Inr p" "map_of accs k = Some cfg" "ac_id cfg = k"
    and "map_of us k = Some ys" "n \<in> fst ` set ys"
    and "timed_run us lib (market_of lib garbage l (pr_symbol_manager p)) est (start_state env p, start_timers p) es (s, t)"
  shows "\<exists>w r y c1 c2. instance_at (ps_accounts s) (k, n) = Some w \<and> ref_of us (k, n) = Some r \<and>
    lone_run est (lone_heard lib k n r True (\<lambda>_. True) es)
      (new_feed (su_previous_bar env), new_AvicennaConnection (configured_library (su_estimator env) (ac_avicenna1 cfg)),
       new_AvicennaConnection (configured_library (su_estimator env) (ac_avicenna2 cfg))) = Some (Inr (y, c1, c2)) \<and>
    sans_stack (w_sym w) = sans_stack y \<and> map_of (ai_avicenna_list (t k)) n = Some (c1, c2)"
  using estimates_alone [OF assms] .

section \<open>A sample\<close>

definition sample_estimator :: "unit estimator" where
  "sample_estimator = \<lparr>est_calculate = (\<lambda>_ d. d), est_export = (\<lambda>_. Fin 5)\<rparr>"

lemma sample_estimate:
  "newEstimate sample_estimator (Fin 5) (new_AvicennaConnection ()) =
     Some (Inr (Fin 5, \<lparr>av_library = (), av_price_estimate = Fin 5, av_startup = False\<rparr>))"
proof -
  have "Utils.truncate (Fin 5) 4 = Inr (Fin 5)"
    by (simp add: Utils.truncate_def pow10_def dbl_to_i32_def dbl_to_int_def rat_trunc_def dbl_of_int_def)
  then have calc: "calculate sample_estimator v c = Inr (c\<lparr>av_price_estimate := Fin 5\<rparr>)" for v c
    by (simp add: calculate_def sample_estimator_def)
  have d: "dle (Fin (- 1)) (Fin 0)" "\<not> dle (Fin 5) (Fin 0)" by (simp_all add: dle_def deq_def)
  let ?c = "\<lparr>av_library = (), av_price_estimate = Fin 5, av_startup = True\<rparr>"
  have "startup_loop sample_estimator False v ?c = Some (Inr ?c)" for v
    by (subst startup_loop.simps) (simp add: d)
  then have "startup_loop sample_estimator True (Fin 5) (new_AvicennaConnection ()) = Some (Inr ?c)"
    by (subst startup_loop.simps) (simp add: calc d new_AvicennaConnection_def Let_def)
  then show ?thesis by (simp add: newEstimate_def calc new_AvicennaConnection_def)
qed

lemma sample_trade_step:
  assumes "build_program sample_environment sample_users sample_accounts (Some sample_admin) = Inr p"
  obtains s where "program_step sample_users sample_feed_library (market_of sample_feed_library (False, False) () (pr_symbol_manager p))
    (start_state sample_environment p) (Market (Feed (M_TradeList ''IBM.N'' [(5, 0)]))) s"
proof -
  let ?us = sample_users and ?lib = sample_feed_library and ?e = "Feed (M_TradeList ''IBM.N'' [(5, 0)])"
  let ?c = "market_of ?lib (False, False) () (pr_symbol_manager p)" and ?s = "start_state sample_environment p"
  have m: "pr_symbol_manager p = new_SymbolManager (number_symbols 0 ?us)"
    using assms by (auto simp: build_program_def cbind_Inr_cases)
  have safe: "safe_item ?lib (concat (number_symbols 0 ?us)) ?e"
    by (simp add: sample_feed_library_def feed_symbol_def refs_named_def)
  have listen: "listening ?c" by (rule listening_market_of)
  obtain m1 st1 where "market_step ?lib ?c ?e (ps_manager ?s, store_of ?us ?s) = Inr (m1, st1)"
    using heard_item [OF knows_new_SymbolManager _ safe listen, of "store_of ?us ?s"]
    by (auto simp: refs_number_symbols m start_state_def)
  then show thesis by (rule that [OF program_market])
qed

lemma sample_ticked:
  obtains p s t where "build_program sample_environment sample_users sample_accounts (Some sample_admin) = Inr p"
    "timed_run sample_users sample_feed_library
       (market_of sample_feed_library (False, False) () (pr_symbol_manager p)) sample_estimator
       (start_state sample_environment p, start_timers p)
       [Program (Market (Feed (M_TradeList ''IBM.N'' [(5, 0)]))), Timer ''pair1'' 0 None,
        Timer ''pair1'' 0 (Some (''IBM'', Fin 5))] (s, t)"
proof -
  let ?us = sample_users and ?lib = sample_feed_library and ?m = "Market (Feed (M_TradeList ''IBM.N'' [(5, 0)]))"
  obtain p where p: "build_program sample_environment ?us sample_accounts (Some sample_admin) = Inr p"
    using sample_program_built ..
  let ?c = "market_of ?lib (False, False) () (pr_symbol_manager p)" and ?s = "start_state sample_environment p"
  have cfg: "map_of sample_accounts ''pair1'' = Some sample_account" "ac_id sample_account = ''pair1''"
    "map_of ?us ''pair1'' = Some [(''IBM'', sample_symbol_settings)]" "''IBM'' \<in> fst ` set [(''IBM'', sample_symbol_settings)]"
    by (simp_all add: sample_account_def)
  note alone = estimates_alone [OF p cfg]
  obtain s1 where s1: "program_step ?us ?lib ?c ?s ?m s1" using sample_trade_step [OF p] .
  have names: "account_names ?us ''pair1'' = [''IBM'']" by (simp add: account_names_def)
  let ?t = "start_timers p" and ?i = "goto 0 (At 0) (start_timers p ''pair1'')"
  have r0: "timed_step ?us ?lib ?c sample_estimator (?s, ?t) (Program ?m) (s1, ?t)"
    by (rule timed_program [OF s1]) simp
  have "timer_move sample_estimator [''IBM''] (symbol_at ?us s1 ''pair1'') 0 (?t ''pair1'') None ?i"
    using timer_check [of "?t ''pair1''" 0] by (simp add: start_timers_def start_threads_def)
  then have r1: "timed_step ?us ?lib ?c sample_estimator (s1, ?t) (Timer ''pair1'' 0 None) (s1, ?t(''pair1'' := ?i))"
    using timed_timer [of 0 sample_estimator ?us "''pair1''" s1 ?t None ?i] names by simp
  have run1: "timed_run ?us ?lib ?c sample_estimator (?s, ?t) [Program ?m] (s1, ?t)"
    by (rule timed_go [OF r0 timed_idle])
  obtain w1 r y1 c1 c2 where w1: "instance_at (ps_accounts s1) (''pair1'', ''IBM'') = Some w1"
    "ref_of ?us (''pair1'', ''IBM'') = Some r" "sans_stack (w_sym w1) = sans_stack y1"
    "lone_run sample_estimator (lone_heard ?lib ''pair1'' ''IBM'' r True (\<lambda>_. True) [Program ?m])
      (new_feed (su_previous_bar sample_environment), new_AvicennaConnection (), new_AvicennaConnection ()) = Some (Inr (y1, c1, c2))"
    "map_of (ai_avicenna_list (?t ''pair1'')) ''IBM'' = Some (c1, c2)"
    using alone [OF run1] by (auto simp: sample_environment_def)
  have "s_close_price y1 = Fin 5" "c1 = new_AvicennaConnection ()"
    using w1(4) by (auto simp: sample_feed_library_def feed_symbol_def updatePrice_def)
  then have y1: "s_close_price (w_sym w1) = Fin 5" using close_price_stack [OF w1(3)] by simp
  have "\<exists>list. tick sample_estimator 0 ''IBM'' (w_sym w1) (ai_avicenna_list ?i) = Some (Inr (Fin 5, list))"
    using w1(5) \<open>c1 = _\<close> y1 by (simp add: tick_def sample_estimate connection_of_def)
  then obtain list where list: "tick sample_estimator 0 ''IBM'' (w_sym w1) (ai_avicenna_list ?i) = Some (Inr (Fin 5, list))" ..
  have see: "symbol_at ?us s1 ''pair1'' ''IBM'' = Some (w_sym w1)"
    using w1(1,2) store_of_ref by (simp add: symbol_at_def)
  obtain i2 where "timer_move sample_estimator [''IBM''] (symbol_at ?us s1 ''pair1'') 0 ?i (Some (''IBM'', Fin 5)) i2"
    using timer_tick [of ?i 0 0 "[''IBM'']" "symbol_at ?us s1 ''pair1''" "w_sym w1" sample_estimator "Fin 5" list] see list by auto
  then obtain s2 where r2: "timed_step ?us ?lib ?c sample_estimator (s1, ?t(''pair1'' := ?i)) (Timer ''pair1'' 0 (Some (''IBM'', Fin 5)))
      (s2, ?t(''pair1'' := i2))"
    using timed_timer [of 0 sample_estimator ?us "''pair1''" s1 "?t(''pair1'' := ?i)" "Some (''IBM'', Fin 5)" i2] names by auto
  have run: "timed_run ?us ?lib ?c sample_estimator (?s, ?t)
      [Program ?m, Timer ''pair1'' 0 None, Timer ''pair1'' 0 (Some (''IBM'', Fin 5))] (s2, ?t(''pair1'' := i2))"
    by (rule timed_go [OF r0 timed_go [OF r1 timed_go [OF r2 timed_idle]]])
  show thesis by (rule that [OF p run])
qed

lemma estimates_run_alone_witness:
  "\<exists>p s t w. build_program sample_environment sample_users sample_accounts (Some sample_admin) = Inr p \<and>
     timed_run sample_users sample_feed_library
       (market_of sample_feed_library (False, False) () (pr_symbol_manager p)) sample_estimator
       (start_state sample_environment p, start_timers p)
       [Program (Market (Feed (M_TradeList ''IBM.N'' [(5, 0)]))), Timer ''pair1'' 0 None,
        Timer ''pair1'' 0 (Some (''IBM'', Fin 5))] (s, t) \<and>
     instance_at (ps_accounts s) (''pair1'', ''IBM'') = Some w \<and> s_price_estimate1 (w_sym w) = Fin 5"
proof -
  let ?us = sample_users and ?lib = sample_feed_library
  obtain p s2 t where p: "build_program sample_environment ?us sample_accounts (Some sample_admin) = Inr p"
    and run: "timed_run ?us ?lib (market_of ?lib (False, False) () (pr_symbol_manager p)) sample_estimator
       (start_state sample_environment p, start_timers p)
       [Program (Market (Feed (M_TradeList ''IBM.N'' [(5, 0)]))), Timer ''pair1'' 0 None,
        Timer ''pair1'' 0 (Some (''IBM'', Fin 5))] (s2, t)"
    using sample_ticked .
  have cfg: "map_of sample_accounts ''pair1'' = Some sample_account" "ac_id sample_account = ''pair1''"
    "map_of ?us ''pair1'' = Some [(''IBM'', sample_symbol_settings)]" "''IBM'' \<in> fst ` set [(''IBM'', sample_symbol_settings)]"
    by (simp_all add: sample_account_def)
  obtain w y c1 c2 where w: "instance_at (ps_accounts s2) (''pair1'', ''IBM'') = Some w" "sans_stack (w_sym w) = sans_stack y"
    "lone_run sample_estimator [Hears (Price (Fin 5)), Tick 0]
      (new_feed (su_previous_bar sample_environment), new_AvicennaConnection (), new_AvicennaConnection ()) = Some (Inr (y, c1, c2))"
    using estimates_run_alone [OF p cfg run] by (auto simp: sample_environment_def sample_feed_library_def feed_symbol_def)
  have "s_price_estimate1 y = Fin 5" using w(3)
    by (auto simp: timeout_step_def connection_of_def updatePrice_def sample_estimate resetIntervalCallback_def push_def
        new_feed_def new_Symbol_def Let_def deq_def rbind_eq_Inr)
  then have "s_price_estimate1 (w_sym w) = Fin 5" using w(2) by (metis sans_stack_eq Symbol.ext_inject Symbol.surjective Symbol.update_convs)
  then show ?thesis using p run w(1) by blast
qed

lemma symbols_ticked_in_turn_witness:
  "\<exists>p s t. timed_run sample_users sample_feed_library
       (market_of sample_feed_library (False, False) () (pr_symbol_manager p)) sample_estimator
       (start_state sample_environment p, start_timers p)
       [Program (Market (Feed (M_TradeList ''IBM.N'' [(5, 0)]))), Timer ''pair1'' 0 None,
        Timer ''pair1'' 0 (Some (''IBM'', Fin 5))] (s, t) \<and>
     (\<exists>q j. [''IBM''] = rounds [''IBM''] q j) \<and> ai_thread (t ''pair1'') 0 \<noteq> Returned"
proof -
  obtain p s t where run: "timed_run sample_users sample_feed_library
       (market_of sample_feed_library (False, False) () (pr_symbol_manager p)) sample_estimator
       (start_state sample_environment p, start_timers p)
       [Program (Market (Feed (M_TradeList ''IBM.N'' [(5, 0)]))), Timer ''pair1'' 0 None,
        Timer ''pair1'' 0 (Some (''IBM'', Fin 5))] (s, t)"
    using sample_ticked .
  have "(\<exists>q j. [''IBM''] = rounds [''IBM''] q j) \<and> ai_thread (t ''pair1'') 0 \<noteq> Returned"
    using symbols_ticked_in_turn [OF run, of "''pair1''" 0] by (simp add: account_names_def)
  then show ?thesis using run by blast
qed

end
