(* ===== verification/Sockets.thy ===== *)
theory Sockets
  imports Prelude
begin

text \<open>
  The C wrapper of the socket calls (\<open>src/src/libs/redis/anet.c\<close>), under the client of the key-value
  store. The calls of the operating system are parameters over its state, with \<open>errno\<close> as an observation
  of the state; the buffer for messages is a text, or none for a null pointer. A function returns its
  result and the new state. Loops that the system can keep going are \<open>partial_function (option)\<close>.
\<close>

section \<open>The operating system\<close>

datatype errno = EINTR | EINPROGRESS | Errno nat

datatype sockopt = SO_REUSEADDR | TCP_NODELAY | SO_SNDBUF int | SO_KEEPALIVE

type_synonym ip = "32 word"

record 'o system =
  sy_socket :: "'o \<Rightarrow> int \<times> 'o"
  sy_setsockopt :: "int \<Rightarrow> sockopt \<Rightarrow> 'o \<Rightarrow> int \<times> 'o"
  sy_getfl :: "int \<Rightarrow> 'o \<Rightarrow> int \<times> 'o"
  sy_setfl_nonblock :: "int \<Rightarrow> int \<Rightarrow> 'o \<Rightarrow> int \<times> 'o"
  sy_inet_aton :: "string \<Rightarrow> ip option"
  sy_gethostbyname :: "string \<Rightarrow> 'o \<Rightarrow> ip option \<times> 'o"
  sy_inet_ntoa :: "ip \<Rightarrow> string"
  sy_connect :: "int \<Rightarrow> ip \<Rightarrow> 16 word \<Rightarrow> 'o \<Rightarrow> int \<times> 'o"
  sy_bind :: "int \<Rightarrow> ip \<Rightarrow> 16 word \<Rightarrow> 'o \<Rightarrow> int \<times> 'o"
  sy_listen :: "int \<Rightarrow> int \<Rightarrow> 'o \<Rightarrow> int \<times> 'o"
  sy_accept :: "int \<Rightarrow> 'o \<Rightarrow> (int \<times> ip \<times> 16 word) \<times> 'o"
  sy_read :: "int \<Rightarrow> int \<Rightarrow> 'o \<Rightarrow> (int \<times> string) \<times> 'o"
  sy_write :: "int \<Rightarrow> string \<Rightarrow> 'o \<Rightarrow> int \<times> 'o"
  sy_close :: "int \<Rightarrow> 'o \<Rightarrow> 'o"
  sy_errno :: "'o \<Rightarrow> errno"
  sy_strerror :: "errno \<Rightarrow> string"

definition ANET_OK :: int where "ANET_OK = 0"
definition ANET_ERR :: int where "ANET_ERR = - 1"
definition ANET_ERR_LEN :: nat where "ANET_ERR_LEN = 256"

record 'o anet =
  an_system :: 'o
  an_err :: "string option"

definition call :: "('o \<Rightarrow> 'a \<times> 'o) \<Rightarrow> 'o anet \<Rightarrow> 'a \<times> 'o anet" where
  "call f a = (let (r, s) = f (an_system a) in (r, a\<lparr>an_system := s\<rparr>))"

definition anetSetError :: "string \<Rightarrow> 'o anet \<Rightarrow> 'o anet" where
  "anetSetError msg a = (case an_err a of None \<Rightarrow> a | Some _ \<Rightarrow> a\<lparr>an_err := Some (take (ANET_ERR_LEN - 1) msg)\<rparr>)"

text \<open>The result of a failure: the message names the call and the error.\<close>

definition failing :: "'o system \<Rightarrow> string \<Rightarrow> 'o anet \<Rightarrow> int \<times> 'o anet" where
  "failing sy what a = (ANET_ERR, anetSetError (what @ '': '' @ sy_strerror sy (sy_errno sy (an_system a)) @ [CHR 0x0A]) a)"

definition unresolved :: "string \<Rightarrow> 'o anet \<Rightarrow> int \<times> 'o anet" where
  "unresolved host a = (ANET_ERR, anetSetError (''can't resolve: '' @ host @ [CHR 0x0A]) a)"

definition closing :: "'o system \<Rightarrow> int \<Rightarrow> int \<times> 'o anet \<Rightarrow> int \<times> 'o anet" where
  "closing sy fd ra = (case ra of (r, a) \<Rightarrow> (r, a\<lparr>an_system := sy_close sy fd (an_system a)\<rparr>))"

section \<open>Options\<close>

definition anetNonBlock :: "'o system \<Rightarrow> int \<Rightarrow> 'o anet \<Rightarrow> int \<times> 'o anet" where
  "anetNonBlock sy fd a =
     (let (flags, a) = call (sy_getfl sy fd) a in
      if flags = - 1 then failing sy ''fcntl(F_GETFL)'' a
      else let (r, a) = call (sy_setfl_nonblock sy fd flags) a in
        if r = - 1 then failing sy ''fcntl(F_SETFL,O_NONBLOCK)'' a else (ANET_OK, a))"

definition set_option :: "'o system \<Rightarrow> int \<Rightarrow> sockopt \<Rightarrow> string \<Rightarrow> 'o anet \<Rightarrow> int \<times> 'o anet" where
  "set_option sy fd opt what a =
     (let (r, a) = call (sy_setsockopt sy fd opt) a in if r = - 1 then failing sy what a else (ANET_OK, a))"

definition anetTcpNoDelay :: "'o system \<Rightarrow> int \<Rightarrow> 'o anet \<Rightarrow> int \<times> 'o anet" where
  "anetTcpNoDelay sy fd = set_option sy fd TCP_NODELAY ''setsockopt TCP_NODELAY''"

definition anetSetSendBuffer :: "'o system \<Rightarrow> int \<Rightarrow> int \<Rightarrow> 'o anet \<Rightarrow> int \<times> 'o anet" where
  "anetSetSendBuffer sy fd buffsize = set_option sy fd (SO_SNDBUF buffsize) ''setsockopt SO_SNDBUF''"

definition anetTcpKeepAlive :: "'o system \<Rightarrow> int \<Rightarrow> 'o anet \<Rightarrow> int \<times> 'o anet" where
  "anetTcpKeepAlive sy fd = set_option sy fd SO_KEEPALIVE ''setsockopt SO_KEEPALIVE''"

section \<open>Connecting\<close>

text \<open>The address of a host: a numeral, or what the resolver finds.\<close>

definition address_of :: "'o system \<Rightarrow> string \<Rightarrow> 'o anet \<Rightarrow> ip option \<times> 'o anet" where
  "address_of sy host a = (case sy_inet_aton sy host of Some ip \<Rightarrow> (Some ip, a) | None \<Rightarrow> call (sy_gethostbyname sy host) a)"

definition anetResolve :: "'o system \<Rightarrow> string \<Rightarrow> 'o anet \<Rightarrow> (int \<times> string option) \<times> 'o anet" where
  "anetResolve sy host a =
     (case address_of sy host a of
        (None, a) \<Rightarrow> (let (r, a) = unresolved host a in ((r, None), a))
      | (Some ip, a) \<Rightarrow> ((ANET_OK, Some (sy_inet_ntoa sy ip)), a))"

definition anetTcpGenericConnect :: "'o system \<Rightarrow> string \<Rightarrow> int \<Rightarrow> bool \<Rightarrow> 'o anet \<Rightarrow> int \<times> 'o anet" where
  "anetTcpGenericConnect sy addr port nonblock a =
     (let (s, a) = call (sy_socket sy) a in
      if s = - 1 then failing sy ''creating socket'' a
      else
        let (_, a) = call (sy_setsockopt sy s SO_REUSEADDR) a in
        case address_of sy addr a of
          (None, a) \<Rightarrow> closing sy s (unresolved addr a)
        | (Some ip, a) \<Rightarrow>
          let (r, a) = (if nonblock then anetNonBlock sy s a else (ANET_OK, a)) in
          if r \<noteq> ANET_OK then (ANET_ERR, a)
          else
            let (r, a) = call (sy_connect sy s ip (word_of_int port)) a in
            if r = - 1 then
              if sy_errno sy (an_system a) = EINPROGRESS \<and> nonblock then (s, a)
              else closing sy s (failing sy ''connect'' a)
            else (s, a))"

definition anetTcpConnect :: "'o system \<Rightarrow> string \<Rightarrow> int \<Rightarrow> 'o anet \<Rightarrow> int \<times> 'o anet" where
  "anetTcpConnect sy addr port = anetTcpGenericConnect sy addr port False"

definition anetTcpNonBlockConnect :: "'o system \<Rightarrow> string \<Rightarrow> int \<Rightarrow> 'o anet \<Rightarrow> int \<times> 'o anet" where
  "anetTcpNonBlockConnect sy addr port = anetTcpGenericConnect sy addr port True"

section \<open>Reading and writing\<close>

text \<open>Blocks of \<open>count\<close> bytes, as far as the system goes; the read ones are appended to what was read.\<close>

partial_function (option) read_loop :: "'o system \<Rightarrow> int \<Rightarrow> int \<Rightarrow> string \<Rightarrow> int \<Rightarrow> 'o anet \<Rightarrow> ((int \<times> string) \<times> 'o anet) option" where
  "read_loop sy fd count buf totlen a =
     (if totlen = count then Some ((totlen, buf), a)
      else
        let ((nread, bytes), a) = call (sy_read sy fd (count - totlen)) a in
        if nread = 0 then Some ((totlen, buf), a)
        else if nread = - 1 then Some ((- 1, buf), a)
        else read_loop sy fd count (buf @ bytes) (totlen + nread) a)"

definition anetRead :: "'o system \<Rightarrow> int \<Rightarrow> int \<Rightarrow> 'o anet \<Rightarrow> ((int \<times> string) \<times> 'o anet) option" where
  "anetRead sy fd count a = read_loop sy fd count [] 0 a"

partial_function (option) write_loop :: "'o system \<Rightarrow> int \<Rightarrow> string \<Rightarrow> int \<Rightarrow> int \<Rightarrow> 'o anet \<Rightarrow> (int \<times> 'o anet) option" where
  "write_loop sy fd buf count totlen a =
     (if totlen = count then Some (totlen, a)
      else
        let (nwritten, a) = call (sy_write sy fd (take (nat (count - totlen)) buf)) a in
        if nwritten = 0 then Some (totlen, a)
        else if nwritten = - 1 then Some (- 1, a)
        else write_loop sy fd (drop (nat nwritten) buf) count (totlen + nwritten) a)"

definition anetWrite :: "'o system \<Rightarrow> int \<Rightarrow> string \<Rightarrow> int \<Rightarrow> 'o anet \<Rightarrow> (int \<times> 'o anet) option" where
  "anetWrite sy fd buf count a = write_loop sy fd buf count 0 a"

section \<open>Serving\<close>

text \<open>The address to bind to: any, or the one given, if it is a numeral.\<close>

definition bind_address :: "'o system \<Rightarrow> string option \<Rightarrow> ip option" where
  "bind_address sy bindaddr = (case bindaddr of None \<Rightarrow> Some 0 | Some b \<Rightarrow> sy_inet_aton sy b)"

definition anetTcpServer :: "'o system \<Rightarrow> int \<Rightarrow> string option \<Rightarrow> 'o anet \<Rightarrow> int \<times> 'o anet" where
  "anetTcpServer sy port bindaddr a =
     (let (s, a) = call (sy_socket sy) a in
      if s = - 1 then failing sy ''socket'' a
      else
        let (r, a) = call (sy_setsockopt sy s SO_REUSEADDR) a in
        if r = - 1 then closing sy s (failing sy ''setsockopt SO_REUSEADDR'' a)
        else case bind_address sy bindaddr of
          None \<Rightarrow> closing sy s (ANET_ERR, anetSetError (''Invalid bind address'' @ [CHR 0x0A]) a)
        | Some ip \<Rightarrow>
          let (r, a) = call (sy_bind sy s ip (word_of_int port)) a in
          if r = - 1 then closing sy s (failing sy ''bind'' a)
          else
            let (r, a) = call (sy_listen sy s 511) a in
            if r = - 1 then closing sy s (failing sy ''listen'' a) else (s, a))"

text \<open>An interrupted \<open>accept\<close> is tried again; a success also gives the address and the port of the peer.\<close>

partial_function (option) anetAccept :: "'o system \<Rightarrow> int \<Rightarrow> 'o anet \<Rightarrow> ((int \<times> (string \<times> int) option) \<times> 'o anet) option" where
  "anetAccept sy serversock a =
     (let ((fd, ip, port), a) = call (sy_accept sy serversock) a in
      if fd = - 1 then
        if sy_errno sy (an_system a) = EINTR then anetAccept sy serversock a
        else let (r, a) = failing sy ''accept'' a in Some ((r, None), a)
      else Some ((fd, Some (sy_inet_ntoa sy ip, uint port)), a))"

section \<open>What the wrapper guarantees\<close>

text \<open>The documented effect of the calls on the open files of the process.\<close>

definition opens :: "('o \<Rightarrow> int set) \<Rightarrow> int \<Rightarrow> 'o \<Rightarrow> 'o \<Rightarrow> bool" where
  "opens files r s s' \<longleftrightarrow> r = - 1 \<and> files s' = files s \<or> 0 \<le> r \<and> r \<notin> files s \<and> files s' = insert r (files s)"

definition documented_files :: "'o system \<Rightarrow> ('o \<Rightarrow> int set) \<Rightarrow> bool" where
  "documented_files sy files \<longleftrightarrow>
     (\<forall>s r s'. sy_socket sy s = (r, s') \<longrightarrow> opens files r s s') \<and>
     (\<forall>fd opt s. files (snd (sy_setsockopt sy fd opt s)) = files s) \<and>
     (\<forall>fd s. files (snd (sy_getfl sy fd s)) = files s) \<and>
     (\<forall>fd fl s. files (snd (sy_setfl_nonblock sy fd fl s)) = files s) \<and>
     (\<forall>host s. files (snd (sy_gethostbyname sy host s)) = files s) \<and>
     (\<forall>fd ip port s. files (snd (sy_connect sy fd ip port s)) = files s) \<and>
     (\<forall>fd ip port s. files (snd (sy_bind sy fd ip port s)) = files s) \<and>
     (\<forall>fd n s. files (snd (sy_listen sy fd n s)) = files s) \<and>
     (\<forall>fd s. files (sy_close sy fd s) = files s - {fd})"

lemma anetSetError_system [simp]: "an_system (anetSetError msg a) = an_system a"
  by (simp add: anetSetError_def split: option.split)

lemma failing_system: "failing sy what a = (r, a') \<Longrightarrow> r = ANET_ERR \<and> an_system a' = an_system a"
  by (auto simp: failing_def)

lemma call_system: "call f a = (r, a') \<Longrightarrow> f (an_system a) = (r, an_system a')"
  by (auto simp: call_def split: prod.splits)

lemma documented_filesD:
  assumes "documented_files sy files"
  shows "sy_socket sy s = (r, s') \<Longrightarrow> opens files r s s'" "sy_setsockopt sy fd opt s = (r, s') \<Longrightarrow> files s' = files s"
    "sy_connect sy fd ip port s = (r, s') \<Longrightarrow> files s' = files s" "sy_bind sy fd ip port s = (r, s') \<Longrightarrow> files s' = files s"
    "sy_listen sy fd n s = (r, s') \<Longrightarrow> files s' = files s" "sy_gethostbyname sy host s = (ip', s') \<Longrightarrow> files s' = files s"
    "files (sy_close sy fd s) = files s - {fd}"
  using assms unfolding documented_files_def by (metis snd_conv)+

lemma address_of_files:
  assumes "documented_files sy files" "address_of sy host a = (r, a')"
  shows "files (an_system a') = files (an_system a)"
  using assms(2) documented_filesD(6) [OF assms(1)]
  by (auto simp: address_of_def split: option.splits dest!: call_system)

text \<open>A blocking connection and a server socket leave one more open file when they succeed and none when
  they fail.\<close>

theorem sockets_closed_on_failure:
  assumes "documented_files sy files"
  shows "anetTcpConnect sy addr port a = (r, a') \<Longrightarrow> opens files r (an_system a) (an_system a')"
    and "anetTcpServer sy port bindaddr a = (r, a') \<Longrightarrow> opens files r (an_system a) (an_system a')"
proof -
  note doc = documented_filesD [OF assms]
  assume "anetTcpConnect sy addr port a = (r, a')"
  then show "opens files r (an_system a) (an_system a')"
    unfolding anetTcpConnect_def anetTcpGenericConnect_def Let_def
    by (auto simp: closing_def unresolved_def ANET_ERR_def ANET_OK_def opens_def doc(7)
        split: prod.splits option.splits if_splits
        dest!: call_system failing_system address_of_files [OF assms] doc(1-3))
next
  note doc = documented_filesD [OF assms]
  assume "anetTcpServer sy port bindaddr a = (r, a')"
  then show "opens files r (an_system a) (an_system a')"
    unfolding anetTcpServer_def Let_def
    by (auto simp: closing_def ANET_ERR_def opens_def doc(7)
        split: prod.splits option.splits if_splits dest!: call_system failing_system doc(1-5))
qed

text \<open>A connection that cannot be made non-blocking stays open, though its number is lost.\<close>

theorem nonblocking_socket_leaks:
  assumes "documented_files sy files" "sy_socket sy (an_system a) = (s, s1)" "s \<noteq> - 1" "sy_inet_aton sy addr = Some ip"
    and "\<And>st. fst (sy_getfl sy s st) = - 1"
  shows "\<exists>a'. anetTcpNonBlockConnect sy addr port a = (ANET_ERR, a') \<and> files (an_system a') = insert s (files (an_system a))"
proof -
  obtain r2 s2 where s2: "sy_setsockopt sy s SO_REUSEADDR s1 = (r2, s2)" by fastforce
  obtain s3 where s3: "sy_getfl sy s s2 = (- 1, s3)" using assms(5) [of s2] by (metis prod.collapse)
  have "files s1 = insert s (files (an_system a))" using documented_filesD(1) [OF assms(1,2)] assms(3) by (simp add: opens_def)
  moreover have "files s2 = files s1" using documented_filesD(2) [OF assms(1) s2] .
  moreover have "files s3 = files s2" using assms(1) s3 unfolding documented_files_def by (metis snd_conv)
  ultimately show ?thesis using assms(2-4) s2 s3
    by (simp add: anetTcpNonBlockConnect_def anetTcpGenericConnect_def call_def address_of_def anetNonBlock_def failing_def
        ANET_ERR_def ANET_OK_def)
qed

text \<open>The documented effect of a write: some of the bytes, in order, or an error and none.\<close>

definition documented_write :: "'o system \<Rightarrow> ('o \<Rightarrow> int \<Rightarrow> string) \<Rightarrow> bool" where
  "documented_write sy sent \<longleftrightarrow> (\<forall>fd data s n s'. sy_write sy fd data s = (n, s') \<longrightarrow>
     - 1 \<le> n \<and> n \<le> int (length data) \<and> sent s' fd = sent s fd @ take (nat n) data)"

lemma write_loop_sends:
  assumes "documented_write sy sent"
  shows "\<exists>r a' k. write_loop sy fd buf (totlen + int (length buf)) totlen a = Some (r, a') \<and> k \<le> length buf \<and>
    sent (an_system a') fd = sent (an_system a) fd @ take k buf \<and> (r = - 1 \<or> r = totlen + int k)"
proof (induction "length buf" arbitrary: buf totlen a rule: less_induct)
  case less
  show ?case
  proof (cases "buf = []")
    case True
    then show ?thesis by (subst write_loop.simps) auto
  next
    case False
    obtain n s' where w: "sy_write sy fd buf (an_system a) = (n, s')" by fastforce
    then have n: "- 1 \<le> n" "n \<le> int (length buf)" "sent s' fd = sent (an_system a) fd @ take (nat n) buf"
      using assms unfolding documented_write_def by blast+
    let ?a = "a\<lparr>an_system := s'\<rparr>"
    have step: "write_loop sy fd buf (totlen + int (length buf)) totlen a =
        (if n = 0 then Some (totlen, ?a) else if n = - 1 then Some (- 1, ?a)
         else write_loop sy fd (drop (nat n) buf) (totlen + int (length buf)) (totlen + n) ?a)"
      using False w by (subst write_loop.simps) (simp add: call_def)
    consider "n = 0" | "n = - 1" | "0 < n" using n(1) by linarith
    then show ?thesis
    proof cases
      case 3
      let ?buf = "drop (nat n) buf"
      have size: "totlen + int (length buf) = (totlen + n) + int (length ?buf)" using n(2) 3 by simp
      obtain r a' k where IH: "write_loop sy fd ?buf (totlen + int (length buf)) (totlen + n) ?a = Some (r, a')" "k \<le> length ?buf"
        "sent (an_system a') fd = sent s' fd @ take k ?buf" "r = - 1 \<or> r = totlen + n + int k"
        using less [of ?buf "totlen + n" ?a] False 3 unfolding size by auto
      have "sent (an_system a') fd = sent (an_system a) fd @ take (nat n + k) buf" using IH(3) n(3) by (simp add: take_add)
      moreover have "nat n + k \<le> length buf" "r = - 1 \<or> r = totlen + int (nat n + k)" using IH(2,4) n(2) 3 by auto
      ultimately show ?thesis using step IH(1) 3 by fastforce
    qed (use step n(3) in \<open>force+\<close>)
  qed
qed

text \<open>A write ends, and sends the bytes in their order: all of them when it returns their number, the first
  ones when it returns less or fails.\<close>

theorem anetWrite_sends:
  assumes "documented_write sy sent"
  shows "\<exists>r a' k. anetWrite sy fd buf (int (length buf)) a = Some (r, a') \<and> k \<le> length buf \<and>
    sent (an_system a') fd = sent (an_system a) fd @ take k buf \<and> (r = - 1 \<or> r = int k)"
  using write_loop_sends [OF assms, of fd buf 0 a] by (simp add: anetWrite_def)

end
