(* ===== verification/RedisCluster.thy ===== *)
theory RedisCluster
  imports RedisClient Sockets "HOL-Library.Char_ord" "HOL-Library.List_Lexorder"
begin

text \<open>
  The client of the store with its connections (\<open>base_client\<close> of \<open>src/src/libs/redis/redisclient.h\<close>):
  a key chooses its connection by a hash, a command goes to the socket of the connection and its reply
  is read from there. A socket is its number; behind a number is a wire, the connection of
  \<open>RedisClient\<close>. Maps from sockets to what is sent to them are lists in the order of the numbers, as
  \<open>std::map\<close> iterates. Sets of strings are sorted lists without duplicates. When an operation throws,
  what it has put into the containers of its caller is not represented.
\<close>

section \<open>Connections\<close>

record connection_data =
  cd_host :: string
  cd_port :: "16 word"
  cd_dbindex :: int
  cd_socket :: int

definition same_connection :: "connection_data \<Rightarrow> connection_data \<Rightarrow> bool" where
  "same_connection a b =
     (if cd_host a \<noteq> cd_host b then False
      else if cd_port a \<noteq> cd_port b then False
      else if cd_dbindex a \<noteq> cd_dbindex b then False
      else True)"

record 's client =
  cl_connections :: "connection_data list"
  cl_wire :: "int \<Rightarrow> 's connection"

text \<open>The types of integers \<open>lexical_cast\<close> is used at: signed or not, and the number of bits.\<close>

datatype c_int = Signed nat | Unsigned nat

definition in_type :: "c_int \<Rightarrow> int \<Rightarrow> bool" where
  "in_type t n = (case t of Signed b \<Rightarrow> - (2 ^ (b - 1)) \<le> n \<and> n < 2 ^ (b - 1) | Unsigned b \<Rightarrow> 0 \<le> n \<and> n < 2 ^ b)"

text \<open>
  The environment of the client: Boost, the network behind each socket, the hash of a string, the
  random choice of a server, how a socket is opened while others are open, and the casts.
\<close>

record 's client_env =
  ce_boost :: boost
  ce_net :: "int \<Rightarrow> 's network"
  ce_hash :: "string \<Rightarrow> nat"
  ce_pick :: "nat \<Rightarrow> nat"
  ce_connect :: "int list \<Rightarrow> string \<Rightarrow> 16 word \<Rightarrow> (int \<times> 's connection) option"
  ce_cast :: "c_int \<Rightarrow> string \<Rightarrow> int option"
  ce_of_double :: "double \<Rightarrow> string"

type_synonym ('s, 'a) client_io = "('s client, 'a) io"

abbreviation io_throw :: "redis_error \<Rightarrow> ('c, 'a) io" where
  "io_throw e \<equiv> io_stop (Throws e)"

definition on_wire :: "int \<Rightarrow> ('s connection, 'a) io \<Rightarrow> ('s, 'a) client_io" where
  "on_wire s m cl = (let (r, c) = m (cl_wire cl s) in (r, cl\<lparr>cl_wire := (cl_wire cl)(s := c)\<rparr>))"

text \<open>\<open>anetWrite\<close> writes nothing of an empty message, and fails on a number that is no socket.\<close>

definition send_to :: "'s client_env \<Rightarrow> int \<Rightarrow> string \<Rightarrow> ('s, unit) client_io" where
  "send_to e s msg =
     (if msg = [] then io_return ()
      else if s = ANET_ERR then io_throw Connection_error
      else on_wire s (send_msg (ce_net e s) msg))"

text \<open>Every reader but \<open>next_reply_type\<close> starts with \<open>read_line\<close>, which asserts that the socket is positive.\<close>

definition receive :: "int \<Rightarrow> ('s connection, 'a) io \<Rightarrow> ('s, 'a) client_io" where
  "receive s m = (if s \<le> 0 then io_stop (Stuck AssertionFailed) else on_wire s m)"

definition default_hasher :: "'s client_env \<Rightarrow> string \<Rightarrow> connection_data list \<Rightarrow> nat res" where
  "default_hasher e k cs = (if length cs = 0 then Inl DivByZero else Inr (ce_hash e k mod length cs))"

definition get_socket :: "'s client_env \<Rightarrow> string \<Rightarrow> ('s, int) client_io" where
  "get_socket e k cl =
     (let cs = cl_connections cl in
      if length cs = 1 then (Inr (cd_socket (cs ! 0)), cl)
      else case default_hasher e k cs of Inl f \<Rightarrow> (Inl (Stuck f), cl) | Inr i \<Rightarrow> (Inr (cd_socket (cs ! i)), cl))"

fun same_socket :: "'s client_env \<Rightarrow> int \<Rightarrow> string list \<Rightarrow> ('s, int) client_io" where
  "same_socket e s [] = io_return s"
| "same_socket e s (k # ks) = io_bind (get_socket e k) (\<lambda>cur.
     if s \<noteq> cur then io_return (- 1) else same_socket e cur ks)"

definition get_socket_of_all :: "'s client_env \<Rightarrow> string list \<Rightarrow> ('s, int) client_io" where
  "get_socket_of_all e ks cl =
     (case ks of [] \<Rightarrow> (Inl (Stuck AssertionFailed), cl)
      | k # ks' \<Rightarrow>
        if length (cl_connections cl) = 1 then (Inr (cd_socket (cl_connections cl ! 0)), cl)
        else io_bind (get_socket e k) (\<lambda>s. same_socket e s ks') cl)"

section \<open>Replies\<close>

definition cl_ok :: "'s client_env \<Rightarrow> int \<Rightarrow> ('s, unit) client_io" where
  "cl_ok e s = receive s (recv_ok_reply (ce_net e s))"

definition cl_line :: "'s client_env \<Rightarrow> int \<Rightarrow> ('s, string) client_io" where
  "cl_line e s = receive s (recv_single_line_reply (ce_net e s))"

definition cl_bulk :: "'s client_env \<Rightarrow> int \<Rightarrow> ('s, string) client_io" where
  "cl_bulk e s = receive s (recv_bulk_reply (ce_boost e) (ce_net e s))"

definition cl_multi :: "'s client_env \<Rightarrow> string list \<Rightarrow> int \<Rightarrow> ('s, int \<times> string list) client_io" where
  "cl_multi e out s = receive s (recv_multi_bulk_reply (ce_boost e) (ce_net e s) out)"

text \<open>Into a set; the length is the one of the reply.\<close>

definition cl_set :: "'s client_env \<Rightarrow> string list \<Rightarrow> int \<Rightarrow> ('s, int \<times> string list) client_io" where
  "cl_set e out s = io_bind (receive s (recv_bulk_length (ce_boost e) (ce_net e s) (CHR ''*''))) (\<lambda>n.
     if n = - 1 then io_throw Key_error
     else io_bind (receive s (recv_bulks (ce_boost e) (ce_net e s) (nat n) [])) (\<lambda>vs.
       io_return (n, fold insort_insert vs out)))"

definition cl_int :: "'s client_env \<Rightarrow> int \<Rightarrow> ('s, int) client_io" where
  "cl_int e s = receive s (recv_int_reply (ce_boost e) (ce_net e s))"

definition cl_int_as :: "'s client_env \<Rightarrow> c_int \<Rightarrow> int \<Rightarrow> ('s, int) client_io" where
  "cl_int_as e t s = receive s (io_bind (read_line (ce_net e s)) (\<lambda>line.
     if line = [] then io_throw Protocol_error
     else if hd line \<noteq> CHR '':'' then io_throw Protocol_error
     else io_get Bad_lexical_cast (ce_cast e t (tl line))))"

definition cl_int_ok :: "'s client_env \<Rightarrow> int \<Rightarrow> ('s, unit) client_io" where
  "cl_int_ok e s = io_bind (cl_int e s) (\<lambda>n. if n \<noteq> 1 then io_throw Protocol_error else io_return ())"

text \<open>The answer to a question is the integer 1 or another one.\<close>

definition cl_one :: "'s client_env \<Rightarrow> int \<Rightarrow> ('s, bool) client_io" where
  "cl_one e s = io_bind (cl_int e s) (\<lambda>n. io_return (n = 1))"

text \<open>An integer reply in a variable of type \<open>int\<close>.\<close>

definition cl_narrow :: "'s client_env \<Rightarrow> int \<Rightarrow> ('s, int) client_io" where
  "cl_narrow e s = io_bind (cl_int e s) (\<lambda>n. io_return (sint (word_of_int n :: 32 word)))"

section \<open>Requests\<close>

definition request :: "'s client_env \<Rightarrow> string list \<Rightarrow> (int \<Rightarrow> ('s, 'a) client_io) \<Rightarrow> int \<Rightarrow> ('s, 'a) client_io" where
  "request e params reply s = io_bind (send_to e s (makecmd params)) (\<lambda>_. reply s)"

text \<open>The form of most operations: the socket of the key, the command, the reply.\<close>

definition keyed :: "'s client_env \<Rightarrow> string \<Rightarrow> string list \<Rightarrow> (int \<Rightarrow> ('s, 'a) client_io) \<Rightarrow> ('s, 'a) client_io" where
  "keyed e k params reply = io_bind (get_socket e k) (request e params reply)"

fun io_each :: "('x \<Rightarrow> ('c, unit) io) \<Rightarrow> 'x list \<Rightarrow> ('c, unit) io" where
  "io_each f [] = io_return ()"
| "io_each f (x # xs) = io_bind (f x) (\<lambda>_. io_each f xs)"

fun io_fold :: "('x \<Rightarrow> 'a \<Rightarrow> ('c, 'a) io) \<Rightarrow> 'x list \<Rightarrow> 'a \<Rightarrow> ('c, 'a) io" where
  "io_fold f [] a = io_return a"
| "io_fold f (x # xs) a = io_bind (f x a) (io_fold f xs)"

definition io_catch :: "redis_error \<Rightarrow> ('c, 'a) io \<Rightarrow> ('c, 'a) io \<Rightarrow> ('c, 'a) io" where
  "io_catch e handler m c = (case m c of (Inl (Throws e'), c') \<Rightarrow>
     if e' = e then handler c' else (Inl (Throws e'), c') | r \<Rightarrow> r)"

text \<open>The entry of a socket in a map, made by default when there is none.\<close>

fun at_socket :: "int \<Rightarrow> 'b \<Rightarrow> ('b \<Rightarrow> 'b) \<Rightarrow> (int \<times> 'b) list \<Rightarrow> (int \<times> 'b) list" where
  "at_socket s d f [] = [(s, f d)]"
| "at_socket s d f ((s', x) # m) =
     (if s = s' then (s', f x) # m
      else if s < s' then (s, f d) # (s', x) # m
      else (s', x) # at_socket s d f m)"

fun by_socket :: "('x \<Rightarrow> ('s, int) client_io) \<Rightarrow> 'b \<Rightarrow> ('x \<Rightarrow> 'b \<Rightarrow> 'b) \<Rightarrow> 'x list \<Rightarrow> (int \<times> 'b) list \<Rightarrow>
    ('s, (int \<times> 'b) list) client_io" where
  "by_socket sock d f [] m = io_return m"
| "by_socket sock d f (x # xs) m = io_bind (sock x) (\<lambda>s. by_socket sock d f xs (at_socket s d (f x) m))"

section \<open>Construction\<close>

text \<open>The first \<open>select\<close> of a connection, and the entries of the client it changes.\<close>

definition set_dbindex :: "nat \<Rightarrow> int \<Rightarrow> 's client \<Rightarrow> 's client" where
  "set_dbindex i n cl = cl\<lparr>cl_connections := (cl_connections cl)[i := (cl_connections cl ! i)\<lparr>cd_dbindex := sint (word_of_int n :: 32 word)\<rparr>]\<rparr>"

text \<open>A connection is passed by reference: to an element of the client's own vector or to another object.\<close>

datatype con_ref = Own_con nat | Other_con connection_data

definition con_of :: "con_ref \<Rightarrow> 's client \<Rightarrow> connection_data" where
  "con_of r cl = (case r of Own_con i \<Rightarrow> cl_connections cl ! i | Other_con con \<Rightarrow> con)"

definition on_con :: "con_ref \<Rightarrow> (int \<Rightarrow> ('s, 'a) client_io) \<Rightarrow> ('s, 'a) client_io" where
  "on_con r f cl = f (cd_socket (con_of r cl)) cl"

definition select_equal :: "con_ref \<Rightarrow> int \<Rightarrow> nat \<Rightarrow> ('s, unit) client_io" where
  "select_equal r n i cl =
     (Inr (), if same_connection (cl_connections cl ! i) (con_of r cl) then set_dbindex i n cl else cl)"

definition redis_select_con :: "'s client_env \<Rightarrow> int \<Rightarrow> con_ref \<Rightarrow> ('s, unit) client_io" where
  "redis_select_con e n r =
     io_bind (on_con r (request e [''SELECT'', bt_of_long (ce_boost e) n] (cl_ok e))) (\<lambda>_ cl.
     io_each (select_equal r n) [0..<length (cl_connections cl)] cl)"

definition init_connection :: "'s client_env \<Rightarrow> connection_data \<Rightarrow> ('s, connection_data) client_io" where
  "init_connection e con cl =
     (case ce_connect e (map cd_socket (cl_connections cl)) (cd_host con) (cd_port con) of
        None \<Rightarrow> (Inl (Throws Connection_error), cl)
      | Some (s, wire) \<Rightarrow>
          let con = con\<lparr>cd_socket := s\<rparr>
          in io_bind (redis_select_con e (cd_dbindex con) (Other_con con)) (\<lambda>_. io_return con)
               (cl\<lparr>cl_wire := (cl_wire cl)(s := wire)\<rparr>))"

definition add_connection :: "'s client_env \<Rightarrow> connection_data \<Rightarrow> ('s, unit) client_io" where
  "add_connection e con = io_bind (init_connection e con) (\<lambda>con cl.
     (Inr (), cl\<lparr>cl_connections := cl_connections cl @ [con]\<rparr>))"

definition no_connections :: "(int \<Rightarrow> 's connection) \<Rightarrow> 's client" where
  "no_connections wire = \<lparr>cl_connections = [], cl_wire = wire\<rparr>"

definition new_connection_data :: "string \<Rightarrow> 16 word \<Rightarrow> int \<Rightarrow> connection_data" where
  "new_connection_data host port n = \<lparr>cd_host = host, cd_port = port, cd_dbindex = n, cd_socket = ANET_ERR\<rparr>"

definition new_client :: "'s client_env \<Rightarrow> (int \<Rightarrow> 's connection) \<Rightarrow> string \<Rightarrow> 16 word \<Rightarrow> int \<Rightarrow> (stop + unit) \<times> 's client" where
  "new_client e wire host port n =
     add_connection e (new_connection_data host port (sint (word_of_int n :: 32 word))) (no_connections wire)"

definition new_cluster :: "'s client_env \<Rightarrow> (int \<Rightarrow> 's connection) \<Rightarrow> connection_data list \<Rightarrow> (stop + unit) \<times> 's client" where
  "new_cluster e wire cons =
     io_bind (io_each (add_connection e) cons) (\<lambda>_ cl.
       if cl_connections cl = [] then (Inl (Throws Runtime_error), cl) else (Inr (), cl))
     (no_connections wire)"

text \<open>A clone connects anew to the servers of the original, with their databases.\<close>

definition clone :: "'s client_env \<Rightarrow> (int \<Rightarrow> 's connection) \<Rightarrow> 's client \<Rightarrow> (stop + unit) \<times> 's client" where
  "clone e wire cl = new_cluster e wire (cl_connections cl)"

text \<open>The sockets the destructor closes.\<close>

definition closed_sockets :: "'s client \<Rightarrow> int list" where
  "closed_sockets cl = filter (\<lambda>s. s \<noteq> ANET_ERR) (map cd_socket (cl_connections cl))"

section \<open>Replies of any kind\<close>

datatype reply_t = no_reply | status_code_reply | error_reply | int_reply | bulk_reply | multi_bulk_reply

datatype reply_val_t = Val_string string | Val_int "32 word" | Val_vector "string list"

type_synonym reply_data_t = "reply_t \<times> reply_val_t"

text \<open>A command under construction, with its lines and at most one key.\<close>

datatype arg = Arg string | Key string | Args "string list"

record makecmd =
  mc_lines :: "string list"
  mc_key_name :: "string option"

fun add_args :: "arg list \<Rightarrow> makecmd \<Rightarrow> redis_error + makecmd" where
  "add_args [] m = Inr m"
| "add_args (Arg s # as) m = add_args as (m\<lparr>mc_lines := mc_lines m @ [s]\<rparr>)"
| "add_args (Args ss # as) m = add_args as (m\<lparr>mc_lines := mc_lines m @ ss\<rparr>)"
| "add_args (Key k # as) m =
     (if mc_key_name m \<noteq> None then Inl Runtime_error
      else add_args as (m\<lparr>mc_key_name := Some k, mc_lines := mc_lines m @ [k]\<rparr>))"

definition new_makecmd :: "string \<Rightarrow> makecmd" where
  "new_makecmd name = \<lparr>mc_lines = [name], mc_key_name = None\<rparr>"

definition key_name :: "makecmd \<Rightarrow> redis_error + string" where
  "key_name m = (case mc_key_name m of None \<Rightarrow> Inl Runtime_error | Some k \<Rightarrow> Inr k)"

record command =
  cmd_request :: string
  cmd_hash_key :: string
  cmd_reply :: reply_data_t

definition new_command :: "makecmd \<Rightarrow> redis_error + command" where
  "new_command m = (case key_name m of Inl e \<Rightarrow> Inl e
     | Inr k \<Rightarrow> Inr \<lparr>cmd_request = makecmd (mc_lines m), cmd_hash_key = k, cmd_reply = (no_reply, Val_string [])\<rparr>)"

definition set_reply :: "reply_data_t \<Rightarrow> command \<Rightarrow> command" where
  "set_reply r c = c\<lparr>cmd_reply := r\<rparr>"

definition check_reply_t :: "reply_t \<Rightarrow> command \<Rightarrow> redis_error + unit" where
  "check_reply_t t c = (if fst (cmd_reply c) \<noteq> t then Inl Runtime_error else Inr ())"

definition the_string :: "reply_val_t \<Rightarrow> redis_error + string" where
  "the_string v = (case v of Val_string s \<Rightarrow> Inr s | _ \<Rightarrow> Inl Bad_get)"

definition the_int :: "reply_val_t \<Rightarrow> redis_error + 32 word" where
  "the_int v = (case v of Val_int n \<Rightarrow> Inr n | _ \<Rightarrow> Inl Bad_get)"

definition the_vector :: "reply_val_t \<Rightarrow> redis_error + string list" where
  "the_vector v = (case v of Val_vector ss \<Rightarrow> Inr ss | _ \<Rightarrow> Inl Bad_get)"

definition get_status_code_reply :: "command \<Rightarrow> redis_error + string" where
  "get_status_code_reply c = (case check_reply_t status_code_reply c of Inl e \<Rightarrow> Inl e | Inr _ \<Rightarrow> the_string (snd (cmd_reply c)))"

definition get_error_reply :: "command \<Rightarrow> redis_error + string" where
  "get_error_reply c = (case check_reply_t error_reply c of Inl e \<Rightarrow> Inl e | Inr _ \<Rightarrow> the_string (snd (cmd_reply c)))"

definition get_int_reply :: "command \<Rightarrow> redis_error + 32 word" where
  "get_int_reply c = (case check_reply_t int_reply c of Inl e \<Rightarrow> Inl e | Inr _ \<Rightarrow> the_int (snd (cmd_reply c)))"

definition get_bulk_reply :: "command \<Rightarrow> redis_error + string" where
  "get_bulk_reply c = (case check_reply_t bulk_reply c of Inl e \<Rightarrow> Inl e | Inr _ \<Rightarrow> the_string (snd (cmd_reply c)))"

definition get_multi_bulk_reply :: "command \<Rightarrow> redis_error + string list" where
  "get_multi_bulk_reply c = (case check_reply_t multi_bulk_reply c of Inl e \<Rightarrow> Inl e | Inr _ \<Rightarrow> the_vector (snd (cmd_reply c)))"

definition reply_type_of :: "char \<Rightarrow> reply_t option" where
  "reply_type_of c =
     (if c = CHR ''+'' then Some status_code_reply
      else if c = CHR ''-'' then Some error_reply
      else if c = CHR '':'' then Some int_reply
      else if c = CHR ''$'' then Some bulk_reply
      else if c = CHR ''*'' then Some multi_bulk_reply
      else None)"

definition next_reply_type :: "'s network \<Rightarrow> ('s connection, reply_t) io" where
  "next_reply_type net c =
     (case cn_input c of [] \<Rightarrow> (Inl (at_end net), c)
      | b # _ \<Rightarrow> io_get Runtime_error (reply_type_of b) c)"

text \<open>\<open>substr\<close> throws when the text is shorter than where it is to start.\<close>

definition substr_from :: "nat \<Rightarrow> string \<Rightarrow> ('c, string) io" where
  "substr_from n s = (if length s < n then io_throw Range_error else io_return (drop n s))"

definition recv_generic_reply :: "boost \<Rightarrow> 's network \<Rightarrow> ('s connection, reply_data_t) io" where
  "recv_generic_reply bt net = io_bind (next_reply_type net) (\<lambda>t. case t of
       status_code_reply \<Rightarrow> io_bind (io_bind (read_line net) (substr_from 1)) (\<lambda>s. io_return (t, Val_string s))
     | error_reply \<Rightarrow> io_bind (io_bind (read_line net) (substr_from (length ''-ERR ''))) (\<lambda>s. io_return (t, Val_string s))
     | int_reply \<Rightarrow> io_bind (recv_int_reply bt net) (\<lambda>n. io_return (t, Val_int (word_of_int n)))
     | bulk_reply \<Rightarrow> io_bind (recv_bulk_reply bt net) (\<lambda>s. io_return (t, Val_string s))
     | multi_bulk_reply \<Rightarrow> io_bind (recv_multi_bulk_reply bt net []) (\<lambda>(_, v). io_return (t, Val_vector v))
     | no_reply \<Rightarrow> io_stop (Stuck AssertionFailed))"

text \<open>Here the first read is the one of \<open>next_reply_type\<close>, which throws for a number that is no socket.\<close>

definition cl_generic :: "'s client_env \<Rightarrow> int \<Rightarrow> ('s, reply_data_t) client_io" where
  "cl_generic e s =
     (if s \<le> 0 then io_throw Connection_error else on_wire s (recv_generic_reply (ce_boost e) (ce_net e s)))"

definition redis_exec :: "'s client_env \<Rightarrow> command \<Rightarrow> ('s, command) client_io" where
  "redis_exec e c = io_bind (get_socket e (cmd_hash_key c)) (\<lambda>s.
     io_bind (send_to e s (cmd_request c)) (\<lambda>_.
     io_bind (cl_generic e s) (\<lambda>r. io_return (set_reply r c))))"

fun generic_replies :: "('x \<Rightarrow> ('s, reply_data_t) client_io) \<Rightarrow> ('x \<Rightarrow> command) \<Rightarrow> 'x list \<Rightarrow> ('s, command list) client_io" where
  "generic_replies recv g [] = io_return []"
| "generic_replies recv g (x # xs) = io_bind (recv x) (\<lambda>r.
     io_bind (generic_replies recv g xs) (\<lambda>cs. io_return (set_reply r (g x) # cs)))"

definition redis_exec_all :: "'s client_env \<Rightarrow> command list \<Rightarrow> ('s, command list) client_io" where
  "redis_exec_all e cs =
     io_bind (by_socket (\<lambda>c. get_socket e (cmd_hash_key c)) [] (\<lambda>c msg. msg @ cmd_request c) cs []) (\<lambda>m.
     io_bind (io_each (\<lambda>(s, msg). send_to e s msg) m) (\<lambda>_.
     generic_replies (\<lambda>c. io_bind (get_socket e (cmd_hash_key c)) (cl_generic e)) (\<lambda>c. c) cs))"

text \<open>The socket of a transaction is the one of all its commands; \<open>-1\<close> stands for none yet.\<close>

fun transaction_socket :: "'s client_env \<Rightarrow> command list \<Rightarrow> int \<Rightarrow> ('s, int) client_io" where
  "transaction_socket e [] s = io_return s"
| "transaction_socket e (c # cs) s = io_bind (get_socket e (cmd_hash_key c)) (\<lambda>cur.
     if s = - 1 then transaction_socket e cs cur
     else if s \<noteq> cur then io_throw Runtime_error
     else transaction_socket e cs s)"

definition recv_queued :: "'s client_env \<Rightarrow> int \<Rightarrow> ('s, unit) client_io" where
  "recv_queued e s = io_bind (cl_line e s) (\<lambda>resp. if resp \<noteq> ''QUEUED'' then io_throw Runtime_error else io_return ())"

definition recv_exec_head :: "'s client_env \<Rightarrow> int \<Rightarrow> ('s, unit) client_io" where
  "recv_exec_head e s = io_bind (receive s (read_line (ce_net e s))) (\<lambda>line.
     if line = [] \<or> hd line \<noteq> CHR ''*'' then io_throw Runtime_error else io_return ())"

definition redis_exec_transaction :: "'s client_env \<Rightarrow> command list \<Rightarrow> ('s, command list) client_io" where
  "redis_exec_transaction e cs = io_bind (transaction_socket e cs (- 1)) (\<lambda>s.
     io_bind (send_to e s (makecmd [''MULTI''] @ concat (map cmd_request cs) @ makecmd [''EXEC''])) (\<lambda>_.
     io_bind (cl_ok e s) (\<lambda>_.
     io_bind (io_each (\<lambda>_. recv_queued e s) cs) (\<lambda>_.
     io_bind (recv_exec_head e s) (\<lambda>_.
     generic_replies (\<lambda>_. cl_generic e s) (\<lambda>c. c) cs)))))"

end
