(* ===== verification/RedisStrings.thy ===== *)
theory RedisStrings
  imports RedisCluster
begin

text \<open>
  The operations of the client on keys, strings and lists, and those on the whole store
  (\<open>src/src/libs/redis/redisclient.h\<close>), in the order of the file.
\<close>

section \<open>Text of the arguments\<close>

text \<open>\<open>lexical_cast\<close> of an integer, an unsigned integer or a size to text.\<close>

definition long_text :: "'s client_env \<Rightarrow> int \<Rightarrow> string" where
  "long_text e n = bt_of_long (ce_boost e) n"

definition uint_text :: "'s client_env \<Rightarrow> u32 \<Rightarrow> string" where
  "uint_text e n = bt_of_long (ce_boost e) (uint n)"

section \<open>Strings\<close>

definition redis_auth :: "'s client_env \<Rightarrow> string \<Rightarrow> ('s, unit) client_io" where
  "redis_auth e pass cl =
     (if 1 < length (cl_connections cl) then (Inl (Throws Runtime_error), cl)
      else on_con (Own_con 0) (request e [''AUTH'', pass] (cl_ok e)) cl)"

definition redis_set :: "'s client_env \<Rightarrow> string \<Rightarrow> string \<Rightarrow> ('s, unit) client_io" where
  "redis_set e k v = keyed e k [''SET'', k, v] (cl_ok e)"

text \<open>Commands for several servers: all are sent before the first reply is read.\<close>

definition send_all :: "'s client_env \<Rightarrow> (int \<times> string list) list \<Rightarrow> ('s, unit) client_io" where
  "send_all e m = io_each (\<lambda>(s, params). send_to e s (makecmd params)) m"

text \<open>\<open>mset\<close> of two vectors asks for the socket of all keys at once.\<close>

definition redis_mset :: "'s client_env \<Rightarrow> string list \<Rightarrow> string list \<Rightarrow> ('s, unit) client_io" where
  "redis_mset e ks vs =
     (if length ks \<noteq> length vs then io_stop (Stuck AssertionFailed)
      else io_bind (by_socket (\<lambda>_. get_socket_of_all e ks) [''MSET''] (\<lambda>(k, v) c. c @ [k, v]) (zip ks vs) []) (\<lambda>m.
        io_bind (send_all e m) (\<lambda>_. io_each (\<lambda>(s, _). cl_ok e s) m)))"

definition redis_mset_pairs :: "'s client_env \<Rightarrow> (string \<times> string) list \<Rightarrow> ('s, unit) client_io" where
  "redis_mset_pairs e kvs =
     io_bind (by_socket (\<lambda>(k, _). get_socket e k) [''MSET''] (\<lambda>(k, v) c. c @ [k, v]) kvs []) (\<lambda>m.
     io_bind (send_all e m) (\<lambda>_. io_each (\<lambda>(s, _). cl_ok e s) m))"

record msetex_data =
  mset_cmd :: "string list"
  expire_cmds :: string
  expire_count :: nat

definition add_msetex :: "'s client_env \<Rightarrow> int \<Rightarrow> string \<times> string \<Rightarrow> msetex_data \<Rightarrow> msetex_data" where
  "add_msetex e seconds kv d = (case kv of (k, v) \<Rightarrow>
     d\<lparr>mset_cmd := mset_cmd d @ [k, v],
       expire_cmds := expire_cmds d @ makecmd [''EXPIRE'', k, long_text e seconds],
       expire_count := expire_count d + 1\<rparr>)"

definition redis_msetex :: "'s client_env \<Rightarrow> (string \<times> string) list \<Rightarrow> int \<Rightarrow> ('s, unit) client_io" where
  "redis_msetex e kvs seconds =
     io_bind (by_socket (\<lambda>(k, _). get_socket e k) \<lparr>mset_cmd = [''MSET''], expire_cmds = [], expire_count = 0\<rparr>
       (add_msetex e seconds) kvs []) (\<lambda>m.
     io_bind (io_each (\<lambda>(s, d). send_to e s (makecmd (mset_cmd d) @ expire_cmds d)) m) (\<lambda>_.
     io_each (\<lambda>(s, d). io_bind (cl_ok e s) (\<lambda>_. io_each (\<lambda>_. cl_int_ok e s) [0..<expire_count d])) m))"

definition redis_get :: "'s client_env \<Rightarrow> string \<Rightarrow> ('s, string) client_io" where
  "redis_get e k = keyed e k [''GET'', k] (cl_bulk e)"

definition redis_getset :: "'s client_env \<Rightarrow> string \<Rightarrow> string \<Rightarrow> ('s, string) client_io" where
  "redis_getset e k v = keyed e k [''GETSET'', k, v] (cl_bulk e)"

text \<open>The keys a server is asked for, with their positions in the caller's vector.\<close>

record connection_keys =
  ck_cmd :: "string list"
  ck_indices :: "nat list"

definition add_key :: "nat \<times> string \<Rightarrow> connection_keys \<Rightarrow> connection_keys" where
  "add_key ik d = (case ik of (i, k) \<Rightarrow> d\<lparr>ck_cmd := ck_cmd d @ [k], ck_indices := ck_indices d @ [i]\<rparr>)"

fun place_values :: "nat list \<Rightarrow> string list \<Rightarrow> string list \<Rightarrow> ('c, string list) io" where
  "place_values is [] out = io_return out"
| "place_values (i # is) (v # vs) out = place_values is vs (out[i := v])"
| "place_values [] (v # vs) out = io_stop (Stuck OutOfRange)"

definition redis_mget :: "'s client_env \<Rightarrow> string list \<Rightarrow> ('s, string list) client_io" where
  "redis_mget e ks =
     io_bind (by_socket (\<lambda>(_, k). get_socket e k) \<lparr>ck_cmd = [''MGET''], ck_indices = []\<rparr> add_key (enumerate 0 ks) []) (\<lambda>m.
     io_bind (send_all e (map (\<lambda>(s, d). (s, ck_cmd d)) m)) (\<lambda>_.
     io_fold (\<lambda>(s, d) out. io_bind (cl_multi e [] s) (\<lambda>(_, cur). place_values (ck_indices d) cur out)) m
       (replicate (length ks) [])))"

definition redis_setnx :: "'s client_env \<Rightarrow> string \<Rightarrow> string \<Rightarrow> ('s, bool) client_io" where
  "redis_setnx e k v = keyed e k [''SETNX'', k, v] (cl_one e)"

text \<open>\<open>msetnx\<close> of two vectors has no return and takes only OK for an answer.\<close>

definition redis_msetnx :: "'s client_env \<Rightarrow> string list \<Rightarrow> string list \<Rightarrow> ('s, bool) client_io" where
  "redis_msetnx e ks vs =
     (if length ks \<noteq> length vs then io_stop (Stuck AssertionFailed)
      else io_bind (by_socket (\<lambda>_. get_socket_of_all e ks) [''MSETNX''] (\<lambda>(k, v) c. c @ [k, v]) (zip ks vs) []) (\<lambda>m.
        if 1 < length m then io_throw Runtime_error
        else io_bind (io_each (\<lambda>(s, params). request e params (cl_ok e) s) m) (\<lambda>_. io_stop (Stuck MissingReturn))))"

definition redis_setex :: "'s client_env \<Rightarrow> string \<Rightarrow> string \<Rightarrow> u32 \<Rightarrow> ('s, unit) client_io" where
  "redis_setex e k v secs = keyed e k [''SETEX'', k, uint_text e secs, v] (cl_ok e)"

definition redis_append :: "'s client_env \<Rightarrow> string \<Rightarrow> string \<Rightarrow> ('s, int) client_io" where
  "redis_append e k v = io_bind (keyed e k [''APPEND'', k, v] (cl_narrow e)) (\<lambda>res.
     if res < 0 then io_throw Protocol_error
     else if res < int (length v) then io_stop (Stuck AssertionFailed)
     else io_return res)"

definition redis_substr :: "'s client_env \<Rightarrow> string \<Rightarrow> int \<Rightarrow> int \<Rightarrow> ('s, string) client_io" where
  "redis_substr e k start stop = keyed e k [''SUBSTR'', k, long_text e start, long_text e stop] (cl_bulk e)"

definition redis_incr :: "'s client_env \<Rightarrow> string \<Rightarrow> ('s, int) client_io" where
  "redis_incr e k = keyed e k [''INCR'', k] (cl_int e)"

definition redis_incr_as :: "'s client_env \<Rightarrow> c_int \<Rightarrow> string \<Rightarrow> ('s, int) client_io" where
  "redis_incr_as e t k = keyed e k [''INCR'', k] (cl_int_as e t)"

definition redis_incrby :: "'s client_env \<Rightarrow> string \<Rightarrow> int \<Rightarrow> ('s, int) client_io" where
  "redis_incrby e k by = keyed e k [''INCRBY'', k, long_text e by] (cl_int e)"

definition redis_incrby_as :: "'s client_env \<Rightarrow> c_int \<Rightarrow> string \<Rightarrow> int \<Rightarrow> ('s, int) client_io" where
  "redis_incrby_as e t k by = keyed e k [''INCRBY'', k, long_text e by] (cl_int_as e t)"

definition redis_decr :: "'s client_env \<Rightarrow> string \<Rightarrow> ('s, int) client_io" where
  "redis_decr e k = keyed e k [''DECR'', k] (cl_int e)"

definition redis_decr_as :: "'s client_env \<Rightarrow> c_int \<Rightarrow> string \<Rightarrow> ('s, int) client_io" where
  "redis_decr_as e t k = keyed e k [''DECR'', k] (cl_int_as e t)"

definition redis_decrby :: "'s client_env \<Rightarrow> string \<Rightarrow> int \<Rightarrow> ('s, int) client_io" where
  "redis_decrby e k by = keyed e k [''DECRBY'', k, long_text e by] (cl_int e)"

definition redis_decrby_as :: "'s client_env \<Rightarrow> c_int \<Rightarrow> string \<Rightarrow> int \<Rightarrow> ('s, int) client_io" where
  "redis_decrby_as e t k by = keyed e k [''DECRBY'', k, long_text e by] (cl_int_as e t)"

definition redis_exists :: "'s client_env \<Rightarrow> string \<Rightarrow> ('s, bool) client_io" where
  "redis_exists e k = keyed e k [''EXISTS'', k] (cl_one e)"

section \<open>Keys\<close>

text \<open>\<open>del\<close> of one key is not \<open>cl_one\<close>: any other number than 0 counts.\<close>

definition cl_some :: "'s client_env \<Rightarrow> int \<Rightarrow> ('s, bool) client_io" where
  "cl_some e s = io_bind (cl_int e s) (\<lambda>n. io_return (n \<noteq> 0))"

definition redis_del :: "'s client_env \<Rightarrow> string \<Rightarrow> ('s, bool) client_io" where
  "redis_del e k = keyed e k [''DEL'', k] (cl_some e)"

definition redis_del_range :: "'s client_env \<Rightarrow> string list \<Rightarrow> ('s, bool) client_io" where
  "redis_del_range e ks = io_bind (by_socket (get_socket e) [] (\<lambda>k c. c @ [k]) ks []) (\<lambda>m.
     io_bind (send_all e (map (\<lambda>(s, ks). (s, ''DEL'' # ks)) m)) (\<lambda>_.
     io_bind (io_fold (\<lambda>(s, _) res. io_bind (cl_int e s) (\<lambda>n. io_return (res + n))) m 0) (\<lambda>res.
     io_return (res \<noteq> 0))))"

datatype redis_datatype = datatype_none | datatype_string | datatype_list | datatype_set | datatype_zset
  | datatype_hash | datatype_unknown

definition datatype_of :: "string \<Rightarrow> redis_datatype" where
  "datatype_of response =
     (if response = ''none'' then datatype_none
      else if response = ''string'' then datatype_string
      else if response = ''list'' then datatype_list
      else if response = ''set'' then datatype_set
      else if response = ''zset'' then datatype_zset
      else if response = ''hash'' then datatype_hash
      else datatype_unknown)"

definition redis_type :: "'s client_env \<Rightarrow> string \<Rightarrow> ('s, redis_datatype) client_io" where
  "redis_type e k = io_bind (keyed e k [''TYPE'', k] (cl_line e)) (\<lambda>response. io_return (datatype_of response))"

definition sockets :: "'s client \<Rightarrow> int list" where
  "sockets cl = map cd_socket (cl_connections cl)"

definition redis_keys :: "'s client_env \<Rightarrow> string \<Rightarrow> string list \<Rightarrow> ('s, int \<times> string list) client_io" where
  "redis_keys e pattern out cl =
     io_bind (io_each (\<lambda>s. send_to e s (makecmd [''KEYS'', pattern])) (sockets cl)) (\<lambda>_.
     io_fold (\<lambda>s (res, out). io_bind (cl_multi e out s) (\<lambda>(n, out). io_return (res + n, out))) (sockets cl) (0, out)) cl"

definition redis_randomkey :: "'s client_env \<Rightarrow> ('s, string) client_io" where
  "redis_randomkey e cl =
     (let n = length (cl_connections cl); i = (if 1 < n then ce_pick e n else 0)
      in on_con (Own_con i) (request e [''RANDOMKEY''] (cl_bulk e)) cl)"

definition redis_rpush :: "'s client_env \<Rightarrow> string \<Rightarrow> string \<Rightarrow> ('s, int) client_io" where
  "redis_rpush e k v = keyed e k [''RPUSH'', k, v] (cl_int e)"

definition redis_lrange :: "'s client_env \<Rightarrow> string \<Rightarrow> int \<Rightarrow> int \<Rightarrow> string list \<Rightarrow> ('s, int \<times> string list) client_io" where
  "redis_lrange e k start stop out = keyed e k [''LRANGE'', k, long_text e start, long_text e stop] (cl_multi e out)"

definition redis_smembers :: "'s client_env \<Rightarrow> string \<Rightarrow> string list \<Rightarrow> ('s, int \<times> string list) client_io" where
  "redis_smembers e k out = keyed e k [''SMEMBERS'', k] (cl_set e out)"

definition redis_sadd :: "'s client_env \<Rightarrow> string \<Rightarrow> string \<Rightarrow> ('s, bool) client_io" where
  "redis_sadd e k v = keyed e k [''SADD'', k, v] (cl_one e)"

text \<open>The content of a key whose new name belongs to another server.\<close>

definition rename_across :: "'s client_env \<Rightarrow> string \<Rightarrow> string \<Rightarrow> ('s, unit) client_io" where
  "rename_across e old new = io_bind (redis_type e old) (\<lambda>t. case t of
       datatype_none \<Rightarrow> io_return ()
     | datatype_string \<Rightarrow> io_bind (redis_get e old) (\<lambda>v. io_bind (redis_set e new v) (\<lambda>_.
         io_bind (redis_del e old) (\<lambda>_. io_return ())))
     | datatype_list \<Rightarrow> io_bind (redis_lrange e old 0 (- 1) []) (\<lambda>(_, content). io_bind (redis_del e new) (\<lambda>_.
         io_bind (io_each (\<lambda>v. io_bind (redis_rpush e new v) (\<lambda>_. io_return ())) content) (\<lambda>_.
         io_bind (redis_del e old) (\<lambda>_. io_return ()))))
     | datatype_set \<Rightarrow> io_bind (redis_smembers e old []) (\<lambda>(_, content). io_bind (redis_del e new) (\<lambda>_.
         io_bind (io_each (\<lambda>v. io_bind (redis_sadd e new v) (\<lambda>_. io_return ())) content) (\<lambda>_.
         io_bind (redis_del e old) (\<lambda>_. io_return ()))))
     | _ \<Rightarrow> io_throw Runtime_error)"

definition redis_rename :: "'s client_env \<Rightarrow> string \<Rightarrow> string \<Rightarrow> ('s, unit) client_io" where
  "redis_rename e old new = io_bind (get_socket e old) (\<lambda>src. io_bind (get_socket e new) (\<lambda>dst.
     if src \<noteq> dst then rename_across e old new
     else request e [''RENAME'', old, new] (cl_ok e) src))"

definition redis_renamenx :: "'s client_env \<Rightarrow> string \<Rightarrow> string \<Rightarrow> ('s, bool) client_io" where
  "redis_renamenx e old new = io_bind (get_socket e old) (\<lambda>src. io_bind (get_socket e new) (\<lambda>dst.
     if src \<noteq> dst then io_bind (redis_exists e new) (\<lambda>there.
       if there then io_return False else io_bind (redis_rename e old new) (\<lambda>_. io_return True))
     else request e [''RENAMENX'', old, new] (cl_one e) src))"

definition redis_dbsize :: "'s client_env \<Rightarrow> ('s, int) client_io" where
  "redis_dbsize e cl =
     io_bind (io_each (\<lambda>s. send_to e s (makecmd [''DBSIZE''])) (sockets cl)) (\<lambda>_.
     io_fold (\<lambda>s val. io_bind (cl_int e s) (\<lambda>n. io_return (val + n))) (sockets cl) 0) cl"

definition redis_dbsize_con :: "'s client_env \<Rightarrow> con_ref \<Rightarrow> ('s, int) client_io" where
  "redis_dbsize_con e r = on_con r (request e [''DBSIZE''] (cl_int e))"

definition redis_expire :: "'s client_env \<Rightarrow> string \<Rightarrow> u32 \<Rightarrow> ('s, unit) client_io" where
  "redis_expire e k secs = keyed e k [''EXPIRE'', k, uint_text e secs] (cl_int_ok e)"

definition redis_ttl :: "'s client_env \<Rightarrow> string \<Rightarrow> ('s, int) client_io" where
  "redis_ttl e k = keyed e k [''TTL'', k] (cl_narrow e)"

section \<open>Lists\<close>

definition redis_lpush :: "'s client_env \<Rightarrow> string \<Rightarrow> string \<Rightarrow> ('s, int) client_io" where
  "redis_lpush e k v = keyed e k [''LPUSH'', k, v] (cl_int e)"

definition redis_llen :: "'s client_env \<Rightarrow> string \<Rightarrow> ('s, int) client_io" where
  "redis_llen e k = keyed e k [''LLEN'', k] (cl_int e)"

definition redis_get_list :: "'s client_env \<Rightarrow> string \<Rightarrow> string list \<Rightarrow> ('s, int \<times> string list) client_io" where
  "redis_get_list e k out = redis_lrange e k 0 (- 1) out"

definition redis_ltrim :: "'s client_env \<Rightarrow> string \<Rightarrow> int \<Rightarrow> int \<Rightarrow> ('s, unit) client_io" where
  "redis_ltrim e k start stop = keyed e k [''LTRIM'', k, long_text e start, long_text e stop] (cl_ok e)"

definition redis_lindex :: "'s client_env \<Rightarrow> string \<Rightarrow> int \<Rightarrow> ('s, string) client_io" where
  "redis_lindex e k i = keyed e k [''LINDEX'', k, long_text e i] (cl_bulk e)"

definition redis_lset :: "'s client_env \<Rightarrow> string \<Rightarrow> int \<Rightarrow> string \<Rightarrow> ('s, unit) client_io" where
  "redis_lset e k i v = keyed e k [''LSET'', k, long_text e i, v] (cl_ok e)"

definition redis_lrem :: "'s client_env \<Rightarrow> string \<Rightarrow> int \<Rightarrow> string \<Rightarrow> ('s, int) client_io" where
  "redis_lrem e k n v = keyed e k [''LREM'', k, long_text e n, v] (cl_int e)"

definition redis_lrem_exact :: "'s client_env \<Rightarrow> string \<Rightarrow> int \<Rightarrow> string \<Rightarrow> ('s, unit) client_io" where
  "redis_lrem_exact e k n v = io_bind (redis_lrem e k n v) (\<lambda>m. if m \<noteq> n then io_throw Value_error else io_return ())"

definition redis_lpop :: "'s client_env \<Rightarrow> string \<Rightarrow> ('s, string) client_io" where
  "redis_lpop e k = keyed e k [''LPOP'', k] (cl_bulk e)"

definition redis_rpop :: "'s client_env \<Rightarrow> string \<Rightarrow> ('s, string) client_io" where
  "redis_rpop e k = keyed e k [''RPOP'', k] (cl_bulk e)"

text \<open>A blocking pop answers the key and the value; no answer in time is a nil reply, which throws.\<close>

definition out_of_time :: "int \<Rightarrow> ('c, 'a) io \<Rightarrow> ('c, 'a) io" where
  "out_of_time timeout m = (if timeout > 0 then m else io_stop (Stuck AssertionFailed))"

definition redis_blpop_any :: "'s client_env \<Rightarrow> string list \<Rightarrow> int \<Rightarrow> ('s, string \<times> string) client_io" where
  "redis_blpop_any e ks timeout = io_bind (get_socket_of_all e ks) (\<lambda>s.
     if s = - 1 then io_throw Runtime_error
     else io_bind (send_to e s (makecmd ([''BLPOP''] @ ks @ [long_text e timeout]))) (\<lambda>_.
       io_bind (io_catch Key_error (out_of_time timeout (io_throw Timeout_error)) (cl_multi e [] s)) (\<lambda>(_, sv).
       io_return (if length sv = 2 then (sv ! 0, sv ! 1) else ([], missing_value)))))"

text \<open>The reply of a blocking pop of one key.\<close>

definition popped_value :: "'s client_env \<Rightarrow> string \<Rightarrow> int \<Rightarrow> int \<Rightarrow> ('s, string) client_io" where
  "popped_value e k timeout s =
     io_bind (io_catch Key_error (out_of_time timeout (io_return None))
       (io_bind (cl_multi e [] s) (\<lambda>(_, sv). io_return (Some sv)))) (\<lambda>sv. case sv of
         None \<Rightarrow> io_return missing_value
       | Some sv \<Rightarrow>
         if length sv = 2 then (if k \<noteq> sv ! 0 then io_stop (Stuck AssertionFailed) else io_return (sv ! 1))
         else io_return missing_value)"

definition redis_blpop :: "'s client_env \<Rightarrow> string \<Rightarrow> int \<Rightarrow> ('s, string) client_io" where
  "redis_blpop e k timeout = io_bind (get_socket e k) (\<lambda>s.
     if s = - 1 then io_throw Runtime_error
     else request e [''BLPOP'', k, long_text e timeout] (popped_value e k timeout) s)"

definition redis_brpop :: "'s client_env \<Rightarrow> string \<Rightarrow> int \<Rightarrow> ('s, string) client_io" where
  "redis_brpop e k timeout = keyed e k [''BRPOP'', k, long_text e timeout] (popped_value e k timeout)"

end
