(* ===== verification/RedisCollections.thy ===== *)
theory RedisCollections
  imports RedisStrings
begin

text \<open>
  The operations of the client on sets, sorted sets and hashes
  (\<open>src/src/libs/redis/redisclient.h\<close>), in the order of the file.
\<close>

section \<open>Sets\<close>

definition redis_sadd_range :: "'s client_env \<Rightarrow> string \<Rightarrow> string list \<Rightarrow> ('s, int) client_io" where
  "redis_sadd_range e k vs = io_bind (get_socket e k) (\<lambda>s.
     io_bind (send_to e s (concat (map (\<lambda>v. makecmd [''SADD'', k, v]) vs))) (\<lambda>_.
     io_fold (\<lambda>_ res. io_bind (cl_int e s) (\<lambda>n. io_return (res + n))) vs 0))"

definition redis_srem :: "'s client_env \<Rightarrow> string \<Rightarrow> string \<Rightarrow> ('s, unit) client_io" where
  "redis_srem e k v = keyed e k [''SREM'', k, v] (cl_int_ok e)"

definition redis_spop :: "'s client_env \<Rightarrow> string \<Rightarrow> ('s, string) client_io" where
  "redis_spop e k = keyed e k [''SPOP'', k] (cl_bulk e)"

definition redis_smove :: "'s client_env \<Rightarrow> string \<Rightarrow> string \<Rightarrow> string \<Rightarrow> ('s, unit) client_io" where
  "redis_smove e src dst v = io_bind (get_socket e src) (\<lambda>s. io_bind (get_socket e dst) (\<lambda>d.
     if d \<noteq> s then io_bind (redis_srem e src v) (\<lambda>_. io_bind (redis_sadd e dst v) (\<lambda>_. io_return ()))
     else request e [''SMOVE'', src, dst, v] (cl_int_ok e) s))"

definition redis_scard :: "'s client_env \<Rightarrow> string \<Rightarrow> ('s, int) client_io" where
  "redis_scard e k = keyed e k [''SCARD'', k] (cl_int e)"

definition redis_sismember :: "'s client_env \<Rightarrow> string \<Rightarrow> string \<Rightarrow> ('s, bool) client_io" where
  "redis_sismember e k v = keyed e k [''SISMEMBER'', k, v] (cl_one e)"

text \<open>The intersection of the sets of every server; the first one replaces what the caller's set held.\<close>

fun intersect_replies :: "'s client_env \<Rightarrow> int list \<Rightarrow> nat \<Rightarrow> string list \<Rightarrow> ('s, string list) client_io" where
  "intersect_replies e [] i out = io_return out"
| "intersect_replies e (s # ss) i out = io_bind (cl_set e [] s) (\<lambda>(_, cur).
     intersect_replies e ss (i + 1) (if i > 0 then filter (\<lambda>v. v \<in> set cur) out else cur))"

definition redis_sinter :: "'s client_env \<Rightarrow> string list \<Rightarrow> string list \<Rightarrow> ('s, int \<times> string list) client_io" where
  "redis_sinter e ks out = io_bind (by_socket (get_socket e) [] (\<lambda>k c. c @ [k]) ks []) (\<lambda>m.
     io_bind (send_all e (map (\<lambda>(s, ks). (s, ''SINTER'' # ks)) m)) (\<lambda>_.
     io_bind (intersect_replies e (map fst m) 0 out) (\<lambda>out. io_return (int (length out), out))))"

definition redis_sinterstore :: "'s client_env \<Rightarrow> string \<Rightarrow> string list \<Rightarrow> ('s, int) client_io" where
  "redis_sinterstore e dst ks = io_bind (get_socket e dst) (\<lambda>s. io_bind (get_socket_of_all e ks) (\<lambda>src.
     if s \<noteq> src then io_bind (redis_sinter e ks []) (\<lambda>(_, content). io_bind (redis_del e dst) (\<lambda>_.
       io_bind (io_each (\<lambda>v. io_bind (redis_sadd e dst v) (\<lambda>_. io_return ())) content) (\<lambda>_.
       io_return (int (length content)))))
     else request e (''SINTERSTORE'' # dst # ks) (cl_int e) s))"

definition redis_sunion :: "'s client_env \<Rightarrow> string list \<Rightarrow> string list \<Rightarrow> ('s, int \<times> string list) client_io" where
  "redis_sunion e ks out = io_bind (get_socket_of_all e ks) (\<lambda>s.
     if s = - 1 then
       io_bind (by_socket (get_socket e) [''SUNION''] (\<lambda>k c. c @ [k]) ks []) (\<lambda>m.
       io_bind (send_all e m) (\<lambda>_.
       io_bind (io_fold (\<lambda>(s, _) out. io_bind (cl_set e out s) (\<lambda>(_, out). io_return out)) m out) (\<lambda>out.
       io_return (int (length out), out))))
     else request e (''SUNION'' # ks) (cl_set e out) s)"

definition redis_sunionstore :: "'s client_env \<Rightarrow> string \<Rightarrow> string list \<Rightarrow> ('s, int) client_io" where
  "redis_sunionstore e dst ks = io_bind (get_socket e dst) (\<lambda>s. io_bind (get_socket_of_all e ks) (\<lambda>src.
     if s \<noteq> src then io_bind (redis_sunion e ks []) (\<lambda>(_, content). io_bind (redis_del e dst) (\<lambda>_.
       redis_sadd_range e dst content))
     else request e (''SUNIONSTORE'' # dst # ks) (cl_int e) s))"

definition redis_sdiff :: "'s client_env \<Rightarrow> string list \<Rightarrow> string list \<Rightarrow> ('s, int \<times> string list) client_io" where
  "redis_sdiff e ks out = io_bind (get_socket_of_all e ks) (request e (''SDIFF'' # ks) (cl_set e out))"

definition redis_sdiffstore :: "'s client_env \<Rightarrow> string \<Rightarrow> string list \<Rightarrow> ('s, int) client_io" where
  "redis_sdiffstore e dst ks = io_bind (get_socket e dst) (\<lambda>s. io_bind (get_socket_of_all e ks) (\<lambda>src.
     if s \<noteq> src then io_throw Runtime_error
     else request e (''SDIFFSTORE'' # dst # ks) (cl_int e) s))"

text \<open>\<open>srandmember\<close> sends the command that also removes the member.\<close>

definition redis_srandmember :: "'s client_env \<Rightarrow> string \<Rightarrow> ('s, string) client_io" where
  "redis_srandmember e k = keyed e k [''SPOP'', k] (cl_bulk e)"

section \<open>Sorted sets\<close>

definition redis_zadd :: "'s client_env \<Rightarrow> string \<Rightarrow> double \<Rightarrow> string \<Rightarrow> ('s, unit) client_io" where
  "redis_zadd e k score v = keyed e k [''ZADD'', k, ce_of_double e score, v] (cl_int_ok e)"

definition redis_zadd_pair :: "'s client_env \<Rightarrow> string \<Rightarrow> string \<times> double \<Rightarrow> ('s, unit) client_io" where
  "redis_zadd_pair e k p = redis_zadd e k (snd p) (fst p)"

definition redis_zrem :: "'s client_env \<Rightarrow> string \<Rightarrow> string \<Rightarrow> ('s, unit) client_io" where
  "redis_zrem e k v = keyed e k [''ZREM'', k, v] (cl_int_ok e)"

definition to_double :: "'s client_env \<Rightarrow> string \<Rightarrow> ('s, double) client_io" where
  "to_double e s = io_get Bad_lexical_cast (bt_to_double (ce_boost e) s)"

definition redis_zincrby :: "'s client_env \<Rightarrow> string \<Rightarrow> string \<Rightarrow> double \<Rightarrow> ('s, double) client_io" where
  "redis_zincrby e k v by = io_bind (keyed e k [''ZINCRBY'', k, ce_of_double e by, v] (cl_bulk e)) (to_double e)"

definition redis_zrank :: "'s client_env \<Rightarrow> string \<Rightarrow> string \<Rightarrow> ('s, int) client_io" where
  "redis_zrank e k v = keyed e k [''ZRANK'', k, v] (cl_int e)"

text \<open>The rank is an integer already; it is cast to an integer once more, which changes nothing.\<close>

definition redis_zrevrank :: "'s client_env \<Rightarrow> string \<Rightarrow> string \<Rightarrow> ('s, int) client_io" where
  "redis_zrevrank e k v = keyed e k [''ZREVRANK'', k, v] (cl_int e)"

definition redis_zrange :: "'s client_env \<Rightarrow> string \<Rightarrow> int \<Rightarrow> int \<Rightarrow> string list \<Rightarrow> ('s, string list) client_io" where
  "redis_zrange e k start stop out =
     io_bind (keyed e k [''ZRANGE'', k, long_text e start, long_text e stop] (cl_multi e out)) (\<lambda>(_, out). io_return out)"

text \<open>Members and scores take turns in the reply.\<close>

fun score_pairs :: "'s client_env \<Rightarrow> string list \<Rightarrow> (string \<times> double) list \<Rightarrow> ('s, (string \<times> double) list) client_io" where
  "score_pairs e (v # s # vs) out = io_bind (to_double e s) (\<lambda>score. score_pairs e vs (out @ [(v, score)]))"
| "score_pairs e _ out = io_return out"

definition convert_scores :: "'s client_env \<Rightarrow> string list \<Rightarrow> (string \<times> double) list \<Rightarrow> ('s, (string \<times> double) list) client_io" where
  "convert_scores e inp out = (if odd (length inp) then io_stop (Stuck AssertionFailed) else score_pairs e inp out)"

definition redis_zrange_scores :: "'s client_env \<Rightarrow> string \<Rightarrow> int \<Rightarrow> int \<Rightarrow> (string \<times> double) list \<Rightarrow>
    ('s, (string \<times> double) list) client_io" where
  "redis_zrange_scores e k start stop out =
     io_bind (keyed e k [''ZRANGE'', k, long_text e start, long_text e stop, ''WITHSCORES''] (cl_multi e [])) (\<lambda>(_, res).
     convert_scores e res out)"

definition redis_zrevrange :: "'s client_env \<Rightarrow> string \<Rightarrow> int \<Rightarrow> int \<Rightarrow> string list \<Rightarrow> ('s, string list) client_io" where
  "redis_zrevrange e k start stop out =
     io_bind (keyed e k [''ZREVRANGE'', k, long_text e start, long_text e stop] (cl_multi e out)) (\<lambda>(_, out). io_return out)"

definition redis_zrevrange_scores :: "'s client_env \<Rightarrow> string \<Rightarrow> int \<Rightarrow> int \<Rightarrow> (string \<times> double) list \<Rightarrow>
    ('s, (string \<times> double) list) client_io" where
  "redis_zrevrange_scores e k start stop out =
     io_bind (keyed e k [''ZREVRANGE'', k, long_text e start, long_text e stop, ''WITHSCORES''] (cl_multi e [])) (\<lambda>(_, res).
     convert_scores e res out)"

text \<open>The flags of a range, \<open>exclude_min\<close> and \<open>exclude_max\<close>, are the two lowest bits.\<close>

definition range_bound :: "'s client_env \<Rightarrow> u32 \<Rightarrow> nat \<Rightarrow> double \<Rightarrow> string" where
  "range_bound e flags i x = (if bit flags i then ''('' else []) @ ce_of_double e x"

text \<open>The parameter that asks for scores is not used.\<close>

definition redis_zrangebyscore_base :: "'s client_env \<Rightarrow> bool \<Rightarrow> string \<Rightarrow> double \<Rightarrow> double \<Rightarrow> string list \<Rightarrow> int \<Rightarrow> int \<Rightarrow>
    u32 \<Rightarrow> ('s, string list) client_io" where
  "redis_zrangebyscore_base e withscores k lo hi out offset max_count flags =
     io_bind (keyed e k ([''ZRANGEBYSCORE'', k, range_bound e flags 0 lo, range_bound e flags 1 hi] @
       (if max_count \<noteq> - 1 \<or> offset > 0 then [''LIMIT'', long_text e offset, long_text e max_count] else []))
       (cl_multi e out)) (\<lambda>(_, out). io_return out)"

definition redis_zrangebyscore :: "'s client_env \<Rightarrow> string \<Rightarrow> double \<Rightarrow> double \<Rightarrow> string list \<Rightarrow> int \<Rightarrow> int \<Rightarrow> u32 \<Rightarrow>
    ('s, string list) client_io" where
  "redis_zrangebyscore e k lo hi out offset max_count flags =
     redis_zrangebyscore_base e False k lo hi out offset max_count flags"

definition redis_zrangebyscore_scores :: "'s client_env \<Rightarrow> string \<Rightarrow> double \<Rightarrow> double \<Rightarrow> (string \<times> double) list \<Rightarrow>
    int \<Rightarrow> int \<Rightarrow> u32 \<Rightarrow> ('s, (string \<times> double) list) client_io" where
  "redis_zrangebyscore_scores e k lo hi out offset max_count flags =
     io_bind (redis_zrangebyscore_base e True k lo hi [] offset max_count flags) (\<lambda>res. convert_scores e res out)"

definition redis_zcount :: "'s client_env \<Rightarrow> string \<Rightarrow> double \<Rightarrow> double \<Rightarrow> u32 \<Rightarrow> ('s, int) client_io" where
  "redis_zcount e k lo hi flags =
     keyed e k [''ZCOUNT'', k, range_bound e flags 0 lo, range_bound e flags 1 hi] (cl_int e)"

definition redis_zremrangebyrank :: "'s client_env \<Rightarrow> string \<Rightarrow> int \<Rightarrow> int \<Rightarrow> ('s, int) client_io" where
  "redis_zremrangebyrank e k start stop =
     keyed e k [''ZREMRANGEBYRANK'', k, long_text e start, long_text e stop] (cl_int e)"

definition redis_zremrangebyscore :: "'s client_env \<Rightarrow> string \<Rightarrow> double \<Rightarrow> double \<Rightarrow> ('s, int) client_io" where
  "redis_zremrangebyscore e k lo hi =
     keyed e k [''ZREMRANGEBYSCORE'', k, ce_of_double e lo, ce_of_double e hi] (cl_int e)"

definition redis_zcard :: "'s client_env \<Rightarrow> string \<Rightarrow> ('s, int) client_io" where
  "redis_zcard e k = keyed e k [''ZCARD'', k] (cl_int e)"

definition redis_zscore :: "'s client_env \<Rightarrow> string \<Rightarrow> string \<Rightarrow> ('s, double) client_io" where
  "redis_zscore e k v = io_bind (keyed e k [''ZSCORE'', k, v] (cl_bulk e)) (to_double e)"

datatype aggregate_type = aggregate_sum | aggregate_min | aggregate_max

definition aggregate_text :: "aggregate_type \<Rightarrow> string" where
  "aggregate_text a = (case a of aggregate_sum \<Rightarrow> ''SUM'' | aggregate_min \<Rightarrow> ''MIN'' | aggregate_max \<Rightarrow> ''MAX'')"

definition zstore_args :: "'s client_env \<Rightarrow> string \<Rightarrow> string list \<Rightarrow> double list \<Rightarrow> aggregate_type \<Rightarrow> string list" where
  "zstore_args e dst ks weights a = [dst, long_text e (int (length ks))] @ ks @
     (if weights = [] then [] else ''WEIGHTS'' # map (ce_of_double e) weights) @ [''AGGREGATE'', aggregate_text a]"

definition redis_zunionstore :: "'s client_env \<Rightarrow> string \<Rightarrow> string list \<Rightarrow> double list \<Rightarrow> aggregate_type \<Rightarrow> ('s, int) client_io" where
  "redis_zunionstore e dst ks weights a = io_bind (get_socket e dst) (\<lambda>d. io_bind (get_socket_of_all e ks) (\<lambda>s.
     if s \<noteq> d then io_throw Runtime_error
     else if weights \<noteq> [] \<and> length ks \<noteq> length weights then io_stop (Stuck AssertionFailed)
     else request e (''ZUNIONSTORE'' # zstore_args e dst ks weights a) (cl_int e) s))"

definition redis_zinterstore :: "'s client_env \<Rightarrow> string \<Rightarrow> string list \<Rightarrow> double list \<Rightarrow> aggregate_type \<Rightarrow> ('s, int) client_io" where
  "redis_zinterstore e dst ks weights a = io_bind (get_socket e dst) (\<lambda>d. io_bind (get_socket_of_all e ks) (\<lambda>s.
     if s \<noteq> d then io_throw Runtime_error
     else if weights \<noteq> [] \<and> length ks \<noteq> length weights then io_stop (Stuck AssertionFailed)
     else request e (''ZINTERSTORE'' # zstore_args e dst ks weights a) (cl_int e) s))"

section \<open>Hashes\<close>

definition redis_hset :: "'s client_env \<Rightarrow> string \<Rightarrow> string \<Rightarrow> string \<Rightarrow> ('s, bool) client_io" where
  "redis_hset e k f v = keyed e k [''HSET'', k, f, v] (cl_one e)"

definition redis_hget :: "'s client_env \<Rightarrow> string \<Rightarrow> string \<Rightarrow> ('s, string) client_io" where
  "redis_hget e k f = keyed e k [''HGET'', k, f] (cl_bulk e)"

definition redis_hsetnx :: "'s client_env \<Rightarrow> string \<Rightarrow> string \<Rightarrow> string \<Rightarrow> ('s, bool) client_io" where
  "redis_hsetnx e k f v = keyed e k [''HSETNX'', k, f, v] (cl_one e)"

definition redis_hmset :: "'s client_env \<Rightarrow> string \<Rightarrow> string list \<Rightarrow> string list \<Rightarrow> ('s, unit) client_io" where
  "redis_hmset e k fs vs = io_bind (get_socket e k) (\<lambda>s.
     if length fs \<noteq> length vs then io_stop (Stuck AssertionFailed)
     else request e (''HMSET'' # k # concat (map (\<lambda>(f, v). [f, v]) (zip fs vs))) (cl_ok e) s)"

definition redis_hmset_pairs :: "'s client_env \<Rightarrow> string \<Rightarrow> (string \<times> string) list \<Rightarrow> ('s, unit) client_io" where
  "redis_hmset_pairs e k fvs = keyed e k (''HMSET'' # k # concat (map (\<lambda>(f, v). [f, v]) fvs)) (cl_ok e)"

definition redis_hmget :: "'s client_env \<Rightarrow> string \<Rightarrow> string list \<Rightarrow> string list \<Rightarrow> ('s, string list) client_io" where
  "redis_hmget e k fs out = io_bind (keyed e k (''HMGET'' # k # fs) (cl_multi e out)) (\<lambda>(_, out). io_return out)"

definition redis_hincrby :: "'s client_env \<Rightarrow> string \<Rightarrow> string \<Rightarrow> int \<Rightarrow> ('s, int) client_io" where
  "redis_hincrby e k f by = keyed e k [''HINCRBY'', k, f, long_text e by] (cl_int e)"

definition redis_hexists :: "'s client_env \<Rightarrow> string \<Rightarrow> string \<Rightarrow> ('s, bool) client_io" where
  "redis_hexists e k f = keyed e k [''HEXISTS'', k, f] (cl_one e)"

definition redis_hdel :: "'s client_env \<Rightarrow> string \<Rightarrow> string \<Rightarrow> ('s, bool) client_io" where
  "redis_hdel e k f = keyed e k [''HDEL'', k, f] (cl_one e)"

definition redis_hlen :: "'s client_env \<Rightarrow> string \<Rightarrow> ('s, int) client_io" where
  "redis_hlen e k = keyed e k [''HLEN'', k] (cl_int e)"

definition redis_hkeys :: "'s client_env \<Rightarrow> string \<Rightarrow> string list \<Rightarrow> ('s, string list) client_io" where
  "redis_hkeys e k out = io_bind (keyed e k [''HKEYS'', k] (cl_multi e out)) (\<lambda>(_, out). io_return out)"

definition redis_hvals :: "'s client_env \<Rightarrow> string \<Rightarrow> string list \<Rightarrow> ('s, string list) client_io" where
  "redis_hvals e k out = io_bind (keyed e k [''HVALS'', k] (cl_multi e out)) (\<lambda>(_, out). io_return out)"

text \<open>Fields and values take turns; a field without a value is read together with what is behind the end.\<close>

fun field_pairs :: "string list \<Rightarrow> (string \<times> string) list \<Rightarrow> ('c, (string \<times> string) list) io" where
  "field_pairs [] out = io_return out"
| "field_pairs (f # v # s) out = field_pairs s (out @ [(f, v)])"
| "field_pairs [f] out = io_stop (Stuck OutOfRange)"

definition redis_hgetall :: "'s client_env \<Rightarrow> string \<Rightarrow> (string \<times> string) list \<Rightarrow> ('s, (string \<times> string) list) client_io" where
  "redis_hgetall e k out = io_bind (keyed e k [''HGETALL'', k] (cl_multi e [])) (\<lambda>(_, s). field_pairs s out)"

end
