(* ===== verification/RedisServer.thy ===== *)
theory RedisServer
  imports RedisCollections
begin

text \<open>
  The operations of the client on databases and servers, and the text of \<open>INFO\<close>
  (\<open>src/src/libs/redis/redisclient.h\<close>), in the order of the file.
\<close>

section \<open>Databases\<close>

definition redis_select :: "'s client_env \<Rightarrow> int \<Rightarrow> ('s, unit) client_io" where
  "redis_select e n cl =
     io_bind (io_each (\<lambda>s. send_to e s (makecmd [''SELECT'', long_text e n])) (sockets cl)) (\<lambda>_.
     io_each (\<lambda>i. io_bind (on_con (Own_con i) (cl_ok e)) (\<lambda>_ cl. (Inr (), set_dbindex i n cl)))
       [0..<length (cl_connections cl)]) cl"

definition redis_move :: "'s client_env \<Rightarrow> string \<Rightarrow> int \<Rightarrow> ('s, unit) client_io" where
  "redis_move e k n = keyed e k [''MOVE'', k, long_text e n] (cl_int_ok e)"

text \<open>A command that every server answers.\<close>

definition on_every :: "'s client_env \<Rightarrow> string \<Rightarrow> (int \<Rightarrow> ('s, unit) client_io) \<Rightarrow> ('s, unit) client_io" where
  "on_every e c reply cl =
     io_bind (io_each (\<lambda>s. send_to e s (makecmd [c])) (sockets cl)) (\<lambda>_. io_each reply (sockets cl)) cl"

definition redis_flushdb :: "'s client_env \<Rightarrow> ('s, unit) client_io" where
  "redis_flushdb e = on_every e ''FLUSHDB'' (cl_ok e)"

definition redis_flushdb_con :: "'s client_env \<Rightarrow> con_ref \<Rightarrow> ('s, unit) client_io" where
  "redis_flushdb_con e r = on_con r (request e [''FLUSHDB''] (cl_ok e))"

definition redis_flushall :: "'s client_env \<Rightarrow> ('s, unit) client_io" where
  "redis_flushall e cl =
     (if 1 < length (cl_connections cl) then (Inl (Throws Runtime_error), cl)
      else on_con (Own_con 0) (request e [''FLUSHALL''] (cl_ok e)) cl)"

definition redis_flushall_con :: "'s client_env \<Rightarrow> con_ref \<Rightarrow> ('s, unit) client_io" where
  "redis_flushall_con e r = on_con r (request e [''FLUSHALL''] (cl_ok e))"

datatype sort_order = sort_order_ascending | sort_order_descending

definition order_args :: "sort_order \<Rightarrow> bool \<Rightarrow> string list" where
  "order_args order lexicographically =
     (if order = sort_order_ascending then ''ASC'' else ''DESC'') # (if lexicographically then [''ALPHA''] else [])"

definition redis_sort :: "'s client_env \<Rightarrow> string \<Rightarrow> string list \<Rightarrow> sort_order \<Rightarrow> bool \<Rightarrow> ('s, int \<times> string list) client_io" where
  "redis_sort e k out order lexicographically =
     keyed e k (''SORT'' # k # order_args order lexicographically) (cl_multi e out)"

definition redis_sort_by :: "'s client_env \<Rightarrow> string \<Rightarrow> string list \<Rightarrow> string \<Rightarrow> int \<Rightarrow> int \<Rightarrow> string list \<Rightarrow> sort_order \<Rightarrow> bool \<Rightarrow>
    ('s, int \<times> string list) client_io" where
  "redis_sort_by e k out by_pattern limit_start limit_end get_patterns order lexicographically =
     keyed e k ([''SORT'', k, ''BY'', by_pattern, ''LIMIT'', long_text e limit_start, long_text e limit_end] @
       concat (map (\<lambda>g. [''GET'', g]) get_patterns) @ order_args order lexicographically) (cl_multi e out)"

section \<open>Servers\<close>

definition redis_save :: "'s client_env \<Rightarrow> ('s, unit) client_io" where
  "redis_save e = on_every e ''SAVE'' (cl_ok e)"

definition redis_save_con :: "'s client_env \<Rightarrow> con_ref \<Rightarrow> ('s, unit) client_io" where
  "redis_save_con e r = on_con r (request e [''SAVE''] (cl_ok e))"

definition recv_started :: "'s client_env \<Rightarrow> int \<Rightarrow> ('s, unit) client_io" where
  "recv_started e s = io_bind (cl_line e s) (\<lambda>reply.
     if reply \<noteq> ''OK'' \<and> reply \<noteq> ''Background saving started'' then io_throw Protocol_error else io_return ())"

definition redis_bgsave :: "'s client_env \<Rightarrow> ('s, unit) client_io" where
  "redis_bgsave e = on_every e ''BGSAVE'' (recv_started e)"

definition redis_bgsave_con :: "'s client_env \<Rightarrow> con_ref \<Rightarrow> ('s, unit) client_io" where
  "redis_bgsave_con e r = on_con r (request e [''BGSAVE''] (recv_started e))"

definition redis_lastsave :: "'s client_env \<Rightarrow> ('s, int) client_io" where
  "redis_lastsave e cl =
     io_fold (\<lambda>s res. io_bind (request e [''LASTSAVE''] (cl_int e) s) (\<lambda>cur.
       io_return (if res > 0 then min cur res else cur))) (sockets cl) 0 cl"

definition redis_lastsave_con :: "'s client_env \<Rightarrow> con_ref \<Rightarrow> ('s, int) client_io" where
  "redis_lastsave_con e r = on_con r (request e [''LASTSAVE''] (cl_int e))"

text \<open>A server that shuts down closes the connection instead of answering.\<close>

definition recv_goodbye :: "'s client_env \<Rightarrow> int \<Rightarrow> ('s, unit) client_io" where
  "recv_goodbye e s = io_catch Connection_error (io_return ()) (cl_ok e s)"

definition redis_shutdown :: "'s client_env \<Rightarrow> ('s, unit) client_io" where
  "redis_shutdown e cl = io_each (request e [''SHUTDOWN''] (recv_goodbye e)) (sockets cl) cl"

definition redis_shutdown_con :: "'s client_env \<Rightarrow> con_ref \<Rightarrow> ('s, unit) client_io" where
  "redis_shutdown_con e r = on_con r (request e [''SHUTDOWN''] (recv_goodbye e))"

definition redis_publish :: "'s client_env \<Rightarrow> string \<Rightarrow> string \<Rightarrow> ('s, int) client_io" where
  "redis_publish e channel msg = keyed e channel [''PUBLISH'', channel, msg] (cl_int e)"

section \<open>Information about a server\<close>

datatype server_role = role_master | role_slave

record server_info =
  si_version :: string
  si_bgsave_in_progress :: bool
  si_connected_clients :: int
  si_connected_slaves :: int
  si_used_memory :: int
  si_changes_since_last_save :: int
  si_last_save_time :: int
  si_total_connections_received :: int
  si_total_commands_processed :: int
  si_uptime_in_seconds :: int
  si_uptime_in_days :: int
  si_role :: server_role
  si_arch_bits :: int
  si_multiplexing_api :: string
  si_param_map :: "string \<rightharpoonup> string"

text \<open>\<open>getline\<close> finds no field after a separator at the end.\<close>

definition redis_split :: "string \<Rightarrow> char \<Rightarrow> string list" where
  "redis_split s delim = (let fs = split_fields delim s in if last fs = [] then butlast fs else fs)"

definition REDIS_WHITESPACE :: string where
  "REDIS_WHITESPACE = '' '' @ [CHR 0x0C, CHR 0x0A, CHR 0x0D, CHR 0x09, CHR 0x0B]"

definition split_lines :: "string \<Rightarrow> string list" where
  "split_lines s = map (rtrim REDIS_WHITESPACE) (redis_split s LF)"

definition cast_ulong :: "(c_int \<Rightarrow> string \<Rightarrow> int option) \<Rightarrow> string \<Rightarrow> redis_error + int" where
  "cast_ulong cast v = (case cast (Unsigned 64) v of None \<Rightarrow> Inl Bad_lexical_cast | Some n \<Rightarrow> Inr n)"

definition cast_ushort :: "(c_int \<Rightarrow> string \<Rightarrow> int option) \<Rightarrow> string \<Rightarrow> redis_error + int" where
  "cast_ushort cast v = (case cast (Unsigned 16) v of None \<Rightarrow> Inl Bad_lexical_cast | Some n \<Rightarrow> Inr n)"

definition info_entry :: "(c_int \<Rightarrow> string \<Rightarrow> int option) \<Rightarrow> string \<Rightarrow> string \<Rightarrow> server_info \<Rightarrow> redis_error + server_info" where
  "info_entry cast k v out =
     (if k = ''redis_version'' then Inr (out\<lparr>si_version := v\<rparr>)
      else if k = ''bgsave_in_progress'' then map_sum id (\<lambda>n. out\<lparr>si_bgsave_in_progress := n = 1\<rparr>) (cast_ulong cast v)
      else if k = ''connected_clients'' then map_sum id (\<lambda>n. out\<lparr>si_connected_clients := n\<rparr>) (cast_ulong cast v)
      else if k = ''connected_slaves'' then map_sum id (\<lambda>n. out\<lparr>si_connected_slaves := n\<rparr>) (cast_ulong cast v)
      else if k = ''used_memory'' then map_sum id (\<lambda>n. out\<lparr>si_used_memory := n\<rparr>) (cast_ulong cast v)
      else if k = ''changes_since_last_save'' then map_sum id (\<lambda>n. out\<lparr>si_changes_since_last_save := n\<rparr>) (cast_ulong cast v)
      else if k = ''last_save_time'' then map_sum id (\<lambda>n. out\<lparr>si_last_save_time := n\<rparr>) (cast_ulong cast v)
      else if k = ''total_connections_received'' then map_sum id (\<lambda>n. out\<lparr>si_total_connections_received := n\<rparr>) (cast_ulong cast v)
      else if k = ''total_commands_processed'' then map_sum id (\<lambda>n. out\<lparr>si_total_commands_processed := n\<rparr>) (cast_ulong cast v)
      else if k = ''uptime_in_seconds'' then map_sum id (\<lambda>n. out\<lparr>si_uptime_in_seconds := n\<rparr>) (cast_ulong cast v)
      else if k = ''uptime_in_days'' then map_sum id (\<lambda>n. out\<lparr>si_uptime_in_days := n\<rparr>) (cast_ulong cast v)
      else if k = ''role'' then Inr (out\<lparr>si_role := if v = ''master'' then role_master else role_slave\<rparr>)
      else if k = ''arch_bits'' then map_sum id (\<lambda>n. out\<lparr>si_arch_bits := n\<rparr>) (cast_ushort cast v)
      else if k = ''multiplexing_api'' then Inr (out\<lparr>si_multiplexing_api := v\<rparr>)
      else Inr out)"

fun info_lines :: "(c_int \<Rightarrow> string \<Rightarrow> int option) \<Rightarrow> string list \<Rightarrow> server_info \<Rightarrow> redis_error + server_info" where
  "info_lines cast [] out = Inr out"
| "info_lines cast (line # ls) out =
     (if line = [] \<or> hd line = CHR ''#'' then info_lines cast ls out
      else case redis_split line (CHR '':'') of
        [k, v] \<Rightarrow> (case info_entry cast k v (out\<lparr>si_param_map := (si_param_map out)(k \<mapsto> v)\<rparr>) of
            Inl e \<Rightarrow> Inl e | Inr out \<Rightarrow> info_lines cast ls out)
      | _ \<Rightarrow> Inl Protocol_error)"

definition parse_info :: "(c_int \<Rightarrow> string \<Rightarrow> int option) \<Rightarrow> string \<Rightarrow> server_info \<Rightarrow> redis_error + server_info" where
  "parse_info cast response out =
     (if response = [] then Inl Protocol_error
      else if split_lines response = [] then Inl Protocol_error
      else info_lines cast (split_lines response) out)"

definition redis_info_con :: "'s client_env \<Rightarrow> con_ref \<Rightarrow> server_info \<Rightarrow> ('s, server_info) client_io" where
  "redis_info_con e r out = io_bind (on_con r (request e [''INFO''] (cl_bulk e))) (\<lambda>response.
     case parse_info (ce_cast e) response out of Inl err \<Rightarrow> io_throw err | Inr out \<Rightarrow> io_return out)"

definition redis_info :: "'s client_env \<Rightarrow> server_info \<Rightarrow> ('s, server_info) client_io" where
  "redis_info e out = redis_info_con e (Own_con 0) out"

end
