(* ===== verification/RedisObjects.thy ===== *)
theory RedisObjects
  imports RedisServer
begin

text \<open>
  The objects that stand for one key of the store: \<open>distributed_value\<close> and its subclasses in
  \<open>src/src/libs/redis/redisclient.h\<close>. An object is its key; the client it points to is the state of the
  operations. An operation that may change the key returns the object.
\<close>

section \<open>Values\<close>

record distributed_value =
  dv_key :: string

definition new_distributed_value :: "string \<Rightarrow> distributed_value" where
  "new_distributed_value k = \<lparr>dv_key = k\<rparr>"

definition dv_exists :: "'s client_env \<Rightarrow> distributed_value \<Rightarrow> ('s, bool) client_io" where
  "dv_exists e d = redis_exists e (dv_key d)"

definition dv_del :: "'s client_env \<Rightarrow> distributed_value \<Rightarrow> ('s, unit) client_io" where
  "dv_del e d = io_bind (redis_del e (dv_key d)) (\<lambda>_. io_return ())"

definition dv_rename :: "'s client_env \<Rightarrow> string \<Rightarrow> distributed_value \<Rightarrow> ('s, distributed_value) client_io" where
  "dv_rename e new d = io_bind (redis_rename e (dv_key d) new) (\<lambda>_. io_return (d\<lparr>dv_key := new\<rparr>))"

definition dv_renamenx :: "'s client_env \<Rightarrow> string \<Rightarrow> distributed_value \<Rightarrow> ('s, bool \<times> distributed_value) client_io" where
  "dv_renamenx e new d = io_bind (redis_renamenx e (dv_key d) new) (\<lambda>ok.
     if ok then io_return (True, d\<lparr>dv_key := new\<rparr>) else io_return (False, d))"

definition dv_expire :: "'s client_env \<Rightarrow> u32 \<Rightarrow> distributed_value \<Rightarrow> ('s, unit) client_io" where
  "dv_expire e secs d = redis_expire e (dv_key d) secs"

definition dv_ttl :: "'s client_env \<Rightarrow> distributed_value \<Rightarrow> ('s, int) client_io" where
  "dv_ttl e d = redis_ttl e (dv_key d)"

definition dv_move :: "'s client_env \<Rightarrow> int \<Rightarrow> distributed_value \<Rightarrow> ('s, unit) client_io" where
  "dv_move e n d = redis_move e (dv_key d) n"

definition dv_type :: "'s client_env \<Rightarrow> distributed_value \<Rightarrow> ('s, redis_datatype) client_io" where
  "dv_type e d = redis_type e (dv_key d)"

section \<open>Strings\<close>

definition ds_setnx :: "'s client_env \<Rightarrow> string \<Rightarrow> distributed_value \<Rightarrow> ('s, bool) client_io" where
  "ds_setnx e v d = redis_setnx e (dv_key d) v"

definition new_distributed_string :: "'s client_env \<Rightarrow> string \<Rightarrow> string \<Rightarrow> ('s, distributed_value) client_io" where
  "new_distributed_string e k default_value =
     (let d = new_distributed_value k in io_bind (ds_setnx e default_value d) (\<lambda>_. io_return d))"

definition ds_str :: "'s client_env \<Rightarrow> distributed_value \<Rightarrow> ('s, string) client_io" where
  "ds_str e d = redis_get e (dv_key d)"

definition ds_assign :: "'s client_env \<Rightarrow> string \<Rightarrow> distributed_value \<Rightarrow> ('s, unit) client_io" where
  "ds_assign e v d = redis_set e (dv_key d) v"

definition ds_assign_string :: "'s client_env \<Rightarrow> distributed_value \<Rightarrow> distributed_value \<Rightarrow> ('s, unit) client_io" where
  "ds_assign_string e other d =
     (if dv_key d \<noteq> dv_key other then io_bind (ds_str e other) (\<lambda>v. ds_assign e v d) else io_return ())"

definition ds_getset :: "'s client_env \<Rightarrow> string \<Rightarrow> distributed_value \<Rightarrow> ('s, string) client_io" where
  "ds_getset e v d = redis_getset e (dv_key d) v"

definition ds_setex :: "'s client_env \<Rightarrow> string \<Rightarrow> u32 \<Rightarrow> distributed_value \<Rightarrow> ('s, unit) client_io" where
  "ds_setex e v secs d = redis_setex e (dv_key d) v secs"

definition ds_append :: "'s client_env \<Rightarrow> string \<Rightarrow> distributed_value \<Rightarrow> ('s, int) client_io" where
  "ds_append e v d = redis_append e (dv_key d) v"

definition ds_append_assign :: "'s client_env \<Rightarrow> string \<Rightarrow> distributed_value \<Rightarrow> ('s, unit) client_io" where
  "ds_append_assign e v d = io_bind (ds_append e v d) (\<lambda>_. io_return ())"

definition ds_substr :: "'s client_env \<Rightarrow> int \<Rightarrow> int \<Rightarrow> distributed_value \<Rightarrow> ('s, string) client_io" where
  "ds_substr e start stop d = redis_substr e (dv_key d) start stop"

definition ds_equal :: "'s client_env \<Rightarrow> distributed_value \<Rightarrow> string \<Rightarrow> ('s, bool) client_io" where
  "ds_equal e d s = io_bind (ds_str e d) (\<lambda>v. io_return (v = s))"

definition ds_unequal :: "'s client_env \<Rightarrow> distributed_value \<Rightarrow> string \<Rightarrow> ('s, bool) client_io" where
  "ds_unequal e d s = io_bind (ds_str e d) (\<lambda>v. io_return (v \<noteq> s))"

text \<open>The stream operators write the value, and assign the next word of the stream.\<close>

definition ds_insert :: "'s client_env \<Rightarrow> string \<Rightarrow> distributed_value \<Rightarrow> ('s, string) client_io" where
  "ds_insert e os d = io_bind (ds_str e d) (\<lambda>v. io_return (os @ v))"

definition ds_extract :: "'s client_env \<Rightarrow> (string \<Rightarrow> string \<times> string) \<Rightarrow> string \<Rightarrow> distributed_value \<Rightarrow> ('s, string) client_io" where
  "ds_extract e next_word is d = (case next_word is of (s_val, rest) \<Rightarrow> io_bind (ds_assign e s_val d) (\<lambda>_. io_return rest))"

section \<open>Integers\<close>

text \<open>
  The objects of an integer type \<open>t\<close>. Arithmetic of the postfix operators is at that type; signed overflow
  has no value in C++ and unsigned arithmetic wraps.
\<close>

definition wrap_type :: "c_int \<Rightarrow> int \<Rightarrow> int" where
  "wrap_type t n = (case t of Signed _ \<Rightarrow> n | Unsigned b \<Rightarrow> n mod 2 ^ b)"

definition di_setnx :: "'s client_env \<Rightarrow> int \<Rightarrow> distributed_value \<Rightarrow> ('s, bool) client_io" where
  "di_setnx e n d = redis_setnx e (dv_key d) (long_text e n)"

definition new_distributed_int :: "'s client_env \<Rightarrow> string \<Rightarrow> int \<Rightarrow> ('s, distributed_value) client_io" where
  "new_distributed_int e k default_value =
     (let d = new_distributed_value k in io_bind (di_setnx e default_value d) (\<lambda>_. io_return d))"

definition di_assign :: "'s client_env \<Rightarrow> int \<Rightarrow> distributed_value \<Rightarrow> ('s, unit) client_io" where
  "di_assign e n d = redis_set e (dv_key d) (long_text e n)"

definition to_int_type :: "'s client_env \<Rightarrow> c_int \<Rightarrow> string \<Rightarrow> ('s, int) client_io" where
  "to_int_type e t v = io_get Value_error (ce_cast e t v)"

definition di_to_int :: "'s client_env \<Rightarrow> c_int \<Rightarrow> distributed_value \<Rightarrow> ('s, int) client_io" where
  "di_to_int e t d = io_bind (redis_get e (dv_key d)) (to_int_type e t)"

definition di_assign_int :: "'s client_env \<Rightarrow> c_int \<Rightarrow> distributed_value \<Rightarrow> distributed_value \<Rightarrow> ('s, unit) client_io" where
  "di_assign_int e t other d =
     (if dv_key d \<noteq> dv_key other then io_bind (di_to_int e t other) (\<lambda>n. di_assign e n d) else io_return ())"

definition di_setex :: "'s client_env \<Rightarrow> int \<Rightarrow> u32 \<Rightarrow> distributed_value \<Rightarrow> ('s, unit) client_io" where
  "di_setex e n secs d = redis_setex e (dv_key d) (long_text e n) secs"

definition di_pre_incr :: "'s client_env \<Rightarrow> c_int \<Rightarrow> distributed_value \<Rightarrow> ('s, int) client_io" where
  "di_pre_incr e t d = redis_incr_as e t (dv_key d)"

definition di_post_incr :: "'s client_env \<Rightarrow> c_int \<Rightarrow> distributed_value \<Rightarrow> ('s, int) client_io" where
  "di_post_incr e t d = io_bind (redis_incr_as e t (dv_key d)) (\<lambda>n. io_return (wrap_type t (n - 1)))"

definition di_pre_decr :: "'s client_env \<Rightarrow> c_int \<Rightarrow> distributed_value \<Rightarrow> ('s, int) client_io" where
  "di_pre_decr e t d = redis_decr_as e t (dv_key d)"

definition di_post_decr :: "'s client_env \<Rightarrow> c_int \<Rightarrow> distributed_value \<Rightarrow> ('s, int) client_io" where
  "di_post_decr e t d = io_bind (redis_decr_as e t (dv_key d)) (\<lambda>n. io_return (wrap_type t (n + 1)))"

definition di_add :: "'s client_env \<Rightarrow> c_int \<Rightarrow> int \<Rightarrow> distributed_value \<Rightarrow> ('s, int) client_io" where
  "di_add e t n d = redis_incrby_as e t (dv_key d) n"

definition di_subtract :: "'s client_env \<Rightarrow> c_int \<Rightarrow> int \<Rightarrow> distributed_value \<Rightarrow> ('s, int) client_io" where
  "di_subtract e t n d = redis_decrby_as e t (dv_key d) n"

section \<open>Lists\<close>

definition dl_push_back :: "'s client_env \<Rightarrow> string \<Rightarrow> distributed_value \<Rightarrow> ('s, unit) client_io" where
  "dl_push_back e v d = io_bind (redis_rpush e (dv_key d) v) (\<lambda>_. io_return ())"

definition dl_push_front :: "'s client_env \<Rightarrow> string \<Rightarrow> distributed_value \<Rightarrow> ('s, unit) client_io" where
  "dl_push_front e v d = io_bind (redis_lpush e (dv_key d) v) (\<lambda>_. io_return ())"

definition dl_pop_back :: "'s client_env \<Rightarrow> distributed_value \<Rightarrow> ('s, string) client_io" where
  "dl_pop_back e d = redis_rpop e (dv_key d)"

definition dl_blocking_pop_back :: "'s client_env \<Rightarrow> int \<Rightarrow> distributed_value \<Rightarrow> ('s, string) client_io" where
  "dl_blocking_pop_back e timeout d = redis_brpop e (dv_key d) timeout"

definition dl_pop_front :: "'s client_env \<Rightarrow> distributed_value \<Rightarrow> ('s, string) client_io" where
  "dl_pop_front e d = redis_lpop e (dv_key d)"

definition dl_blocking_pop_front :: "'s client_env \<Rightarrow> int \<Rightarrow> distributed_value \<Rightarrow> ('s, string) client_io" where
  "dl_blocking_pop_front e timeout d = redis_blpop e (dv_key d) timeout"

definition dl_size :: "'s client_env \<Rightarrow> distributed_value \<Rightarrow> ('s, nat) client_io" where
  "dl_size e d = io_bind (redis_llen e (dv_key d)) (\<lambda>n. io_return (nat (n mod 2 ^ 64)))"

definition dl_range :: "'s client_env \<Rightarrow> int \<Rightarrow> int \<Rightarrow> distributed_value \<Rightarrow> ('s, string list) client_io" where
  "dl_range e start stop d = io_bind (redis_lrange e (dv_key d) start stop []) (\<lambda>(_, res). io_return res)"

definition dl_to_vector :: "'s client_env \<Rightarrow> distributed_value \<Rightarrow> ('s, string list) client_io" where
  "dl_to_vector e d = dl_range e 0 (- 1) d"

definition dl_trim :: "'s client_env \<Rightarrow> int \<Rightarrow> int \<Rightarrow> distributed_value \<Rightarrow> ('s, unit) client_io" where
  "dl_trim e start stop d = redis_ltrim e (dv_key d) start stop"

definition dl_at :: "'s client_env \<Rightarrow> int \<Rightarrow> distributed_value \<Rightarrow> ('s, string) client_io" where
  "dl_at e i d = redis_lindex e (dv_key d) i"

definition dl_set :: "'s client_env \<Rightarrow> int \<Rightarrow> string \<Rightarrow> distributed_value \<Rightarrow> ('s, unit) client_io" where
  "dl_set e i v d = redis_lset e (dv_key d) i v"

section \<open>Sets\<close>

definition du_insert :: "'s client_env \<Rightarrow> string \<Rightarrow> distributed_value \<Rightarrow> ('s, unit) client_io" where
  "du_insert e v d = io_bind (redis_sadd e (dv_key d) v) (\<lambda>_. io_return ())"

definition du_erase :: "'s client_env \<Rightarrow> string \<Rightarrow> distributed_value \<Rightarrow> ('s, unit) client_io" where
  "du_erase e v d = redis_srem e (dv_key d) v"

definition du_clear :: "'s client_env \<Rightarrow> distributed_value \<Rightarrow> ('s, unit) client_io" where
  "du_clear e d = dv_del e d"

definition du_count :: "'s client_env \<Rightarrow> distributed_value \<Rightarrow> ('s, int) client_io" where
  "du_count e d = redis_scard e (dv_key d)"

definition du_pop_random :: "'s client_env \<Rightarrow> distributed_value \<Rightarrow> ('s, string) client_io" where
  "du_pop_random e d = redis_spop e (dv_key d)"

definition du_get_random :: "'s client_env \<Rightarrow> distributed_value \<Rightarrow> ('s, string) client_io" where
  "du_get_random e d = redis_srandmember e (dv_key d)"

definition du_contains :: "'s client_env \<Rightarrow> string \<Rightarrow> distributed_value \<Rightarrow> ('s, bool) client_io" where
  "du_contains e v d = redis_sismember e (dv_key d) v"

end
