(* ===== verification/ClusterLogic.thy ===== *)
theory ClusterLogic
  imports RedisObjects RedisLaws
begin

text \<open>
  A calculus for the client with several connections against servers that behave as documented. The
  state is seen as a function from sockets to the content of the server there and the reply that is on
  its way; \<open>does\<close> is total correctness of an operation from one such view to another. Its rules are
  the collection \<open>does_rules\<close>.
\<close>

section \<open>The servers\<close>

fun value_text :: "stored option \<Rightarrow> string option" where
  "value_text (Some (Text v)) = Some v"
| "value_text _ = None"

definition is_text :: "stored option \<Rightarrow> bool" where
  "is_text t \<longleftrightarrow> (case t of Some (Texts _) \<Rightarrow> False | _ \<Rightarrow> True)"

fun set_texts :: "string list \<Rightarrow> (string \<rightharpoonup> stored) \<Rightarrow> (string \<rightharpoonup> stored)" where
  "set_texts (k # v # kvs) m = set_texts kvs (m(k \<mapsto> Text v))"
| "set_texts _ m = m"

text \<open>
  What the documentation says of the commands on keys, strings and lists the properties are about. A
  command that is not listed, that has another number of arguments, or that meets a key with a value
  of another kind, is left open.
\<close>

definition store_command :: "string \<Rightarrow> string list \<Rightarrow> (string \<rightharpoonup> stored) \<Rightarrow> (reply \<times> (string \<rightharpoonup> stored)) option" where
  "store_command c args m =
     (if c = ''SET'' \<and> length args = 2 then Some (Status ''OK'', m(args ! 0 \<mapsto> Text (args ! 1)))
      else if c = ''MSET'' \<and> args \<noteq> [] \<and> even (length args) then Some (Status ''OK'', set_texts args m)
      else if c = ''GET'' \<and> length args = 1 \<and> is_text (m (args ! 0)) then
        Some (case value_text (m (args ! 0)) of None \<Rightarrow> Nil | Some v \<Rightarrow> Bulk v, m)
      else if c = ''MGET'' \<and> args \<noteq> [] then Some (Items (map (\<lambda>k. value_text (m k)) args), m)
      else if c = ''SETNX'' \<and> length args = 2 then
        (if m (args ! 0) = None then Some (Integer 1, m(args ! 0 \<mapsto> Text (args ! 1))) else Some (Integer 0, m))
      else if c = ''EXISTS'' \<and> length args = 1 then Some (Integer (if m (args ! 0) = None then 0 else 1), m)
      else if c = ''DEL'' \<and> args \<noteq> [] then
        Some (Integer (int (card {k \<in> set args. m k \<noteq> None})), (\<lambda>k. if k \<in> set args then None else m k))
      else if c = ''TYPE'' \<and> length args = 1 then
        Some (Status (case m (args ! 0) of None \<Rightarrow> ''none'' | Some (Text _) \<Rightarrow> ''string'' | Some (Texts _) \<Rightarrow> ''list''), m)
      else if c = ''RENAME'' \<and> length args = 2 \<and> args ! 0 \<noteq> args ! 1 \<and> m (args ! 0) \<noteq> None then
        Some (Status ''OK'', m(args ! 1 := m (args ! 0), args ! 0 := None))
      else if c = ''RPUSH'' \<and> length args = 2 then
        (case texts_of (m (args ! 0)) of None \<Rightarrow> None
         | Some l \<Rightarrow> Some (Integer (int (length l) + 1), m(args ! 0 \<mapsto> Texts (l @ [args ! 1]))))
      else if c = ''LRANGE'' \<and> length args = 3 \<and> args ! 1 = ''0'' \<and> args ! 2 = ''-1'' then
        (case texts_of (m (args ! 0)) of None \<Rightarrow> None | Some l \<Rightarrow> Some (Items (map Some l), m))
      else None)"

definition stores :: "'s network \<Rightarrow> ('s \<Rightarrow> string \<rightharpoonup> stored) \<Rightarrow> bool" where
  "stores net content \<longleftrightarrow>
     (\<forall>s c args r m. store_command c args (content s) = Some (r, m) \<longrightarrow>
        (\<exists>s'. nt_server net s (makecmd (c # args)) = Some (encode_reply r, s') \<and> content s' = m))"

definition cluster_env :: "'s client_env \<Rightarrow> ('s \<Rightarrow> string \<rightharpoonup> stored) \<Rightarrow> bool" where
  "cluster_env e content \<longleftrightarrow> documented_boost (ce_boost e) \<and> (\<forall>s. stores (ce_net e s) content)"

section \<open>Views\<close>

text \<open>The sockets are numbers of open files: positive and distinct.\<close>

definition good_connections :: "connection_data list \<Rightarrow> bool" where
  "good_connections cs \<longleftrightarrow> cs \<noteq> [] \<and> distinct (map cd_socket cs) \<and> (\<forall>c \<in> set cs. 0 < cd_socket c)"

definition open_in :: "connection_data list \<Rightarrow> int \<Rightarrow> bool" where
  "open_in cs s \<longleftrightarrow> 0 < s \<and> s \<in> set (map cd_socket cs)"

type_synonym view = "int \<Rightarrow> (string \<rightharpoonup> stored) \<times> reply option"

definition on_the_way :: "reply option \<Rightarrow> string" where
  "on_the_way r = (case r of None \<Rightarrow> [] | Some r \<Rightarrow> encode_reply r)"

definition seen :: "('s \<Rightarrow> string \<rightharpoonup> stored) \<Rightarrow> connection_data list \<Rightarrow> 's client \<Rightarrow> view \<Rightarrow> bool" where
  "seen content cs cl v \<longleftrightarrow> cl_connections cl = cs \<and>
     (\<forall>s. open_in cs s \<longrightarrow>
        content (cn_server (cl_wire cl s)) = fst (v s) \<and> cn_input (cl_wire cl s) = on_the_way (snd (v s)))"

definition does :: "('s \<Rightarrow> string \<rightharpoonup> stored) \<Rightarrow> connection_data list \<Rightarrow> ('s, 'a) client_io \<Rightarrow> view \<Rightarrow> 'a \<Rightarrow> view \<Rightarrow> bool" where
  "does content cs m v x v' \<longleftrightarrow>
     (\<forall>cl. seen content cs cl v \<longrightarrow> (\<exists>cl'. m cl = (Inr x, cl') \<and> seen content cs cl' v'))"

named_theorems does_rules

lemma does_return [simp, does_rules]: "does content cs (io_return x) v x v"
  by (simp add: does_def)

lemma does_pair [simp]: "does content cs (Pair (Inr x)) v x v"
  by (simp add: does_def)

lemma does_bind [does_rules]:
  "does content cs m v x v1 \<Longrightarrow> does content cs (f x) v1 y v2 \<Longrightarrow> does content cs (io_bind m f) v y v2"
  unfolding does_def io_bind_def by fastforce

lemma io_bind_assoc: "io_bind (io_bind m f) g = io_bind m (\<lambda>x. io_bind (f x) g)"
  by (simp add: io_bind_def fun_eq_iff split: prod.split sum.split)

lemma doesD: "does content cs m v x v' \<Longrightarrow> seen content cs cl v \<Longrightarrow> \<exists>cl'. m cl = (Inr x, cl') \<and> seen content cs cl' v'"
  by (simp add: does_def)

lemma does_at: "(\<And>cl. cl_connections cl = cs \<Longrightarrow> m cl = m' cl) \<Longrightarrow> does content cs m' v x v' \<Longrightarrow> does content cs m v x v'"
  by (simp add: does_def seen_def)

section \<open>Sockets\<close>

definition socket_of :: "'s client_env \<Rightarrow> connection_data list \<Rightarrow> string \<Rightarrow> int" where
  "socket_of e cs k = cd_socket (cs ! (ce_hash e k mod length cs))"

lemma does_get_socket [does_rules]:
  assumes "good_connections cs"
  shows "does content cs (get_socket e k) v (socket_of e cs k) v"
proof -
  have "get_socket e k cl = (Inr (socket_of e cs k), cl)" if "cl_connections cl = cs" for cl :: "'a client"
    using assms that by (cases "length cs = 1") (simp_all add: get_socket_def socket_of_def default_hasher_def good_connections_def)
  then show ?thesis by (simp add: does_def seen_def)
qed

lemma socket_open: "good_connections cs \<Longrightarrow> open_in cs (socket_of e cs k)"
  by (simp add: good_connections_def socket_of_def open_in_def)

lemma makecmd_nonempty [simp]: "makecmd ps \<noteq> []"
  by (simp add: makecmd_def)

lemma seen_on_wire:
  assumes "seen content cs cl v" "m (cl_wire cl s) = (Inr x, c)"
    "content (cn_server c) = fst w" "cn_input c = on_the_way (snd w)"
  shows "\<exists>cl'. on_wire s m cl = (Inr x, cl') \<and> seen content cs cl' (v(s := w))"
  using assms by (simp add: on_wire_def seen_def)

lemma does_send:
  assumes "cluster_env e content" "open_in cs s" "v s = (m, None)" "store_command c args m = Some (r, m')"
  shows "does content cs (send_to e s (makecmd (c # args))) v () (v(s := (m', Some r)))"
  unfolding does_def
proof (intro allI impI)
  fix cl assume v: "seen content cs cl v"
  let ?w = "cl_wire cl s"
  have "content (cn_server ?w) = m" "cn_input ?w = []" using v assms(2,3) by (simp_all add: seen_def on_the_way_def)
  moreover then obtain s' where "nt_server (ce_net e s) (cn_server ?w) (makecmd (c # args)) = Some (encode_reply r, s')"
    "content s' = m'"
    using assms(1,4) unfolding cluster_env_def stores_def by metis
  ultimately have "\<exists>cl'. on_wire s (send_msg (ce_net e s) (makecmd (c # args))) cl = (Inr (), cl') \<and>
      seen content cs cl' (v(s := (m', Some r)))"
    by (intro seen_on_wire [OF v, of _ _ _ "?w\<lparr>cn_server := s', cn_input := encode_reply r\<rparr>"])
      (simp_all add: send_msg_def on_the_way_def)
  then show "\<exists>cl'. send_to e s (makecmd (c # args)) cl = (Inr (), cl') \<and> seen content cs cl' (v(s := (m', Some r)))"
    using assms(2) by (simp add: send_to_def ANET_ERR_def open_in_def)
qed

section \<open>Replies\<close>

lemma does_receive:
  assumes "open_in cs s" "v s = (m, Some r)" "\<And>c. cn_input c = encode_reply r \<Longrightarrow> recv c = (Inr x, c\<lparr>cn_input := []\<rparr>)"
  shows "does content cs (receive s recv) v x (v(s := (m, None)))"
  unfolding does_def
proof (intro allI impI)
  fix cl assume v: "seen content cs cl v"
  let ?w = "cl_wire cl s"
  have "content (cn_server ?w) = m" "cn_input ?w = encode_reply r" using v assms(1,2) by (simp_all add: seen_def on_the_way_def)
  then show "\<exists>cl'. receive s recv cl = (Inr x, cl') \<and> seen content cs cl' (v(s := (m, None)))"
    using assms(1) seen_on_wire [OF v, of recv s x "?w\<lparr>cn_input := []\<rparr>" "(m, None)"] assms(3)
    by (simp add: receive_def on_the_way_def open_in_def)
qed

lemma does_ok: "open_in cs s \<Longrightarrow> v s = (m, Some (Status ''OK'')) \<Longrightarrow> does content cs (cl_ok e s) v () (v(s := (m, None)))"
  unfolding cl_ok_def by (rule does_receive, assumption, assumption) (rule recv_ok)

lemma recv_line:
  "CR \<notin> set l \<Longrightarrow> LF \<notin> set l \<Longrightarrow> cn_input c = encode_reply (Status l) \<Longrightarrow>
    recv_single_line_reply net c = (Inr l, c\<lparr>cn_input := []\<rparr>)"
  using read_line_exact [of "CHR ''+'' # l" c "[]" net] by (simp add: recv_single_line_reply_def io_bind_def)

lemma does_line:
  "open_in cs s \<Longrightarrow> v s = (m, Some (Status l)) \<Longrightarrow> CR \<notin> set l \<Longrightarrow> LF \<notin> set l \<Longrightarrow>
    does content cs (cl_line e s) v l (v(s := (m, None)))"
  unfolding cl_line_def by (rule does_receive, assumption, assumption) (rule recv_line)

lemma does_int:
  "cluster_env e content \<Longrightarrow> open_in cs s \<Longrightarrow> v s = (m, Some (Integer n)) \<Longrightarrow> is_long n \<Longrightarrow>
    does content cs (cl_int e s) v n (v(s := (m, None)))"
  unfolding cl_int_def cluster_env_def by (rule does_receive, assumption, assumption) (metis recv_int)

text \<open>A block that fits into the 63 bits of its announced length.\<close>

definition fits :: "string \<Rightarrow> bool" where
  "fits b \<longleftrightarrow> length b < 2 ^ 63 - 2"

definition shown :: "string option \<Rightarrow> string" where
  "shown v = (case v of None \<Rightarrow> missing_value | Some b \<Rightarrow> b)"

definition item_bytes :: "string option \<Rightarrow> string" where
  "item_bytes v = (case v of None \<Rightarrow> ''$-1'' @ [CR, LF] | Some b \<Rightarrow> bulk b)"

lemma item_bytes_cases: "case_option (''$-1'' @ [CR, LF]) bulk = item_bytes"
  by (simp add: fun_eq_iff item_bytes_def split: option.split)

definition items_fit :: "string option list \<Rightarrow> bool" where
  "items_fit vs \<longleftrightarrow> length vs < 2 ^ 63 \<and> (\<forall>b. Some b \<in> set vs \<longrightarrow> fits b)"

lemma minus_one:
  assumes "documented_boost bt"
  shows "bt_to_long bt ''-1'' = Some (- 1)"
proof -
  have "show_int (- 1) = ''-1''" by code_simp
  then show ?thesis using documented_long [OF assms, of "- 1"] by (simp add: is_long_def)
qed

lemma recv_item:
  assumes "documented_boost bt" "cn_input c = item_bytes v @ rest" "\<And>b. v = Some b \<Longrightarrow> fits b"
  shows "recv_bulk_reply bt net c = (Inr (shown v), c\<lparr>cn_input := rest\<rparr>)"
proof (cases v)
  case None
  then have "cn_input c = ''$-1'' @ CR # LF # rest" using assms(2) by (simp add: item_bytes_def)
  then show ?thesis using read_line_exact [of "''$-1''" c rest net] minus_one [OF assms(1)] None
    by (simp add: CR_def LF_def recv_bulk_reply_def recv_bulk_length_def io_bind_def shown_def)
next
  case (Some b)
  then show ?thesis using recv_bulk [OF assms(1), of b c rest net] assms(2,3) by (simp add: item_bytes_def fits_def shown_def)
qed

lemma does_bulk:
  assumes "cluster_env e content" "open_in cs s" "v s = (m, Some (case t of None \<Rightarrow> Nil | Some b \<Rightarrow> Bulk b))"
    and "\<And>b. t = Some b \<Longrightarrow> fits b"
  shows "does content cs (cl_bulk e s) v (shown t) (v(s := (m, None)))"
  unfolding cl_bulk_def using assms(2,3)
proof (rule does_receive)
  fix c :: "'a connection"
  assume "cn_input c = encode_reply (case t of None \<Rightarrow> Nil | Some b \<Rightarrow> Bulk b)"
  then have "cn_input c = item_bytes t @ []" by (simp add: item_bytes_def split: option.splits)
  then show "recv_bulk_reply (ce_boost e) (ce_net e s) c = (Inr (shown t), c\<lparr>cn_input := []\<rparr>)"
    using assms(1,4) unfolding cluster_env_def by (metis recv_item)
qed

lemma recv_items:
  assumes "documented_boost bt" "\<And>b. Some b \<in> set vs \<Longrightarrow> fits b" "cn_input c = concat (map item_bytes vs) @ rest"
  shows "recv_bulks bt net (length vs) out c = (Inr (out @ map shown vs), c\<lparr>cn_input := rest\<rparr>)"
  using assms(2,3)
proof (induction vs arbitrary: out c)
  case (Cons v vs)
  then have "recv_bulk_reply bt net c = (Inr (shown v), c\<lparr>cn_input := concat (map item_bytes vs) @ rest\<rparr>)"
    by (intro recv_item [OF assms(1)]) auto
  then show ?case using Cons.IH [of "c\<lparr>cn_input := concat (map item_bytes vs) @ rest\<rparr>"] Cons.prems(1)
    by (simp add: io_bind_def)
qed simp

lemma items_head:
  assumes "documented_boost bt" "items_fit vs" "cn_input c = encode_reply (Items vs)"
  shows "recv_bulk_length bt net (CHR ''*'') c = (Inr (int (length vs)), c\<lparr>cn_input := concat (map item_bytes vs)\<rparr>)"
proof -
  have "is_long (int (length vs))" using assms(2) by (simp add: items_fit_def is_long_def)
  then have "bt_to_long bt (show_nat (length vs)) = Some (int (length vs))"
    using documented_long [OF assms(1)] by (simp flip: show_int_nat)
  moreover have "cn_input c = (CHR ''*'' # show_nat (length vs)) @ CR # LF # concat (map item_bytes vs)"
    using assms(3) item_bytes_cases by (simp add: option.case_distrib)
  ultimately show ?thesis using read_line_exact [of "CHR ''*'' # show_nat (length vs)" c _ net]
    by (simp add: recv_bulk_length_def io_bind_def)
qed

lemma does_items:
  assumes "cluster_env e content" "open_in cs s" "v s = (m, Some (Items vs))" "items_fit vs"
  shows "does content cs (cl_multi e [] s) v (int (length vs), map shown vs) (v(s := (m, None)))"
  unfolding cl_multi_def using assms(2,3)
proof (rule does_receive)
  fix c :: "'a connection" assume c: "cn_input c = encode_reply (Items vs)"
  have bt: "documented_boost (ce_boost e)" using assms(1) by (simp add: cluster_env_def)
  let ?c = "c\<lparr>cn_input := concat (map item_bytes vs)\<rparr>"
  have "recv_bulks (ce_boost e) (ce_net e s) (length vs) [] ?c = (Inr (map shown vs), c\<lparr>cn_input := []\<rparr>)"
    using recv_items [OF bt, of vs ?c "[]"] assms(4) by (simp add: items_fit_def)
  then show "recv_multi_bulk_reply (ce_boost e) (ce_net e s) [] c = (Inr (int (length vs), map shown vs), c\<lparr>cn_input := []\<rparr>)"
    using items_head [OF bt assms(4) c] by (simp add: recv_multi_bulk_reply_def io_bind_def)
qed

end
