(* ===== verification/ClusterLaws.thy ===== *)
theory ClusterLaws
  imports ClusterLogic
begin

text \<open>
  What the client guarantees with several servers: whatever the hash, the servers together are one
  store. Keys that belong to different servers are asked for, written, deleted and renamed by one
  operation as if they were in one place, and the values come in the order of the caller.
\<close>

section \<open>Between the operations\<close>

definition idle :: "(int \<Rightarrow> string \<rightharpoonup> stored) \<Rightarrow> view" where
  "idle M = (\<lambda>s. (M s, None))"

definition whole :: "'s client_env \<Rightarrow> connection_data list \<Rightarrow> (int \<Rightarrow> string \<rightharpoonup> stored) \<Rightarrow> string \<rightharpoonup> stored" where
  "whole e cs M k = M (socket_of e cs k) k"

definition put :: "'s client_env \<Rightarrow> connection_data list \<Rightarrow> string \<Rightarrow> stored option \<Rightarrow> (int \<Rightarrow> string \<rightharpoonup> stored) \<Rightarrow>
    int \<Rightarrow> string \<rightharpoonup> stored" where
  "put e cs k x M = M(socket_of e cs k := (M (socket_of e cs k))(k := x))"

lemma idle_simps [simp]: "idle M s = (M s, None)" "(idle M)(s := (m, None)) = idle (M(s := m))"
  by (auto simp: idle_def)

lemma whole_put [simp]: "whole e cs (put e cs k x M) = (whole e cs M)(k := x)"
  by (auto simp: whole_def put_def fun_eq_iff)

lemma put_same: "whole e cs M k = x \<Longrightarrow> put e cs k x M = M"
  by (auto simp: whole_def put_def fun_eq_iff)

section \<open>One key\<close>

lemma does_keyed:
  assumes "cluster_env e content" "good_connections cs" "s = socket_of e cs k"
    and "store_command c args (M s) = Some (r, m)"
    and "\<And>v. v s = (m, Some r) \<Longrightarrow> does content cs (reply s) v x (v(s := (m, None)))"
  shows "does content cs (keyed e k (c # args) reply) (idle M) x (idle (M(s := m)))"
  unfolding keyed_def request_def
proof (rule does_bind [OF does_get_socket [OF assms(2)]], fold assms(3), rule does_bind)
  have "open_in cs s" using socket_open [OF assms(2)] assms(3) by simp
  then show "does content cs (send_to e s (makecmd (c # args))) (idle M) () ((idle M)(s := (m, Some r)))"
    using assms(1,4) by (intro does_send) simp_all
  show "does content cs (reply s) ((idle M)(s := (m, Some r))) x (idle (M(s := m)))"
    using assms(5) [of "(idle M)(s := (m, Some r))"] by simp
qed

lemma store_command_simps [simp]:
  "store_command ''SET'' [k, v] m = Some (Status ''OK'', m(k \<mapsto> Text v))"
  "is_text (m k) \<Longrightarrow> store_command ''GET'' [k] m = Some (case value_text (m k) of None \<Rightarrow> Nil | Some v \<Rightarrow> Bulk v, m)"
  "store_command ''SETNX'' [k, v] m = (if m k = None then Some (Integer 1, m(k \<mapsto> Text v)) else Some (Integer 0, m))"
  "store_command ''EXISTS'' [k] m = Some (Integer (if m k = None then 0 else 1), m)"
  "ks \<noteq> [] \<Longrightarrow> store_command ''DEL'' ks m = Some (Integer (int (card {k \<in> set ks. m k \<noteq> None})), \<lambda>k. if k \<in> set ks then None else m k)"
  "kvs \<noteq> [] \<Longrightarrow> even (length kvs) \<Longrightarrow> store_command ''MSET'' kvs m = Some (Status ''OK'', set_texts kvs m)"
  "ks \<noteq> [] \<Longrightarrow> store_command ''MGET'' ks m = Some (Items (map (\<lambda>k. value_text (m k)) ks), m)"
  "store_command ''TYPE'' [k] m =
     Some (Status (case m k of None \<Rightarrow> ''none'' | Some (Text _) \<Rightarrow> ''string'' | Some (Texts _) \<Rightarrow> ''list''), m)"
  "old \<noteq> new \<Longrightarrow> m old \<noteq> None \<Longrightarrow> store_command ''RENAME'' [old, new] m = Some (Status ''OK'', m(new := m old, old := None))"
  "texts_of (m k) = Some l \<Longrightarrow> store_command ''RPUSH'' [k, v] m = Some (Integer (int (length l) + 1), m(k \<mapsto> Texts (l @ [v])))"
  "texts_of (m k) = Some l \<Longrightarrow> store_command ''LRANGE'' [k, ''0'', ''-1''] m = Some (Items (map Some l), m)"
  by (simp_all add: store_command_def)

lemma does_set:
  assumes "cluster_env e content" "good_connections cs"
  shows "does content cs (redis_set e k v) (idle M) () (idle (put e cs k (Some (Text v)) M))"
  unfolding redis_set_def put_def by (rule does_keyed [OF assms refl]) (simp, rule does_ok [OF socket_open [OF assms(2)]])

lemma does_get:
  assumes "cluster_env e content" "good_connections cs" "is_text (whole e cs M k)"
    and "\<And>v. value_text (whole e cs M k) = Some v \<Longrightarrow> fits v"
  shows "does content cs (redis_get e k) (idle M) (shown (value_text (whole e cs M k))) (idle M)"
proof -
  let ?s = "socket_of e cs k"
  have "does content cs (redis_get e k) (idle M) (shown (value_text (whole e cs M k))) (idle (M(?s := M ?s)))"
    unfolding redis_get_def whole_def
    by (rule does_keyed [OF assms(1,2) refl], rule store_command_simps, use assms(3) in \<open>simp add: whole_def\<close>,
        rule does_bulk [OF assms(1) socket_open [OF assms(2)]], assumption, use assms(4) in \<open>simp add: whole_def\<close>)
  then show ?thesis by simp
qed

text \<open>The integer answers of a key, and what they become.\<close>

lemma does_keyed_int:
  assumes "cluster_env e content" "good_connections cs" "is_long n"
    and "store_command c args (M (socket_of e cs k)) = Some (Integer n, (M (socket_of e cs k))(k := x))"
    and "\<And>s. reply s = io_bind (cl_int e s) (\<lambda>n. io_return (f n))"
  shows "does content cs (keyed e k (c # args) reply) (idle M) (f n) (idle (put e cs k x M))"
  unfolding put_def
proof (rule does_keyed [OF assms(1,2) refl], rule assms(4))
  fix v :: view
  let ?s = "socket_of e cs k"
  assume "v ?s = ((M ?s)(k := x), Some (Integer n))"
  from does_int [where v = v and s = ?s, OF assms(1) socket_open [OF assms(2)] this assms(3)]
  show "does content cs (reply ?s) v (f n) (v(?s := ((M ?s)(k := x), None)))"
    unfolding assms(5) by (rule does_bind) (rule does_return)
qed

lemma is_long_bit [simp]: "is_long 0" "is_long 1"
  by (simp_all add: is_long_def)

lemma does_setnx:
  assumes "cluster_env e content" "good_connections cs"
  shows "does content cs (redis_setnx e k v) (idle M) (whole e cs M k = None)
    (idle (if whole e cs M k = None then put e cs k (Some (Text v)) M else M))"
proof (cases "whole e cs M k = None")
  case True
  then show ?thesis unfolding redis_setnx_def
    using does_keyed_int [OF assms is_long_bit(2), where c = "''SETNX''" and args = "[k, v]" and f = "\<lambda>n. n = 1"
        and k = k and reply = "cl_one e" and M = M and x = "Some (Text v)"] by (simp add: whole_def cl_one_def)
next
  case False
  then obtain x where x: "whole e cs M k = Some x" by blast
  then have "does content cs (redis_setnx e k v) (idle M) False (idle (put e cs k (Some x) M))" unfolding redis_setnx_def
    using does_keyed_int [OF assms is_long_bit(1), where c = "''SETNX''" and args = "[k, v]" and f = "\<lambda>n. n = 1"
        and k = k and reply = "cl_one e" and M = M and x = "Some x"] by (simp add: whole_def cl_one_def fun_upd_idem)
  then show ?thesis using x by (simp add: put_same)
qed

lemma does_exists:
  assumes "cluster_env e content" "good_connections cs"
  shows "does content cs (redis_exists e k) (idle M) (whole e cs M k \<noteq> None) (idle M)"
proof -
  define x where "x = whole e cs M k"
  have "does content cs (redis_exists e k) (idle M) (x \<noteq> None) (idle (put e cs k x M))" unfolding redis_exists_def
    using does_keyed_int [OF assms, where c = "''EXISTS''" and args = "[k]" and f = "\<lambda>n. n = 1" and n = "if x = None then 0 else 1"
        and k = k and reply = "cl_one e" and M = M and x = x] by (cases x) (simp_all add: whole_def cl_one_def x_def)
  then show ?thesis using put_same [OF x_def [symmetric]] by (simp add: x_def)
qed

lemma card_one: "card {k' \<in> {k}. P k'} = (if P k then 1 else 0)"
proof -
  have "{k' \<in> {k}. P k'} = (if P k then {k} else {})" by auto
  then show ?thesis by simp
qed

lemma does_del:
  assumes "cluster_env e content" "good_connections cs"
  shows "does content cs (redis_del e k) (idle M) (whole e cs M k \<noteq> None) (idle (put e cs k None M))"
proof -
  let ?x = "whole e cs M k"
  let ?m = "M (socket_of e cs k)"
  have "(\<lambda>k'. if k' \<in> {k} then None else ?m k') = ?m(k := None)" by auto
  then have "store_command ''DEL'' [k] ?m = Some (Integer (if ?x = None then 0 else 1), ?m(k := None))"
    using card_one [where P = "\<lambda>k. ?m k \<noteq> None"] by (simp add: whole_def)
  then show ?thesis unfolding redis_del_def
    using does_keyed_int [OF assms, where c = "''DEL''" and args = "[k]" and f = "\<lambda>n. n \<noteq> 0" and n = "if ?x = None then 0 else 1"
        and k = k and reply = "cl_some e" and M = M and x = None] by (simp add: cl_some_def split: if_splits)
qed

lemma does_rpush:
  assumes "cluster_env e content" "good_connections cs" "texts_of (whole e cs M k) = Some l" "length l < 2 ^ 63 - 1"
  shows "does content cs (redis_rpush e k v) (idle M) (int (length l) + 1) (idle (put e cs k (Some (Texts (l @ [v]))) M))"
  unfolding redis_rpush_def
proof (rule does_keyed_int [OF assms(1,2), where f = "\<lambda>n. n"])
  show "is_long (int (length l) + 1)" using assms(4) by (simp add: is_long_def)
qed (use assms(3) in \<open>simp_all add: whole_def io_bind_def fun_eq_iff io_return_def split: prod.split sum.split\<close>)

lemma does_type:
  assumes "cluster_env e content" "good_connections cs"
  shows "does content cs (redis_type e k) (idle M)
    (case whole e cs M k of None \<Rightarrow> datatype_none | Some (Text _) \<Rightarrow> datatype_string | Some (Texts _) \<Rightarrow> datatype_list) (idle M)"
proof -
  let ?s = "socket_of e cs k"
  let ?t = "case whole e cs M k of None \<Rightarrow> ''none'' | Some (Text _) \<Rightarrow> ''string'' | Some (Texts _) \<Rightarrow> ''list''"
  have "CR \<notin> set ?t" "LF \<notin> set ?t" by (simp_all add: CR_def LF_def split: option.split stored.split)
  then have "does content cs (keyed e k [''TYPE'', k] (cl_line e)) (idle M) ?t (idle (M(?s := M ?s)))"
    by (intro does_keyed [OF assms refl store_command_simps(8)])
      (auto simp: whole_def intro!: does_line [OF socket_open [OF assms(2)]])
  then have "does content cs (keyed e k [''TYPE'', k] (cl_line e)) (idle M) ?t (idle M)" by simp
  from does_bind [OF this does_return] have "does content cs (redis_type e k) (idle M) (datatype_of ?t) (idle M)"
    unfolding redis_type_def .
  moreover have "datatype_of ?t =
      (case whole e cs M k of None \<Rightarrow> datatype_none | Some (Text _) \<Rightarrow> datatype_string | Some (Texts _) \<Rightarrow> datatype_list)"
    by (simp add: datatype_of_def split: option.split stored.split)
  ultimately show ?thesis by simp
qed

lemma all_items: "items_fit (map Some l) \<longleftrightarrow> length l < 2 ^ 63 \<and> (\<forall>v \<in> set l. fits v)"
  by (auto simp: items_fit_def)

lemma does_list:
  assumes "cluster_env e content" "good_connections cs" "texts_of (whole e cs M k) = Some l" "items_fit (map Some l)"
  shows "does content cs (redis_lrange e k 0 (- 1) []) (idle M) (int (length l), l) (idle M)"
proof -
  let ?s = "socket_of e cs k"
  have bt: "documented_boost (ce_boost e)" using assms(1) by (simp add: cluster_env_def)
  have "show_int 0 = ''0''" "show_int (- 1) = ''-1''" by code_simp+
  then have t: "long_text e 0 = ''0''" "long_text e (- 1) = ''-1''" using bt
    by (simp_all add: long_text_def documented_boost_def is_long_def)
  have "does content cs (cl_multi e [] ?s) v (int (length l), l) (v(?s := (M ?s, None)))"
    if "v ?s = (M ?s, Some (Items (map Some l)))" for v
    using does_items [where v = v and s = ?s, OF assms(1) socket_open [OF assms(2)] that assms(4)] by (simp add: shown_def comp_def)
  moreover have "store_command ''LRANGE'' [k, ''0'', ''-1''] (M ?s) = Some (Items (map Some l), M ?s)"
    using assms(3) by (simp add: whole_def)
  ultimately have "does content cs (redis_lrange e k 0 (- 1) []) (idle M) (int (length l), l) (idle (M(?s := M ?s)))"
    unfolding redis_lrange_def t by (intro does_keyed [OF assms(1,2) refl])
  then show ?thesis by simp
qed

end
