(* ===== verification/ClusterKeys.thy ===== *)
theory ClusterKeys
  imports ClusterLaws
begin

text \<open>
  Operations on several keys of the cluster: the map from sockets to what is sent there collects, in the
  order of the caller, exactly the keys of the socket; sending everything before the first reply is read
  is the same as asking one server after the other.
\<close>

section \<open>The map from sockets\<close>

definition grouped :: "('x \<Rightarrow> int) \<Rightarrow> 'b \<Rightarrow> ('x \<Rightarrow> 'b \<Rightarrow> 'b) \<Rightarrow> 'x list \<Rightarrow> (int \<times> 'b) list" where
  "grouped sk d f xs = fold (\<lambda>x. at_socket (sk x) d (f x)) xs []"

definition part :: "('x \<Rightarrow> int) \<Rightarrow> 'x list \<Rightarrow> int \<Rightarrow> 'x list" where
  "part sk xs s = filter (\<lambda>x. sk x = s) xs"

lemma keys_at_socket: "set (map fst (at_socket s d f m)) = insert s (set (map fst m))"
  by (induction s d f m rule: at_socket.induct) auto

lemma at_socket_order: "sorted_wrt (<) (map fst m) \<Longrightarrow>
    sorted_wrt (<) (map fst (at_socket s d f m)) \<and>
    map_of (at_socket s d f m) = (map_of m)(s \<mapsto> f (case map_of m s of None \<Rightarrow> d | Some x \<Rightarrow> x))"
proof (induction s d f m rule: at_socket.induct)
  case (2 s d f s' x m)
  have rest: "\<forall>s'' \<in> set (map fst m). s' < s''" using 2(2) by simp
  consider "s = s'" | "s < s'" | "s' < s" by linarith
  then show ?case
  proof cases
    case 2
    then have "s \<notin> set (map fst ((s', x) # m))" using rest by auto
    then have "map_of ((s', x) # m) s = None" by (simp add: map_of_eq_None_iff)
    then show ?thesis using 2 "2.prems" rest by auto
  next
    case 3
    then have "sorted_wrt (<) (map fst (at_socket s d f m))"
      "map_of (at_socket s d f m) = (map_of m)(s \<mapsto> f (case map_of m s of None \<Rightarrow> d | Some x \<Rightarrow> x))"
      using "2.IH" "2.prems" by auto
    then show ?thesis using 3 rest keys_at_socket [of s d f m] by (auto simp: fun_eq_iff)
  qed (use "2.prems" in auto)
qed simp

lemma grouped_parts:
  "sorted_wrt (<) (map fst (grouped sk d f xs)) \<and> set (map fst (grouped sk d f xs)) = sk ` set xs \<and>
   (\<forall>s \<in> sk ` set xs. map_of (grouped sk d f xs) s = Some (fold f (part sk xs s) d))"
proof (induction xs rule: rev_induct)
  case (snoc x xs)
  let ?g = "grouped sk d f xs"
  have g: "grouped sk d f (xs @ [x]) = at_socket (sk x) d (f x) ?g" by (simp add: grouped_def)
  have none: "map_of ?g (sk x) = None" "part sk xs (sk x) = []" if "sk x \<notin> sk ` set xs"
    using that snoc by (auto simp: map_of_eq_None_iff part_def filter_empty_conv rev_image_eqI)
  show ?case
  proof (cases "sk x \<in> sk ` set xs")
    case True
    then show ?thesis using snoc at_socket_order [of ?g "sk x" d "f x"] keys_at_socket [of "sk x" d "f x" ?g]
      unfolding g by (auto simp: part_def)
  next
    case False
    then show ?thesis using snoc none at_socket_order [of ?g "sk x" d "f x"] keys_at_socket [of "sk x" d "f x" ?g]
      unfolding g by (auto simp: part_def)
  qed
qed (simp add: grouped_def)

lemma grouped_map:
  obtains ss where "distinct ss" "set ss = sk ` set xs" "grouped sk d f xs = map (\<lambda>s. (s, fold f (part sk xs s) d)) ss"
proof
  let ?g = "grouped sk d f xs"
  note g = grouped_parts [of sk d f xs]
  show d: "distinct (map fst ?g)" using g strict_sorted_iff by blast
  show "set (map fst ?g) = sk ` set xs" using g by simp
  have "p = (fst p, fold f (part sk xs (fst p)) d)" if "p \<in> set ?g" for p
  proof -
    have "map_of ?g (fst p) = Some (snd p)" using that d by (metis map_of_is_SomeI prod.collapse)
    moreover have "fst p \<in> sk ` set xs" using g that by force
    ultimately show ?thesis using g by (metis option.inject prod.collapse)
  qed
  then show "?g = map (\<lambda>s. (s, fold f (part sk xs s) d)) (map fst ?g)" by (simp add: map_idI)
qed

lemma does_by_socket:
  assumes "\<And>x. does content cs (sock x) v (sk x) v"
  shows "does content cs (by_socket sock d f xs m) v (fold (\<lambda>x. at_socket (sk x) d (f x)) xs m) v"
  by (induction xs arbitrary: m) (auto intro: does_rules assms)

section \<open>All commands, then all replies\<close>

lemma does_sends:
  assumes "cluster_env e content" "distinct ss"
    and "\<And>s. s \<in> set ss \<Longrightarrow> open_in cs s \<and> v s = (M s, None) \<and> store_command c (args s) (M s) = Some (R s, M' s)"
  shows "does content cs (send_all e (map (\<lambda>s. (s, c # args s)) ss)) v () (\<lambda>s. if s \<in> set ss then (M' s, Some (R s)) else v s)"
  using assms(2,3)
proof (induction ss arbitrary: v)
  case Nil
  then show ?case by (simp add: send_all_def)
next
  case (Cons s ss)
  let ?v = "v(s := (M' s, Some (R s)))"
  have "does content cs (send_to e s (makecmd (c # args s))) v () ?v"
    using Cons.prems(2) [of s] by (intro does_send [OF assms(1), where m = "M s"]) auto
  moreover have "does content cs (send_all e (map (\<lambda>s. (s, c # args s)) ss)) ?v ()
      (\<lambda>t. if t \<in> set ss then (M' t, Some (R t)) else ?v t)"
    using Cons.prems by (intro Cons.IH) auto
  moreover have "(\<lambda>t. if t \<in> set ss then (M' t, Some (R t)) else ?v t) =
      (\<lambda>t. if t \<in> set (s # ss) then (M' t, Some (R t)) else v t)" by auto
  ultimately show ?case by (simp add: send_all_def does_bind)
qed

text \<open>Reading the replies of some sockets one after the other, with an accumulator.\<close>

lemma does_replies:
  assumes "distinct ss"
    and "\<And>s v a. s \<in> set ss \<Longrightarrow> v s = (M' s, Some (R s)) \<Longrightarrow> does content cs (g s a) v (h s a) (v(s := (M' s, None)))"
    and "\<And>s. s \<in> set ss \<Longrightarrow> v s = (M' s, Some (R s))"
  shows "does content cs (io_fold g ss a) v (fold h ss a) (\<lambda>s. if s \<in> set ss then (M' s, None) else v s)"
  using assms
proof (induction ss arbitrary: v a)
  case (Cons s ss)
  let ?v = "v(s := (M' s, None))"
  have "does content cs (g s a) v (h s a) ?v" by (rule Cons.prems(2)) (simp_all add: Cons.prems(3))
  moreover have "does content cs (io_fold g ss (h s a)) ?v (fold h ss (h s a)) (\<lambda>t. if t \<in> set ss then (M' t, None) else ?v t)"
    using Cons.prems by (intro Cons.IH) auto
  moreover have "(\<lambda>t. if t \<in> set ss then (M' t, None) else ?v t) = (\<lambda>t. if t \<in> set (s # ss) then (M' t, None) else v t)" by auto
  ultimately show ?case by (simp add: does_bind)
qed simp

lemma io_each_fold: "io_each g xs = io_fold (\<lambda>x _. g x) xs ()"
  by (induction xs) auto

lemma io_fold_map: "io_fold g (map f xs) a = io_fold (\<lambda>x. g (f x)) xs a"
  by (induction xs arbitrary: a) (simp_all, metis)

text \<open>A command to every socket that has keys, and the replies: the servers move, nothing is left on the way.\<close>

lemma does_exchange:
  assumes "cluster_env e content" "distinct ss"
    and "\<And>s. s \<in> set ss \<Longrightarrow> open_in cs s \<and> store_command c (args s) (M s) = Some (R s, M' s)"
    and "\<And>s v a. s \<in> set ss \<Longrightarrow> v s = (M' s, Some (R s)) \<Longrightarrow> does content cs (g s a) v (h s a) (v(s := (M' s, None)))"
    and "\<And>s. s \<notin> set ss \<Longrightarrow> M' s = M s"
  shows "does content cs (io_bind (send_all e (map (\<lambda>s. (s, c # args s)) ss)) (\<lambda>_. io_fold g ss a))
    (idle M) (fold h ss a) (idle M')"
proof (rule does_bind)
  let ?v = "\<lambda>s. if s \<in> set ss then (M' s, Some (R s)) else idle M s"
  show "does content cs (send_all e (map (\<lambda>s. (s, c # args s)) ss)) (idle M) () ?v"
    using assms(1-3) by (intro does_sends [where M = M]) simp_all
  have "does content cs (io_fold g ss a) ?v (fold h ss a) (\<lambda>s. if s \<in> set ss then (M' s, None) else ?v s)"
    using assms(2,4) by (intro does_replies) simp_all
  moreover have "(\<lambda>s. if s \<in> set ss then (M' s, None) else ?v s) = idle M'" using assms(5) by (auto simp: idle_def)
  ultimately show "does content cs (io_fold g ss a) ?v (fold h ss a) (idle M')" by simp
qed

lemma part_socket_open:
  "good_connections cs \<Longrightarrow> set ss = (\<lambda>x. socket_of e cs (key x)) ` set xs \<Longrightarrow> s \<in> set ss \<Longrightarrow> open_in cs s"
  using socket_open by fastforce

end
