(* ===== verification/ClusterStore.thy ===== *)
theory ClusterStore
  imports ClusterKeys
begin

text \<open>
  The servers of a cluster are one store: the operations on several keys, renaming across servers, and
  the refinement of every sequence of operations to one store.
\<close>

section \<open>Writing several keys\<close>

lemma part_snoc: "part sk (xs @ [x]) s = (if sk x = s then part sk xs s @ [x] else part sk xs s)"
  by (simp add: part_def)

lemma part_some: "s \<in> sk ` set xs \<Longrightarrow> part sk xs s \<noteq> []"
  by (auto simp: part_def filter_empty_conv)

lemma even_pairs: "even (length (concat (map (\<lambda>(k, v). [k, v]) kvs)))"
  by (induction kvs) auto

lemma pairs_empty [simp]: "concat (map (\<lambda>(k, v). [k, v]) kvs) = [] \<longleftrightarrow> kvs = []"
  by (cases kvs) auto

lemma part_none: "s \<notin> sk ` set xs \<Longrightarrow> part sk xs s = []"
  by (auto simp: part_def filter_empty_conv)

definition write_all :: "(string \<times> string) list \<Rightarrow> (string \<rightharpoonup> stored) \<Rightarrow> (string \<rightharpoonup> stored)" where
  "write_all kvs = fold (\<lambda>(k, v) m. m(k \<mapsto> Text v)) kvs"

lemma write_all_simps [simp]:
  "write_all [] m = m" "write_all ((k, v) # kvs) m = write_all kvs (m(k \<mapsto> Text v))"
  "write_all (kvs @ [(k, v)]) m = (write_all kvs m)(k \<mapsto> Text v)"
  by (simp_all add: write_all_def)

lemma set_texts_pairs: "set_texts (concat (map (\<lambda>(k, v). [k, v]) kvs)) m = write_all kvs m"
  by (induction kvs arbitrary: m) auto

lemma collect_pairs: "fold (\<lambda>(k, v) c. c @ [k, v]) kvs c = c @ concat (map (\<lambda>(k, v). [k, v]) kvs)"
  by (induction kvs arbitrary: c) auto

abbreviation key_socket :: "'s client_env \<Rightarrow> connection_data list \<Rightarrow> string \<times> 'v \<Rightarrow> int" where
  "key_socket e cs kv \<equiv> socket_of e cs (fst kv)"

lemma whole_write: "whole e cs (\<lambda>s. write_all (part (key_socket e cs) kvs s) (M s)) = write_all kvs (whole e cs M)"
proof (induction kvs rule: rev_induct)
  case (snoc kv kvs)
  let ?W = "\<lambda>s. write_all (part (key_socket e cs) kvs s) (M s)"
  obtain k v where kv: "kv = (k, v)" by (cases kv)
  have "(\<lambda>s. write_all (part (key_socket e cs) (kvs @ [kv]) s) (M s)) = put e cs k (Some (Text v)) ?W"
    by (auto simp: kv part_snoc put_def fun_eq_iff)
  then show ?case using snoc by (simp add: kv)
qed (simp add: part_def)

lemma does_mset:
  assumes "cluster_env e content" "good_connections cs"
  shows "\<exists>M'. does content cs (redis_mset_pairs e kvs) (idle M) () (idle M') \<and> whole e cs M' = write_all kvs (whole e cs M)"
proof -
  let ?sk = "key_socket e cs" and ?add = "\<lambda>(k, v) c. c @ [k, v]"
  let ?M' = "\<lambda>s. write_all (part ?sk kvs s) (M s)"
  obtain ss where ss: "distinct ss" "set ss = ?sk ` set kvs"
    "grouped ?sk [''MSET''] ?add kvs = map (\<lambda>s. (s, fold ?add (part ?sk kvs s) [''MSET''])) ss"
    by (rule grouped_map)
  have "does content cs (case x of (k, _) \<Rightarrow> get_socket e k) v (?sk x) v" for x :: "string \<times> string" and v
    using does_get_socket [OF assms(2)] by (cases x) simp
  then have "does content cs (by_socket (\<lambda>(k, _). get_socket e k) [''MSET''] ?add kvs []) (idle M)
      (grouped ?sk [''MSET''] ?add kvs) (idle M)"
    unfolding grouped_def by (rule does_by_socket)
  moreover have "grouped ?sk [''MSET''] ?add kvs =
      map (\<lambda>s. (s, ''MSET'' # concat (map (\<lambda>(k, v). [k, v]) (part ?sk kvs s)))) ss"
    using ss(3) by (simp add: collect_pairs)
  ultimately have sockets: "does content cs (by_socket (\<lambda>(k, _). get_socket e k) [''MSET''] ?add kvs []) (idle M)
      (map (\<lambda>s. (s, ''MSET'' # concat (map (\<lambda>(k, v). [k, v]) (part ?sk kvs s)))) ss) (idle M)" by simp
  have exchange: "does content cs (io_bind (send_all e (map (\<lambda>s. (s, ''MSET'' # concat (map (\<lambda>(k, v). [k, v]) (part ?sk kvs s)))) ss))
      (\<lambda>_. io_fold (\<lambda>s _. cl_ok e s) ss ())) (idle M) (fold (\<lambda>_ _. ()) ss ()) (idle ?M')"
  proof (rule does_exchange [OF assms(1) ss(1), where R = "\<lambda>_. Status ''OK''"])
    fix s assume "s \<in> set ss"
    then show "open_in cs s \<and> store_command ''MSET'' (concat (map (\<lambda>(k, v). [k, v]) (part ?sk kvs s))) (M s) =
        Some (Status ''OK'', ?M' s)"
      using part_socket_open [OF assms(2) ss(2)] ss(2) part_some [of s ?sk kvs]
      by (simp add: set_texts_pairs even_pairs del: concat_eq_Nil_conv)
  next
    fix s v a assume "s \<in> set ss" "v s = (?M' s, Some (Status ''OK''))"
    then show "does content cs (cl_ok e s) v () (v(s := (?M' s, None)))"
      using part_socket_open [OF assms(2) ss(2)] by (intro does_ok) simp_all
  next
    fix s assume "s \<notin> set ss"
    then show "?M' s = M s" using ss(2) by (simp add: part_none)
  qed
  have "does content cs (redis_mset_pairs e kvs) (idle M) () (idle ?M')"
    unfolding redis_mset_pairs_def by (rule does_bind [OF sockets]) (use exchange in \<open>simp add: io_each_fold io_fold_map\<close>)
  then show ?thesis using whole_write by blast
qed

section \<open>Reading several keys\<close>

lemma collect_keys: "fold add_key iks \<lparr>ck_cmd = c, ck_indices = is\<rparr> = \<lparr>ck_cmd = c @ map snd iks, ck_indices = is @ map fst iks\<rparr>"
  by (induction iks arbitrary: c "is") (auto simp: add_key_def)

definition placed :: "(nat \<times> string) list \<Rightarrow> string list \<Rightarrow> string list" where
  "placed ivs out = fold (\<lambda>(i, v) out. out[i := v]) ivs out"

lemma does_place: "does content cs (place_values (map fst iks) (map f iks) out) v (placed (map (\<lambda>ik. (fst ik, f ik)) iks) out) v"
  by (induction iks arbitrary: out) (auto simp: placed_def)

lemma length_placed [simp]: "length (placed ivs out) = length out"
  by (induction ivs arbitrary: out) (auto simp: placed_def)

text \<open>Each position of the result is written once, by the server of its key.\<close>

lemma placed_nth:
  assumes "\<And>i v. (i, v) \<in> set ivs \<Longrightarrow> v = val i" "j < length out"
  shows "placed ivs out ! j = (if j \<in> fst ` set ivs then val j else out ! j)"
  using assms
proof (induction ivs arbitrary: out)
  case (Cons iv ivs)
  obtain i v where iv: "iv = (i, v)" by (cases iv)
  have "placed ivs (out[i := v]) ! j = (if j \<in> fst ` set ivs then val j else out[i := v] ! j)"
    using Cons.prems by (intro Cons.IH) auto
  then show ?case using Cons.prems iv by (auto simp: placed_def nth_list_update)
qed (simp add: placed_def)

lemma placed_parts:
  assumes "\<And>i k. (i, k) \<in> set iks \<Longrightarrow> f (i, k) = val i" "j < length out"
  shows "fold (\<lambda>s. placed (map (\<lambda>ik. (fst ik, f ik)) (part sk iks s))) ss out ! j =
    (if \<exists>k. (j, k) \<in> set iks \<and> sk (j, k) \<in> set ss then val j else out ! j)"
  using assms(2)
proof (induction ss arbitrary: out)
  case (Cons s ss)
  have "placed (map (\<lambda>ik. (fst ik, f ik)) (part sk iks s)) out ! j =
      (if j \<in> fst ` set (map (\<lambda>ik. (fst ik, f ik)) (part sk iks s)) then val j else out ! j)"
    using assms(1) Cons.prems by (intro placed_nth) (auto simp: part_def)
  also have "j \<in> fst ` set (map (\<lambda>ik. (fst ik, f ik)) (part sk iks s)) \<longleftrightarrow> (\<exists>k. (j, k) \<in> set iks \<and> sk (j, k) = s)"
    by (force simp: part_def)
  finally show ?case using Cons.IH Cons.prems by auto
qed simp

lemma length_placed_fold [simp]: "length (fold (\<lambda>s. placed (g s)) ss out) = length out"
  by (induction ss arbitrary: out) auto

text \<open>The values of the keys as the caller sees them.\<close>

definition values_of :: "(string \<rightharpoonup> stored) \<Rightarrow> string list \<Rightarrow> string list" where
  "values_of m ks = map (\<lambda>k. shown (value_text (m k))) ks"

definition texts_fit :: "(string \<rightharpoonup> stored) \<Rightarrow> string list \<Rightarrow> bool" where
  "texts_fit m ks \<longleftrightarrow> (\<forall>k \<in> set ks. \<forall>v. value_text (m k) = Some v \<longrightarrow> fits v)"

lemma in_part_key:
  assumes "ik \<in> set (part (\<lambda>(_, k). socket_of e cs k) iks s)"
  shows "M s (snd ik) = whole e cs M (snd ik)"
proof -
  have "s = (case ik of (_, k) \<Rightarrow> socket_of e cs k)" using assms by (simp add: part_def)
  then show ?thesis by (simp add: whole_def case_prod_beta)
qed

lemma does_mget:
  assumes "cluster_env e content" "good_connections cs" "length ks < 2 ^ 63" "texts_fit (whole e cs M) ks"
  shows "does content cs (redis_mget e ks) (idle M) (values_of (whole e cs M) ks) (idle M)"
proof -
  let ?sk = "\<lambda>(_, k). socket_of e cs k" and ?iks = "enumerate 0 ks"
  let ?d = "\<lparr>ck_cmd = [''MGET''], ck_indices = []\<rparr>"
  let ?f = "\<lambda>ik. shown (value_text (whole e cs M (snd ik)))"
  let ?items = "\<lambda>s. map (\<lambda>ik. value_text (M s (snd ik))) (part ?sk ?iks s)"
  let ?h = "\<lambda>s. placed (map (\<lambda>ik. (fst ik, ?f ik)) (part ?sk ?iks s))"
  let ?g = "\<lambda>s out. io_bind (cl_multi e [] s) (\<lambda>(_, cur). place_values (map fst (part ?sk ?iks s)) cur out)"
  obtain ss where ss: "distinct ss" "set ss = ?sk ` set ?iks"
    "grouped ?sk ?d add_key ?iks = map (\<lambda>s. (s, fold add_key (part ?sk ?iks s) ?d)) ss"
    by (rule grouped_map)
  have opened: "open_in cs s" if "s \<in> set ss" for s
    using part_socket_open [OF assms(2), of ss e snd ?iks] ss(2) that by (simp add: case_prod_beta)
  have "does content cs (case x of (_, k) \<Rightarrow> get_socket e k) v (?sk x) v" for x :: "nat \<times> string" and v
    using does_get_socket [OF assms(2)] by (cases x) simp
  then have "does content cs (by_socket (\<lambda>(_, k). get_socket e k) ?d add_key ?iks []) (idle M) (grouped ?sk ?d add_key ?iks) (idle M)"
    unfolding grouped_def by (rule does_by_socket)
  moreover have "grouped ?sk ?d add_key ?iks =
      map (\<lambda>s. (s, \<lparr>ck_cmd = ''MGET'' # map snd (part ?sk ?iks s), ck_indices = map fst (part ?sk ?iks s)\<rparr>)) ss"
    using ss(3) by (simp add: collect_keys)
  ultimately have sockets: "does content cs (by_socket (\<lambda>(_, k). get_socket e k) ?d add_key ?iks []) (idle M)
      (map (\<lambda>s. (s, \<lparr>ck_cmd = ''MGET'' # map snd (part ?sk ?iks s), ck_indices = map fst (part ?sk ?iks s)\<rparr>)) ss) (idle M)"
    by simp
  have exchange: "does content cs (io_bind (send_all e (map (\<lambda>s. (s, ''MGET'' # map snd (part ?sk ?iks s))) ss))
      (\<lambda>_. io_fold ?g ss (replicate (length ks) []))) (idle M) (fold ?h ss (replicate (length ks) [])) (idle M)"
  proof (rule does_exchange [OF assms(1) ss(1), where R = "\<lambda>s. Items (?items s)"])
    fix s assume "s \<in> set ss"
    then show "open_in cs s \<and> store_command ''MGET'' (map snd (part ?sk ?iks s)) (M s) = Some (Items (?items s), M s)"
      using opened ss(2) part_some [of s ?sk ?iks] by (simp add: comp_def)
  next
    fix s v out assume s: "s \<in> set ss" "v s = (M s, Some (Items (?items s)))"
    have "set (part ?sk ?iks s) \<subseteq> set ?iks" by (auto simp: part_def)
    then have keys: "snd ik \<in> set ks" if "ik \<in> set (part ?sk ?iks s)" for ik
      using that by (metis image_eqI map_snd_enumerate set_map subsetD)
    have "fits b" if b: "Some b \<in> set (?items s)" for b
    proof -
      from b have "Some b \<in> (\<lambda>ik. value_text (M s (snd ik))) ` set (part ?sk ?iks s)" by (simp only: set_map)
      then obtain ik where ik: "ik \<in> set (part ?sk ?iks s)" "value_text (M s (snd ik)) = Some b" by (elim imageE) simp
      then show ?thesis using assms(4) keys [OF ik(1)] in_part_key [OF ik(1), of M] by (simp add: texts_fit_def)
    qed
    moreover have "length (?items s) < 2 ^ 63"
      using assms(3) length_filter_le [of "\<lambda>x. ?sk x = s" ?iks] by (simp add: part_def)
    ultimately have "does content cs (cl_multi e [] s) v (int (length (?items s)), map shown (?items s)) (v(s := (M s, None)))"
      by (intro does_items [where v = v and s = s, OF assms(1) opened [OF s(1)] s(2)]) (simp add: items_fit_def)
    moreover have "map shown (?items s) = map ?f (part ?sk ?iks s)" using in_part_key [of _ e cs ?iks s M] by simp
    ultimately have "does content cs (cl_multi e [] s) v (int (length (?items s)), map ?f (part ?sk ?iks s)) (v(s := (M s, None)))"
      by (simp only:)
    then show "does content cs (?g s out) v (?h s out) (v(s := (M s, None)))"
      by (rule does_bind) (simp add: does_place)
  qed simp
  have "fold ?h ss (replicate (length ks) []) = values_of (whole e cs M) ks"
  proof (rule nth_equalityI)
    fix j assume "j < length (fold ?h ss (replicate (length ks) []))"
    then have j: "j < length ks" by simp
    have "\<exists>k. (j, k) \<in> set ?iks \<and> ?sk (j, k) \<in> set ss"
      using j by (auto simp: ss(2) in_set_enumerate_eq image_iff intro!: exI [of _ "ks ! j"])
        (metis add.commute add_0 fst_conv in_set_enumerate_eq le0 minus_nat.diff_0 snd_conv split_conv)
    then show "fold ?h ss (replicate (length ks) []) ! j = values_of (whole e cs M) ks ! j"
      using placed_parts [of ?iks ?f "\<lambda>j. shown (value_text (whole e cs M (ks ! j)))" j "replicate (length ks) []" ?sk ss] j
      by (auto simp: values_of_def in_set_enumerate_eq)
  qed (simp add: values_of_def)
  then have "does content cs (io_bind (send_all e (map (\<lambda>s. (s, ''MGET'' # map snd (part ?sk ?iks s))) ss))
      (\<lambda>_. io_fold ?g ss (replicate (length ks) []))) (idle M) (values_of (whole e cs M) ks) (idle M)"
    using exchange by simp
  then show ?thesis unfolding redis_mget_def
    by (intro does_bind [OF sockets]) (simp add: io_fold_map comp_def)
qed

section \<open>Deleting several keys\<close>

lemma collect_list: "fold (\<lambda>k c. c @ [k]) ks c = c @ ks"
  by (induction ks arbitrary: c) auto

lemma sum_fold: "fold (\<lambda>s res. res + N s) ss a = a + (\<Sum>s \<leftarrow> ss. N s :: int)"
  by (induction ss arbitrary: a) auto

lemma set_part: "set (part sk ks s) = {k \<in> set ks. sk k = s}"
  by (auto simp: part_def)

definition deleted :: "string list \<Rightarrow> (string \<rightharpoonup> stored) \<Rightarrow> (string \<rightharpoonup> stored)" where
  "deleted ks m = (\<lambda>k. if k \<in> set ks then None else m k)"

lemma does_dels:
  assumes "cluster_env e content" "good_connections cs" "length ks < 2 ^ 63"
  shows "\<exists>M'. does content cs (redis_del_range e ks) (idle M) (\<exists>k \<in> set ks. whole e cs M k \<noteq> None) (idle M') \<and>
    whole e cs M' = deleted ks (whole e cs M)"
proof -
  let ?sk = "socket_of e cs" and ?add = "\<lambda>k c. c @ [k]"
  let ?M' = "\<lambda>s. deleted (part ?sk ks s) (M s)"
  let ?n = "\<lambda>s. int (card {k \<in> set (part ?sk ks s). M s k \<noteq> None})"
  obtain ss where ss: "distinct ss" "set ss = ?sk ` set ks"
    "grouped ?sk [] ?add ks = map (\<lambda>s. (s, fold ?add (part ?sk ks s) [])) ss"
    by (rule grouped_map)
  have opened: "open_in cs s" if "s \<in> set ss" for s using part_socket_open [OF assms(2), of ss e "\<lambda>k. k" ks] ss(2) that by simp
  have "does content cs (by_socket (get_socket e) [] ?add ks []) (idle M) (grouped ?sk [] ?add ks) (idle M)"
    unfolding grouped_def using does_get_socket [OF assms(2)] by (rule does_by_socket)
  moreover have "grouped ?sk [] ?add ks = map (\<lambda>s. (s, part ?sk ks s)) ss" using ss(3) by (simp add: collect_list)
  ultimately have sockets: "does content cs (by_socket (get_socket e) [] ?add ks []) (idle M)
      (map (\<lambda>s. (s, part ?sk ks s)) ss) (idle M)" by simp
  have "does content cs (io_bind (send_all e (map (\<lambda>s. (s, ''DEL'' # part ?sk ks s)) ss))
      (\<lambda>_. io_fold (\<lambda>s res. io_bind (cl_int e s) (\<lambda>n. io_return (res + n))) ss 0)) (idle M) (fold (\<lambda>s res. res + ?n s) ss 0) (idle ?M')"
  proof (rule does_exchange [OF assms(1) ss(1), where R = "\<lambda>s. Integer (?n s)"])
    fix s assume "s \<in> set ss"
    then show "open_in cs s \<and> store_command ''DEL'' (part ?sk ks s) (M s) = Some (Integer (?n s), ?M' s)"
      using opened ss(2) part_some [of s ?sk ks] by (simp add: deleted_def)
  next
    fix s v res assume s: "s \<in> set ss" "v s = (?M' s, Some (Integer (?n s)))"
    have "card {k \<in> set (part ?sk ks s). M s k \<noteq> None} \<le> card (set (part ?sk ks s))" by (intro card_mono) auto
    also have "\<dots> \<le> length (part ?sk ks s)" by (rule card_length)
    also have "\<dots> \<le> length ks" by (simp add: part_def)
    finally have "is_long (?n s)" using assms(3) by (simp add: is_long_def)
    from does_int [where v = v and s = s, OF assms(1) opened [OF s(1)] s(2) this]
    show "does content cs (io_bind (cl_int e s) (\<lambda>n. io_return (res + n))) v (res + ?n s) (v(s := (?M' s, None)))"
      by (rule does_bind) (rule does_return)
  next
    fix s assume "s \<notin> set ss"
    then show "?M' s = M s" using ss(2) by (simp add: part_none deleted_def)
  qed
  note exchange = this
  have "fold (\<lambda>s res. res + ?n s) ss 0 \<noteq> 0 \<longleftrightarrow> (\<exists>k \<in> set ks. whole e cs M k \<noteq> None)"
  proof -
    have "?n s = 0 \<longleftrightarrow> (\<forall>k \<in> set (part ?sk ks s). M s k = None)" for s by auto
    moreover have "(\<Sum>s \<leftarrow> ss. ?n s) = 0 \<longleftrightarrow> (\<forall>s \<in> set ss. ?n s = 0)" by (subst sum_list_nonneg_eq_0_iff) auto
    ultimately have "(\<Sum>s \<leftarrow> ss. ?n s) = 0 \<longleftrightarrow> (\<forall>s \<in> set ss. \<forall>k \<in> set (part ?sk ks s). M s k = None)" by simp
    also have "\<dots> \<longleftrightarrow> (\<forall>k \<in> set ks. whole e cs M k = None)" by (simp add: ss(2) set_part whole_def) metis
    finally show ?thesis by (simp add: sum_fold)
  qed
  with does_bind [OF exchange does_return, of "\<lambda>res. res \<noteq> 0"]
  have "does content cs (redis_del_range e ks) (idle M) (\<exists>k \<in> set ks. whole e cs M k \<noteq> None) (idle ?M')"
    unfolding redis_del_range_def by (intro does_bind [OF sockets]) (simp add: io_fold_map comp_def io_bind_assoc del: io_return_simps idle_simps)
  moreover have "whole e cs ?M' = deleted ks (whole e cs M)" by (auto simp: whole_def deleted_def set_part)
  ultimately show ?thesis by blast
qed

end
