(* ===== verification/ClusterOne.thy ===== *)
theory ClusterOne
  imports ClusterStore
begin

text \<open>
  Renaming across servers, and the refinement of the cluster to one store.
\<close>

section \<open>Renaming\<close>

lemma put_put [simp]: "put e cs k x (put e cs k y M) = put e cs k x M"
  by (auto simp: put_def fun_eq_iff)

lemma does_push_all:
  assumes "cluster_env e content" "good_connections cs" "texts_of (whole e cs M k) = Some l0" "length l0 + length l < 2 ^ 63"
  shows "does content cs (io_each (\<lambda>v. io_bind (redis_rpush e k v) (\<lambda>_. io_return ())) l) (idle M) ()
    (idle (if l = [] then M else put e cs k (Some (Texts (l0 @ l))) M))"
  using assms(3,4)
proof (induction l arbitrary: l0 M)
  case (Cons v l)
  let ?M = "put e cs k (Some (Texts (l0 @ [v]))) M"
  have "length l0 < 2 ^ 63 - 1" using Cons.prems(2) by simp
  from does_bind [OF does_rpush [OF assms(1,2) Cons.prems(1) this] does_return]
  have "does content cs (io_bind (redis_rpush e k v) (\<lambda>_. io_return ())) (idle M) () (idle ?M)" .
  moreover have "does content cs (io_each (\<lambda>v. io_bind (redis_rpush e k v) (\<lambda>_. io_return ())) l) (idle ?M) ()
      (idle (if l = [] then ?M else put e cs k (Some (Texts ((l0 @ [v]) @ l))) ?M))"
    using Cons.prems(2) by (intro Cons.IH) (simp_all add: texts_of_def)
  then have "does content cs (io_each (\<lambda>v. io_bind (redis_rpush e k v) (\<lambda>_. io_return ())) l) (idle ?M) ()
      (idle (put e cs k (Some (Texts (l0 @ v # l))) M))"
    by (cases l) (simp_all del: idle_simps)
  ultimately show ?case by (simp del: idle_simps io_return_simps) (rule does_bind)
qed simp

definition value_fits :: "stored \<Rightarrow> bool" where
  "value_fits x = (case x of Text v \<Rightarrow> fits v | Texts l \<Rightarrow> l \<noteq> [] \<and> length l < 2 ^ 63 \<and> (\<forall>v \<in> set l. fits v))"

lemma does_rename_across:
  assumes "cluster_env e content" "good_connections cs" "old \<noteq> new" "whole e cs M old = Some x" "value_fits x"
  shows "does content cs (rename_across e old new) (idle M) () (idle (put e cs old None (put e cs new (Some x) M)))"
proof (cases x)
  case (Text v)
  then have v: "does content cs (redis_get e old) (idle M) v (idle M)"
    using does_get [OF assms(1,2), of M old] assms(4,5) by (simp add: is_text_def shown_def value_fits_def del: idle_simps)
  have "does content cs (redis_type e old) (idle M) datatype_string (idle M)"
    using does_type [OF assms(1,2), of old M] assms(4) Text by simp
  then show ?thesis unfolding rename_across_def Text
    by (rule does_bind) (simp del: idle_simps io_return_simps, intro does_bind [OF v] does_bind [OF does_set [OF assms(1,2)]]
        does_bind [OF does_del [OF assms(1,2)]] does_return)
next
  case (Texts l)
  let ?M = "put e cs new (Some (Texts l)) M"
  have "whole e cs (put e cs new None M) new = None" by simp
  then have push: "does content cs (io_each (\<lambda>v. io_bind (redis_rpush e new v) (\<lambda>_. io_return ())) l)
      (idle (put e cs new None M)) () (idle ?M)"
    using does_push_all [OF assms(1,2), of "put e cs new None M" new "[]" l] assms(5) Texts
    by (simp add: texts_of_def value_fits_def del: idle_simps)
  have list: "does content cs (redis_lrange e old 0 (- 1) []) (idle M) (int (length l), l) (idle M)"
    using assms(4,5) Texts by (intro does_list [OF assms(1,2)]) (simp_all add: texts_of_def all_items value_fits_def)
  have "does content cs (redis_type e old) (idle M) datatype_list (idle M)"
    using does_type [OF assms(1,2), of old M] assms(4) Texts by simp
  then show ?thesis unfolding rename_across_def Texts
    by (rule does_bind) (simp del: idle_simps io_return_simps, rule does_bind [OF list], simp del: idle_simps io_return_simps,
        intro does_bind [OF does_del [OF assms(1,2)]] does_bind [OF push] does_return)
qed

text \<open>The value moves to the new name, wherever the two names belong.\<close>

lemma does_rename:
  assumes "cluster_env e content" "good_connections cs" "old \<noteq> new" "whole e cs M old = Some x" "value_fits x"
  shows "\<exists>M'. does content cs (redis_rename e old new) (idle M) () (idle M') \<and>
    whole e cs M' = (whole e cs M)(new := Some x, old := None)"
proof -
  let ?src = "socket_of e cs old" and ?dst = "socket_of e cs new"
  let ?M = "put e cs old None (put e cs new (Some x) M)"
  have rename: "does content cs (redis_rename e old new) (idle M) () (idle ?M)"
    if "does content cs (if ?src \<noteq> ?dst then rename_across e old new else request e [''RENAME'', old, new] (cl_ok e) ?src)
      (idle M) () (idle ?M)"
    unfolding redis_rename_def using that by (intro does_bind [OF does_get_socket [OF assms(2)]])
  show ?thesis
  proof (cases "?src = ?dst")
    case False
    then have "does content cs (redis_rename e old new) (idle M) () (idle ?M)"
      using does_rename_across [OF assms] by (intro rename) simp
    then show ?thesis by (intro exI conjI) (assumption, simp)
  next
    case True
    let ?m = "(M ?src)(new := Some x, old := None)"
    have "store_command ''RENAME'' [old, new] (M ?src) = Some (Status ''OK'', ?m)"
      using assms(3,4) by (simp add: whole_def)
    then have send: "does content cs (send_to e ?src (makecmd [''RENAME'', old, new])) (idle M) ()
        ((idle M)(?src := (?m, Some (Status ''OK''))))"
      by (intro does_send [OF assms(1) socket_open [OF assms(2)]]) simp_all
    have ok: "does content cs (cl_ok e ?src) ((idle M)(?src := (?m, Some (Status ''OK'')))) ()
        ((idle M)(?src := (?m, Some (Status ''OK'')), ?src := (?m, None)))"
      by (rule does_ok [OF socket_open [OF assms(2)]]) (rule fun_upd_same)
    have "does content cs (request e [''RENAME'', old, new] (cl_ok e) ?src) (idle M) ()
        ((idle M)(?src := (?m, Some (Status ''OK'')), ?src := (?m, None)))"
      unfolding request_def by (rule does_bind [OF send ok])
    moreover have "(idle M)(?src := (?m, Some (Status ''OK'')), ?src := (?m, None)) = idle ?M" using True by (auto simp: idle_def put_def fun_eq_iff)
    ultimately have "does content cs (redis_rename e old new) (idle M) () (idle ?M)" using True by (intro rename) simp
    then show ?thesis by (intro exI conjI) (assumption, simp)
  qed
qed

section \<open>One store\<close>

text \<open>Operations of the client with their results, and what they are on one store.\<close>

datatype store_op = Op_set string string | Op_get string | Op_setnx string string | Op_exists string
  | Op_del string | Op_dels "string list" | Op_mset "(string \<times> string) list" | Op_mget "string list"
  | Op_push string string | Op_list string | Op_rename string string

datatype op_result = Done | Value string | Values "string list" | Truth bool | Count int

fun run_op :: "'s client_env \<Rightarrow> store_op \<Rightarrow> ('s, op_result) client_io" where
  "run_op e (Op_set k v) = io_bind (redis_set e k v) (\<lambda>_. io_return Done)"
| "run_op e (Op_get k) = io_bind (redis_get e k) (\<lambda>v. io_return (Value v))"
| "run_op e (Op_setnx k v) = io_bind (redis_setnx e k v) (\<lambda>b. io_return (Truth b))"
| "run_op e (Op_exists k) = io_bind (redis_exists e k) (\<lambda>b. io_return (Truth b))"
| "run_op e (Op_del k) = io_bind (redis_del e k) (\<lambda>b. io_return (Truth b))"
| "run_op e (Op_dels ks) = io_bind (redis_del_range e ks) (\<lambda>b. io_return (Truth b))"
| "run_op e (Op_mset kvs) = io_bind (redis_mset_pairs e kvs) (\<lambda>_. io_return Done)"
| "run_op e (Op_mget ks) = io_bind (redis_mget e ks) (\<lambda>vs. io_return (Values vs))"
| "run_op e (Op_push k v) = io_bind (redis_rpush e k v) (\<lambda>n. io_return (Count n))"
| "run_op e (Op_list k) = io_bind (redis_get_list e k []) (\<lambda>r. io_return (Values (snd r)))"
| "run_op e (Op_rename old new) = io_bind (redis_rename e old new) (\<lambda>_. io_return Done)"

fun run_ops :: "'s client_env \<Rightarrow> store_op list \<Rightarrow> ('s, op_result list) client_io" where
  "run_ops e [] = io_return []"
| "run_ops e (p # ps) = io_bind (run_op e p) (\<lambda>r. io_bind (run_ops e ps) (\<lambda>rs. io_return (r # rs)))"

text \<open>
  None is an operation outside the specification: on a value of another kind, with a block or a number
  of replies beyond the protocol's 63 bits, or a renaming of a missing key or to the same name.
\<close>

fun one_store :: "store_op \<Rightarrow> (string \<rightharpoonup> stored) \<Rightarrow> (op_result \<times> (string \<rightharpoonup> stored)) option" where
  "one_store (Op_set k v) m = Some (Done, m(k \<mapsto> Text v))"
| "one_store (Op_get k) m =
     (if is_text (m k) \<and> texts_fit m [k] then Some (Value (shown (value_text (m k))), m) else None)"
| "one_store (Op_setnx k v) m = Some (Truth (m k = None), if m k = None then m(k \<mapsto> Text v) else m)"
| "one_store (Op_exists k) m = Some (Truth (m k \<noteq> None), m)"
| "one_store (Op_del k) m = Some (Truth (m k \<noteq> None), m(k := None))"
| "one_store (Op_dels ks) m =
     (if length ks < 2 ^ 63 then Some (Truth (\<exists>k \<in> set ks. m k \<noteq> None), deleted ks m) else None)"
| "one_store (Op_mset kvs) m = Some (Done, write_all kvs m)"
| "one_store (Op_mget ks) m = (if length ks < 2 ^ 63 \<and> texts_fit m ks then Some (Values (values_of m ks), m) else None)"
| "one_store (Op_push k v) m = (case texts_of (m k) of
     Some l \<Rightarrow> if length l < 2 ^ 63 - 1 then Some (Count (int (length l) + 1), m(k \<mapsto> Texts (l @ [v]))) else None
   | None \<Rightarrow> None)"
| "one_store (Op_list k) m = (case texts_of (m k) of
     Some l \<Rightarrow> if items_fit (map Some l) then Some (Values l, m) else None | None \<Rightarrow> None)"
| "one_store (Op_rename old new) m = (case m old of
     Some x \<Rightarrow> if old \<noteq> new \<and> value_fits x then Some (Done, m(new := Some x, old := None)) else None
   | None \<Rightarrow> None)"

fun one_store_all :: "store_op list \<Rightarrow> (string \<rightharpoonup> stored) \<Rightarrow> (op_result list \<times> (string \<rightharpoonup> stored)) option" where
  "one_store_all [] m = Some ([], m)"
| "one_store_all (p # ps) m = (case one_store p m of None \<Rightarrow> None
     | Some (r, m) \<Rightarrow> map_option (\<lambda>(rs, m). (r # rs, m)) (one_store_all ps m))"

text \<open>The content of a key is the one at the server the client asks for it.\<close>

definition store_of_cluster :: "'s client_env \<Rightarrow> ('s \<Rightarrow> string \<rightharpoonup> stored) \<Rightarrow> 's client \<Rightarrow> string \<rightharpoonup> stored" where
  "store_of_cluster e content cl k = content (cn_server (cl_wire cl (socket_of e (cl_connections cl) k))) k"

definition cluster_ready :: "'s client \<Rightarrow> bool" where
  "cluster_ready cl \<longleftrightarrow> good_connections (cl_connections cl) \<and>
     (\<forall>s \<in> set (sockets cl). cn_input (cl_wire cl s) = [])"

lemma does_map: "does content cs m v x v' \<Longrightarrow> does content cs (io_bind m (\<lambda>x. io_return (f x))) v (f x) v'"
  by (rule does_bind [OF _ does_return])

lemma does_op:
  assumes "cluster_env e content" "good_connections cs" "one_store p (whole e cs M) = Some (r, m)"
  shows "\<exists>M'. does content cs (run_op e p) (idle M) r (idle M') \<and> whole e cs M' = m"
proof -
  show ?thesis
  proof (cases p)
    case (Op_set k v)
    then show ?thesis using does_map [where f = "\<lambda>_. Done", OF does_set [OF assms(1,2), of k v M]] assms(3) by (fastforce simp del: idle_simps)
  next
    case (Op_get k)
    then have "is_text (whole e cs M k)" "\<And>v. value_text (whole e cs M k) = Some v \<Longrightarrow> fits v"
      using assms(3) by (auto simp: texts_fit_def split: if_splits)
    from does_map [where f = Value, OF does_get [OF assms(1,2) this]] show ?thesis using Op_get assms(3)
      by (auto simp del: idle_simps split: if_splits)
  next
    case (Op_setnx k v)
    then show ?thesis using does_map [where f = Truth, OF does_setnx [OF assms(1,2), of k v M]] assms(3)
      by (auto simp del: idle_simps split: if_splits)
  next
    case (Op_exists k)
    then show ?thesis using does_map [where f = Truth, OF does_exists [OF assms(1,2), of k M]] assms(3) by (fastforce simp del: idle_simps)
  next
    case (Op_del k)
    then show ?thesis using does_map [where f = Truth, OF does_del [OF assms(1,2), of k M]] assms(3) by (fastforce simp del: idle_simps)
  next
    case (Op_dels ks)
    then have "length ks < 2 ^ 63" using assms(3) by (simp split: if_splits)
    from does_dels [OF assms(1,2) this, of M] obtain M' where
      "does content cs (redis_del_range e ks) (idle M) (\<exists>k \<in> set ks. whole e cs M k \<noteq> None) (idle M')"
      "whole e cs M' = deleted ks (whole e cs M)" by blast
    with does_map [where f = Truth, OF this(1)] show ?thesis using Op_dels assms(3) by (auto simp del: idle_simps split: if_splits)
  next
    case (Op_mset kvs)
    from does_mset [OF assms(1,2), of kvs M] obtain M' where
      "does content cs (redis_mset_pairs e kvs) (idle M) () (idle M')" "whole e cs M' = write_all kvs (whole e cs M)" by blast
    with does_map [where f = "\<lambda>_. Done", OF this(1)] show ?thesis using Op_mset assms(3) by (auto simp del: idle_simps)
  next
    case (Op_mget ks)
    then have "length ks < 2 ^ 63" "texts_fit (whole e cs M) ks" using assms(3) by (auto split: if_splits)
    from does_map [where f = Values, OF does_mget [OF assms(1,2) this]] show ?thesis using Op_mget assms(3)
      by (auto simp del: idle_simps split: if_splits)
  next
    case (Op_push k v)
    then obtain l where l: "texts_of (whole e cs M k) = Some l" "length l < 2 ^ 63 - 1" using assms(3)
      by (auto split: option.splits if_splits)
    from does_map [where f = Count, OF does_rpush [OF assms(1,2) l, of v]] show ?thesis using Op_push l assms(3)
      by (auto simp del: idle_simps split: if_splits)
  next
    case (Op_list k)
    then obtain l where l: "texts_of (whole e cs M k) = Some l" "items_fit (map Some l)" using assms(3)
      by (auto split: option.splits if_splits)
    from does_map [where f = "\<lambda>r. Values (snd r)", OF does_list [OF assms(1,2) l]] show ?thesis using Op_list l assms(3)
      by (auto simp: redis_get_list_def simp del: idle_simps)
  next
    case (Op_rename old new)
    then obtain x where x: "old \<noteq> new" "whole e cs M old = Some x" "value_fits x" using assms(3)
      by (auto split: option.splits if_splits)
    from does_rename [OF assms(1,2) x] obtain M' where "does content cs (redis_rename e old new) (idle M) () (idle M')"
      "whole e cs M' = (whole e cs M)(new := Some x, old := None)" by blast
    with does_map [where f = "\<lambda>_. Done", OF this(1)] show ?thesis using Op_rename x assms(3) by (auto simp del: idle_simps)
  qed
qed

lemma does_ops:
  assumes "cluster_env e content" "good_connections cs" "one_store_all ps (whole e cs M) = Some (rs, m)"
  shows "\<exists>M'. does content cs (run_ops e ps) (idle M) rs (idle M') \<and> whole e cs M' = m"
  using assms(3)
proof (induction ps arbitrary: M rs)
  case (Cons p ps)
  then obtain r m1 rs1 where p: "one_store p (whole e cs M) = Some (r, m1)" "one_store_all ps m1 = Some (rs1, m)" "rs = r # rs1"
    by (auto split: option.splits)
  obtain M1 where M1: "does content cs (run_op e p) (idle M) r (idle M1)" "whole e cs M1 = m1"
    using does_op [OF assms(1,2) p(1)] by blast
  obtain M2 where M2: "does content cs (run_ops e ps) (idle M1) rs1 (idle M2)" "whole e cs M2 = m"
    using Cons.IH [of M1 rs1] p(2) M1(2) by blast
  have "does content cs (run_ops e (p # ps)) (idle M) rs (idle M2)"
    unfolding run_ops.simps p(3) by (rule does_bind [OF M1(1)], rule does_map [OF M2(1)])
  then show ?case using M2(2) by blast
qed (auto intro!: exI does_return)

text \<open>C25: however the keys are spread over the servers, the client makes one store of them: every sequence
  of operations that one store would carry out gives the same results in the same order and leaves the
  same content, also when the keys of one operation belong to different servers or a renaming takes a
  value from one server to another.\<close>

theorem cluster_is_one_store:
  assumes "cluster_env e content" "cluster_ready cl"
    and "one_store_all ps (store_of_cluster e content cl) = Some (rs, m)"
  shows "\<exists>cl'. run_ops e ps cl = (Inr rs, cl') \<and> cluster_ready cl' \<and> store_of_cluster e content cl' = m"
proof -
  let ?cs = "cl_connections cl"
  define M where "M s = content (cn_server (cl_wire cl s))" for s
  have good: "good_connections ?cs" using assms(2) by (simp add: cluster_ready_def)
  have seen: "seen content ?cs cl (idle M)"
    using assms(2) by (auto simp: seen_def M_def on_the_way_def cluster_ready_def open_in_def sockets_def)
  have "one_store_all ps (whole e ?cs M) = Some (rs, m)"
    using assms(3) by (simp add: store_of_cluster_def [abs_def] whole_def [abs_def] M_def)
  from does_ops [OF assms(1) good this] obtain M' where
    M': "does content ?cs (run_ops e ps) (idle M) rs (idle M')" "whole e ?cs M' = m" by blast
  obtain cl' where cl': "run_ops e ps cl = (Inr rs, cl')" "seen content ?cs cl' (idle M')" using doesD [OF M'(1) seen] by blast
  then have "cl_connections cl' = ?cs" by (simp add: seen_def)
  moreover have "content (cn_server (cl_wire cl' s)) = M' s \<and> cn_input (cl_wire cl' s) = []" if "s \<in> set (sockets cl)" for s
    using cl'(2) good that by (auto simp: seen_def on_the_way_def good_connections_def open_in_def sockets_def)
  moreover have "socket_of e ?cs k \<in> set (sockets cl)" for k
    using socket_open [OF good, of e k] by (simp add: open_in_def sockets_def)
  ultimately have "cluster_ready cl'" "store_of_cluster e content cl' = m"
    using good M'(2) by (auto simp: cluster_ready_def store_of_cluster_def whole_def sockets_def)
  then show ?thesis using cl'(1) by blast
qed

text \<open>Two servers, between which the length of a key chooses.\<close>

definition sample_store_network :: "(string \<rightharpoonup> stored) network" where
  "sample_store_network = \<lparr>nt_server = (\<lambda>m msg. case decode_request msg of
       Some (c # args, _) \<Rightarrow> map_option (\<lambda>(r, m). (encode_reply r, m)) (store_command c args m)
     | _ \<Rightarrow> None), nt_peek = (\<lambda>_. 3), nt_closed = False\<rparr>"

definition sample_cluster_env :: "(string \<rightharpoonup> stored) client_env" where
  "sample_cluster_env = \<lparr>ce_boost = sample_boost, ce_net = (\<lambda>_. sample_store_network), ce_hash = length, ce_pick = (\<lambda>_. 0),
     ce_connect = (\<lambda>_ _ _. None), ce_cast = (\<lambda>t s. case parse_int s of None \<Rightarrow> None | Some n \<Rightarrow> if in_type t n then Some n else None),
     ce_of_double = show_stream\<rparr>"

definition sample_cluster :: "(string \<rightharpoonup> stored) client" where
  "sample_cluster = \<lparr>cl_connections = map (\<lambda>s. (new_connection_data ''localhost'' 6379 0)\<lparr>cd_socket := s\<rparr>) [4, 5],
     cl_wire = (\<lambda>_. \<lparr>cn_server = Map.empty, cn_input = []\<rparr>)\<rparr>"

lemma sample_cluster_env_documented: "cluster_env sample_cluster_env (\<lambda>m. m)"
  using decode_makecmd [of _ "[]"]
  by (auto simp: cluster_env_def sample_cluster_env_def sample_boost_documented stores_def sample_store_network_def)

lemma cluster_is_one_store_witness:
  "\<exists>cl'. run_ops sample_cluster_env [Op_mset [(''a'', ''1''), (''bb'', ''2'')], Op_mget [''bb'', ''ccc'', ''a''],
      Op_rename ''a'' ''bb'', Op_get ''bb''] sample_cluster =
    (Inr [Done, Values [''2'', missing_value, ''1''], Done, Value ''1''], cl') \<and>
    store_of_cluster sample_cluster_env (\<lambda>m. m) cl' = [''bb'' \<mapsto> Text ''1'']"
proof -
  have ready: "cluster_ready sample_cluster"
    by (simp add: cluster_ready_def sample_cluster_def good_connections_def sockets_def new_connection_data_def)
  have empty: "store_of_cluster sample_cluster_env (\<lambda>m. m) sample_cluster = Map.empty"
    by (simp add: store_of_cluster_def [abs_def] sample_cluster_def)
  have "one_store_all [Op_mset [(''a'', ''1''), (''bb'', ''2'')], Op_mget [''bb'', ''ccc'', ''a''],
      Op_rename ''a'' ''bb'', Op_get ''bb''] Map.empty =
    Some ([Done, Values [''2'', missing_value, ''1''], Done, Value ''1''], [''bb'' \<mapsto> Text ''1''])"
    by (auto simp: texts_fit_def fits_def values_of_def shown_def value_fits_def is_text_def)
  then show ?thesis
    using cluster_is_one_store [OF sample_cluster_env_documented ready] unfolding empty by blast
qed

end
