(* ===== verification/RedisReplies.thy ===== *)
theory RedisReplies
  imports ClusterOne
begin

text \<open>
  Replies of any kind and their accessors, transactions, the text of \<open>INFO\<close>, the client with one
  connection, and operations that cannot do what they are for.
\<close>

section \<open>The kind of a reply and its value\<close>

definition typed_reply :: "reply_data_t \<Rightarrow> bool" where
  "typed_reply r \<longleftrightarrow> (case fst r of
     status_code_reply \<Rightarrow> \<exists>s. snd r = Val_string s
   | error_reply \<Rightarrow> \<exists>s. snd r = Val_string s
   | int_reply \<Rightarrow> \<exists>n. snd r = Val_int n
   | bulk_reply \<Rightarrow> \<exists>s. snd r = Val_string s
   | multi_bulk_reply \<Rightarrow> \<exists>ss. snd r = Val_vector ss
   | no_reply \<Rightarrow> False)"

lemma io_bind_InrE:
  assumes "io_bind m f c = (Inr x, c')"
  obtains y c1 where "m c = (Inr y, c1)" "f y c1 = (Inr x, c')"
  using assms by (auto simp: io_bind_def split: prod.splits sum.splits)

lemma generic_reply_typed: "recv_generic_reply bt net c = (Inr r, c') \<Longrightarrow> typed_reply r"
  unfolding recv_generic_reply_def
  by (erule io_bind_InrE) (auto simp: typed_reply_def split: reply_t.splits elim!: io_bind_InrE)

lemma cl_generic_typed: "cl_generic e s cl = (Inr r, cl') \<Longrightarrow> typed_reply r"
  by (auto simp: cl_generic_def receive_def on_wire_def generic_reply_typed split: if_splits prod.splits)

definition answered :: "command \<Rightarrow> command \<Rightarrow> bool" where
  "answered c c' \<longleftrightarrow> cmd_request c' = cmd_request c \<and> cmd_hash_key c' = cmd_hash_key c \<and> typed_reply (cmd_reply c')"

lemma exec_answered: "redis_exec e c cl = (Inr c', cl') \<Longrightarrow> answered c c'"
  unfolding redis_exec_def by (auto elim!: io_bind_InrE dest!: cl_generic_typed simp: answered_def set_reply_def)

lemma generic_replies_answered:
  assumes "\<And>c cl r cl'. recv c cl = (Inr r, cl') \<Longrightarrow> typed_reply r"
  shows "generic_replies recv (\<lambda>c. c) cs cl = (Inr cs', cl') \<Longrightarrow> list_all2 answered cs cs'"
  by (induction cs arbitrary: cl cs') (auto elim!: io_bind_InrE dest!: assms simp: answered_def set_reply_def)

lemma exec_all_answered: "redis_exec_all e cs cl = (Inr cs', cl') \<Longrightarrow> list_all2 answered cs cs'"
  unfolding redis_exec_all_def
  by (elim io_bind_InrE, erule generic_replies_answered [rotated]) (auto elim!: io_bind_InrE dest!: cl_generic_typed)

lemma exec_transaction_answered: "redis_exec_transaction e cs cl = (Inr cs', cl') \<Longrightarrow> list_all2 answered cs cs'"
  unfolding redis_exec_transaction_def
  by (elim io_bind_InrE, erule generic_replies_answered [rotated]) (auto dest!: cl_generic_typed)

text \<open>What the five accessors of a command do, in the order of their kinds.\<close>

definition accessors :: "command \<Rightarrow> (redis_error + unit) list" where
  "accessors c = [map_sum id (\<lambda>_. ()) (get_status_code_reply c), map_sum id (\<lambda>_. ()) (get_error_reply c),
     map_sum id (\<lambda>_. ()) (get_int_reply c), map_sum id (\<lambda>_. ()) (get_bulk_reply c), map_sum id (\<lambda>_. ()) (get_multi_bulk_reply c)]"

definition the_answer :: "reply_t \<Rightarrow> (redis_error + unit) list" where
  "the_answer t = map (\<lambda>t'. if t' = t then Inr () else Inl Runtime_error)
     [status_code_reply, error_reply, int_reply, bulk_reply, multi_bulk_reply]"

lemma accessors_typed: "typed_reply (cmd_reply c) \<Longrightarrow> accessors c = the_answer (fst (cmd_reply c))"
  by (cases "fst (cmd_reply c)")
    (auto simp: accessors_def the_answer_def typed_reply_def get_status_code_reply_def get_error_reply_def get_int_reply_def
      get_bulk_reply_def get_multi_bulk_reply_def check_reply_t_def the_string_def the_int_def the_vector_def)

text \<open>C26: whatever a server sends, a command that was executed, alone, in a row of commands or in a
  transaction, holds a value of the kind of its reply: of the five accessors exactly the one of this kind
  answers, the others report the wrong kind, and none ever finds a value it does not expect.\<close>

theorem executed_commands_typed:
  assumes "(\<exists>c. cs = [c] \<and> (\<exists>c'. redis_exec e c cl = (Inr c', cl') \<and> cs' = [c'])) \<or>
    redis_exec_all e cs cl = (Inr cs', cl') \<or> redis_exec_transaction e cs cl = (Inr cs', cl')"
  shows "list_all2 (\<lambda>c c'. cmd_request c' = cmd_request c \<and> fst (cmd_reply c') \<noteq> no_reply \<and>
    accessors c' = the_answer (fst (cmd_reply c'))) cs cs'"
proof -
  have "list_all2 answered cs cs'" using assms exec_answered exec_all_answered exec_transaction_answered by fastforce
  then show ?thesis
  proof (rule list_all2_mono)
    fix c c' assume "answered c c'"
    then show "cmd_request c' = cmd_request c \<and> fst (cmd_reply c') \<noteq> no_reply \<and> accessors c' = the_answer (fst (cmd_reply c'))"
      using accessors_typed by (auto simp: answered_def typed_reply_def)
  qed
qed

section \<open>Transactions\<close>

lemma other_socket_refused:
  assumes "\<And>k. get_socket e k cl = (Inr (f k), cl)"
  shows "s \<noteq> - 1 \<Longrightarrow> c \<in> set cs \<Longrightarrow> f (cmd_hash_key c) \<noteq> s \<Longrightarrow> transaction_socket e cs s cl = (Inl (Throws Runtime_error), cl)"
  by (induction cs) (auto simp: io_bind_def assms)

lemma get_socket_good:
  "good_connections (cl_connections cl) \<Longrightarrow> get_socket e k cl = (Inr (socket_of e (cl_connections cl) k), cl)"
  by (cases "length (cl_connections cl) = 1")
    (simp_all add: get_socket_def socket_of_def default_hasher_def good_connections_def Let_def)

text \<open>A transaction whose commands belong to different servers is refused before a byte is sent.\<close>

theorem transaction_across_servers:
  assumes "good_connections (cl_connections cl)" "c \<in> set cs" "d \<in> set cs"
    and "socket_of e (cl_connections cl) (cmd_hash_key c) \<noteq> socket_of e (cl_connections cl) (cmd_hash_key d)"
  shows "redis_exec_transaction e cs cl = (Inl (Throws Runtime_error), cl)"
proof -
  let ?f = "socket_of e (cl_connections cl)"
  obtain x xs where x: "cs = x # xs" using assms(2) by (cases cs) auto
  have get: "get_socket e k cl = (Inr (?f k), cl)" for k using get_socket_good [OF assms(1)] .
  have "?f (cmd_hash_key x) \<noteq> - 1" using socket_open [OF assms(1), of e "cmd_hash_key x"] by (auto simp: open_in_def)
  moreover obtain y where "y \<in> set xs" "?f (cmd_hash_key y) \<noteq> ?f (cmd_hash_key x)" using assms(2-4) x by (metis set_ConsD)
  ultimately have "transaction_socket e xs (?f (cmd_hash_key x)) cl = (Inl (Throws Runtime_error), cl)"
    by (intro other_socket_refused [OF get])
  then have "transaction_socket e cs (- 1) cl = (Inl (Throws Runtime_error), cl)" using x get by (simp add: io_bind_def)
  then show ?thesis by (simp add: redis_exec_transaction_def io_bind_def)
qed

section \<open>The text of INFO\<close>

definition info_text :: "(string \<times> string) list \<Rightarrow> string" where
  "info_text kvs = concat (map (\<lambda>(k, v). k @ '':'' @ v @ [CR, LF]) kvs)"

definition plain_entry :: "string \<times> string \<Rightarrow> bool" where
  "plain_entry kv \<longleftrightarrow> (case kv of (k, v) \<Rightarrow> k \<noteq> [] \<and> hd k \<noteq> CHR ''#'' \<and> v \<noteq> [] \<and> last v \<notin> set REDIS_WHITESPACE \<and>
     (\<forall>c \<in> set k \<union> set v. c \<noteq> CHR '':'' \<and> c \<noteq> LF))"

fun info_entries :: "(c_int \<Rightarrow> string \<Rightarrow> int option) \<Rightarrow> (string \<times> string) list \<Rightarrow> server_info \<Rightarrow> redis_error + server_info" where
  "info_entries cast [] out = Inr out"
| "info_entries cast ((k, v) # kvs) out =
     (case info_entry cast k v (out\<lparr>si_param_map := (si_param_map out)(k \<mapsto> v)\<rparr>) of
        Inl e \<Rightarrow> Inl e | Inr out \<Rightarrow> info_entries cast kvs out)"

lemma split_info_text:
  "list_all plain_entry kvs \<Longrightarrow> split_fields LF (info_text kvs) = map (\<lambda>(k, v). k @ '':'' @ v @ [CR]) kvs @ [[]]"
proof (induction kvs)
  case (Cons kv kvs)
  obtain k v where kv: "kv = (k, v)" by (cases kv)
  have "LF \<notin> set (k @ '':'' @ v @ [CR])" using Cons.prems by (auto simp: kv plain_entry_def LF_def CR_def)
  from split_append [OF this, of "info_text kvs"] show ?case using Cons by (simp add: kv info_text_def)
qed (simp add: info_text_def)

lemma rtrim_entry:
  assumes "v \<noteq> []" "last v \<notin> set ws" "c \<in> set ws"
  shows "rtrim ws (k @ v @ [c]) = k @ v"
proof -
  obtain v' l where "v = v' @ [l]" using assms(1) by (cases v rule: rev_cases) auto
  then show ?thesis using assms(2,3) by (simp add: rtrim_def)
qed

lemma split_lines_info:
  assumes "list_all plain_entry kvs"
  shows "split_lines (info_text kvs) = map (\<lambda>(k, v). k @ '':'' @ v) kvs"
proof -
  have "rtrim REDIS_WHITESPACE (k @ '':'' @ v @ [CR]) = k @ '':'' @ v" if "(k, v) \<in> set kvs" for k v
    using that assms rtrim_entry [of v REDIS_WHITESPACE CR "k @ '':''"]
    by (force simp: list_all_iff plain_entry_def REDIS_WHITESPACE_def CR_def)
  then show ?thesis using split_info_text [OF assms] by (auto simp: split_lines_def redis_split_def)
qed

lemma split_entry:
  assumes "plain_entry (k, v)"
  shows "redis_split (k @ '':'' @ v) (CHR '':'') = [k, v]"
proof -
  have "CHR '':'' \<notin> set k" "CHR '':'' \<notin> set v" "v \<noteq> []" using assms by (auto simp: plain_entry_def)
  then show ?thesis using split_append [of "CHR '':''" k v] split_one [of "CHR '':''" v] by (simp add: redis_split_def)
qed

lemma info_lines_entries:
  "list_all plain_entry kvs \<Longrightarrow> info_lines cast (map (\<lambda>(k, v). k @ '':'' @ v) kvs) out = info_entries cast kvs out"
proof (induction kvs arbitrary: out)
  case (Cons kv kvs)
  obtain k v where kv: "kv = (k, v)" by (cases kv)
  have "plain_entry (k, v)" using Cons.prems kv by simp
  then have "k @ '':'' @ v \<noteq> []" "hd (k @ '':'' @ v) \<noteq> CHR ''#''" by (auto simp: plain_entry_def)
  then show ?case using Cons split_entry [OF \<open>plain_entry (k, v)\<close>] by (auto simp: kv split: sum.split)
qed simp

lemma parse_info_entries:
  assumes "list_all plain_entry kvs" "kvs \<noteq> []"
  shows "parse_info cast (info_text kvs) out = info_entries cast kvs out"
proof -
  have "split_lines (info_text kvs) \<noteq> []" using assms(2) split_lines_info [OF assms(1)] by simp
  moreover then have "info_text kvs \<noteq> []" by (auto simp: split_lines_def redis_split_def)
  ultimately show ?thesis using info_lines_entries [OF assms(1)] split_lines_info [OF assms(1)] by (simp add: parse_info_def)
qed

text \<open>What a server says of itself, under the names the client knows.\<close>

definition info_params :: "server_info \<Rightarrow> (string \<times> string) list" where
  "info_params si =
    [(''redis_version'', si_version si), (''bgsave_in_progress'', show_bool (si_bgsave_in_progress si)),
     (''connected_clients'', show_int (si_connected_clients si)), (''connected_slaves'', show_int (si_connected_slaves si)),
     (''used_memory'', show_int (si_used_memory si)),
     (''changes_since_last_save'', show_int (si_changes_since_last_save si)),
     (''last_save_time'', show_int (si_last_save_time si)),
     (''total_connections_received'', show_int (si_total_connections_received si)),
     (''total_commands_processed'', show_int (si_total_commands_processed si)),
     (''uptime_in_seconds'', show_int (si_uptime_in_seconds si)), (''uptime_in_days'', show_int (si_uptime_in_days si)),
     (''role'', case si_role si of role_master \<Rightarrow> ''master'' | role_slave \<Rightarrow> ''slave''),
     (''arch_bits'', show_int (si_arch_bits si)), (''multiplexing_api'', si_multiplexing_api si)]"

definition info_numbers :: "server_info \<Rightarrow> int list" where
  "info_numbers si = [si_connected_clients si, si_connected_slaves si, si_used_memory si, si_changes_since_last_save si,
     si_last_save_time si, si_total_connections_received si, si_total_commands_processed si, si_uptime_in_seconds si,
     si_uptime_in_days si]"

definition documented_cast :: "(c_int \<Rightarrow> string \<Rightarrow> int option) \<Rightarrow> bool" where
  "documented_cast cast \<longleftrightarrow> (\<forall>t n. in_type t n \<longrightarrow> cast t (show_int n) = Some n)"

lemma plain_number: "k \<noteq> [] \<Longrightarrow> hd k \<noteq> CHR ''#'' \<Longrightarrow> CHR '':'' \<notin> set k \<Longrightarrow> LF \<notin> set k \<Longrightarrow> plain_entry (k, show_int n)"
proof -
  have "c \<noteq> CHR '':'' \<and> c \<noteq> LF \<and> c \<notin> set REDIS_WHITESPACE" if "c \<in> set (show_int n)" for c
  proof -
    have "\<not> is_digit d \<and> d \<noteq> CHR ''-''" if "d \<in> set (CHR '':'' # LF # REDIS_WHITESPACE)" for d
      using that by (auto simp: REDIS_WHITESPACE_def is_digit_def LF_def)
    then show ?thesis using that show_int_no [of _ n] by (metis list.set_intros)
  qed
  moreover assume "k \<noteq> []" "hd k \<noteq> CHR ''#''" "CHR '':'' \<notin> set k" "LF \<notin> set k"
  ultimately show ?thesis by (auto simp: plain_entry_def)
qed

lemma info_entries_append:
  "info_entries cast (a @ b) out = (case info_entries cast a out of Inl e \<Rightarrow> Inl e | Inr out \<Rightarrow> info_entries cast b out)"
  by (induction cast a out rule: info_entries.induct) (auto split: sum.split)

definition enter :: "(string \<times> string) list \<Rightarrow> (string \<rightharpoonup> string) \<Rightarrow> (string \<rightharpoonup> string)" where
  "enter kvs m = fold (\<lambda>(k, v) m. m(k \<mapsto> v)) kvs m"

lemma enter_simps: "enter [] m = m" "enter ((k, v) # kvs) m = enter kvs (m(k \<mapsto> v))" "enter (a @ b) m = enter b (enter a m)"
  by (simp_all add: enter_def)

lemma other_entries:
  assumes "\<And>k. k \<in> fst ` set kvs \<Longrightarrow> k \<notin> fst ` set (info_params si)"
  shows "info_entries cast kvs out = Inr (out\<lparr>si_param_map := enter kvs (si_param_map out)\<rparr>)"
  using assms
proof (induction kvs arbitrary: out)
  case (Cons kv kvs)
  obtain k v where kv: "kv = (k, v)" by (cases kv)
  have "k \<notin> fst ` set (info_params si)" using Cons.prems kv by simp
  then have "info_entry cast k v out' = Inr out'" for out' by (simp add: info_entry_def info_params_def)
  then show ?case using Cons by (simp add: kv enter_simps)
qed (simp add: enter_simps)

lemma cast_shown:
  assumes "documented_cast cast"
  shows "in_type (Unsigned 64) n \<Longrightarrow> cast_ulong cast (show_int n) = Inr n"
    "in_type (Unsigned 16) n \<Longrightarrow> cast_ushort cast (show_int n) = Inr n"
    "cast_ulong cast (show_bool b) = Inr (if b then 1 else 0)"
proof -
  have "show_int 1 = ''1''" "show_int 0 = ''0''" by code_simp+
  then have "cast (Unsigned 64) ''1'' = Some 1" "cast (Unsigned 64) ''0'' = Some 0"
    using assms [unfolded documented_cast_def, rule_format, of "Unsigned 64" 1]
      assms [unfolded documented_cast_def, rule_format, of "Unsigned 64" 0] by (simp_all add: in_type_def)
  then show "cast_ulong cast (show_bool b) = Inr (if b then 1 else 0)" by (simp add: cast_ulong_def show_bool_def)
qed (use assms in \<open>simp_all add: documented_cast_def cast_ulong_def cast_ushort_def\<close>)

text \<open>The values a server may have: numbers of their types and names that fit into a line.\<close>

definition printable_info :: "server_info \<Rightarrow> bool" where
  "printable_info si \<longleftrightarrow> list_all (in_type (Unsigned 64)) (info_numbers si) \<and> in_type (Unsigned 16) (si_arch_bits si) \<and>
     plain_entry (''redis_version'', si_version si) \<and> plain_entry (''multiplexing_api'', si_multiplexing_api si)"

lemma plain_params: "printable_info si \<Longrightarrow> list_all plain_entry (info_params si)"
proof -
  have "plain_entry (''bgsave_in_progress'', show_bool b)" for b
    by (simp add: plain_entry_def show_bool_def REDIS_WHITESPACE_def LF_def)
  moreover have "plain_entry (''role'', case r of role_master \<Rightarrow> ''master'' | role_slave \<Rightarrow> ''slave'')" for r
    by (simp add: plain_entry_def REDIS_WHITESPACE_def LF_def split: server_role.split)
  moreover assume "printable_info si"
  ultimately show ?thesis by (simp add: info_params_def printable_info_def plain_number LF_def)
qed

lemma params_read:
  assumes "documented_cast cast" "printable_info si"
  shows "info_entries cast (info_params si) out = Inr (si\<lparr>si_param_map := enter (info_params si) (si_param_map out)\<rparr>)"
  using assms(2)
  by (cases si, cases "si_role si") (simp_all add: info_params_def info_entry_def cast_shown [OF assms(1)] printable_info_def
      info_numbers_def enter_simps)

text \<open>C27: what a server prints of itself is read back into every field of the caller's record, and every
  line of the text, also one the client does not know, is entered in its map of parameters.\<close>

theorem info_read_back:
  assumes "documented_cast cast" "printable_info si" "list_all plain_entry other"
    and "\<And>k. k \<in> fst ` set other \<Longrightarrow> k \<notin> fst ` set (info_params si)"
  shows "parse_info cast (info_text (info_params si @ other)) out =
    Inr (si\<lparr>si_param_map := enter (info_params si @ other) (si_param_map out)\<rparr>)"
proof -
  have "parse_info cast (info_text (info_params si @ other)) out = info_entries cast (info_params si @ other) out"
    using plain_params [OF assms(2)] assms(3) by (intro parse_info_entries) (simp_all add: info_params_def)
  also have "\<dots> = info_entries cast other (si\<lparr>si_param_map := enter (info_params si) (si_param_map out)\<rparr>)"
    using params_read [OF assms(1,2)] by (simp add: info_entries_append)
  also have "\<dots> = Inr (si\<lparr>si_param_map := enter (info_params si @ other) (si_param_map out)\<rparr>)"
    using other_entries [OF assms(4)] by (simp add: enter_simps)
  finally show ?thesis .
qed

section \<open>One connection\<close>

lemma on_wire_bind: "on_wire s (io_bind m f) = io_bind (on_wire s m) (\<lambda>x. on_wire s (f x))"
  by (auto simp: on_wire_def io_bind_def fun_eq_iff split: prod.split sum.split)

text \<open>With one connection the operations are those of \<open>RedisClient\<close>, which the writer of the program uses.\<close>

theorem one_connection:
  assumes "cl_connections cl = [con]" "cd_socket con = s" "0 < s"
  shows "redis_set e k v cl = on_wire s (client_set (ce_net e s) k v) cl"
    and "redis_get e k cl = on_wire s (client_get (ce_boost e) (ce_net e s) k) cl"
    and "redis_rpush e k v cl = on_wire s (client_rpush (ce_boost e) (ce_net e s) k v) cl"
    and "redis_lpush e k v cl = on_wire s (client_lpush (ce_boost e) (ce_net e s) k v) cl"
    and "redis_lrange e k i j out cl = on_wire s (client_lrange (ce_boost e) (ce_net e s) k i j out) cl"
    and "redis_ltrim e k i j cl = on_wire s (client_ltrim (ce_boost e) (ce_net e s) k i j) cl"
proof -
  have "\<And>reply recv params. (\<And>s. reply s = receive s (recv s)) \<Longrightarrow> keyed e k params reply cl =
      on_wire s (io_bind (send_msg (ce_net e s) (makecmd params)) (\<lambda>_. recv s)) cl"
    using assms by (simp add: keyed_def get_socket_def request_def send_to_def receive_def ANET_ERR_def on_wire_bind
        io_bind_def [of "get_socket e k"])
  note one = this
  show "redis_set e k v cl = on_wire s (client_set (ce_net e s) k v) cl"
    unfolding redis_set_def client_set_def by (rule one) (simp add: cl_ok_def)
  show "redis_get e k cl = on_wire s (client_get (ce_boost e) (ce_net e s) k) cl"
    unfolding redis_get_def client_get_def by (rule one) (simp add: cl_bulk_def)
  show "redis_rpush e k v cl = on_wire s (client_rpush (ce_boost e) (ce_net e s) k v) cl"
    unfolding redis_rpush_def client_rpush_def by (rule one) (simp add: cl_int_def)
  show "redis_lpush e k v cl = on_wire s (client_lpush (ce_boost e) (ce_net e s) k v) cl"
    unfolding redis_lpush_def client_lpush_def by (rule one) (simp add: cl_int_def)
  show "redis_lrange e k i j out cl = on_wire s (client_lrange (ce_boost e) (ce_net e s) k i j out) cl"
    unfolding redis_lrange_def client_lrange_def long_text_def by (rule one) (simp add: cl_multi_def)
  show "redis_ltrim e k i j cl = on_wire s (client_ltrim (ce_boost e) (ce_net e s) k i j) cl"
    unfolding redis_ltrim_def client_ltrim_def long_text_def by (rule one) (simp add: cl_ok_def)
qed

section \<open>Operations that cannot do what they are for\<close>

text \<open>The answer to \<open>ZADD\<close> for a member that is there is 0: its score is changed and the operation throws.\<close>

theorem zadd_again_throws:
  assumes "cl_connections cl = [con]" "0 < cd_socket con" "documented_boost (ce_boost e)" "cn_input (cl_wire cl (cd_socket con)) = []"
    and "nt_server (ce_net e (cd_socket con)) (cn_server (cl_wire cl (cd_socket con)))
      (makecmd [''ZADD'', k, ce_of_double e score, v]) = Some (encode_reply (Integer 0), st)"
  shows "\<exists>cl'. redis_zadd e k score v cl = (Inl (Throws Protocol_error), cl') \<and> cn_server (cl_wire cl' (cd_socket con)) = st"
proof -
  let ?s = "cd_socket con"
  let ?c = "cl_wire cl ?s\<lparr>cn_server := st, cn_input := encode_reply (Integer 0)\<rparr>"
  have send: "send_msg (ce_net e ?s) (makecmd [''ZADD'', k, ce_of_double e score, v]) (cl_wire cl ?s) = (Inr (), ?c)"
    using assms(4,5) by (simp add: send_msg_def)
  have "recv_int_reply (ce_boost e) (ce_net e ?s) ?c = (Inr 0, ?c\<lparr>cn_input := []\<rparr>)"
    by (rule recv_int [OF assms(3)]) (simp_all add: is_long_def)
  then show ?thesis using assms(1,2) send
    by (simp add: redis_zadd_def keyed_def get_socket_def request_def send_to_def ANET_ERR_def on_wire_def io_bind_def
        cl_int_ok_def cl_int_def receive_def)
qed

text \<open>The members of a range asked for with their scores are asked for without, a random member is removed, and
  \<open>msetnx\<close> ends with an exception or behind its end.\<close>

theorem scores_not_asked_for: "redis_zrangebyscore_base e True = redis_zrangebyscore_base e False"
  by (simp add: fun_eq_iff redis_zrangebyscore_base_def)

theorem random_member_removed: "redis_srandmember = redis_spop"
  by (simp add: fun_eq_iff redis_srandmember_def redis_spop_def)

theorem msetnx_never_returns: "fst (redis_msetnx e ks vs cl) \<noteq> Inr b"
  by (auto simp: redis_msetnx_def io_bind_def split: prod.split sum.split)

lemma by_socket_nowhere:
  assumes "\<And>x. sock x cl = (Inr s, cl)"
  shows "by_socket sock d f xs [(s, c)] cl = (Inr [(s, fold f xs c)], cl)"
  by (induction xs arbitrary: c) (simp_all add: io_bind_def assms)

text \<open>\<open>mset\<close> of two vectors fails as soon as two of its keys belong to different servers, where
  \<open>mset\<close> of pairs succeeds.\<close>

theorem mset_across_servers:
  assumes "good_connections (cl_connections cl)" "length ks = length vs" "ks = k # ks'" "k' \<in> set ks'"
    and "socket_of e (cl_connections cl) k \<noteq> socket_of e (cl_connections cl) k'"
  shows "redis_mset e ks vs cl = (Inl (Throws Connection_error), cl)"
proof -
  let ?f = "socket_of e (cl_connections cl)"
  have get: "get_socket e k cl = (Inr (?f k), cl)" for k using get_socket_good [OF assms(1)] .
  have "same_socket e s xs cl = (Inr (- 1), cl)" if "x \<in> set xs" "?f x \<noteq> s" for x xs s
    using that by (induction xs arbitrary: s) (auto simp: io_bind_def get)
  then have "same_socket e (?f k) ks' cl = (Inr (- 1), cl)" using assms(4,5) by metis
  moreover have "length (cl_connections cl) \<noteq> 1" using assms(5) by (auto simp: socket_of_def)
  ultimately have nowhere: "get_socket_of_all e ks cl = (Inr (- 1), cl)"
    using assms(3) by (simp add: get_socket_of_all_def io_bind_def get)
  obtain kv kvs where "zip ks vs = kv # kvs" using assms(2,3) by (cases vs) auto
  then have "by_socket (\<lambda>_. get_socket_of_all e ks) [''MSET''] (\<lambda>(k, v) c. c @ [k, v]) (zip ks vs) [] cl =
      (Inr [(- 1, fold (\<lambda>(k, v) c. c @ [k, v]) (zip ks vs) [''MSET''])], cl)"
    using by_socket_nowhere [of "\<lambda>_. get_socket_of_all e ks" cl "- 1"] nowhere by (simp add: io_bind_def)
  then show ?thesis using assms(2)
    by (simp add: redis_mset_def io_bind_def send_all_def send_to_def ANET_ERR_def)
qed

text \<open>Concrete instances.\<close>

definition sample_command :: command where
  "sample_command = \<lparr>cmd_request = makecmd [''GET'', ''a''], cmd_hash_key = ''a'', cmd_reply = (no_reply, Val_string [])\<rparr>"

lemma sample_command_made: "new_makecmd ''GET'' = m \<Longrightarrow> \<exists>m'. add_args [Key ''a''] m = Inr m' \<and> new_command m' = Inr sample_command"
  by (auto simp: new_makecmd_def new_command_def key_name_def sample_command_def)

lemma executed_commands_typed_witness:
  "\<exists>c' cl'. redis_exec sample_cluster_env sample_command sample_cluster = (Inr c', cl') \<and>
     accessors c' = [Inl Runtime_error, Inl Runtime_error, Inl Runtime_error, Inr (), Inl Runtime_error]"
proof -
  have "case redis_exec sample_cluster_env sample_command sample_cluster of
      (Inr c', _) \<Rightarrow> fst (cmd_reply c') = bulk_reply | _ \<Rightarrow> False" by code_simp
  then obtain c' cl' where c': "redis_exec sample_cluster_env sample_command sample_cluster = (Inr c', cl')"
    "fst (cmd_reply c') = bulk_reply" by (auto split: prod.splits sum.splits)
  have "list_all2 (\<lambda>c c'. cmd_request c' = cmd_request c \<and> fst (cmd_reply c') \<noteq> no_reply \<and>
      accessors c' = the_answer (fst (cmd_reply c'))) [sample_command] [c']"
    by (rule executed_commands_typed) (use c'(1) in blast)
  then show ?thesis using c' by (auto simp: the_answer_def)
qed

definition sample_info :: server_info where
  "sample_info = \<lparr>si_version = ''2.4'', si_bgsave_in_progress = False, si_connected_clients = 1, si_connected_slaves = 0,
     si_used_memory = 800000, si_changes_since_last_save = 3, si_last_save_time = 1400000000, si_total_connections_received = 7,
     si_total_commands_processed = 90, si_uptime_in_seconds = 60, si_uptime_in_days = 0, si_role = role_master, si_arch_bits = 64,
     si_multiplexing_api = ''epoll'', si_param_map = Map.empty\<rparr>"

lemma info_read_back_witness:
  "\<exists>out'. parse_info (ce_cast sample_cluster_env) (info_text (info_params sample_info @ [(''gcc_version'', ''4.8'')])) sample_info = Inr out' \<and>
     si_used_memory out' = 800000 \<and> si_param_map out' ''gcc_version'' = Some ''4.8''"
proof -
  have cast: "documented_cast (ce_cast sample_cluster_env)"
    by (simp add: documented_cast_def sample_cluster_env_def parse_show_int)
  have printable: "printable_info sample_info"
    by (simp add: printable_info_def sample_info_def info_numbers_def in_type_def plain_entry_def REDIS_WHITESPACE_def LF_def)
  have plain: "list_all plain_entry [(''gcc_version'', ''4.8'')]" by (simp add: plain_entry_def REDIS_WHITESPACE_def LF_def)
  have "k \<notin> fst ` set (info_params sample_info)" if "k \<in> fst ` set [(''gcc_version'', ''4.8'')]" for k
    using that by (simp add: info_params_def)
  from info_read_back [OF cast printable plain this, where out = sample_info] show ?thesis
    by (intro exI conjI) (assumption, simp_all add: enter_simps sample_info_def)
qed

end
