(* ===== verification/ThreadPools.thy ===== *)
theory ThreadPools
  imports Prelude "HOL-Library.Multiset"
begin

text \<open>
  The thread pool (\<open>src/src/utils/ThreadPool.h\<close>): worker threads that wait on a condition variable for
  tasks in a queue, and a client that pushes tasks and ends the pool. Every access of the threads to
  shared state is one transition, so that the transitions interleave as the threads can.
\<close>

section \<open>State\<close>

text \<open>
  Where a worker stands in \<open>loop\<close>: at the head of the loop, before the lock, at the predicate of the
  wait with the mutex held, between a predicate that was false and the wait itself, asleep, notified and
  before the lock again, after the wait with the mutex held, in the task, in the pause after it, at the
  end.
\<close>

datatype 'a worker = At_loop | Locking | Testing | Falling_asleep | Asleep | Notified | Awake
  | Running 'a | Pausing | Finished

text \<open>
  The client is between two calls, before the \<open>notify_one\<close> of a push, in \<open>stop_execution\<close> or behind it.
  A second call, from the destructor after an explicit one, joins a thread that was joined, which throws;
  out of a destructor the exception ends the program.
\<close>

datatype client = Idle | Notifying | Stopping | Joining | Joined | Terminated

text \<open>\<open>tp_completed\<close> is a history of the tasks whose function has returned.\<close>

record 'a ThreadPool =
  tp_tasks_queue :: "'a list"
  tp_locked :: bool
  tp_threads :: "'a worker list"
  tp_running_tasks :: u32
  tp_stop :: bool
  tp_client :: client
  tp_completed :: "'a multiset"

text \<open>The constructor does not initialise the counter of running tasks.\<close>

definition new_ThreadPool :: "nat \<Rightarrow> u32 \<Rightarrow> 'a ThreadPool" where
  "new_ThreadPool sz uninitialised_counter = \<lparr>tp_tasks_queue = [], tp_locked = False,
     tp_threads = replicate sz At_loop, tp_running_tasks = uninitialised_counter, tp_stop = False,
     tp_client = Idle, tp_completed = {#}\<rparr>"

section \<open>The worker\<close>

definition set_worker :: "nat \<Rightarrow> 'a worker \<Rightarrow> 'a ThreadPool \<Rightarrow> 'a ThreadPool" where
  "set_worker i k p = p\<lparr>tp_threads := (tp_threads p)[i := k]\<rparr>"

text \<open>
  One transition of a worker, \<open>None\<close> where it is blocked. With an empty queue and no stop the first element is
  read of an empty queue, which is undefined; \<open>workers_find_a_task\<close> shows that it does not happen.
\<close>

definition worker_step :: "nat \<Rightarrow> 'a ThreadPool \<Rightarrow> 'a ThreadPool res option" where
  "worker_step i p = (case tp_threads p ! i of
     At_loop \<Rightarrow> Some (Inr (set_worker i (if tp_stop p then Finished else Locking) p))
   | Locking \<Rightarrow> if tp_locked p then None else Some (Inr (set_worker i Testing (p\<lparr>tp_locked := True\<rparr>)))
   | Testing \<Rightarrow> Some (Inr (set_worker i (if tp_tasks_queue p \<noteq> [] \<or> tp_stop p then Awake else Falling_asleep) p))
   | Falling_asleep \<Rightarrow> Some (Inr (set_worker i Asleep (p\<lparr>tp_locked := False\<rparr>)))
   | Asleep \<Rightarrow> None
   | Notified \<Rightarrow> if tp_locked p then None else Some (Inr (set_worker i Testing (p\<lparr>tp_locked := True\<rparr>)))
   | Awake \<Rightarrow>
       if tp_stop p then Some (Inr (set_worker i Finished (p\<lparr>tp_locked := False\<rparr>)))
       else (case tp_tasks_queue p of
           [] \<Rightarrow> Some (Inl EmptyDeref)
         | t # rest \<Rightarrow> Some (Inr (set_worker i (Running t)
             (p\<lparr>tp_running_tasks := tp_running_tasks p + 1, tp_tasks_queue := rest, tp_locked := False\<rparr>))))
   | Running t \<Rightarrow> Some (Inr (set_worker i Pausing
       (p\<lparr>tp_completed := add_mset t (tp_completed p), tp_running_tasks := tp_running_tasks p - 1\<rparr>)))
   | Pausing \<Rightarrow> Some (Inr (set_worker i At_loop p))
   | Finished \<Rightarrow> None)"

section \<open>The client\<close>

definition notify :: "'a worker \<Rightarrow> 'a worker" where
  "notify k = (if k = Asleep then Notified else k)"

definition push_task :: "'a \<Rightarrow> 'a ThreadPool \<Rightarrow> 'a ThreadPool" where
  "push_task t p = p\<lparr>tp_tasks_queue := tp_tasks_queue p @ [t], tp_client := Notifying\<rparr>"

definition notify_one :: "nat \<Rightarrow> 'a ThreadPool \<Rightarrow> 'a ThreadPool" where
  "notify_one i p = set_worker i Notified (p\<lparr>tp_client := Idle\<rparr>)"

definition set_stop :: "'a ThreadPool \<Rightarrow> 'a ThreadPool" where
  "set_stop p = p\<lparr>tp_stop := True, tp_client := Stopping\<rparr>"

definition notify_all :: "'a ThreadPool \<Rightarrow> 'a ThreadPool" where
  "notify_all p = p\<lparr>tp_threads := map notify (tp_threads p), tp_client := Joining\<rparr>"

definition tasks_pending :: "'a ThreadPool \<Rightarrow> nat" where
  "tasks_pending p = length (tp_tasks_queue p)"

definition tasks_running :: "'a ThreadPool \<Rightarrow> u32" where
  "tasks_running p = tp_running_tasks p"

text \<open>
  \<open>stop_execution\<close> sets the flag without the mutex, notifies, and joins the threads. A waiting thread may
  also wake up without a notification.
\<close>

inductive pool_step :: "'a ThreadPool \<Rightarrow> 'a ThreadPool \<Rightarrow> bool" where
  pool_worker: "i < length (tp_threads p) \<Longrightarrow> worker_step i p = Some (Inr p') \<Longrightarrow> pool_step p p'"
| pool_spurious: "i < length (tp_threads p) \<Longrightarrow> tp_threads p ! i = Asleep \<Longrightarrow> pool_step p (set_worker i Notified p)"
| pool_push: "tp_client p = Idle \<Longrightarrow> \<not> tp_locked p \<Longrightarrow> pool_step p (push_task t p)"
| pool_notify: "tp_client p = Notifying \<Longrightarrow> i < length (tp_threads p) \<Longrightarrow> tp_threads p ! i = Asleep \<Longrightarrow>
    pool_step p (notify_one i p)"
| pool_notify_none: "tp_client p = Notifying \<Longrightarrow> Asleep \<notin> set (tp_threads p) \<Longrightarrow> pool_step p (p\<lparr>tp_client := Idle\<rparr>)"
| pool_stop: "tp_client p = Idle \<Longrightarrow> pool_step p (set_stop p)"
| pool_notify_all: "tp_client p = Stopping \<Longrightarrow> pool_step p (notify_all p)"
| pool_join: "tp_client p = Joining \<Longrightarrow> set (tp_threads p) \<subseteq> {Finished} \<Longrightarrow> pool_step p (p\<lparr>tp_client := Joined\<rparr>)"
| pool_stop_again: "tp_client p = Joined \<Longrightarrow> tp_threads p \<noteq> [] \<Longrightarrow> pool_step p (p\<lparr>tp_client := Terminated\<rparr>)"

inductive pool_reachable :: "'a ThreadPool \<Rightarrow> 'a ThreadPool \<Rightarrow> bool" for p0 where
  pool_start: "pool_reachable p0 p0"
| pool_next: "pool_reachable p0 p \<Longrightarrow> pool_step p p' \<Longrightarrow> pool_reachable p0 p'"

inductive_cases pool_stepE: "pool_step p p'"

section \<open>Counting workers\<close>

definition running_of :: "'a worker \<Rightarrow> 'a multiset" where
  "running_of k = (case k of Running t \<Rightarrow> {#t#} | _ \<Rightarrow> {#})"

definition holding :: "'a worker \<Rightarrow> bool" where
  "holding k \<longleftrightarrow> k = Testing \<or> k = Falling_asleep \<or> k = Awake"

definition active :: "'a ThreadPool \<Rightarrow> 'a multiset" where
  "active p = sum_list (map running_of (tp_threads p))"

definition holders :: "'a ThreadPool \<Rightarrow> nat" where
  "holders p = sum_list (map (\<lambda>k. of_bool (holding k)) (tp_threads p))"

lemma worker_simps [simp]:
  "running_of At_loop = {#}" "running_of Locking = {#}" "running_of Testing = {#}" "running_of Falling_asleep = {#}"
  "running_of Asleep = {#}" "running_of Notified = {#}" "running_of Awake = {#}" "running_of (Running t) = {#t#}"
  "running_of Pausing = {#}" "running_of Finished = {#}"
  "holding Testing" "holding Falling_asleep" "holding Awake" "\<not> holding At_loop" "\<not> holding Locking" "\<not> holding Asleep"
  "\<not> holding Notified" "\<not> holding (Running t)" "\<not> holding Pausing" "\<not> holding Finished"
  by (simp_all add: running_of_def holding_def)

lemma notify_simps [simp]: "running_of (notify k) = running_of k" "holding (notify k) = holding k"
  by (cases k; simp add: notify_def)+

lemma sum_update:
  fixes f :: "'a worker \<Rightarrow> 'b :: comm_monoid_add"
  shows "i < length ws \<Longrightarrow> sum_list (map f (ws[i := k])) + f (ws ! i) = sum_list (map f ws) + f k"
proof (induction ws arbitrary: i)
  case (Cons v ws)
  then show ?case by (cases i) (auto simp: ac_simps)
qed simp

lemmas active_update = sum_update [where f = running_of]
lemmas holders_update = sum_update [where f = "\<lambda>k. of_bool (holding k) :: nat"]

section \<open>Invariants\<close>

text \<open>
  The mutex is held exactly when one worker is in a section that holds it; a worker that goes for a task
  finds one; the counter exceeds its arbitrary start by the number of running tasks.
\<close>

definition pool_inv :: "u32 \<Rightarrow> 'a ThreadPool \<Rightarrow> bool" where
  "pool_inv c p \<longleftrightarrow> holders p = of_bool (tp_locked p) \<and>
     (Awake \<in> set (tp_threads p) \<longrightarrow> tp_tasks_queue p \<noteq> [] \<or> tp_stop p) \<and>
     tp_running_tasks p = c + of_nat (size (active p))"

lemma sum_list_empty [simp]: "sum_list (replicate n {#}) = {#}"
  by (induction n) auto

lemma pool_inv_new: "pool_inv c (new_ThreadPool sz c)"
  by (auto simp: pool_inv_def holders_def active_def new_ThreadPool_def map_replicate_const sum_list_replicate)

lemma active_set_worker:
  "i < length (tp_threads p) \<Longrightarrow> active (set_worker i k p) + running_of (tp_threads p ! i) = active p + running_of k"
  by (simp add: active_def set_worker_def active_update)

lemma holders_set_worker:
  "i < length (tp_threads p) \<Longrightarrow>
     holders (set_worker i k p) + of_bool (holding (tp_threads p ! i)) = holders p + of_bool (holding k)"
  by (simp add: holders_def set_worker_def holders_update)

lemma holder_unique:
  assumes "i < length (tp_threads p)" "holding (tp_threads p ! i)" "j < length (tp_threads p)"
    "holding (tp_threads p ! j)" "holders p \<le> 1"
  shows "i = j"
proof (rule ccontr)
  assume "i \<noteq> j"
  have one: "holders (set_worker i Finished p) + 1 = holders p"
    using holders_set_worker [OF assms(1), of Finished] assms(2) by simp
  have "holders (set_worker j Finished (set_worker i Finished p)) + 1 = holders (set_worker i Finished p)"
    using holders_set_worker [of j "set_worker i Finished p" Finished] assms(3,4) \<open>i \<noteq> j\<close>
    by (simp add: set_worker_def)
  then show False using one assms(5) by simp
qed


lemma pool_updates [simp]:
  "active (p\<lparr>tp_tasks_queue := q\<rparr>) = active p" "active (p\<lparr>tp_locked := l\<rparr>) = active p"
  "active (p\<lparr>tp_running_tasks := n\<rparr>) = active p" "active (p\<lparr>tp_stop := s\<rparr>) = active p"
  "active (p\<lparr>tp_client := cl\<rparr>) = active p" "active (p\<lparr>tp_completed := d\<rparr>) = active p"
  "holders (p\<lparr>tp_tasks_queue := q\<rparr>) = holders p" "holders (p\<lparr>tp_locked := l\<rparr>) = holders p"
  "holders (p\<lparr>tp_running_tasks := n\<rparr>) = holders p" "holders (p\<lparr>tp_stop := s\<rparr>) = holders p"
  "holders (p\<lparr>tp_client := cl\<rparr>) = holders p" "holders (p\<lparr>tp_completed := d\<rparr>) = holders p"
  by (simp_all add: active_def holders_def)

lemma set_worker_simps [simp]:
  "tp_tasks_queue (set_worker i k p) = tp_tasks_queue p" "tp_locked (set_worker i k p) = tp_locked p"
  "tp_running_tasks (set_worker i k p) = tp_running_tasks p" "tp_stop (set_worker i k p) = tp_stop p"
  "tp_client (set_worker i k p) = tp_client p" "tp_completed (set_worker i k p) = tp_completed p"
  "tp_threads (set_worker i k p) = (tp_threads p)[i := k]"
  by (simp_all add: set_worker_def)

lemma holding_locked:
  assumes "pool_inv c p" "i < length (tp_threads p)" "holding (tp_threads p ! i)"
  shows "tp_locked p"
proof -
  have "holders (set_worker i Finished p) + 1 = holders p"
    using holders_set_worker [OF assms(2), of Finished] assms(3) by simp
  then show ?thesis using assms(1) by (cases "tp_locked p") (auto simp: pool_inv_def)
qed

text \<open>A worker that changes place without taking or ending a task.\<close>

lemma pool_inv_move:
  assumes "pool_inv c p" "i < length (tp_threads p)" "running_of k = running_of (tp_threads p ! i)"
    and "l = (tp_locked p \<and> \<not> holding (tp_threads p ! i) \<or> holding k)"
    and "holding k \<Longrightarrow> \<not> tp_locked p \<or> holding (tp_threads p ! i)"
    and "k = Awake \<Longrightarrow> tp_tasks_queue p \<noteq> [] \<or> tp_stop p"
  shows "pool_inv c (set_worker i k (p\<lparr>tp_locked := l\<rparr>))"
proof -
  have "active (set_worker i k (p\<lparr>tp_locked := l\<rparr>)) = active p"
    using active_set_worker [of i "p\<lparr>tp_locked := l\<rparr>" k] assms(2,3) by simp
  moreover have "holders (set_worker i k (p\<lparr>tp_locked := l\<rparr>)) + of_bool (holding (tp_threads p ! i)) = holders p + of_bool (holding k)"
    using holders_set_worker [of i "p\<lparr>tp_locked := l\<rparr>" k] assms(2) by simp
  ultimately show ?thesis using assms holding_locked [OF assms(1,2)]
    by (auto simp: pool_inv_def of_bool_def split: if_splits dest!: subsetD [OF set_update_subset_insert])
qed

lemma worker_step_inv:
  assumes inv: "pool_inv c p" and i: "i < length (tp_threads p)" and step: "worker_step i p = Some (Inr p')"
  shows "pool_inv c p'"
proof (cases "tp_threads p ! i")
  case Awake
  have awake: "tp_tasks_queue p \<noteq> [] \<or> tp_stop p"
    using inv i Awake nth_mem [OF i] by (auto simp: pool_inv_def)
  show ?thesis
  proof (cases "tp_stop p")
    case True
    then show ?thesis using pool_inv_move [OF inv i, of Finished False] step Awake
      by (simp add: worker_step_def)
  next
    case False
    then obtain t q where q: "tp_tasks_queue p = t # q" using awake by (cases "tp_tasks_queue p") auto
    let ?p = "p\<lparr>tp_running_tasks := tp_running_tasks p + 1, tp_tasks_queue := q, tp_locked := False\<rparr>"
    have p': "p' = set_worker i (Running t) ?p" using step Awake False q by (simp add: worker_step_def)
    have locked: "tp_locked p" using holding_locked [OF inv i] Awake by simp
    have one: "holders p \<le> 1" using inv by (simp add: pool_inv_def)
    have "active p' = add_mset t (active p)"
      using active_set_worker [of i ?p "Running t"] i Awake by (simp add: p')
    moreover have "holders p' + 1 = holders p"
      using holders_set_worker [of i ?p "Running t"] i Awake by (simp add: p')
    moreover have "Awake \<notin> set (tp_threads p')"
    proof
      assume "Awake \<in> set (tp_threads p')"
      then obtain j where j: "j < length (tp_threads p)" "(tp_threads p)[i := Running t] ! j = Awake"
        by (auto simp: p' in_set_conv_nth)
      then have "tp_threads p ! j = Awake" "j \<noteq> i" using i by (auto simp: nth_list_update split: if_splits)
      then show False using holder_unique [OF i _ j(1) _ one] Awake by simp
    qed
    ultimately show ?thesis using inv locked by (simp add: pool_inv_def p')
  qed
next
  case (Running t)
  let ?p = "p\<lparr>tp_completed := add_mset t (tp_completed p), tp_running_tasks := tp_running_tasks p - 1\<rparr>"
  have p': "p' = set_worker i Pausing ?p" using step Running by (simp add: worker_step_def)
  have "add_mset t (active p') = active p"
    using active_set_worker [of i ?p Pausing] i Running by (simp add: p')
  then have "size (active p) = Suc (size (active p'))" by (metis size_add_mset)
  moreover have "holders p' = holders p"
    using holders_set_worker [of i ?p Pausing] i Running by (simp add: p')
  ultimately have counts: "size (active p) = Suc (size (active p'))" "holders p' = holders p" by simp_all
  have fields: "tp_running_tasks p' = tp_running_tasks p - 1" "tp_locked p' = tp_locked p"
    "tp_tasks_queue p' = tp_tasks_queue p" "tp_stop p' = tp_stop p"
    "Awake \<in> set (tp_threads p') \<Longrightarrow> Awake \<in> set (tp_threads p)"
    by (auto simp: p' dest!: subsetD [OF set_update_subset_insert])
  have "tp_running_tasks p' = c + of_nat (size (active p'))"
    using inv counts(1) fields(1) by (simp add: pool_inv_def)
  then show ?thesis using inv counts(2) fields by (auto simp: pool_inv_def)
next
  case At_loop
  then show ?thesis using step pool_inv_move [OF inv i, of Finished "tp_locked p"]
      pool_inv_move [OF inv i, of Locking "tp_locked p"] by (auto simp: worker_step_def split: if_splits)
next
  case Locking
  then show ?thesis using step pool_inv_move [OF inv i, of Testing True] by (simp add: worker_step_def split: if_splits)
next
  case Notified
  then show ?thesis using step pool_inv_move [OF inv i, of Testing True] by (simp add: worker_step_def split: if_splits)
next
  case Testing
  then have same: "p\<lparr>tp_locked := True\<rparr> = p" using holding_locked [OF inv i] by simp
  show ?thesis using step Testing pool_inv_move [OF inv i, of Awake True] pool_inv_move [OF inv i, of Falling_asleep True]
    by (simp add: worker_step_def same split: if_splits)
next
  case Falling_asleep
  then show ?thesis using step pool_inv_move [OF inv i, of Asleep False] by (simp add: worker_step_def)
next
  case Pausing
  then show ?thesis using step pool_inv_move [OF inv i, of At_loop "tp_locked p"] by (simp add: worker_step_def)
qed (use step in \<open>simp_all add: worker_step_def\<close>)

lemma pool_inv_quiet:
  assumes "pool_inv c p" "active p' = active p" "holders p' = holders p" "tp_locked p' = tp_locked p"
    "tp_running_tasks p' = tp_running_tasks p"
    "Awake \<in> set (tp_threads p') \<Longrightarrow> Awake \<in> set (tp_threads p)"
    "tp_tasks_queue p \<noteq> [] \<or> tp_stop p \<Longrightarrow> tp_tasks_queue p' \<noteq> [] \<or> tp_stop p'"
  shows "pool_inv c p'"
  using assms by (auto simp: pool_inv_def)

lemma pool_step_inv: "pool_step p p' \<Longrightarrow> pool_inv c p \<Longrightarrow> pool_inv c p'"
proof (induction rule: pool_step.induct)
  case (pool_worker i p p')
  then show ?case using worker_step_inv by blast
next
  case (pool_spurious i p)
  then show ?case using pool_inv_move [OF pool_spurious(3,1), of Notified "tp_locked p"] by simp
next
  case (pool_notify p i)
  have "pool_inv c (p\<lparr>tp_client := Idle\<rparr>)" by (rule pool_inv_quiet [OF pool_notify(4)]) simp_all
  then show ?case using pool_inv_move [of c "p\<lparr>tp_client := Idle\<rparr>" i Notified "tp_locked p"] pool_notify
    by (simp add: notify_one_def)
next
  case (pool_notify_all p)
  have "active (notify_all p) = active p" "holders (notify_all p) = holders p"
    by (simp_all add: active_def holders_def notify_all_def comp_def)
  then show ?case using pool_notify_all
    by (intro pool_inv_quiet [OF pool_notify_all(2)]) (auto simp: notify_all_def notify_def split: if_splits)
next
  case (pool_push p t)
  show ?case by (rule pool_inv_quiet [OF pool_push(3)]) (simp_all add: push_task_def)
next
  case (pool_stop p)
  show ?case by (rule pool_inv_quiet [OF pool_stop(2)]) (simp_all add: set_stop_def)
next
  case (pool_notify_none p)
  show ?case by (rule pool_inv_quiet [OF pool_notify_none(3)]) simp_all
next
  case (pool_join p)
  show ?case by (rule pool_inv_quiet [OF pool_join(3)]) simp_all
next
  case (pool_stop_again p)
  show ?case by (rule pool_inv_quiet [OF pool_stop_again(3)]) simp_all
qed

lemma pool_reachable_inv: "pool_reachable (new_ThreadPool sz c) p \<Longrightarrow> pool_inv c p"
  by (induction rule: pool_reachable.induct) (auto intro: pool_inv_new pool_step_inv)

text \<open>C34: whatever the interleaving, at most one worker is in a section that holds the mutex, a worker that
  goes for a task finds one in the queue, and the counter is its uninitialised start plus the number of
  tasks that are running.\<close>

theorem workers_find_a_task:
  assumes "pool_reachable (new_ThreadPool sz c) p" "i < length (tp_threads p)"
  shows "worker_step i p \<noteq> Some (Inl e) \<and> tasks_running p = c + of_nat (size (active p)) \<and>
    (\<forall>j. j < length (tp_threads p) \<and> holding (tp_threads p ! i) \<and> holding (tp_threads p ! j) \<longrightarrow> i = j)"
proof -
  have inv: "pool_inv c p" by (rule pool_reachable_inv [OF assms(1)])
  have "worker_step i p \<noteq> Some (Inl e)"
    using inv nth_mem [OF assms(2)]
    by (cases "tp_threads p ! i") (auto simp: worker_step_def pool_inv_def split: list.splits)
  moreover have "holders p \<le> 1" using inv by (simp add: pool_inv_def)
  moreover have "\<forall>j. j < length (tp_threads p) \<and> holding (tp_threads p ! i) \<and> holding (tp_threads p ! j) \<longrightarrow> i = j"
    using holder_unique [OF assms(2)] calculation(2) by blast
  ultimately show ?thesis using inv by (simp add: pool_inv_def tasks_running_def)
qed

lemma workers_find_a_task_witness:
  "tasks_running (push_task (7 :: nat) (new_ThreadPool 1 5)) = 5"
proof -
  have "pool_reachable (new_ThreadPool 1 5) (push_task (7 :: nat) (new_ThreadPool 1 5))"
    by (rule pool_next [OF pool_start pool_push]) (simp_all add: new_ThreadPool_def)
  from workers_find_a_task [OF this, of 0] show ?thesis
    by (simp add: active_def push_task_def new_ThreadPool_def)
qed

section \<open>The abstract pool\<close>

text \<open>What the pool promises: tasks start in the order in which they were pushed, each once, and end.\<close>

record 'a task_pool =
  ab_pending :: "'a list"
  ab_active :: "'a multiset"
  ab_finished :: "'a multiset"

inductive task_step :: "'a task_pool \<Rightarrow> 'a task_pool \<Rightarrow> bool" where
  task_same: "task_step a a"
| task_submit: "task_step a (a\<lparr>ab_pending := ab_pending a @ [t]\<rparr>)"
| task_start: "ab_pending a = t # rest \<Longrightarrow>
    task_step a (a\<lparr>ab_pending := rest, ab_active := add_mset t (ab_active a)\<rparr>)"
| task_end: "t \<in># ab_active a \<Longrightarrow>
    task_step a (a\<lparr>ab_active := ab_active a - {#t#}, ab_finished := add_mset t (ab_finished a)\<rparr>)"

definition abstract_pool :: "'a ThreadPool \<Rightarrow> 'a task_pool" where
  "abstract_pool p = \<lparr>ab_pending = tp_tasks_queue p, ab_active = active p, ab_finished = tp_completed p\<rparr>"

lemma active_move:
  "i < length (tp_threads p) \<Longrightarrow> running_of k = running_of (tp_threads p ! i) \<Longrightarrow> active (set_worker i k p) = active p"
  using active_set_worker [of i p k] by simp

lemma worker_step_task:
  assumes i: "i < length (tp_threads p)" and step: "worker_step i p = Some (Inr p')"
  shows "task_step (abstract_pool p) (abstract_pool p')"
proof (cases "tp_threads p ! i")
  case Awake
  show ?thesis
  proof (cases "tp_stop p")
    case True
    then show ?thesis using step Awake i by (auto simp: worker_step_def abstract_pool_def active_move task_same)
  next
    case False
    then obtain t q where q: "tp_tasks_queue p = t # q" using step Awake
      by (cases "tp_tasks_queue p") (auto simp: worker_step_def)
    let ?p = "p\<lparr>tp_running_tasks := tp_running_tasks p + 1, tp_tasks_queue := q, tp_locked := False\<rparr>"
    have p': "p' = set_worker i (Running t) ?p" using step Awake False q by (simp add: worker_step_def)
    then have "active p' = add_mset t (active p)"
      using active_set_worker [of i ?p "Running t"] i Awake by simp
    then show ?thesis using task_start [of "abstract_pool p" t q] q by (simp add: abstract_pool_def p')
  qed
next
  case (Running t)
  let ?p = "p\<lparr>tp_completed := add_mset t (tp_completed p), tp_running_tasks := tp_running_tasks p - 1\<rparr>"
  have p': "p' = set_worker i Pausing ?p" using step Running by (simp add: worker_step_def)
  then have act: "active p = add_mset t (active p')"
    using active_set_worker [of i ?p Pausing] i Running by simp
  then show ?thesis using task_end [of t "abstract_pool p"] by (simp add: abstract_pool_def p')
qed (use step i in \<open>auto simp: worker_step_def abstract_pool_def active_move task_same split: if_splits\<close>)


text \<open>C33: every transition of the pool, however the threads interleave, is a transition of the abstract pool
  or leaves it as it is.\<close>

theorem pool_refines_queue:
  assumes "pool_step p p'"
  shows "task_step (abstract_pool p) (abstract_pool p')"
  using assms
proof (induction rule: pool_step.induct)
  case (pool_worker i p p')
  then show ?case by (rule worker_step_task)
next
  case (pool_spurious i p)
  then show ?case by (simp add: abstract_pool_def active_move task_same)
next
  case (pool_push p t)
  show ?case using task_submit [of "abstract_pool p" t] by (simp add: abstract_pool_def push_task_def)
next
  case (pool_notify p i)
  then show ?case by (simp add: abstract_pool_def notify_one_def active_move task_same)
next
  case (pool_notify_all p)
  have "active (notify_all p) = active p" by (simp add: active_def notify_all_def comp_def)
  then show ?case by (simp add: abstract_pool_def notify_all_def task_same)
qed (simp_all add: abstract_pool_def set_stop_def task_same)

lemma pool_refines_queue_witness:
  "task_step \<lparr>ab_pending = [], ab_active = {#}, ab_finished = {#}\<rparr> \<lparr>ab_pending = [7 :: nat], ab_active = {#}, ab_finished = {#}\<rparr>"
proof -
  have "pool_step (new_ThreadPool 1 0) (push_task (7 :: nat) (new_ThreadPool 1 0))"
    by (rule pool_push) (simp_all add: new_ThreadPool_def)
  from pool_refines_queue [OF this] show ?thesis
    by (simp add: abstract_pool_def push_task_def new_ThreadPool_def active_def)
qed

section \<open>Ending the pool\<close>

text \<open>
  A state in which the client waits for the threads and nothing can happen but a wake-up without
  notification.
\<close>

definition hangs :: "'a ThreadPool \<Rightarrow> bool" where
  "hangs p \<longleftrightarrow> tp_client p = Joining \<and> (\<forall>p'. pool_step p p' \<longrightarrow>
     (\<exists>i < length (tp_threads p). tp_threads p ! i = Asleep \<and> p' = set_worker i Notified p))"

definition one_thread :: "'a worker \<Rightarrow> bool \<Rightarrow> bool \<Rightarrow> client \<Rightarrow> u32 \<Rightarrow> 'a ThreadPool" where
  "one_thread k locked stop cl c = \<lparr>tp_tasks_queue = [], tp_locked = locked, tp_threads = [k], tp_running_tasks = c,
     tp_stop = stop, tp_client = cl, tp_completed = {#}\<rparr>"

lemma one_thread_worker:
  "worker_step 0 (one_thread k l s cl c) = Some (Inr p') \<Longrightarrow> pool_step (one_thread k l s cl c) p'"
  by (rule pool_worker [of 0]) (simp_all add: one_thread_def)

text \<open>C35: \<open>stop_execution\<close> sets the flag without the mutex: when a worker has found the queue empty and the
  flag unset, and has not yet begun to wait, the notification is lost and the join waits for ever.\<close>

theorem stop_can_hang: "\<exists>p. pool_reachable (new_ThreadPool 1 c) p \<and> hangs p"
proof -
  have start: "new_ThreadPool 1 c = one_thread At_loop False False Idle c"
    by (simp add: new_ThreadPool_def one_thread_def)
  have steps: "pool_step (one_thread At_loop False False Idle c) (one_thread Locking False False Idle c)"
    "pool_step (one_thread Locking False False Idle c) (one_thread Testing True False Idle c)"
    "pool_step (one_thread Testing True False Idle c) (one_thread Falling_asleep True False Idle c)"
    "pool_step (one_thread Falling_asleep True True Joining c) (one_thread Asleep False True Joining c)"
    by (rule one_thread_worker; simp add: worker_step_def one_thread_def set_worker_def)+
  have stop: "pool_step (one_thread Falling_asleep True False Idle c) (one_thread Falling_asleep True True Stopping c)"
    using pool_stop [of "one_thread Falling_asleep True False Idle c"] by (simp add: one_thread_def set_stop_def)
  have notified: "pool_step (one_thread Falling_asleep True True Stopping c) (one_thread Falling_asleep True True Joining c)"
    using pool_notify_all [of "one_thread Falling_asleep True True Stopping c"]
    by (simp add: one_thread_def notify_all_def notify_def)
  have "pool_reachable (new_ThreadPool 1 c) (one_thread Asleep False True Joining c)"
    unfolding start by (intro pool_next [OF _ steps(4)] pool_next [OF _ notified] pool_next [OF _ stop]
      pool_next [OF _ steps(3)] pool_next [OF _ steps(2)] pool_next [OF _ steps(1)] pool_start)
  moreover have "hangs (one_thread Asleep False True Joining c)"
    by (auto simp: hangs_def one_thread_def worker_step_def set_worker_def elim!: pool_stepE)
  ultimately show ?thesis by blast
qed

end
