(* ===== verification/AsyncContainers.thy ===== *)
theory AsyncContainers
  imports Prelude
begin

text \<open>
  The other members of the locked containers of \<open>src/src/utils\<close>: \<open>AsynchronousQueue\<close>,
  \<open>AsynchronousVector\<close>, and the members of \<open>AsynchronousUnorderedMap\<close> that the program does not call.
  A method is given whether the calling thread already holds the mutex of the container, which is not
  recursive.
\<close>

definition holding_mutex :: "bool \<Rightarrow> 'a res \<Rightarrow> 'a res" where
  "holding_mutex locked r = (if locked then Inl Blocked else r)"

section \<open>AsynchronousQueue\<close>

text \<open>
  Between \<open>lock\<close> and \<open>unlock\<close> both methods call themselves where the method of the deque is meant.
\<close>

function queue_push_back :: "bool \<Rightarrow> 'a \<Rightarrow> 'a list \<Rightarrow> 'a list res" where
  "queue_push_back locked x q = (if locked then Inl Blocked else queue_push_back True x q)"
  by pat_completeness auto
termination by (relation "measure (\<lambda>(locked, x, q). if locked then 0 else 1)") auto

function queue_pop_front :: "bool \<Rightarrow> 'a list \<Rightarrow> ('a \<times> 'a list) res" where
  "queue_pop_front locked q =
     (if locked then Inl Blocked
      else if q = [] then Inl EmptyDeref
      else queue_pop_front True q)"
  by pat_completeness auto
termination by (relation "measure (\<lambda>(locked, q). if locked then 0 else 1)") auto

declare queue_push_back.simps [simp del] queue_pop_front.simps [simp del]

section \<open>AsynchronousVector\<close>

definition vector_push_back :: "bool \<Rightarrow> 'a \<Rightarrow> 'a list \<Rightarrow> 'a list res" where
  "vector_push_back locked x v = holding_mutex locked (Inr (v @ [x]))"

section \<open>AsynchronousUnorderedMap\<close>

text \<open>
  Of the two \<open>insert\<close> methods the one for a constant element is the better match of its own call; the
  template calls the method of the base class.
\<close>

function map_insert :: "bool \<Rightarrow> 'k \<times> 'v \<Rightarrow> ('k \<rightharpoonup> 'v) \<Rightarrow> ('k \<rightharpoonup> 'v) res" where
  "map_insert locked x m = (if locked then Inl Blocked else map_insert True x m)"
  by pat_completeness auto
termination by (relation "measure (\<lambda>(locked, x, m). if locked then 0 else 1)") auto

declare map_insert.simps [simp del]

definition map_insert_pair :: "bool \<Rightarrow> 'k \<times> 'v \<Rightarrow> ('k \<rightharpoonup> 'v) \<Rightarrow> ('k \<rightharpoonup> 'v) res" where
  "map_insert_pair locked x m = holding_mutex locked
     (Inr (um_emplace (fst x) (snd x) m))"

definition map_clear :: "bool \<Rightarrow> ('k \<rightharpoonup> 'v) \<Rightarrow> ('k \<rightharpoonup> 'v) res" where
  "map_clear locked m = holding_mutex locked (Inr Map.empty)"

definition map_count :: "bool \<Rightarrow> 'k \<Rightarrow> ('k \<rightharpoonup> 'v) \<Rightarrow> nat res" where
  "map_count locked k m = holding_mutex locked (Inr (case m k of None \<Rightarrow> 0 | Some _ \<Rightarrow> 1))"

text \<open>\<open>operator[]\<close> makes a default value for a key that is not there.\<close>

definition map_index :: "'v \<Rightarrow> bool \<Rightarrow> 'k \<Rightarrow> ('k \<rightharpoonup> 'v) \<Rightarrow> ('v \<times> ('k \<rightharpoonup> 'v)) res" where
  "map_index default_value locked k m = holding_mutex locked
     (Inr (case m k of None \<Rightarrow> (default_value, m(k \<mapsto> default_value)) | Some v \<Rightarrow> (v, m)))"

text \<open>
  An iterator is the index of an element in the order of the iteration, which the library chooses; the
  end and an index beyond it are not elements. \<open>find\<close> gives the index, or the end. The constant \<open>find\<close> locks a
  member that is constant there and does not compile where it is used.
\<close>

definition map_find :: "bool \<Rightarrow> 'k list \<Rightarrow> 'k \<Rightarrow> nat res" where
  "map_find locked order k = holding_mutex locked (Inr (length (takeWhile (\<lambda>k'. k' \<noteq> k) order)))"

definition map_erase_at :: "bool \<Rightarrow> 'k list \<Rightarrow> nat \<Rightarrow> ('k \<rightharpoonup> 'v) \<Rightarrow> (nat \<times> ('k \<rightharpoonup> 'v)) res" where
  "map_erase_at locked order i m = holding_mutex locked
     (if i < length order then Inr (i, um_erase (order ! i) m) else Inl OutOfRange)"

definition map_erase_range :: "bool \<Rightarrow> 'k list \<Rightarrow> nat \<Rightarrow> nat \<Rightarrow> ('k \<rightharpoonup> 'v) \<Rightarrow> (nat \<times> ('k \<rightharpoonup> 'v)) res" where
  "map_erase_range locked order i j m = holding_mutex locked
     (if i \<le> j \<and> j \<le> length order then Inr (i, fold um_erase (take (j - i) (drop i order)) m) else Inl OutOfRange)"

text \<open>\<open>lock\<close> and \<open>unlock\<close> give whether the mutex is held afterwards.\<close>

definition map_lock :: "bool \<Rightarrow> bool res" where
  "map_lock locked = (if locked then Inl Blocked else Inr True)"

definition map_unlock :: "bool \<Rightarrow> bool" where
  "map_unlock locked = False"

section \<open>What they do\<close>

theorem methods_that_block:
  "queue_push_back locked x q = Inl Blocked" "q \<noteq> [] \<Longrightarrow> queue_pop_front locked q = Inl Blocked"
  "map_insert locked y m = Inl Blocked"
  by (cases locked; simp add: queue_push_back.simps queue_pop_front.simps map_insert.simps)+

theorem insert_then_index:
  "map_insert_pair False (k, v) m = Inr m' \<Longrightarrow> m k = None \<Longrightarrow>
     map_index d False k m' = Inr (v, m') \<and> map_count False k m' = Inr 1"
  by (auto simp: map_insert_pair_def um_emplace_def map_index_def map_count_def holding_mutex_def)

text \<open>To erase what \<open>find\<close> has found is to erase the key, and to erase from the begin to the end is to clear.\<close>

theorem erase_found:
  assumes "set order = dom m" "map_find False order k = Inr i"
  shows "map_erase_at False order i m = (if k \<in> dom m then Inr (i, um_erase k m) else Inl OutOfRange)"
proof (cases "k \<in> set order")
  case True
  then have "length (takeWhile (\<lambda>k'. k' \<noteq> k) order) < length order" "order ! length (takeWhile (\<lambda>k'. k' \<noteq> k) order) = k"
    by (induction order) auto
  then show ?thesis using assms True by (auto simp: map_find_def map_erase_at_def holding_mutex_def)
next
  case False
  then have "takeWhile (\<lambda>k'. k' \<noteq> k) order = order" by (subst takeWhile_eq_all_conv) blast
  then have "length (takeWhile (\<lambda>k'. k' \<noteq> k) order) = length order" by (rule arg_cong)
  then show ?thesis using assms False by (auto simp: map_find_def map_erase_at_def holding_mutex_def)
qed

lemma fold_um_erase: "fold um_erase ks m k = (if k \<in> set ks then None else m k)"
  by (induction ks arbitrary: m) (auto simp: um_erase_def)

theorem erase_all_clears:
  assumes "set order = dom m"
  shows "map_erase_range False order 0 (length order) m = Inr (0, Map.empty)" "map_clear False m = Inr Map.empty"
proof -
  have "fold um_erase order m k = None" for k using assms by (cases "m k") (auto simp: fold_um_erase)
  then have "fold um_erase order m = Map.empty" by (simp add: fun_eq_iff)
  then show "map_erase_range False order 0 (length order) m = Inr (0, Map.empty)" by (simp add: map_erase_range_def holding_mutex_def)
qed (simp add: map_clear_def holding_mutex_def)

end
