(* ===== verification/AccountAccess.thy ===== *)
theory AccountAccess
  imports Text TradeInstances
begin

text \<open>
  The members of the trade accounts and the instance that only read or write a field
  (\<open>src/src/trade/AbstractTradeAccount.h\<close>), the position of an account as a text, and the round for the
  current account (\<open>src/src/trade/TradeInstance.cpp\<close>), which has a closure that lacks a result.
\<close>

section \<open>Fields that are set\<close>

definition setMaximumOrderLimit :: "OrderAccountType \<Rightarrow> u32 \<Rightarrow> world \<Rightarrow> world" where
  "setMaximumOrderLimit s sz = upd_ta s (\<lambda>a. a\<lparr>a_maximum_order_size := sz\<rparr>)"

definition setMaxPosition :: "OrderAccountType \<Rightarrow> u32 \<Rightarrow> world \<Rightarrow> world" where
  "setMaxPosition s pos = upd_ta s (\<lambda>a. a\<lparr>a_max_pos := pos\<rparr>)"

definition setTranchValue :: "OrderAccountType \<Rightarrow> u32 \<Rightarrow> world \<Rightarrow> world" where
  "setTranchValue s val = upd_ta s (\<lambda>a. a\<lparr>a_tranch_value := val\<rparr>)"

definition setTotalExecuted :: "OrderAccountType \<Rightarrow> int \<Rightarrow> world \<Rightarrow> world" where
  "setTotalExecuted s totalExec = upd_ta s (\<lambda>a. a\<lparr>a_totalExecuted := totalExec\<rparr>)"

definition setOpenedForClose :: "OrderAccountType \<Rightarrow> world \<Rightarrow> world" where
  "setOpenedForClose s = upd_ta s (\<lambda>a. a\<lparr>a_opened_for_close := True\<rparr>)"

definition resetOpenedForClose :: "OrderAccountType \<Rightarrow> world \<Rightarrow> world" where
  "resetOpenedForClose s = upd_ta s (\<lambda>a. a\<lparr>a_opened_for_close := False\<rparr>)"

text \<open>The round of \<open>setMMF\<close> is read nowhere and not represented.\<close>

definition setMMF :: "OrderAccountType \<Rightarrow> u32 \<Rightarrow> double \<Rightarrow> world \<Rightarrow> world" where
  "setMMF s mmf mpv = upd_ta s (\<lambda>a. a\<lparr>a_mmf_mpv := mpv\<rparr>)"

definition table_setPNL :: "double \<Rightarrow> PositionRecordTable \<Rightarrow> PositionRecordTable" where
  "table_setPNL pnl t = t\<lparr>t_pnl := pnl\<rparr>"

definition resetPositionTable :: "OrderAccountType \<Rightarrow> world \<Rightarrow> world" where
  "resetPositionTable s = upd_ta s (\<lambda>a. a\<lparr>a_position_table := table_setPNL (Fin 0) (a_position_table a)\<rparr>)"

section \<open>Fields that are read\<close>

definition getMaximumOrderLimit :: "OrderAccountType \<Rightarrow> world \<Rightarrow> u32" where
  "getMaximumOrderLimit s w = a_maximum_order_size (w_ta w s)"

definition getPriceInForce :: "OrderAccountType \<Rightarrow> world \<Rightarrow> double" where
  "getPriceInForce s w = a_pif (w_ta w s)"

definition getRoundInForce :: "OrderAccountType \<Rightarrow> world \<Rightarrow> u32" where
  "getRoundInForce s w = a_rif (w_ta w s)"

definition getTotal :: "OrderAccountType \<Rightarrow> world \<Rightarrow> int" where
  "getTotal s w = a_total (w_ta w s)"

definition getTotalOpen :: "OrderAccountType \<Rightarrow> world \<Rightarrow> int" where
  "getTotalOpen s w = a_totalopen (w_ta w s)"

definition getTotalClose :: "OrderAccountType \<Rightarrow> world \<Rightarrow> int" where
  "getTotalClose s w = a_totalclose (w_ta w s)"

definition getTotalExecuted :: "OrderAccountType \<Rightarrow> world \<Rightarrow> int" where
  "getTotalExecuted s w = a_totalExecuted (w_ta w s)"

definition lastOpenPrice :: "OrderAccountType \<Rightarrow> world \<Rightarrow> double" where
  "lastOpenPrice s w = a_last_open_price (w_ta w s)"

definition getLastOpenPrice :: "OrderAccountType \<Rightarrow> world \<Rightarrow> double" where
  "getLastOpenPrice s w = a_last_open_price (w_ta w s)"

definition getLastClosePrice :: "OrderAccountType \<Rightarrow> world \<Rightarrow> double" where
  "getLastClosePrice s w = a_last_close_price (w_ta w s)"

definition getSpread :: "OrderAccountType \<Rightarrow> world \<Rightarrow> double" where
  "getSpread s w = a_spread (w_ta w s)"

definition getTranchCounter :: "OrderAccountType \<Rightarrow> world \<Rightarrow> u32" where
  "getTranchCounter s w = a_tranch_counter (w_ta w s)"

definition getTranch :: "OrderAccountType \<Rightarrow> world \<Rightarrow> u32" where
  "getTranch s w = a_tranch_counter (w_ta w s)"

definition positionTable :: "OrderAccountType \<Rightarrow> world \<Rightarrow> PositionRecordTable" where
  "positionTable s w = a_position_table (w_ta w s)"

definition startingPrice :: "OrderAccountType \<Rightarrow> world \<Rightarrow> double" where
  "startingPrice s w = table_startingPrice (positionTable s w)"

definition endingPrice :: "OrderAccountType \<Rightarrow> world \<Rightarrow> double" where
  "endingPrice s w = table_endingPrice (positionTable s w)"

definition getPNL :: "OrderAccountType \<Rightarrow> world \<Rightarrow> double" where
  "getPNL s w = t_pnl (positionTable s w)"

text \<open>Every row, in order, to a function.\<close>

definition for_each_position :: "(PositionRecord \<Rightarrow> 's \<Rightarrow> 's) \<Rightarrow> PositionRecordTable \<Rightarrow> 's \<Rightarrow> 's" where
  "for_each_position execute t = fold execute (t_rows t)"

section \<open>The position as a text\<close>

text \<open>Two decimals, as the stream prints with \<open>fixed\<close>.\<close>

definition show_fixed2 :: "double \<Rightarrow> string" where
  "show_fixed2 x = (case x of
     Fin q \<Rightarrow> (let m = rne (\<bar>q\<bar> * 10 ^ 2) in
       (if q < 0 then ''-'' else '''') @ show_int (m div 10 ^ 2) @ ''.'' @
       (let s = show_int (m mod 10 ^ 2) in replicate (2 - length s) CHR ''0'' @ s))
   | PInf \<Rightarrow> ''inf'' | NInf \<Rightarrow> ''-inf'' | NaN \<Rightarrow> ''nan'')"

definition getPositionString :: "OrderAccountType \<Rightarrow> world \<Rightarrow> string" where
  "getPositionString s w =
     (let pos = getPosition s w;
          ret = (if s = LONG then show_int pos @ ''L,'' else show_int (- 1 * pos) @ ''S,'')
      in ret @ show_fixed2 (getAverage s w))"

section \<open>The round for the current account\<close>

definition add_position :: "int \<Rightarrow> ShareRound \<Rightarrow> int" where
  "add_position n p = int32_of (uint (word_of_int n + rd_position p))"

text \<open>The closure of \<open>find_if\<close> has no result for a round that is not the one: falling off its end is undefined.\<close>

fun find_round :: "int \<Rightarrow> int \<Rightarrow> ShareRound list \<Rightarrow> (int \<times> ShareRound list) res" where
  "find_round pos n [] = Inr (n, [])"
| "find_round pos n (p # ps) =
     (let n = add_position n p in if pos < n then Inr (n, p # ps) else Inl MissingReturn)"

definition roundForCurrentAccount :: "world \<Rightarrow> u32 res" where
  "roundForCurrentAccount w =
     (let ti = w_ti w in
      if i_share_rounds ti = [] then Inr 0
      else rbind (rget NullDeref (i_current_acc ti)) (\<lambda>cur.
        rbind (find_round (getPosition cur w) 0 (i_share_rounds ti)) (\<lambda>(n, rest). case rest of
          [] \<Rightarrow> Inr 0
        | [_] \<Rightarrow> Inr (as_u32 n)
        | _ # next # _ \<Rightarrow> Inr (as_u32 (add_position n next)))))"

section \<open>What they do\<close>

text \<open>The function has a result only as long as the position is below the end of the first round, and this
  is then the end of the second one, if there is one.\<close>

theorem only_first_round:
  assumes "i_share_rounds (w_ti w) = p # ps" "i_current_acc (w_ti w) = Some cur" "uint (rd_position p) < 2 ^ 31"
  shows "roundForCurrentAccount w =
    (if getPosition cur w < uint (rd_position p)
     then Inr (as_u32 (case ps of [] \<Rightarrow> uint (rd_position p) | q # _ \<Rightarrow> add_position (uint (rd_position p)) q))
     else Inl MissingReturn)"
proof -
  have "add_position 0 p = uint (rd_position p)"
    using assms(3) int32_of_small [of "uint (rd_position p)"] order_trans [OF _ uint_ge_0 [of "rd_position p"], of "- (2 ^ 31)"]
    by (simp add: add_position_def)
  then show ?thesis using assms(1,2) by (simp add: roundForCurrentAccount_def Let_def split: list.split)
qed

text \<open>The members that the constructor of the instance sets in both accounts are those of the start.\<close>

theorem start_sets_accounts:
  assumes "w = start_world cfg symb gw u None None"
  shows "setMaximumOrderLimit s (cfg_maximum_order cfg) w = w" "setTranchValue s (cfg_tranch_value cfg) w = w"
    "setMaxPosition s (ucast (rounds_total (cfg_share_rounds cfg))) w = w"
    "getTotal s w = 0" "getRoundInForce s w = 0"
  using assms by (simp_all add: setMaximumOrderLimit_def setTranchValue_def setMaxPosition_def upd_ta_def start_world_def Let_def
      getTotal_def getRoundInForce_def new_TradeAccount_def fun_upd_idem)

text \<open>Loading a stored position is a sequence of these settings.\<close>

theorem load_position_sets:
  "load_position s p w = setTotalExecuted s (pos_total_executed p)
     (setPosition s (if s = LONG then pos_quantity p else - pos_quantity p)
       ((case pos_rif p of None \<Rightarrow> \<lambda>w. w | Some v \<Rightarrow> setRoundInForce s v)
         ((case pos_pif p of None \<Rightarrow> \<lambda>w. w | Some v \<Rightarrow> setPriceInForce s v) (setAverage s (pos_price p) w))))"
  by (simp add: load_position_def setTotalExecuted_def Let_def split: option.split)

end
