(* ===== verification/OrderConnections.thy ===== *)
theory OrderConnections
  imports Startup
begin

text \<open>
  The callbacks of a gateway's connection and the end of an order account
  (\<open>src/src/akela/OrderAccount.cpp\<close>). What they ask of the gateway's library is a list of requests.
\<close>

datatype gateway_request = EnableLifeline string string | CancelAllOrders string

text \<open>Each callback answers with a success.\<close>

definition OnConnect :: "order_connection \<Rightarrow> bool \<times> gateway_request list" where
  "OnConnect c = (True, [EnableLifeline (cn_username c) ''EXCH_BATS''])"

definition OnDisconnect :: "order_connection \<Rightarrow> bool \<times> gateway_request list" where
  "OnDisconnect c = (True, [])"

definition OnReconnect :: "order_connection \<Rightarrow> bool \<times> gateway_request list" where
  "OnReconnect c = (True, [])"

definition getAccountType :: "order_connection \<Rightarrow> OrderAccountType" where
  "getAccountType c = cn_account_type c"

definition getAccountTypeString :: "order_connection \<Rightarrow> string" where
  "getAccountTypeString c = (if cn_account_type c = LONG then ''long'' else ''short'')"

definition getAccountName :: "order_connection \<Rightarrow> string" where
  "getAccountName c = cn_username c"

definition getGatewayName :: "order_connection \<Rightarrow> string" where
  "getGatewayName c = cn_gateway c"

text \<open>A destructor cancels all orders, then the rest of the chain is destroyed.\<close>

fun destroy_OrderAccount :: "order_connection list \<Rightarrow> gateway_request list" where
  "destroy_OrderAccount [] = []"
| "destroy_OrderAccount (c # next_ones) = CancelAllOrders (cn_gateway c) # destroy_OrderAccount next_ones"

text \<open>An account that was built for its venues cancels the orders of each of them when it ends, in order.\<close>

theorem venues_cancelled:
  "new_OrderAccount gc username ty venues = Inr chain \<Longrightarrow> destroy_OrderAccount chain = map CancelAllOrders venues"
  by (induction venues arbitrary: chain) (auto simp: cbind_Inr_cases split: if_splits)

end
