(* ===== verification/Spec2Isabelle.thy ===== *)
theory Spec2Isabelle
  imports ClosingLaws MarketLaws TimerLaws RedisReplies ThreadPools AsyncContainers Console AccountAccess
    OrderConnections
begin

text \<open>
  Verification of the pair-trading application (C++, \<open>src/src\<close>).

  \<^bold>\<open>The program.\<close> For every configured account and symbol the program keeps a
  trading instance (\<open>trade/TradeInstance.cpp\<close>): a long and a short trade account
  (\<open>trade/AbstractTradeAccount.cpp\<close>, \<open>LongTradeAccount.cpp\<close>,
  \<open>ShortTradeAccount.cpp\<close>) that open and close positions through two order accounts
  (\<open>akela/OrderAccount.cpp\<close>), each with a table of its open positions
  (\<open>trade/PositionRecordTable.h\<close>). The market's prices and quotes reach a symbol
  (\<open>config/SymbolConfig.h\<close>) through the symbol manager
  (\<open>manager/SymbolManager.cpp\<close>); estimates of its price come from a library
  (\<open>avicenna/AvicennaInterface.cpp\<close>). When the estimate changes its direction, the
  thread of the instance makes one of its accounts the current one and selects a trade case
  (\<open>trade/TradeCase.cpp\<close>), which sends and reprices orders in rounds. The thread
  reports to a key-value store (\<open>redis/RedisWriter.cpp\<close>,
  \<open>libs/redis/redisclient.h\<close>) and the operator switches instances on and off by
  commands (\<open>manager/TradeAccountManager.cpp\<close>, \<open>cli/CLI.cpp\<close>,
  \<open>STEMConsole.cpp\<close>).

  \<^bold>\<open>State.\<close> The record \<open>world\<close> of \<open>World\<close> is the state
  of one instance: the orders as a heap of references (they are shared pointers that the closures
  and both containers hold), the two order accounts, the two trade accounts, the instance, its
  symbol, the trade cases that exist, and the messages of the gateway that have not been looked at.
  Every operation is a function from a world to a result, \<open>Inl\<close> a fault or
  \<open>Inr\<close> the new world: a null or dangling pointer, a division by zero, a conversion out
  of range, an element behind the end, an empty function, a wait that nothing ends
  (\<open>Blocked\<close>), a loop without progress (\<open>Diverges\<close>), a result beyond \<open>int\<close>
  (\<open>IntOverflow\<close>). A wait for the answer
  of the gateway consumes the messages in their order until its condition holds.

  \<^bold>\<open>Theories, in the order of the imports.\<close>
  \<^item> \<open>Prelude\<close>: machine integers, faults and results, and the two containers of
    orders behind the locale \<open>emplace_map\<close>. \<open>Binary64\<close>: doubles as
    rationals with rounding to nearest even, infinities and NaN. \<open>Utils\<close>: the rounding
    functions of \<open>utils/utils.h\<close>.
  \<^item> \<open>PositionTable\<close>, \<open>PositionTable_Laws\<close>: the table, its order,
    the agreement of its counter with its rows, the effect of fills on every branch, the lots of a
    repackaging.
  \<^item> \<open>World\<close>, \<open>OrderAccounts\<close>, \<open>Fills\<close>,
    \<open>TradeAccounts\<close>: the state; limit orders, changes and cancelations; the handlers of
    the gateway's messages; opening, closing, changing, waiting, pending orders.
    \<open>OrderLaws\<close> follows an order from its request to the message that ends it.
  \<^item> \<open>TradeCaseBase\<close>, \<open>TradeCases\<close>: the base class with its prices
    and requote orders, the seventeen cases, and the factory. \<open>SymbolFeed\<close>: market
    data. \<open>TradeInstances\<close>: the trigger, the selection of a case, the closing cases,
    one round of the thread, the construction, and \<open>step\<close>, the transitions of the whole
    system, in which rounds of the thread interleave with messages, prices, estimates and commands.
  \<^item> \<open>Preservation\<close>: the locales \<open>quiet_world\<close>,
    \<open>switching_world\<close> and \<open>stable_world\<close>, which prove once what every operation keeps;
    \<open>Invariants\<close> and \<open>CaseLifetime\<close> interpret them;
    \<open>SystemLaws\<close> has the properties of all reachable states, \<open>ClosingLaws\<close>
    those of the panic and the soft close, \<open>MarketLaws\<close> those of prices, quotes and
    lots. \<open>Samples\<close> and \<open>SampleRound\<close> are concrete states.
  \<^item> \<open>Text\<close>, \<open>RedisClient\<close>, \<open>RedisWriter\<close>,
    \<open>RedisLaws\<close>, \<open>RedisReport\<close>: numerals and fields, the client's protocol
    over a byte stream, the writer with its mutex and its handlers of exceptions, the round trips
    through a server that behaves as documented, the report of a round and the positions loaded
    after a restart.
  \<^item> \<open>RedisCluster\<close>, \<open>RedisStrings\<close>,
    \<open>RedisCollections\<close>, \<open>RedisServer\<close>, \<open>RedisObjects\<close>: the whole
    client with one or several connections, in the order of its file: connections and the choice of
    a socket, commands with replies of any kind, every operation, the objects for one key.
    \<open>ClusterLogic\<close>, \<open>ClusterLaws\<close>, \<open>ClusterKeys\<close>,
    \<open>ClusterStore\<close>, \<open>ClusterOne\<close>: a calculus of total correctness over
    views of the servers, and the refinement of the servers to one store. \<open>RedisReplies\<close>:
    the types of replies, transactions, the information of a server, and the operations that fail.
    \<open>Sockets\<close>: the wrapper of the socket calls, over an operating system.
  \<^item> \<open>Commands\<close>, \<open>Console\<close>: the operator's commands, and the prompt,
    the console and the message queue between them as interleaved transitions: whatever their order,
    the console has the effect of the prompt. \<open>SymbolManagers\<close>: the
    distribution of prices and quotes. \<open>MarketConnections\<close>: the two connections to the
    feed (\<open>akela/STEMDirectConnection.cpp\<close>, \<open>STEMMaddogConnection.cpp\<close>)
    with every callback. \<open>FeedLaws\<close>: feed, manager, commands and intervals together
    refine symbols that are alone. \<open>Avicenna\<close>: the estimates, the loop at their
    start and the prices it tries.
  \<^item> \<open>Config\<close>, \<open>ConfigLaws\<close>: the configuration files.
    \<open>Logging\<close>: the logger (\<open>utils/log.cpp\<close>), whose construction reads the
    administrative settings. \<open>CommandLine\<close>: the declared options.
    \<open>Startup\<close>, \<open>StartupLaws\<close>: \<open>stem1.cpp\<close> up to the event
    loop, what it builds from the configuration, and exactly when it gets there.
    \<open>OrderConnections\<close>: the callbacks of a connection to a gateway, and its end.
    \<open>ProgramSystem\<close>, \<open>ProgramLaws\<close>: the running program that was built,
    and the refinement of its runs to instances that are alone. \<open>Timers\<close>,
    \<open>TimerLaws\<close>: the same with the timer threads of the estimates, each symbol alone
    with its two connections.
  \<^item> \<open>ThreadPools\<close>: the pool of \<open>utils/ThreadPool.h\<close> as interleaved
    transitions, its refinement of an abstract queue of tasks, and the notification it can lose.
    \<open>AsyncContainers\<close>: the other locked containers.
    \<open>AccountAccess\<close>: the accessors of the trade accounts.

  \<^bold>\<open>Parameters.\<close> What is not in the repository is an argument: the answers of
  the gateway (record \<open>gateway\<close>, and the messages as events), the network under the
  client, Boost's \<open>split\<close> and \<open>lexical_cast\<close> (\<open>boost\<close>), its
  property tree (\<open>ptree_library\<close>), the feed (\<open>feed_library\<close>) and \<open>trim\<close>, the estimation library
  (\<open>estimator\<close>), and the library calls of the start (\<open>start_env\<close>). Where a
  property needs their behaviour it has the documented behaviour as a hypothesis
  (\<open>documented_boost\<close>, \<open>documented_server\<close>,
  \<open>documented_ptree\<close>, \<open>documented_trim\<close>), and a witness instantiates them
  by functions. Members that a constructor leaves uninitialised are arguments of the constructor.

  \<^bold>\<open>Bounds.\<close> No operation takes fuel. Loops that need not end are
  \<open>partial_function (option)\<close> (\<open>startup_loop\<close>,
  \<open>refresh_loop\<close>, whose None its caller passes on as \<open>Diverges\<close>); all others are
  recursive functions with a termination proof. The loop of the requote orders (\<open>open_lots\<close>) counts in
  an \<open>int\<close>, whose overflow is the fault \<open>IntOverflow\<close>.
  \<open>int64_t\<close> is \<open>int\<close>, because its overflow is undefined in C++; unsigned
  types are words. Doubles round as the processor does, with one overflow to an infinity and without
  signed zeros.

  \<^bold>\<open>Not modelled.\<close> Which records are logged where, printing and the clock; threads other than as
  interleaved transitions of \<open>step\<close>, \<open>pool_step\<close>, \<open>session_step\<close> and \<open>timed_step\<close>, so that data races
  inside one operation are not seen; the decoding of the feed's messages; three overloads of the store's client that do
  not compile where they are used, and what its operations have put into the containers of their callers
  when they throw; allocations that fail, as for a reply that announces more elements than fit into memory; the parser of the command line;
  tests and scripts; the estimation library, which is binary. Declarations without a body, such as
  \<open>AbstractTradeAccount::applyMMF\<close> or \<open>OrderAccount::getAllPositions\<close>, have nothing to model.
\<close>

end
